(* ===== verification/Prelude.thy ===== *)
theory Prelude
  imports Main "HOL-Library.AList" "HOL-Library.Char_ord" "HOL-Library.List_Lexorder"
begin

text \<open>
  Shared vocabulary of the development: results and failing state transformers, the few list
  and association-list operations that the SQL statements and hash maps of the program are
  expressed with, a generic locale for invariants of step functions, and the collections of
  rewrite rules the component theories extend.
\<close>

section \<open>Collections of rules\<close>

named_theorems act_simps \<open>evaluation of failing state transformers\<close>
named_theorems enum_simps \<open>evaluation of enumerations stored as text\<close>
named_theorems frame_simps \<open>parts of a state that an operation leaves alone\<close>

section \<open>Failing state transformers\<close>

text \<open>
  A Rust function of type \<open>Result<T, E>\<close> that mutates a state of type \<open>'s\<close> is a function from the
  state to a result and the new state. The state survives an error: Rust's \<open>?\<close> returns early and
  undoes nothing.
\<close>

type_synonym ('s, 'e, 'a) act = "'s \<Rightarrow> ('e + 'a) \<times> 's"

definition ret :: "'a \<Rightarrow> ('s, 'e, 'a) act" where
  "ret x = (\<lambda>s. (Inr x, s))"

definition throw :: "'e \<Rightarrow> ('s, 'e, 'a) act" where
  "throw e = (\<lambda>s. (Inl e, s))"

text \<open>The question mark operator followed by the rest of the function body.\<close>

definition and_then :: "('s, 'e, 'a) act \<Rightarrow> ('a \<Rightarrow> ('s, 'e, 'b) act) \<Rightarrow> ('s, 'e, 'b) act" where
  "and_then m f = (\<lambda>s. case m s of (Inl e, s') \<Rightarrow> (Inl e, s') | (Inr x, s') \<Rightarrow> f x s')"

definition of_result :: "'e + 'a \<Rightarrow> ('s, 'e, 'a) act" where
  "of_result r = (\<lambda>s. (r, s))"

definition get_state :: "('s, 'e, 's) act" where
  "get_state = (\<lambda>s. (Inr s, s))"

definition modify :: "('s \<Rightarrow> 's) \<Rightarrow> ('s, 'e, unit) act" where
  "modify f = (\<lambda>s. (Inr (), f s))"

text \<open>\<open>Result::ok\<close>: the error is dropped, the effect stays.\<close>

definition ok_of :: "('s, 'e, 'a) act \<Rightarrow> ('s, 'e, 'a option) act" where
  "ok_of m = (\<lambda>s. case m s of (Inl e, s') \<Rightarrow> (Inr None, s') | (Inr x, s') \<Rightarrow> (Inr (Some x), s'))"

definition ok_or :: "'a option \<Rightarrow> 'e \<Rightarrow> 'e + 'a" where
  "ok_or x e = (case x of None \<Rightarrow> Inl e | Some a \<Rightarrow> Inr a)"

lemma ret_apply [act_simps]: "ret x s = (Inr x, s)"
  by (simp add: ret_def)

lemma throw_apply [act_simps]: "throw e s = (Inl e, s)"
  by (simp add: throw_def)

lemma and_then_apply [act_simps]:
  "and_then m f s = (case m s of (Inl e, s') \<Rightarrow> (Inl e, s') | (Inr x, s') \<Rightarrow> f x s')"
  by (simp add: and_then_def)

lemma of_result_apply [act_simps]: "of_result r s = (r, s)"
  by (simp add: of_result_def)

lemma get_state_apply [act_simps]: "get_state s = (Inr s, s)"
  by (simp add: get_state_def)

lemma modify_apply [act_simps]: "modify f s = (Inr (), f s)"
  by (simp add: modify_def)

lemma ok_or_simps [simp]: "ok_or None e = Inl e" "ok_or (Some a) e = Inr a"
  by (simp_all add: ok_or_def)

lemma ok_or_eq_Inr [simp]: "ok_or x e = Inr a \<longleftrightarrow> x = Some a"
  by (cases x) auto

text \<open>Inversion of a successful or failing composition.\<close>

lemma and_then_InrE:
  assumes "and_then m f s = (Inr y, s')"
  obtains x s1 where "m s = (Inr x, s1)" and "f x s1 = (Inr y, s')"
  using assms by (auto simp: and_then_def split: prod.splits sum.splits)

lemma and_then_Inr_iff:
  "and_then m f s = (Inr y, s') \<longleftrightarrow> (\<exists>x s1. m s = (Inr x, s1) \<and> f x s1 = (Inr y, s'))"
  by (auto simp: and_then_def split: prod.splits sum.splits)

lemma and_then_assoc: "and_then (and_then m f) g = and_then m (\<lambda>x. and_then (f x) g)"
  by (rule ext) (auto simp: and_then_def split: prod.splits sum.splits)

lemma ret_and_then [simp]: "and_then (ret x) f = f x"
  by (rule ext) (simp add: act_simps)

lemma and_then_ret [simp]: "and_then m ret = m"
  by (rule ext) (auto simp: act_simps split: prod.splits sum.splits)

text \<open>A predicate on states that a transformer keeps, whether it succeeds or fails.\<close>

definition keeps :: "('s \<Rightarrow> bool) \<Rightarrow> ('s, 'e, 'a) act \<Rightarrow> bool" where
  "keeps P m \<longleftrightarrow> (\<forall>s. P s \<longrightarrow> P (snd (m s)))"

lemma keepsD: "keeps P m \<Longrightarrow> P s \<Longrightarrow> P (snd (m s))"
  by (simp add: keeps_def)

lemma keeps_ret [intro]: "keeps P (ret x)"
  by (simp add: keeps_def ret_def)

lemma keeps_throw [intro]: "keeps P (throw e)"
  by (simp add: keeps_def throw_def)

lemma keeps_of_result [intro]: "keeps P (of_result r)"
  by (simp add: keeps_def of_result_def)

lemma keeps_get_state [intro]: "keeps P get_state"
  by (simp add: keeps_def get_state_def)

lemma keeps_modify [intro]: "(\<And>s. P s \<Longrightarrow> P (f s)) \<Longrightarrow> keeps P (modify f)"
  by (simp add: keeps_def modify_def)

lemma keeps_ok_of [intro]: "keeps P m \<Longrightarrow> keeps P (ok_of m)"
  by (fastforce simp: keeps_def ok_of_def split: prod.splits sum.splits)

lemma keeps_and_then [intro]:
  assumes "keeps P m" and "\<And>x. keeps P (f x)"
  shows "keeps P (and_then m f)"
  unfolding keeps_def
proof (intro allI impI)
  fix s
  assume "P s"
  with assms(1) have "P (snd (m s))" by (rule keepsD)
  then show "P (snd (and_then m f s))"
    using assms(2) by (auto simp: and_then_def keeps_def split: prod.splits sum.splits)
qed

section \<open>Invariants of step functions\<close>

locale stepper =
  fixes step :: "'i \<Rightarrow> 's \<Rightarrow> 's"
    and ok :: "'i \<Rightarrow> bool"
    and inv :: "'s \<Rightarrow> bool"
  assumes step_inv: "ok i \<Longrightarrow> inv s \<Longrightarrow> inv (step i s)"
begin

lemma fold_inv: "\<forall>i \<in> set is. ok i \<Longrightarrow> inv s \<Longrightarrow> inv (fold step is s)"
  by (induction "is" arbitrary: s) (auto intro: step_inv)

end

section \<open>Tables and hash maps\<close>

text \<open>
  A SQL table is the list of its rows in insertion order. \<open>UPDATE ... WHERE\<close> rewrites the rows
  that satisfy the condition; \<open>changes\<close> counts them.
\<close>

definition update_where :: "('r \<Rightarrow> bool) \<Rightarrow> ('r \<Rightarrow> 'r) \<Rightarrow> 'r list \<Rightarrow> 'r list" where
  "update_where P f rows = map (\<lambda>r. if P r then f r else r) rows"

definition changes :: "('r \<Rightarrow> bool) \<Rightarrow> 'r list \<Rightarrow> nat" where
  "changes P rows = length (filter P rows)"

text \<open>\<open>ORDER BY k DESC\<close>; rows with equal keys keep their insertion order.\<close>

definition order_desc :: "('r \<Rightarrow> 'k::linorder) \<Rightarrow> 'r list \<Rightarrow> 'r list" where
  "order_desc k rows = rev (sort_key k (rev rows))"

lemma length_update_where [simp]: "length (update_where P f rows) = length rows"
  by (simp add: update_where_def)

lemma update_where_Nil [simp]: "update_where P f [] = []"
  by (simp add: update_where_def)

lemma update_where_Cons [simp]:
  "update_where P f (r # rows) = (if P r then f r else r) # update_where P f rows"
  by (simp add: update_where_def)

lemma update_where_append [simp]:
  "update_where P f (rows @ rows') = update_where P f rows @ update_where P f rows'"
  by (simp add: update_where_def)

lemma set_update_where: "set (update_where P f rows) = f ` {r \<in> set rows. P r} \<union> {r \<in> set rows. \<not> P r}"
  by (auto simp: update_where_def)

lemma update_where_none: "changes P rows = 0 \<Longrightarrow> update_where P f rows = rows"
  by (induction rows) (auto simp: changes_def split: if_splits)

lemma map_update_where: "(\<And>r. k (f r) = k r) \<Longrightarrow> map k (update_where P f rows) = map k rows"
  by (simp add: update_where_def)

lemma find_update_where_key:
  assumes "\<And>r. k (f r) = k r"
  shows "find (\<lambda>r. k r = x) (update_where P f rows) =
    map_option (\<lambda>r. if P r then f r else r) (find (\<lambda>r. k r = x) rows)"
  using assms by (induction rows) auto

lemma set_order_desc [simp]: "set (order_desc k rows) = set rows"
  by (simp add: order_desc_def)

lemma length_order_desc [simp]: "length (order_desc k rows) = length rows"
  by (simp add: order_desc_def)

lemma order_desc_sorted: "sorted_wrt (\<lambda>a b. k b \<le> k a) (order_desc k rows)"
proof -
  have "sorted (map k (sort_key k (rev rows)))" by simp
  then show ?thesis
    by (simp add: order_desc_def sorted_wrt_rev sorted_map)
qed

lemma find_append: "find P (xs @ ys) = (case find P xs of None \<Rightarrow> find P ys | Some x \<Rightarrow> Some x)"
  by (induction xs) auto

lemma find_key_None: "find (\<lambda>r. k r = x) rows = None \<longleftrightarrow> x \<notin> k ` set rows"
  by (auto simp: find_None_iff)

lemma find_key_SomeD: "find (\<lambda>r. k r = x) rows = Some r \<Longrightarrow> r \<in> set rows \<and> k r = x"
  by (auto simp: find_Some_iff)

lemma find_key_distinct:
  assumes "distinct (map k rows)" and "r \<in> set rows" and "k r = x"
  shows "find (\<lambda>r. k r = x) rows = Some r"
  using assms by (induction rows) (auto simp: image_iff)

text \<open>The last \<open>n\<close> elements of a list.\<close>

definition keep_last :: "nat \<Rightarrow> 'a list \<Rightarrow> 'a list" where
  "keep_last n xs = drop (length xs - n) xs"

lemma length_keep_last [simp]: "length (keep_last n xs) = min n (length xs)"
  by (simp add: keep_last_def)

lemma keep_last_short: "length xs \<le> n \<Longrightarrow> keep_last n xs = xs"
  by (simp add: keep_last_def)

lemma keep_last_append: "keep_last n (keep_last n xs @ ys) = keep_last n (xs @ ys)"
proof -
  define k where "k = length xs - n"
  define zs where "zs = xs @ ys"
  have eq: "keep_last n xs @ ys = drop k zs"
    by (simp add: keep_last_def k_def zs_def)
  have "k \<le> length zs - n" "k \<le> length zs"
    by (simp_all add: k_def zs_def)
  then have "length zs - k - n + k = length zs - n" by arith
  then have "keep_last n (drop k zs) = keep_last n zs"
    by (simp add: keep_last_def)
  with eq show ?thesis by (simp add: zs_def)
qed

text \<open>A hash map in some iteration order: an association list with distinct keys.\<close>

definition map_values :: "('v \<Rightarrow> 'v) \<Rightarrow> ('k \<times> 'v) list \<Rightarrow> ('k \<times> 'v) list" where
  "map_values f m = map (\<lambda>(k, v). (k, f v)) m"

text \<open>\<open>if let Some(s) = map.get_mut(k)\<close>: the entry is rewritten when it exists.\<close>

definition with_entry :: "'k \<Rightarrow> ('v \<Rightarrow> 'v) \<Rightarrow> ('k \<times> 'v) list \<Rightarrow> ('k \<times> 'v) list" where
  "with_entry k f m = (case map_of m k of None \<Rightarrow> m | Some v \<Rightarrow> AList.update k (f v) m)"

lemma map_of_map_values: "map_of (map_values f m) k = map_option f (map_of m k)"
  by (induction m) (auto simp: map_values_def)

lemma keys_map_values [simp]: "map fst (map_values f m) = map fst m"
  by (induction m) (auto simp: map_values_def)

lemma map_of_with_entry:
  "map_of (with_entry k f m) = (\<lambda>k'. if k' = k then map_option f (map_of m k) else map_of m k')"
  by (rule ext) (auto simp: with_entry_def update_conv' split: option.splits)

lemma dom_with_entry [simp]: "fst ` set (with_entry k f m) = fst ` set m"
  by (auto simp: with_entry_def dom_update split: option.splits dest: map_of_SomeD)
    (force dest: map_of_SomeD)+

lemma distinct_with_entry: "distinct (map fst m) \<Longrightarrow> distinct (map fst (with_entry k f m))"
  by (auto simp: with_entry_def distinct_update split: option.splits)

end
