(* ===== verification/Rust_Text.thy ===== *)
theory Rust_Text
  imports Prelude "HOL-Library.Word"
begin

text \<open>
  The operations of Rust's \<open>str\<close> that the program uses, on strings given as their UTF-8 bytes (a
  \<^typ>\<open>char\<close> is one byte). \<open>split_whitespace\<close> and \<open>trim\<close> recognise Unicode white space by its
  UTF-8 encoding, as Rust does. The lemmas give the round trip between joining scope names with a
  blank and splitting them again, which the token's \<open>scope\<close> claim depends on.
\<close>

section \<open>Prefixes and suffixes\<close>

definition starts_with :: "string \<Rightarrow> string \<Rightarrow> bool" where
  "starts_with s p \<longleftrightarrow> take (length p) s = p"

definition ends_with :: "string \<Rightarrow> string \<Rightarrow> bool" where
  "ends_with s p \<longleftrightarrow> length p \<le> length s \<and> drop (length s - length p) s = p"

definition strip_prefix :: "string \<Rightarrow> string \<Rightarrow> string option" where
  "strip_prefix s p = (if starts_with s p then Some (drop (length p) s) else None)"

definition strip_suffix :: "string \<Rightarrow> string \<Rightarrow> string option" where
  "strip_suffix s p = (if ends_with s p then Some (take (length s - length p) s) else None)"

text \<open>The slice \<open>&s[..s.len() - 1]\<close>.\<close>

definition but_last :: "string \<Rightarrow> string" where
  "but_last s = take (length s - 1) s"

lemma starts_with_iff: "starts_with s p \<longleftrightarrow> (\<exists>r. s = p @ r)"
  unfolding starts_with_def by (metis append_eq_conv_conj append_take_drop_id)

lemma ends_with_iff: "ends_with s p \<longleftrightarrow> (\<exists>r. s = r @ p)"
proof
  assume "ends_with s p"
  then have "s = take (length s - length p) s @ p"
    unfolding ends_with_def by (metis append_take_drop_id)
  then show "\<exists>r. s = r @ p" by blast
next
  assume "\<exists>r. s = r @ p"
  then show "ends_with s p" by (auto simp: ends_with_def)
qed

lemma starts_with_append [simp]: "starts_with (p @ r) p"
  by (simp add: starts_with_def)

lemma starts_with_Nil [simp]: "starts_with s []"
  by (simp add: starts_with_def)

lemma starts_with_mono: "starts_with s p \<Longrightarrow> starts_with (s @ r) p"
  by (auto simp: starts_with_iff)

lemma strip_suffix_Some: "strip_suffix s p = Some r \<longleftrightarrow> s = r @ p"
proof
  assume a: "strip_suffix s p = Some r"
  then have "ends_with s p" by (simp add: strip_suffix_def split: if_splits)
  then obtain q where "s = q @ p" by (auto simp: ends_with_iff)
  with a show "s = r @ p" by (simp add: strip_suffix_def split: if_splits)
next
  assume "s = r @ p"
  then show "strip_suffix s p = Some r" by (simp add: strip_suffix_def ends_with_iff)
qed

lemma strip_suffix_None: "strip_suffix s p = None \<longleftrightarrow> \<not> ends_with s p"
  by (simp add: strip_suffix_def)

lemma strip_prefix_Some: "strip_prefix s p = Some r \<longleftrightarrow> s = p @ r"
  by (auto simp: strip_prefix_def starts_with_iff)

lemma but_last_snoc [simp]: "but_last (xs @ [c]) = xs"
  by (simp add: but_last_def)

section \<open>Joining and replacing\<close>

fun join :: "string \<Rightarrow> string list \<Rightarrow> string" where
  "join sep [] = []"
| "join sep [s] = s"
| "join sep (s # t # ss) = s @ sep @ join sep (t # ss)"

text \<open>\<open>str::replace\<close> for a non-empty pattern: left to right, without overlap.\<close>

function replace_all :: "string \<Rightarrow> string \<Rightarrow> string \<Rightarrow> string" where
  "replace_all pat to [] = []"
| "replace_all pat to (c # cs) =
     (if pat \<noteq> [] \<and> starts_with (c # cs) pat
      then to @ replace_all pat to (drop (length pat) (c # cs))
      else c # replace_all pat to cs)"
  by pat_completeness auto
termination
  by (relation "measure (\<lambda>(pat, to, s). length s)") auto

lemma replace_all_prefix:
  "pat \<noteq> [] \<Longrightarrow> replace_all pat to (pat @ s) = to @ replace_all pat to s"
  by (cases pat) (auto simp: starts_with_def)

lemma replace_all_absent:
  "(\<And>k. k < length s \<Longrightarrow> \<not> starts_with (drop k s) pat) \<Longrightarrow> replace_all pat to s = s"
proof (induction s)
  case Nil
  then show ?case by simp
next
  case (Cons c cs)
  have "\<not> starts_with (c # cs) pat" using Cons.prems [of 0] by simp
  moreover have "replace_all pat to cs = cs"
    using Cons.prems [of "Suc _"] by (intro Cons.IH) auto
  ultimately show ?case by simp
qed

section \<open>Decimal numerals\<close>

fun show_nat :: "nat \<Rightarrow> string" where
  "show_nat n = (if n < 10 then [char_of (48 + n)]
     else show_nat (n div 10) @ [char_of (48 + n mod 10)])"

declare show_nat.simps [simp del]

type_synonym u8 = "8 word"
type_synonym u64 = "64 word"

definition show_u64 :: "u64 \<Rightarrow> string" where
  "show_u64 w = show_nat (unat w)"

section \<open>UTF-8\<close>

text \<open>
  Validation as \<open>String::from_utf8\<close> does it: the length of the character at the head of a byte
  string, or the failure, with the number of bytes of the broken sequence, or \<open>None\<close> when the input
  ends inside a sequence.
\<close>

fun utf8_tail :: "nat \<Rightarrow> (nat \<Rightarrow> bool) list \<Rightarrow> string \<Rightarrow> nat option + nat" where
  "utf8_tail k [] s = Inr k"
| "utf8_tail k (p # ps) [] = Inl None"
| "utf8_tail k (p # ps) (c # cs) = (if p (of_char c) then utf8_tail (Suc k) ps cs else Inl (Some k))"

definition utf8_cont :: "nat \<Rightarrow> bool" where
  "utf8_cont b \<longleftrightarrow> 0x80 \<le> b \<and> b < 0xC0"

definition utf8_tests :: "nat \<Rightarrow> (nat \<Rightarrow> bool) list option" where
  "utf8_tests b =
     (if b < 0x80 then Some []
      else if 0xC2 \<le> b \<and> b < 0xE0 then Some [utf8_cont]
      else if b = 0xE0 then Some [\<lambda>c. 0xA0 \<le> c \<and> c < 0xC0, utf8_cont]
      else if b = 0xED then Some [\<lambda>c. 0x80 \<le> c \<and> c < 0xA0, utf8_cont]
      else if 0xE0 < b \<and> b < 0xF0 then Some [utf8_cont, utf8_cont]
      else if b = 0xF0 then Some [\<lambda>c. 0x90 \<le> c \<and> c < 0xC0, utf8_cont, utf8_cont]
      else if 0xF0 < b \<and> b < 0xF4 then Some [utf8_cont, utf8_cont, utf8_cont]
      else if b = 0xF4 then Some [\<lambda>c. 0x80 \<le> c \<and> c < 0x90, utf8_cont, utf8_cont]
      else None)"

fun utf8_head :: "string \<Rightarrow> nat option + nat" where
  "utf8_head [] = Inl None"
| "utf8_head (c # cs) =
     (case utf8_tests (of_char c) of None \<Rightarrow> Inl (Some 1) | Some ps \<Rightarrow> utf8_tail 1 ps cs)"

lemma utf8_tail_pos: "utf8_tail k ps s = Inr n \<Longrightarrow> n = k + length ps"
  by (induction k ps s rule: utf8_tail.induct) (auto split: if_splits)

lemma utf8_head_pos: "utf8_head s = Inr n \<Longrightarrow> 0 < n"
  by (cases s) (auto split: option.splits dest: utf8_tail_pos)

text \<open>The first error of a byte string, with its index; and the slices of its characters.\<close>

function utf8_error :: "nat \<Rightarrow> string \<Rightarrow> (nat \<times> nat option) option" where
  "utf8_error i [] = None"
| "utf8_error i (c # cs) =
     (case utf8_head (c # cs) of
        Inl e \<Rightarrow> Some (i, e)
      | Inr n \<Rightarrow> if n = 0 then None else utf8_error (i + n) (drop n (c # cs)))"
  by pat_completeness auto
termination
  by (relation "measure (\<lambda>(i, s). length s)") auto

function str_chars :: "string \<Rightarrow> string list" where
  "str_chars [] = []"
| "str_chars (c # cs) =
     (case utf8_head (c # cs) of
        Inl e \<Rightarrow> []
      | Inr n \<Rightarrow> if n = 0 then [] else take n (c # cs) # str_chars (drop n (c # cs)))"
  by pat_completeness auto
termination
  by (relation "measure length") auto

definition from_utf8 :: "string \<Rightarrow> string + string" where
  "from_utf8 bs =
     (case utf8_error 0 bs of
        None \<Rightarrow> Inr bs
      | Some (i, Some n) \<Rightarrow>
          Inl (''invalid utf-8 sequence of '' @ show_nat n @ '' bytes from index '' @ show_nat i)
      | Some (i, None) \<Rightarrow> Inl (''incomplete utf-8 byte sequence from index '' @ show_nat i))"

text \<open>The code point of one character, from its bytes.\<close>

definition code_point :: "string \<Rightarrow> nat" where
  "code_point s =
     (case map of_char s of
        [] \<Rightarrow> 0
      | [a] \<Rightarrow> a
      | [a, b] \<Rightarrow> (a mod 32) * 64 + b mod 64
      | [a, b, c] \<Rightarrow> (a mod 16) * 4096 + (b mod 64) * 64 + c mod 64
      | a # b # c # d # _ \<Rightarrow> (a mod 8) * 262144 + (b mod 64) * 4096 + (c mod 64) * 64 + d mod 64)"

definition is_ascii :: "string \<Rightarrow> bool" where
  "is_ascii s \<longleftrightarrow> (\<forall>c \<in> set s. (of_char c :: nat) < 0x80)"

lemma is_ascii_simps [simp]:
  "is_ascii []" "is_ascii (c # s) \<longleftrightarrow> (of_char c :: nat) < 0x80 \<and> is_ascii s"
  by (auto simp: is_ascii_def)

lemma utf8_head_ascii: "(of_char c :: nat) < 0x80 \<Longrightarrow> utf8_head (c # cs) = Inr 1"
  by (simp add: utf8_tests_def)

lemma ascii_utf8_error: "is_ascii s \<Longrightarrow> utf8_error i s = None"
  by (induction s arbitrary: i) (simp_all add: utf8_head_ascii del: utf8_head.simps)

lemma ascii_from_utf8: "is_ascii s \<Longrightarrow> from_utf8 s = Inr s"
  by (simp add: from_utf8_def ascii_utf8_error)

lemma ascii_chars: "is_ascii s \<Longrightarrow> str_chars s = map (\<lambda>c. [c]) s"
  by (induction s) (simp_all add: utf8_head_ascii del: utf8_head.simps)

lemma from_utf8_InrD: "from_utf8 bs = Inr s \<Longrightarrow> s = bs"
  by (auto simp: from_utf8_def split: option.splits prod.splits)

text \<open>The characters of valid UTF-8 make up the whole string.\<close>

lemma concat_str_chars: "utf8_error i s = None \<Longrightarrow> concat (str_chars s) = s"
proof (induction i s rule: utf8_error.induct)
  case (2 i c cs)
  then show ?case
    by (auto simp del: utf8_head.simps split: sum.splits if_splits dest: utf8_head_pos)
qed simp

section \<open>White space\<close>

text \<open>
  The UTF-8 encodings of the code points with the Unicode property \<open>White_Space\<close>: U+0009 to
  U+000D, U+0020, U+0085, U+00A0, U+1680, U+2000 to U+200A, U+2028, U+2029, U+202F, U+205F and
  U+3000.
\<close>

definition white_space :: "string list" where
  "white_space =
     [[CHR 0x09], [CHR 0x0A], [CHR 0x0B], [CHR 0x0C], [CHR 0x0D], [CHR 0x20],
      [CHR 0xC2, CHR 0x85], [CHR 0xC2, CHR 0xA0], [CHR 0xE1, CHR 0x9A, CHR 0x80],
      [CHR 0xE2, CHR 0x80, CHR 0x80], [CHR 0xE2, CHR 0x80, CHR 0x81],
      [CHR 0xE2, CHR 0x80, CHR 0x82], [CHR 0xE2, CHR 0x80, CHR 0x83],
      [CHR 0xE2, CHR 0x80, CHR 0x84], [CHR 0xE2, CHR 0x80, CHR 0x85],
      [CHR 0xE2, CHR 0x80, CHR 0x86], [CHR 0xE2, CHR 0x80, CHR 0x87],
      [CHR 0xE2, CHR 0x80, CHR 0x88], [CHR 0xE2, CHR 0x80, CHR 0x89],
      [CHR 0xE2, CHR 0x80, CHR 0x8A], [CHR 0xE2, CHR 0x80, CHR 0xA8],
      [CHR 0xE2, CHR 0x80, CHR 0xA9], [CHR 0xE2, CHR 0x80, CHR 0xAF],
      [CHR 0xE2, CHR 0x81, CHR 0x9F], [CHR 0xE3, CHR 0x80, CHR 0x80]]"

text \<open>The length in bytes of the white space character at the head of a string, 0 if there is none.\<close>

definition ws_at :: "string \<Rightarrow> nat" where
  "ws_at s = (case find (starts_with s) white_space of None \<Rightarrow> 0 | Some w \<Rightarrow> length w)"

lemma ws_at_0: "ws_at s = 0 \<longleftrightarrow> (\<forall>w \<in> set white_space. \<not> starts_with s w)"
proof -
  have "\<forall>w \<in> set white_space. length w \<noteq> 0" by (simp add: white_space_def)
  then show ?thesis
    by (auto simp: ws_at_def find_None_iff find_Some_iff split: option.splits)
qed

lemma ws_at_Nil [simp]: "ws_at [] = 0"
  by (simp add: ws_at_0 white_space_def starts_with_def)

lemma ws_at_mono: "ws_at (s @ r) = 0 \<Longrightarrow> ws_at s = 0"
  by (auto simp: ws_at_0 intro: starts_with_mono)

lemma ws_at_blank [simp]: "ws_at (CHR 0x20 # s) = 1"
  by (simp add: ws_at_def white_space_def starts_with_def)

text \<open>A word followed by a blank: the blank cannot complete a longer white space character.\<close>

lemma ws_at_before_blank:
  assumes "xs \<noteq> []" and "ws_at xs = 0"
  shows "ws_at (xs @ CHR 0x20 # ys) = 0"
proof -
  have "\<not> starts_with (xs @ CHR 0x20 # ys) w" if w: "w \<in> set white_space" for w
  proof
    assume s: "starts_with (xs @ CHR 0x20 # ys) w"
    from assms(2) w have ns: "\<not> starts_with xs w" by (simp add: ws_at_0)
    show False
    proof (cases "length w \<le> length xs")
      case True
      with s ns show False by (simp add: starts_with_def)
    next
      case False
      from assms(1) obtain x xs' where xs: "xs = x # xs'" by (cases xs) auto
      from False s have "w ! length xs = CHR 0x20"
        unfolding starts_with_def
        by (metis linorder_not_le nth_append_length nth_take)
      moreover from False xs have "w ! length xs \<in> set (tl w)"
        by (cases w) (auto simp: nth_Cons')
      moreover have "\<forall>v \<in> set white_space. CHR 0x20 \<notin> set (tl v)"
        by (simp add: white_space_def)
      ultimately show False using w by auto
    qed
  qed
  then show ?thesis by (simp add: ws_at_0)
qed

section \<open>Splitting at white space\<close>

text \<open>\<open>str::split_whitespace\<close>; \<open>cur\<close> is the word read so far.\<close>

function split_ws_from :: "string \<Rightarrow> string \<Rightarrow> string list" where
  "split_ws_from cur [] = (if cur = [] then [] else [cur])"
| "split_ws_from cur (c # cs) =
     (if ws_at (c # cs) = 0 then split_ws_from (cur @ [c]) cs
      else (if cur = [] then [] else [cur]) @ split_ws_from [] (drop (ws_at (c # cs)) (c # cs)))"
  by pat_completeness auto
termination
  by (relation "measure (\<lambda>(cur, s). length s)") auto

definition split_whitespace :: "string \<Rightarrow> string list" where
  "split_whitespace s = split_ws_from [] s"

text \<open>A word: not empty, and no white space begins at any of its bytes.\<close>

definition is_word :: "string \<Rightarrow> bool" where
  "is_word s \<longleftrightarrow> s \<noteq> [] \<and> (\<forall>k < length s. ws_at (drop k s) = 0)"

definition no_ws :: "string \<Rightarrow> bool" where
  "no_ws s \<longleftrightarrow> (\<forall>k < length s. ws_at (drop k s) = 0)"

lemma is_word_iff: "is_word s \<longleftrightarrow> s \<noteq> [] \<and> no_ws s"
  by (simp add: is_word_def no_ws_def)

lemma no_ws_Nil [simp]: "no_ws []"
  by (simp add: no_ws_def)

lemma no_ws_Cons: "no_ws (c # cs) \<longleftrightarrow> ws_at (c # cs) = 0 \<and> no_ws cs"
  by (auto simp: no_ws_def less_Suc_eq_0_disj)

text \<open>Every piece of a split is a word.\<close>

lemma split_ws_from_words:
  assumes "\<forall>k < length cur. ws_at (drop k (cur @ s)) = 0"
  shows "\<forall>w \<in> set (split_ws_from cur s). is_word w"
  using assms
proof (induction cur s rule: split_ws_from.induct)
  case (1 cur)
  then show ?case by (auto simp: is_word_def)
next
  case (2 cur c cs)
  have cur: "cur \<noteq> [] \<Longrightarrow> is_word cur"
  proof -
    assume "cur \<noteq> []"
    moreover have "ws_at (drop k cur) = 0" if "k < length cur" for k
      using "2.prems" that ws_at_mono [of "drop k cur" "c # cs"] by simp
    ultimately show "is_word cur" by (simp add: is_word_def)
  qed
  show ?case
  proof (cases "ws_at (c # cs) = 0")
    case True
    have "\<forall>k < length (cur @ [c]). ws_at (drop k ((cur @ [c]) @ cs)) = 0"
      using "2.prems" True by (auto simp: less_Suc_eq)
    with True "2.IH"(1) show ?thesis by simp
  next
    case False
    with "2.IH"(2) cur show ?thesis by auto
  qed
qed

lemma split_whitespace_words: "w \<in> set (split_whitespace s) \<Longrightarrow> is_word w"
  using split_ws_from_words [of "[]" s] by (simp add: split_whitespace_def)

lemma split_ws_from_word: "no_ws s \<Longrightarrow> split_ws_from cur s = (if cur @ s = [] then [] else [cur @ s])"
  by (induction s arbitrary: cur) (auto simp: no_ws_Cons)

lemma split_ws_from_blank:
  assumes "no_ws s" and "cur @ s \<noteq> []"
  shows "split_ws_from cur (s @ CHR 0x20 # r) = (cur @ s) # split_ws_from [] r"
  using assms
proof (induction s arbitrary: cur)
  case Nil
  then show ?case by simp
next
  case (Cons c cs)
  from Cons.prems(1) have c0: "ws_at (c # cs) = 0" and cs: "no_ws cs"
    by (auto simp: no_ws_Cons)
  from ws_at_before_blank [of "c # cs" r] c0 have "ws_at ((c # cs) @ CHR 0x20 # r) = 0" by simp
  then have "split_ws_from cur ((c # cs) @ CHR 0x20 # r) = split_ws_from (cur @ [c]) (cs @ CHR 0x20 # r)"
    by simp
  with Cons.IH [OF cs, of "cur @ [c]"] show ?case by simp
qed

text \<open>Splitting what was joined with blanks gives the words back.\<close>

lemma split_join_words:
  "\<forall>w \<in> set ws. is_word w \<Longrightarrow> split_whitespace (join [CHR 0x20] ws) = ws"
proof (induction "[CHR 0x20]" ws rule: join.induct)
  case 1
  then show ?case by (simp add: split_whitespace_def)
next
  case (2 s)
  then show ?case by (simp add: split_whitespace_def split_ws_from_word is_word_iff)
next
  case (3 s t ss)
  then show ?case
    by (simp add: split_whitespace_def is_word_iff split_ws_from_blank [where cur = "[]"])
qed

end
