(* ===== verification/Errors.thy ===== *)
theory Errors
  imports Rust_Text
begin

text \<open>
  The error type of the program (\<open>src/errors/mod.rs\<close>), the text and the HTTP status of each error,
  and panics, which are not values of that type: a failing call either returns an error or unwinds.
\<close>

datatype perror =
    AgentNotFound string
  | PrincipalNotFound string
  | ResourceNotFound string
  | PolicyDenied string
  | ApprovalRequired string
  | InvalidToken string
  | ExpiredToken
  | RevokedToken string
  | ScopeEscalation string string
  | DelegationDepthExceeded u64 u64
  | VaultError string
  | DatabaseError string
  | ConfigError string
  | CryptoError string
  | Unauthorized string
  | Forbidden string
  | Unavailable string
  | NotImplemented string

text \<open>The \<open>Display\<close> text of an error (the \<open>#[error(...)]\<close> attributes).\<close>

fun error_text :: "perror \<Rightarrow> string" where
  "error_text (AgentNotFound s) = ''agent not found: '' @ s"
| "error_text (PrincipalNotFound s) = ''principal not found: '' @ s"
| "error_text (ResourceNotFound s) = ''resource not found: '' @ s"
| "error_text (PolicyDenied r) = ''policy denied: '' @ r"
| "error_text (ApprovalRequired r) = ''approval required: '' @ r"
| "error_text (InvalidToken s) = ''invalid token: '' @ s"
| "error_text ExpiredToken = ''expired token''"
| "error_text (RevokedToken s) = ''revoked token: '' @ s"
| "error_text (ScopeEscalation r p) =
     ''scope escalation attempted: requested '' @ r @ '' exceeds parent '' @ p"
| "error_text (DelegationDepthExceeded m a) =
     ''delegation depth exceeded: max '' @ show_u64 m @ '', got '' @ show_u64 a"
| "error_text (VaultError s) = ''vault error: '' @ s"
| "error_text (DatabaseError s) = ''database error: '' @ s"
| "error_text (ConfigError s) = ''configuration error: '' @ s"
| "error_text (CryptoError s) = ''cryptographic error: '' @ s"
| "error_text (Unauthorized s) = ''unauthorized: '' @ s"
| "error_text (Forbidden s) = ''forbidden: '' @ s"
| "error_text (Unavailable s) = ''service unavailable: '' @ s"
| "error_text (NotImplemented s) = ''not implemented: '' @ s"

text \<open>\<open>IntoResponse\<close>: the HTTP status, with the error's text as the body's \<open>error\<close> member.\<close>

fun status_of :: "perror \<Rightarrow> nat" where
  "status_of (AgentNotFound _) = 404"
| "status_of (PrincipalNotFound _) = 404"
| "status_of (ResourceNotFound _) = 404"
| "status_of (PolicyDenied _) = 403"
| "status_of (ApprovalRequired _) = 403"
| "status_of (InvalidToken _) = 401"
| "status_of ExpiredToken = 401"
| "status_of (RevokedToken _) = 401"
| "status_of (Unauthorized _) = 401"
| "status_of (Forbidden _) = 403"
| "status_of (Unavailable _) = 503"
| "status_of (ScopeEscalation _ _) = 400"
| "status_of (DelegationDepthExceeded _ _) = 400"
| "status_of _ = 500"

definition into_response :: "perror \<Rightarrow> nat \<times> string" where
  "into_response e = (status_of e, error_text e)"

datatype fail = Err perror | Panic string

type_synonym 'a result = "fail + 'a"

text \<open>Every error is an HTTP client or server error, never a success.\<close>

lemma status_of_range: "400 \<le> status_of e \<and> status_of e < 600"
  by (cases e) simp_all

lemma status_of_500_iff:
  "status_of e = 500 \<longleftrightarrow>
     (\<exists>s. e \<in> {VaultError s, DatabaseError s, ConfigError s, CryptoError s, NotImplemented s})"
  by (cases e) auto

end
