(* ===== verification/Rust_F64.thy ===== *)
theory Rust_F64
  imports Complex_Main "HOL-Library.Log_Nat" "HOL-Library.Signed_Division"
begin

text \<open>
  Rust's \<open>f64\<close>: IEEE 754 binary64 with rounding to nearest, ties to even. A finite number is the
  rational it denotes; the two zeros are one (no code here distinguishes them). Spend totals, trust
  levels and their thresholds are of this type. Comparisons with a NaN are false, \<open>max\<close> ignores a
  NaN, and every operation rounds its exact result.
\<close>

datatype f64 = NaN | MinusInf | PlusInf | Fin rat

section \<open>Rounding\<close>

text \<open>The integer \<open>k\<close> with \<open>2 ^ k \<le> x < 2 ^ (k + 1)\<close>, for a positive \<open>x\<close>.\<close>

definition ilog2 :: "rat \<Rightarrow> int" where
  "ilog2 x = (case quotient_of x of (p, q) \<Rightarrow>
     let k = bitlen p - bitlen q in if 2 powi k \<le> x then k else k - 1)"

definition round_even :: "rat \<Rightarrow> int" where
  "round_even x = (let f = \<lfloor>x\<rfloor>; d = x - of_int f in
     if d < 1 / 2 then f else if 1 / 2 < d then f + 1 else if even f then f else f + 1)"

definition f64_limit :: rat where
  "f64_limit = 2 powi 1024"

text \<open>The exact value rounded to 53 significant bits (fewer below the smallest normal number).\<close>

definition nearest :: "rat \<Rightarrow> rat" where
  "nearest x = (let e = max (ilog2 \<bar>x\<bar> - 52) (- 1074)
     in of_int (round_even (x / 2 powi e)) * 2 powi e)"

definition round_f64 :: "rat \<Rightarrow> f64" where
  "round_f64 x =
     (if x = 0 then Fin 0
      else if f64_limit \<le> nearest x then PlusInf
      else if nearest x \<le> - f64_limit then MinusInf
      else Fin (nearest x))"

section \<open>Arithmetic and comparison\<close>

fun f64_neg :: "f64 \<Rightarrow> f64" where
  "f64_neg NaN = NaN"
| "f64_neg MinusInf = PlusInf"
| "f64_neg PlusInf = MinusInf"
| "f64_neg (Fin x) = Fin (- x)"

definition sign_inf :: "rat \<Rightarrow> f64" where
  "sign_inf x = (if x = 0 then NaN else if 0 < x then PlusInf else MinusInf)"

instantiation f64 :: "{plus, minus, times, ord}"
begin

fun plus_f64 :: "f64 \<Rightarrow> f64 \<Rightarrow> f64" where
  "plus_f64 NaN _ = NaN"
| "plus_f64 _ NaN = NaN"
| "plus_f64 MinusInf PlusInf = NaN"
| "plus_f64 PlusInf MinusInf = NaN"
| "plus_f64 MinusInf _ = MinusInf"
| "plus_f64 _ MinusInf = MinusInf"
| "plus_f64 PlusInf _ = PlusInf"
| "plus_f64 _ PlusInf = PlusInf"
| "plus_f64 (Fin x) (Fin y) = round_f64 (x + y)"

definition minus_f64 :: "f64 \<Rightarrow> f64 \<Rightarrow> f64" where
  "minus_f64 a b = a + f64_neg b"

fun times_f64 :: "f64 \<Rightarrow> f64 \<Rightarrow> f64" where
  "times_f64 NaN _ = NaN"
| "times_f64 _ NaN = NaN"
| "times_f64 (Fin x) (Fin y) = round_f64 (x * y)"
| "times_f64 (Fin x) PlusInf = sign_inf x"
| "times_f64 (Fin x) MinusInf = sign_inf (- x)"
| "times_f64 PlusInf (Fin y) = sign_inf y"
| "times_f64 MinusInf (Fin y) = sign_inf (- y)"
| "times_f64 PlusInf PlusInf = PlusInf"
| "times_f64 MinusInf MinusInf = PlusInf"
| "times_f64 _ _ = MinusInf"

fun less_eq_f64 :: "f64 \<Rightarrow> f64 \<Rightarrow> bool" where
  "less_eq_f64 NaN _ = False"
| "less_eq_f64 _ NaN = False"
| "less_eq_f64 MinusInf _ = True"
| "less_eq_f64 _ PlusInf = True"
| "less_eq_f64 (Fin x) (Fin y) = (x \<le> y)"
| "less_eq_f64 _ _ = False"

definition less_f64 :: "f64 \<Rightarrow> f64 \<Rightarrow> bool" where
  "less_f64 a b \<longleftrightarrow> a \<le> b \<and> a \<noteq> (b :: f64)"

instance ..

end

text \<open>\<open>f64::max\<close>: a NaN operand is ignored.\<close>

definition f64_max :: "f64 \<Rightarrow> f64 \<Rightarrow> f64" where
  "f64_max a b = (if a = NaN then b else if b = NaN then a else if a \<le> b then b else a)"

text \<open>The conversion \<open>n as f64\<close> of an integer.\<close>

definition f64_of_int :: "int \<Rightarrow> f64" where
  "f64_of_int n = round_f64 (of_int n)"

section \<open>Bounds that rounding respects\<close>

lemma round_even_le:
  assumes "x \<le> of_int n"
  shows "round_even x \<le> n"
proof (cases "x = of_int n")
  case True
  then show ?thesis by (simp add: round_even_def)
next
  case False
  with assms have "\<lfloor>x\<rfloor> < n" by (simp add: floor_less_iff)
  then show ?thesis by (simp add: round_even_def Let_def)
qed

lemma round_even_ge:
  assumes "of_int n \<le> x"
  shows "n \<le> round_even x"
proof -
  from assms have "n \<le> \<lfloor>x\<rfloor>" by (simp add: le_floor_iff)
  then show ?thesis by (simp add: round_even_def Let_def)
qed

lemma quotient_of_bounds:
  assumes "0 < x" and "x \<le> 1" and "quotient_of x = (p, q)"
  shows "0 < p" and "p \<le> q"
proof -
  have q: "0 < q" using assms(3) by (rule quotient_of_denom_pos)
  have x: "x = of_int p / of_int q" using assms(3) by (rule quotient_of_div)
  from assms(1) q show "0 < p" by (simp add: x zero_less_divide_iff)
  from assms(2) q show "p \<le> q" by (simp add: x divide_le_eq_1)
qed

lemma bitlen_mono: "0 < p \<Longrightarrow> p \<le> q \<Longrightarrow> bitlen p \<le> bitlen q"
  unfolding bitlen_def by (auto intro: floorlog_mono nat_mono)

lemma ilog2_le_0: "0 < x \<Longrightarrow> x \<le> 1 \<Longrightarrow> ilog2 x \<le> 0"
  using quotient_of_bounds [of x] bitlen_mono
  by (fastforce simp: ilog2_def Let_def split: prod.splits)

lemma one_less_limit: "1 < f64_limit"
  unfolding f64_limit_def by (rule one_less_power_int) simp_all

lemma powi_pos: "0 < (2 powi e :: rat)"
  by (rule zero_less_power_int) simp

lemma nearest_nonneg: "0 \<le> x \<Longrightarrow> 0 \<le> nearest x"
  using round_even_ge [of 0 "x / 2 powi _"] powi_pos
  by (simp add: nearest_def Let_def zero_le_mult_iff less_imp_le)

lemma nearest_nonpos:
  assumes "x \<le> 0"
  shows "nearest x \<le> 0"
proof -
  have "round_even (x / 2 powi e) \<le> 0" for e
    by (rule round_even_le) (simp add: assms divide_nonpos_pos powi_pos)
  then show ?thesis
    by (simp add: nearest_def Let_def mult_nonpos_nonneg less_imp_le powi_pos)
qed

lemma nearest_le_1:
  assumes "0 < x" and "x \<le> 1"
  shows "nearest x \<le> 1"
proof -
  define e where "e = max (ilog2 \<bar>x\<bar> - 52) (- 1074)"
  from assms have e: "e \<le> 0" using ilog2_le_0 [of x] by (simp add: e_def)
  have inv: "of_int (2 ^ nat (- e)) * (2 powi e :: rat) = 1"
    using e by (simp add: power_int_def field_simps)
  have "x / 2 powi e \<le> of_int (2 ^ nat (- e))"
    using assms(2) inv by (simp only: pos_divide_le_eq [OF powi_pos])
  from round_even_le [OF this]
  have "(of_int (round_even (x / 2 powi e)) :: rat) \<le> of_int (2 ^ nat (- e))"
    by (simp only: of_int_le_iff)
  then have "of_int (round_even (x / 2 powi e)) * 2 powi e \<le> of_int (2 ^ nat (- e)) * (2 powi e :: rat)"
    using powi_pos less_imp_le by (intro mult_right_mono) blast+
  then show ?thesis
    by (simp only: inv nearest_def Let_def e_def [symmetric])
qed

lemma round_f64_nonneg: "0 \<le> x \<Longrightarrow> Fin 0 \<le> round_f64 x"
  using nearest_nonneg [of x] one_less_limit by (auto simp: round_f64_def)

lemma round_f64_le_1: "x \<le> 1 \<Longrightarrow> round_f64 x \<le> Fin 1"
  using nearest_nonpos [of x] nearest_le_1 [of x] one_less_limit
  by (cases "x \<le> 0") (auto simp: round_f64_def)

lemma f64_max_0_nonneg: "Fin 0 \<le> f64_max a (Fin 0)"
  by (cases a) (auto simp: f64_max_def)

lemma f64_max_0_le_1: "a = NaN \<or> a \<le> Fin 1 \<Longrightarrow> f64_max a (Fin 0) \<le> Fin 1"
  by (cases a) (auto simp: f64_max_def)

text \<open>One minus a non-negative number is at most one.\<close>

lemma one_minus_le_1: "Fin 0 \<le> b \<Longrightarrow> Fin 1 - b = NaN \<or> Fin 1 - b \<le> Fin 1"
  by (cases b) (auto simp: minus_f64_def intro: round_f64_le_1)

lemma f64_of_int_nonneg: "0 \<le> n \<Longrightarrow> Fin 0 \<le> f64_of_int n"
  by (simp add: f64_of_int_def round_f64_nonneg)

lemma round_f64_not_NaN [simp]: "round_f64 x \<noteq> NaN"
  by (simp add: round_f64_def)

lemma times_nonneg: "Fin 0 \<le> a \<Longrightarrow> Fin 0 \<le> b \<Longrightarrow> a * b = NaN \<or> Fin 0 \<le> a * b"
  by (cases a; cases b) (auto simp: sign_inf_def intro: round_f64_nonneg)

end
