(* ===== verification/Domain.thy ===== *)
theory Domain
  imports Errors Rust_F64
begin

text \<open>
  The data types of the program: agents and principals (\<open>src/identity\<close>), resources
  (\<open>src/resource\<close>), approval requests (\<open>src/approval\<close>), policy contexts, decisions and rules
  (\<open>src/policy\<close>), token claims (\<open>src/token\<close>), and the requests and responses of the agent-facing
  routes (\<open>src/gateway\<close>). A field carries a short prefix of its struct, since record fields share
  one name space.
\<close>

section \<open>Identifiers, time and JSON\<close>

type_synonym uuid = "128 word"

definition nil_uuid :: uuid where
  "nil_uuid = 0"

text \<open>\<open>DateTime<Utc>\<close>: nanoseconds since the Unix epoch; durations are in nanoseconds as well.\<close>

type_synonym time = int

definition second_ns :: int where
  "second_ns = 1000000000"

text \<open>\<open>timestamp()\<close> rounds down, \<open>num_seconds()\<close> and \<open>num_minutes()\<close> towards zero.\<close>

definition timestamp :: "time \<Rightarrow> int" where
  "timestamp t = t div second_ns"

definition num_seconds :: "int \<Rightarrow> int" where
  "num_seconds d = d sdiv second_ns"

definition num_minutes :: "int \<Rightarrow> int" where
  "num_minutes d = num_seconds d sdiv 60"

definition from_timestamp :: "int \<Rightarrow> time" where
  "from_timestamp s = s * second_ns"

datatype json =
    JNull
  | JBool bool
  | JInt int
  | JFloat f64
  | JStr string
  | JArr "json list"
  | JObj "(string \<times> json) list"

text \<open>
  \<open>serde_json::Map\<close> is a B-tree map: its entries are ordered by key, and inserting a key that is
  present replaces its value.
\<close>

fun json_insert :: "string \<Rightarrow> json \<Rightarrow> (string \<times> json) list \<Rightarrow> (string \<times> json) list" where
  "json_insert k v [] = [(k, v)]"
| "json_insert k v ((k', v') # m) =
     (if k < k' then (k, v) # (k', v') # m
      else if k = k' then (k, v) # m
      else (k', v') # json_insert k v m)"

lemma map_of_json_insert: "sorted_wrt (<) (map fst m) \<Longrightarrow> map_of (json_insert k v m) = (map_of m)(k \<mapsto> v)"
proof (induction k v m rule: json_insert.induct)
  case (1 k v)
  then show ?case by auto
next
  case (2 k v k' v' m)
  then show ?case by (auto simp: fun_eq_iff)
qed

section \<open>Identities and resources\<close>

datatype agent_type = Service | Delegated | Autonomous

datatype agent_status = Active | Suspended | Decommissioned

record agent =
  ag_id :: uuid
  ag_name :: string
  ag_principal_type :: agent_type
  ag_public_key :: "string option"
  ag_did :: "string option"
  ag_owner_id :: "uuid option"
  ag_status :: agent_status
  ag_client_key_hash :: "string option"
  ag_created_at :: time
  ag_updated_at :: time

record principal =
  pr_id :: uuid
  pr_external_id :: string
  pr_idp_provider :: string
  pr_email :: string
  pr_display_name :: string
  pr_created_at :: time

record create_agent_request =
  car_name :: string
  car_principal_type :: agent_type
  car_public_key :: "string option"
  car_did :: "string option"
  car_owner_id :: "uuid option"

record create_principal_request =
  cpr_external_id :: string
  cpr_idp_provider :: string
  cpr_email :: string
  cpr_display_name :: string

datatype resource_type = McpServer | Api | DatabaseResource | CloudService

datatype sensitivity = Low | Medium | High | Critical

record resource =
  re_id :: uuid
  re_name :: string
  re_resource_type :: resource_type
  re_uri :: string
  re_actions :: json
  re_sensitivity :: sensitivity
  re_owner_id :: "uuid option"
  re_credential_config :: "json option"
  re_created_at :: time

record create_resource_request =
  crr_name :: string
  crr_resource_type :: resource_type
  crr_uri :: string
  crr_actions :: json
  crr_sensitivity :: sensitivity
  crr_owner_id :: "uuid option"
  crr_credential_config :: "json option"

section \<open>Approvals\<close>

datatype approval_status = Pending | Approved | Denied | Expired

record approval_request =
  ap_id :: uuid
  ap_agent_id :: uuid
  ap_principal_id :: "uuid option"
  ap_resource_id :: uuid
  ap_action :: string
  ap_requested_scopes :: "string list"
  ap_status :: approval_status
  ap_approver_id :: "uuid option"
  ap_reason :: "string option"
  ap_approval_token :: "string option"
  ap_expires_at :: time
  ap_created_at :: time
  ap_resolved_at :: "time option"

section \<open>Policies\<close>

datatype decision = Allow | Deny | RequireApproval "uuid option" string

record trajectory_event =
  te_action :: string
  te_resource :: string
  te_decision :: decision
  te_timestamp :: time

record policy_context =
  cx_agent :: agent
  cx_principal :: "principal option"
  cx_action :: string
  cx_resource :: string
  cx_requested_scopes :: "string list"
  cx_session_id :: "string option"
  cx_trajectory :: "trajectory_event list"

type_synonym policy_constraint = "string \<times> json"

record policy_evaluation =
  ev_decision :: decision
  ev_approved_scopes :: "string list"
  ev_reason :: string
  ev_constraints :: "policy_constraint list"

record rule =
  rule_name :: string
  rule_agent_types :: "string list"
  rule_actions :: "string list"
  rule_resources :: "string list"
  rule_scopes :: "string list"
  rule_decision :: string
  rule_reason :: string
  rule_require_approval_from :: "string option"
  rule_constraints :: "policy_constraint list"
  rule_rate_limit_per_minute :: "u64 option"
  rule_max_spend :: "f64 option"
  rule_min_trust_level :: "f64 option"
  rule_require_prior_action :: "string option"
  rule_max_actions_in_session :: "u64 option"

section \<open>Tokens\<close>

record delegation_hop =
  hop_sub :: string
  hop_act :: string

record act_claim =
  act_sub :: string
  act_delegation_depth :: u64
  act_delegation_chain :: "delegation_hop list option"

record agent_claims =
  cl_iss :: string
  cl_sub :: string
  cl_act :: act_claim
  cl_scope :: string
  cl_aud :: string
  cl_exp :: int
  cl_iat :: int
  cl_jti :: string
  cl_constraints :: "json option"
  cl_cnf :: "string option"

record issue_token_params =
  ip_issuer :: string
  ip_subject :: string
  ip_agent_id :: string
  ip_scopes :: "string list"
  ip_audience :: string
  ip_ttl_seconds :: u64
  ip_delegation_depth :: u64
  ip_delegation_chain :: "delegation_hop list option"
  ip_constraints :: "json option"

text \<open>\<open>serde_json::to_value\<close> of a delegation chain; object members are ordered by name.\<close>

definition hop_json :: "delegation_hop \<Rightarrow> json" where
  "hop_json h = JObj [(''act'', JStr (hop_act h)), (''sub'', JStr (hop_sub h))]"

definition chain_json :: "delegation_hop list \<Rightarrow> json" where
  "chain_json hops = JArr (map hop_json hops)"

section \<open>Requests and responses of the agent-facing routes\<close>

record request_context =
  rc_session_id :: "string option"
  rc_task :: "string option"
  rc_max_amount :: "f64 option"
  rc_time_window :: "string option"

record access_request =
  rq_agent_id :: uuid
  rq_action :: string
  rq_resource :: string
  rq_requested_scopes :: "string list"
  rq_delegation_token :: "string option"
  rq_context :: "request_context option"

record issued_token_info =
  it_jwt :: string
  it_expires_at :: time
  it_scopes :: "string list"
  it_jti :: string

record approval_info =
  ai_request_id :: uuid
  ai_status :: string

record access_response =
  rs_decision :: string
  rs_token :: "issued_token_info option"
  rs_approval :: "approval_info option"
  rs_reason :: string
  rs_approved_scopes :: "string list"

record delegate_request =
  dq_parent_grant_token :: string
  dq_sub_agent_id :: uuid
  dq_scopes :: "string list"
  dq_expires_in_seconds :: u64

record delegate_response =
  dr_delegated_token :: string
  dr_expires_at :: time
  dr_scopes :: "string list"

text \<open>The text of a decision, as the routes, the audit log and the metrics spell it.\<close>

fun decision_str :: "decision \<Rightarrow> string" where
  "decision_str Allow = ''allow''"
| "decision_str Deny = ''deny''"
| "decision_str (RequireApproval _ _) = ''require_approval''"

text \<open>\<open>impl From<PolicyEvaluation> for AccessResponse\<close>.\<close>

definition response_of :: "policy_evaluation \<Rightarrow> access_response" where
  "response_of ev =
     \<lparr> rs_decision = decision_str (ev_decision ev),
       rs_token = None,
       rs_approval = (case ev_decision ev of
           RequireApproval _ _ \<Rightarrow> Some \<lparr> ai_request_id = nil_uuid, ai_status = ''pending'' \<rparr>
         | _ \<Rightarrow> None),
       rs_reason = ev_reason ev,
       rs_approved_scopes = ev_approved_scopes ev \<rparr>"

lemma decision_str_allow [simp]: "decision_str d = ''allow'' \<longleftrightarrow> d = Allow"
  by (cases d) auto

section \<open>Enumerations stored as text\<close>

text \<open>
  The tables store enumerations as text. A reader maps every text it does not know to a default, so
  reading is total; reading back what was written must give the value back.
\<close>

locale text_enum =
  fixes to_text :: "'a \<Rightarrow> string"
    and of_text :: "string \<Rightarrow> 'a"
  assumes of_to: "of_text (to_text x) = x"
begin

lemma to_text_inj: "to_text x = to_text y \<longleftrightarrow> x = y"
  using of_to by metis

end

fun agent_type_str :: "agent_type \<Rightarrow> string" where
  "agent_type_str Service = ''service''"
| "agent_type_str Delegated = ''delegated''"
| "agent_type_str Autonomous = ''autonomous''"

definition agent_type_of :: "string \<Rightarrow> agent_type" where
  "agent_type_of s = (if s = ''service'' then Service else if s = ''delegated'' then Delegated else Autonomous)"

fun agent_status_str :: "agent_status \<Rightarrow> string" where
  "agent_status_str Active = ''active''"
| "agent_status_str Suspended = ''suspended''"
| "agent_status_str Decommissioned = ''decommissioned''"

definition agent_status_of :: "string \<Rightarrow> agent_status" where
  "agent_status_of s =
     (if s = ''suspended'' then Suspended else if s = ''decommissioned'' then Decommissioned else Active)"

fun resource_type_str :: "resource_type \<Rightarrow> string" where
  "resource_type_str McpServer = ''mcp_server''"
| "resource_type_str Api = ''api''"
| "resource_type_str DatabaseResource = ''database''"
| "resource_type_str CloudService = ''cloud_service''"

definition resource_type_of :: "string \<Rightarrow> resource_type" where
  "resource_type_of s =
     (if s = ''mcp_server'' then McpServer else if s = ''api'' then Api
      else if s = ''cloud_service'' then CloudService else DatabaseResource)"

fun sensitivity_str :: "sensitivity \<Rightarrow> string" where
  "sensitivity_str Low = ''low''"
| "sensitivity_str Medium = ''medium''"
| "sensitivity_str High = ''high''"
| "sensitivity_str Critical = ''critical''"

definition sensitivity_of :: "string \<Rightarrow> sensitivity" where
  "sensitivity_of s =
     (if s = ''low'' then Low else if s = ''high'' then High
      else if s = ''critical'' then Critical else Medium)"

fun approval_status_str :: "approval_status \<Rightarrow> string" where
  "approval_status_str Pending = ''pending''"
| "approval_status_str Approved = ''approved''"
| "approval_status_str Denied = ''denied''"
| "approval_status_str Expired = ''expired''"

definition approval_status_of :: "string \<Rightarrow> approval_status" where
  "approval_status_of s =
     (if s = ''approved'' then Approved else if s = ''denied'' then Denied
      else if s = ''expired'' then Expired else Pending)"

interpretation agent_type_enum: text_enum agent_type_str agent_type_of
  by unfold_locales (case_tac x; simp add: agent_type_of_def)

interpretation agent_status_enum: text_enum agent_status_str agent_status_of
  by unfold_locales (case_tac x; simp add: agent_status_of_def)

interpretation resource_type_enum: text_enum resource_type_str resource_type_of
  by unfold_locales (case_tac x; simp add: resource_type_of_def)

interpretation sensitivity_enum: text_enum sensitivity_str sensitivity_of
  by unfold_locales (case_tac x; simp add: sensitivity_of_def)

interpretation approval_status_enum: text_enum approval_status_str approval_status_of
  by unfold_locales (case_tac x; simp add: approval_status_of_def)

lemmas enum_round_trips [enum_simps] =
  agent_type_enum.of_to agent_status_enum.of_to resource_type_enum.of_to
  sensitivity_enum.of_to approval_status_enum.of_to

end
