(* ===== verification/Externals.thy ===== *)
theory Externals
  imports Domain
begin

text \<open>
  The code the program calls and this repository does not hold: the crates for UUIDs, dates, JSON,
  YAML, SHA-256 and JSON Web Tokens, SQLite, the clock and the random generator. Each is a field of
  one of two records that the definitions take as arguments: \<open>ext\<close> for libraries, which are fixed
  functions, and \<open>env\<close> for what one request observes (clock readings, fresh identifiers, I/O
  faults). What the proofs rely on is stated by named predicates, used as hypotheses.
\<close>

section \<open>Libraries\<close>

text \<open>
  Decoding a web token reads the clock, so the time is one of its arguments. An RSA private key is
  an opaque text; its two PEM forms, its public modulus and exponent are functions of it. The
  cipher AES-256-GCM takes the key, the nonce and the text. \<open>x_alphanumeric\<close> is the Unicode property
  on code points outside ASCII; \<open>x_time_json\<close> is the form dates have in JSON, which is not the one the
  tables store (\<open>x_rfc3339\<close>).
\<close>

datatype sql_failure = UniqueViolation string | ForeignKeyViolation | NoRows | DatabaseFull

text \<open>What \<open>jsonwebtoken::decode\<close> is asked to check, and how it fails.\<close>

record validation =
  va_issuer :: string
  va_audience :: "string option"

datatype jwt_error = ExpiredSignature | OtherJwtError string

record ext =
  x_uuid_str :: "uuid \<Rightarrow> string"
  x_uuid_parse :: "string \<Rightarrow> uuid option"
  x_rfc3339 :: "time \<Rightarrow> string"
  x_rfc3339_parse :: "string \<Rightarrow> time option"
  x_time_json :: "time \<Rightarrow> string"
  x_time_add_ok :: "time \<Rightarrow> int \<Rightarrow> bool"
  x_json_str :: "json \<Rightarrow> string"
  x_json_parse :: "string \<Rightarrow> json option"
  x_fmt_f64 :: "f64 \<Rightarrow> string"
  x_sha256 :: "string \<Rightarrow> string"
  x_yaml_rules :: "string \<Rightarrow> string + rule list"
  x_jwt_encode :: "string \<Rightarrow> string \<Rightarrow> agent_claims \<Rightarrow> string + string"
  x_jwt_decode :: "string \<Rightarrow> validation \<Rightarrow> time \<Rightarrow> string \<Rightarrow> jwt_error + agent_claims"
  x_rsa_encoding_key :: "string \<Rightarrow> string + string"
  x_rsa_decoding_key :: "string \<Rightarrow> string + string"
  x_rsa_pkcs1_private :: "string \<Rightarrow> string + string"
  x_rsa_pkcs8_private :: "string \<Rightarrow> string + string"
  x_rsa_private_pem :: "string \<Rightarrow> string + string"
  x_rsa_public_pem :: "string \<Rightarrow> string + string"
  x_rsa_modulus :: "string \<Rightarrow> string"
  x_rsa_exponent :: "string \<Rightarrow> string"
  x_base64url :: "string \<Rightarrow> string"
  x_sql_text :: "sql_failure \<Rightarrow> string"
  x_foreign_keys :: bool
  x_aes_encrypt :: "string \<Rightarrow> string \<Rightarrow> string \<Rightarrow> string + string"
  x_aes_decrypt :: "string \<Rightarrow> string \<Rightarrow> string \<Rightarrow> string + string"
  x_alphanumeric :: "nat \<Rightarrow> bool"

text \<open>
  \<open>t + Duration::seconds(n as i64)\<close>. The cast reads the unsigned count as two's complement;
  building the duration or adding it panics outside the range chrono represents
  (\<open>x_time_add_ok\<close> says where it does not).
\<close>

definition add_seconds :: "ext \<Rightarrow> time \<Rightarrow> u64 \<Rightarrow> time result" where
  "add_seconds X t n =
     (if x_time_add_ok X t (sint n) then Inr (t + sint n * second_ns)
      else Inl (Panic ''time arithmetic out of range''))"

lemma add_seconds_InrD: "add_seconds X t n = Inr t' \<Longrightarrow> t' = t + sint n * second_ns"
  by (simp add: add_seconds_def split: if_splits)

text \<open>Lower-case hexadecimal, as \<open>hex::encode\<close> and the format \<open>{byte:02x}\<close> print it.\<close>

definition hex_digit :: "nat \<Rightarrow> char" where
  "hex_digit n = (if n < 10 then char_of (48 + n) else char_of (87 + n))"

definition hex :: "string \<Rightarrow> string" where
  "hex bs = concat (map (\<lambda>b. let n = of_char b in [hex_digit (n div 16), hex_digit (n mod 16)]) bs)"

lemma length_hex [simp]: "length (hex bs) = 2 * length bs"
  by (induction bs) (simp_all add: hex_def Let_def)

lemma hex_digit_inj: "m < 16 \<Longrightarrow> n < 16 \<Longrightarrow> hex_digit m = hex_digit n \<longleftrightarrow> m = n"
  by (auto simp: hex_digit_def split: if_splits)

lemma hex_inj: "hex as = hex bs \<longleftrightarrow> as = bs"
proof
  assume "hex as = hex bs"
  then show "as = bs"
  proof (induction as arbitrary: bs)
    case Nil
    then show ?case by (cases bs) (simp_all add: hex_def Let_def)
  next
    case (Cons a as)
    then obtain b bs' where bs: "bs = b # bs'" by (cases bs) (auto simp: hex_def Let_def)
    let ?m = "of_char a :: nat" and ?n = "of_char b :: nat"
    have lt: "?m div 16 < 16" "?n div 16 < 16"
      using of_char_of [of "?m"] by (simp_all add: less_mult_imp_div_less)
    from Cons.prems bs have "hex_digit (?m div 16) = hex_digit (?n div 16)"
      and "hex_digit (?m mod 16) = hex_digit (?n mod 16)" and tl: "hex as = hex bs'"
      by (simp_all add: hex_def Let_def)
    with lt have "?m div 16 = ?n div 16" and "?m mod 16 = ?n mod 16"
      by (simp_all add: hex_digit_inj)
    then have "?m = ?n" by (metis div_mult_mod_eq)
    with Cons.IH [OF tl] bs show ?case by simp
  qed
qed simp

definition hex_digit_upper :: "nat \<Rightarrow> char" where
  "hex_digit_upper n = (if n < 10 then char_of (48 + n) else char_of (55 + n))"

text \<open>The format \<open>{:02X}\<close> of a byte.\<close>

definition hex_byte_upper :: "nat \<Rightarrow> string" where
  "hex_byte_upper n = [hex_digit_upper (n div 16), hex_digit_upper (n mod 16)]"

definition sha256_hex :: "ext \<Rightarrow> string \<Rightarrow> string" where
  "sha256_hex X s = hex (x_sha256 X s)"

section \<open>Documented behaviour used as hypotheses\<close>

text \<open>Printing and parsing give an identifier, a date or a JSON value back.\<close>

definition uuid_rt :: "ext \<Rightarrow> bool" where
  "uuid_rt X \<longleftrightarrow> (\<forall>u. x_uuid_parse X (x_uuid_str X u) = Some u)"

definition time_rt :: "ext \<Rightarrow> time \<Rightarrow> bool" where
  "time_rt X t \<longleftrightarrow> x_rfc3339_parse X (x_rfc3339 X t) = Some t"

definition json_rt :: "ext \<Rightarrow> json \<Rightarrow> bool" where
  "json_rt X j \<longleftrightarrow> x_json_parse X (x_json_str X j) = Some j"

text \<open>
  Web tokens. What was encoded with the signing key decodes with the verification key to the same
  claims, if issuer and audience are the expected ones and the expiry is not more than the library's
  default leeway of 60 seconds in the past; and what decodes has the expected issuer and audience.
\<close>

definition jwt_rt :: "ext \<Rightarrow> string \<Rightarrow> string \<Rightarrow> agent_claims \<Rightarrow> bool" where
  "jwt_rt X ek dk c \<longleftrightarrow>
     (\<forall>kid tok v t. x_jwt_encode X ek kid c = Inr tok \<and> va_issuer v = cl_iss c
        \<and> va_audience v \<in> {None, Some (cl_aud c)} \<and> timestamp t - 60 \<le> cl_exp c
        \<longrightarrow> x_jwt_decode X dk v t tok = Inr c)"

definition jwt_sound :: "ext \<Rightarrow> string \<Rightarrow> bool" where
  "jwt_sound X dk \<longleftrightarrow>
     (\<forall>v t tok c. x_jwt_decode X dk v t tok = Inr c \<longrightarrow>
        cl_iss c = va_issuer v \<and> (\<forall>a. va_audience v = Some a \<longrightarrow> cl_aud c = a))"

lemma uuid_rtD [simp]: "uuid_rt X \<Longrightarrow> x_uuid_parse X (x_uuid_str X u) = Some u"
  by (simp add: uuid_rt_def)

lemma uuid_str_inj: "uuid_rt X \<Longrightarrow> x_uuid_str X u = x_uuid_str X v \<longleftrightarrow> u = v"
  unfolding uuid_rt_def by (metis option.inject)

lemma time_rtD [simp]: "time_rt X t \<Longrightarrow> x_rfc3339_parse X (x_rfc3339 X t) = Some t"
  by (simp add: time_rt_def)

lemma json_rtD [simp]: "json_rt X j \<Longrightarrow> x_json_parse X (x_json_str X j) = Some j"
  by (simp add: json_rt_def)

text \<open>A list of strings as a JSON array in a text column (\<open>scopes\<close>, \<open>requested_scopes\<close>).\<close>

definition strings_json :: "string list \<Rightarrow> json" where
  "strings_json ss = JArr (map JStr ss)"

fun json_string :: "json \<Rightarrow> string option" where
  "json_string (JStr s) = Some s"
| "json_string _ = None"

definition json_strings :: "json \<Rightarrow> string list option" where
  "json_strings j = (case j of JArr js \<Rightarrow> those (map json_string js) | _ \<Rightarrow> None)"

definition scopes_text :: "ext \<Rightarrow> string list \<Rightarrow> string" where
  "scopes_text X ss = x_json_str X (strings_json ss)"

definition scopes_of_text :: "ext \<Rightarrow> string \<Rightarrow> string list" where
  "scopes_of_text X s =
     (case x_json_parse X s of None \<Rightarrow> [] | Some j \<Rightarrow>
        (case json_strings j of None \<Rightarrow> [] | Some ss \<Rightarrow> ss))"

lemma those_json_string: "those (map json_string (map JStr ss)) = Some ss"
  by (induction ss) auto

lemma json_strings_json [simp]: "json_strings (strings_json ss) = Some ss"
  using those_json_string [of ss] by (simp add: json_strings_def strings_json_def)

lemma scopes_round_trip: "json_rt X (strings_json ss) \<Longrightarrow> scopes_of_text X (scopes_text X ss) = ss"
  by (simp add: scopes_of_text_def scopes_text_def)

text \<open>
  The cipher is authenticated: what was encrypted decrypts under the same key and nonce, and what
  decrypts was encrypted under them.
\<close>

definition aes_rt :: "ext \<Rightarrow> string \<Rightarrow> string \<Rightarrow> bool" where
  "aes_rt X key nonce \<longleftrightarrow>
     (\<forall>text ct. x_aes_encrypt X key nonce text = Inr ct \<longrightarrow> x_aes_decrypt X key nonce ct = Inr text)"

definition aes_sound :: "ext \<Rightarrow> string \<Rightarrow> string \<Rightarrow> bool" where
  "aes_sound X key nonce \<longleftrightarrow>
     (\<forall>text ct. x_aes_decrypt X key nonce ct = Inr text \<longrightarrow> x_aes_encrypt X key nonce text = Inr ct)"

section \<open>JSON values from outside\<close>

text \<open>\<open>Value::get\<close> with a member name, and the readings of scalars.\<close>

definition json_get :: "string \<Rightarrow> json \<Rightarrow> json option" where
  "json_get k j = (case j of JObj ms \<Rightarrow> map_of ms k | _ \<Rightarrow> None)"

definition json_bool :: "json \<Rightarrow> bool option" where
  "json_bool j = (case j of JBool b \<Rightarrow> Some b | _ \<Rightarrow> None)"

definition json_array :: "json \<Rightarrow> json list option" where
  "json_array j = (case j of JArr js \<Rightarrow> Some js | _ \<Rightarrow> None)"

definition json_u64 :: "json \<Rightarrow> u64 option" where
  "json_u64 j = (case j of JInt n \<Rightarrow> if 0 \<le> n \<and> n < 2 ^ 64 then Some (of_int n) else None | _ \<Rightarrow> None)"

definition json_get_str :: "string \<Rightarrow> json \<Rightarrow> string option" where
  "json_get_str k j = Option.bind (json_get k j) json_string"

definition or_else :: "'a option \<Rightarrow> 'a \<Rightarrow> 'a" where
  "or_else x d = (case x of None \<Rightarrow> d | Some a \<Rightarrow> a)"

lemma or_else_simps [simp]: "or_else None d = d" "or_else (Some a) d = a"
  by (simp_all add: or_else_def)

section \<open>Calls to other services\<close>

text \<open>
  One HTTP request of the client library and what comes back: the status with its printed form, the
  body as text if it can be read, and the body as JSON if it parses.
\<close>

record http_call =
  hc_method :: string
  hc_url :: string
  hc_headers :: "(string \<times> string) list"
  hc_form :: "(string \<times> string) list"

record http_reply =
  hp_status :: nat
  hp_status_line :: string
  hp_text :: "string option"
  hp_json :: "string + json"

definition is_success :: "http_reply \<Rightarrow> bool" where
  "is_success r \<longleftrightarrow> 200 \<le> hp_status r \<and> hp_status r < 300"

section \<open>What one request observes\<close>

text \<open>
  A request reads the clock several times, draws fresh identifiers and random bytes, and any of its
  database calls may fail before its statement runs (the blocking task, the pool or SQLite's I/O). Other
  services answer through \<open>e_http\<close>; reading or writing a file may fail with a message.
  \<open>e_now E k\<close> is the reading at the \<open>k\<close>th place of the handler that reads the clock, numbered in
  program order; nothing is assumed of the order of the readings unless a theorem says so. Revoking a
  tree of grants reads the clock once per grant (\<open>e_grant_clock\<close>, by the grant's id).
\<close>

datatype db_call =
    CallGetAgent | CallGetAgentByKey | CallListAgents | CallCreateAgent | CallSetKeyHash
  | CallGetPrincipal | CallPrincipalByEmail | CallCreatePrincipal
  | CallCreateResource | CallGetResource | CallListResources | CallFindResource
  | CallLoadPolicy | CallCreatePolicy | CallInsertPolicy | CallListPolicies | CallDefaultPolicy
  | CallCreateGrant | CallGetGrant | CallListGrants | CallAgentGrants | CallRevokeGrant
  | CallRecordToken | CallRevokeToken | CallIsTokenRevoked | CallRevokeAgentTokens
  | CallCreateApproval | CallGetApproval | CallListPending | CallResolveApproval
  | CallCreateAudit | CallListAudit | CallAllAudit
  | CallStoreCredential | CallGetCredential | CallHealth | CallCheckpoint | CallOpen

record env =
  e_now :: "nat \<Rightarrow> time"
  e_grant_clock :: "string \<Rightarrow> time"
  e_uuid :: "nat \<Rightarrow> uuid"
  e_random :: "nat \<Rightarrow> string"
  e_rsa_key :: "string + string"
  e_fault :: "db_call \<Rightarrow> string option"
  e_http :: "http_call \<Rightarrow> string + http_reply"
  e_read_fault :: "string \<Rightarrow> string option"
  e_write_fault :: "string \<Rightarrow> string option"

text \<open>
  A library in which the texts of identifiers and dates are unary numerals and the digest is the
  identity: the instance at which the closed examples of the development are evaluated.
\<close>

definition unary :: "nat \<Rightarrow> string" where
  "unary n = replicate n CHR ''1''"

lemma length_unary [simp]: "length (unary n) = n"
  by (simp add: unary_def)

definition demo_ext :: ext where
  "demo_ext =
     \<lparr> x_uuid_str = (\<lambda>u. unary (unat u)),
       x_uuid_parse = (\<lambda>s. Some (of_nat (length s))),
       x_rfc3339 = (\<lambda>t. unary (nat t)),
       x_rfc3339_parse = (\<lambda>s. Some (int (length s))),
       x_time_json = (\<lambda>t. unary (nat t)),
       x_time_add_ok = (\<lambda>t d. 0 \<le> d),
       x_json_str = (\<lambda>j. case json_strings j of Some ss \<Rightarrow> join ''|'' ss | None \<Rightarrow> ''''),
       x_json_parse = (\<lambda>s. Some (JArr [JStr s])),
       x_fmt_f64 = (\<lambda>_. ''0.00''),
       x_sha256 = (\<lambda>s. s),
       x_yaml_rules = (\<lambda>_. Inr []),
       x_jwt_encode = (\<lambda>_ _ _. Inr ''jwt''),
       x_jwt_decode = (\<lambda>_ _ _ _. Inl ExpiredSignature),
       x_rsa_encoding_key = Inr,
       x_rsa_decoding_key = Inr,
       x_rsa_pkcs1_private = Inr,
       x_rsa_pkcs8_private = Inr,
       x_rsa_private_pem = Inr,
       x_rsa_public_pem = Inr,
       x_rsa_modulus = (\<lambda>k. k),
       x_rsa_exponent = (\<lambda>_. [CHR 0x01, CHR 0x00, CHR 0x01]),
       x_base64url = (\<lambda>s. s),
       x_sql_text = (\<lambda>_. ''sql''),
       x_foreign_keys = True,
       x_aes_encrypt = (\<lambda>k n s. Inr (k @ n @ s)),
       x_aes_decrypt = (\<lambda>k n s. if starts_with s (k @ n) then Inr (drop (length (k @ n)) s) else Inl ''aead''),
       x_alphanumeric = (\<lambda>_. False) \<rparr>"

definition demo_env :: env where
  "demo_env =
     \<lparr> e_now = (\<lambda>k. int k), e_grant_clock = (\<lambda>_. 0), e_uuid = (\<lambda>k. of_nat k), e_random = (\<lambda>_. ''''), e_rsa_key = Inr ''key'',
       e_fault = (\<lambda>_. None), e_http = (\<lambda>_. Inl ''offline''),
       e_read_fault = (\<lambda>_. None), e_write_fault = (\<lambda>_. None) \<rparr>"

lemma demo_fault [simp]: "e_fault demo_env call = None"
  by (simp add: demo_env_def)

lemma demo_aes: "aes_rt demo_ext key nonce" "aes_sound demo_ext key nonce"
proof -
  have "starts_with (key @ nonce @ s) (key @ nonce)" for s
    using starts_with_append [of "key @ nonce" s] by simp
  then show "aes_rt demo_ext key nonce"
    by (auto simp: aes_rt_def demo_ext_def)
  show "aes_sound demo_ext key nonce"
    by (auto simp: aes_sound_def demo_ext_def starts_with_iff split: if_splits)
qed

lemma demo_uuid_rt: "uuid_rt demo_ext"
  by (simp add: uuid_rt_def demo_ext_def)

lemma demo_time_rt: "0 \<le> t \<Longrightarrow> time_rt demo_ext t"
  by (simp add: time_rt_def demo_ext_def)

lemma demo_json_rt: "json_rt demo_ext (strings_json [s])"
  by (simp add: json_rt_def demo_ext_def) (simp add: strings_json_def)

end
