(* ===== verification/Sessions.thy ===== *)
theory Sessions
  imports Externals
begin

text \<open>
  Sessions (\<open>src/session/mod.rs\<close>): the state of one session, the store of sessions with its
  fixed-window rate limiter and the agent-level emergency stop. The store's three locks are three
  fields; an operation takes its locks for its whole body, so it is one atomic step, except for
  \<open>restore_agent\<close>, which is two.
\<close>

section \<open>One session\<close>

record session_state =
  ss_session_id :: string
  ss_agent_id :: uuid
  ss_principal_id :: "uuid option"
  ss_created_at :: time
  ss_last_activity :: time
  ss_trajectory :: "trajectory_event list"
  ss_actions_count :: u64
  ss_spend_total :: f64
  ss_tokens_used :: u64
  ss_trust_level :: f64
  ss_killed :: bool

definition new_session :: "time \<Rightarrow> string \<Rightarrow> uuid \<Rightarrow> uuid option \<Rightarrow> session_state" where
  "new_session now sid agent pid =
     \<lparr> ss_session_id = sid, ss_agent_id = agent, ss_principal_id = pid,
       ss_created_at = now, ss_last_activity = now, ss_trajectory = [],
       ss_actions_count = 0, ss_spend_total = Fin 0, ss_tokens_used = 0,
       ss_trust_level = Fin 1, ss_killed = False \<rparr>"

definition trajectory_cap :: nat where
  "trajectory_cap = 1000"

definition session_record_action :: "time \<Rightarrow> trajectory_event \<Rightarrow> session_state \<Rightarrow> session_state" where
  "session_record_action now ev s =
     (let tr = ss_trajectory s @ [ev] in
      s\<lparr> ss_last_activity := now,
         ss_actions_count := ss_actions_count s + 1,
         ss_trajectory := (if trajectory_cap < length tr then drop (length tr - trajectory_cap) tr else tr) \<rparr>)"

definition session_record_spend :: "f64 \<Rightarrow> session_state \<Rightarrow> session_state" where
  "session_record_spend amount s = s\<lparr> ss_spend_total := ss_spend_total s + amount \<rparr>"

definition session_record_tokens :: "u64 \<Rightarrow> session_state \<Rightarrow> session_state" where
  "session_record_tokens n s = s\<lparr> ss_tokens_used := ss_tokens_used s + n \<rparr>"

definition minutes_since_last_activity :: "time \<Rightarrow> session_state \<Rightarrow> int" where
  "minutes_since_last_activity now s = num_minutes (now - ss_last_activity s)"

text \<open>Subtraction of two \<open>i64\<close> wraps; dividing by zero, or the least value by -1, panics.\<close>

definition i64_sub :: "int \<Rightarrow> int \<Rightarrow> int" where
  "i64_sub a b = sint (word_of_int (a - b) :: 64 word)"

definition i64_div :: "int \<Rightarrow> int \<Rightarrow> int result" where
  "i64_div a b =
     (if b = 0 then Inl (Panic ''attempt to divide by zero'')
      else if a = - (2 ^ 63) \<and> b = -1 then Inl (Panic ''attempt to divide with overflow'')
      else Inr (a sdiv b))"

definition apply_trust_decay :: "time \<Rightarrow> int \<Rightarrow> f64 \<Rightarrow> session_state \<Rightarrow> session_state result" where
  "apply_trust_decay now threshold rate s =
     (let idle = minutes_since_last_activity now s in
      if threshold < idle then
        (case i64_div (i64_sub idle threshold) threshold of
           Inl e \<Rightarrow> Inl e
         | Inr periods \<Rightarrow>
             Inr (s\<lparr> ss_trust_level := f64_max (Fin 1 - f64_of_int periods * rate) (Fin 0) \<rparr>))
      else Inr s)"

definition is_allowed_by_trust :: "f64 \<Rightarrow> session_state \<Rightarrow> bool" where
  "is_allowed_by_trust min_trust s \<longleftrightarrow> min_trust \<le> ss_trust_level s"

text \<open>The slice from the first event that is not older than the window.\<close>

definition recent_actions :: "time \<Rightarrow> int \<Rightarrow> session_state \<Rightarrow> trajectory_event list" where
  "recent_actions now window s =
     dropWhile (\<lambda>e. te_timestamp e < now - window * 60 * second_ns) (ss_trajectory s)"

definition count_actions_in_window :: "time \<Rightarrow> int \<Rightarrow> session_state \<Rightarrow> nat" where
  "count_actions_in_window now window s = length (recent_actions now window s)"

definition cumulative_spend :: "session_state \<Rightarrow> f64" where
  "cumulative_spend s = ss_spend_total s"

section \<open>The store\<close>

record rate_limit_state =
  rl_window_start :: time
  rl_count :: u64

record session_store =
  sessions :: "(string \<times> session_state) list"
  rate_limits :: "(string \<times> rate_limit_state) list"
  killed_agents :: "uuid set"

definition new_store :: session_store where
  "new_store = \<lparr> sessions = [], rate_limits = [], killed_agents = {} \<rparr>"

definition mark_killed :: "uuid \<Rightarrow> bool \<Rightarrow> session_state \<Rightarrow> session_state" where
  "mark_killed agent b s = (if ss_agent_id s = agent then s\<lparr> ss_killed := b \<rparr> else s)"

definition kill_agent :: "uuid \<Rightarrow> session_store \<Rightarrow> session_store" where
  "kill_agent agent st =
     st\<lparr> killed_agents := insert agent (killed_agents st),
         sessions := map_values (mark_killed agent True) (sessions st) \<rparr>"

definition is_agent_killed :: "uuid \<Rightarrow> session_store \<Rightarrow> bool" where
  "is_agent_killed agent st \<longleftrightarrow> agent \<in> killed_agents st"

text \<open>Restoring takes the two locks one after the other: two atomic steps.\<close>

definition lift_stop :: "uuid \<Rightarrow> session_store \<Rightarrow> session_store" where
  "lift_stop agent st = st\<lparr> killed_agents := killed_agents st - {agent} \<rparr>"

definition unmark_sessions :: "uuid \<Rightarrow> session_store \<Rightarrow> session_store" where
  "unmark_sessions agent st = st\<lparr> sessions := map_values (mark_killed agent False) (sessions st) \<rparr>"

definition restore_agent :: "uuid \<Rightarrow> session_store \<Rightarrow> session_store" where
  "restore_agent agent st = unmark_sessions agent (lift_stop agent st)"

definition get_session :: "string \<Rightarrow> session_store \<Rightarrow> session_state option" where
  "get_session sid st = map_of (sessions st) sid"

definition get_or_create_session ::
    "time \<Rightarrow> string \<Rightarrow> uuid \<Rightarrow> uuid option \<Rightarrow> session_store \<Rightarrow> session_state \<times> session_store" where
  "get_or_create_session now sid agent pid st =
     (case map_of (sessions st) sid of
        Some s \<Rightarrow> (s, st)
      | None \<Rightarrow>
          let s = new_session now sid agent pid
          in (s, st\<lparr> sessions := AList.update sid s (sessions st) \<rparr>))"

definition update_session :: "string \<Rightarrow> (session_state \<Rightarrow> session_state) \<Rightarrow> session_store \<Rightarrow> session_store" where
  "update_session sid f st = st\<lparr> sessions := with_entry sid f (sessions st) \<rparr>"

definition store_record_action :: "time \<Rightarrow> string \<Rightarrow> trajectory_event \<Rightarrow> session_store \<Rightarrow> session_store" where
  "store_record_action now sid ev st = update_session sid (session_record_action now ev) st"

definition store_record_spend :: "string \<Rightarrow> f64 \<Rightarrow> session_store \<Rightarrow> session_store" where
  "store_record_spend sid amount st = update_session sid (session_record_spend amount) st"

definition store_record_tokens :: "string \<Rightarrow> u64 \<Rightarrow> session_store \<Rightarrow> session_store" where
  "store_record_tokens sid n st = update_session sid (session_record_tokens n) st"

definition kill_session :: "string \<Rightarrow> session_store \<Rightarrow> bool \<times> session_store" where
  "kill_session sid st =
     (case map_of (sessions st) sid of
        None \<Rightarrow> (False, st)
      | Some _ \<Rightarrow> (True, update_session sid (\<lambda>s. s\<lparr> ss_killed := True \<rparr>) st))"

definition is_killed :: "string \<Rightarrow> session_store \<Rightarrow> bool" where
  "is_killed sid st = (case map_of (sessions st) sid of None \<Rightarrow> False | Some s \<Rightarrow> ss_killed s)"

definition one_minute :: int where
  "one_minute = 60 * second_ns"

definition rate_limit_text :: "string \<Rightarrow> u64 \<Rightarrow> u64 \<Rightarrow> string" where
  "rate_limit_text key n limit =
     ''Rate limit exceeded for '' @ key @ '' ('' @ show_u64 n @ '' calls/min, limit '' @ show_u64 limit @ '')''"

definition check_rate_limit :: "time \<Rightarrow> string \<Rightarrow> u64 \<Rightarrow> session_store \<Rightarrow> unit result \<times> session_store" where
  "check_rate_limit now key limit st =
     (case map_of (rate_limits st) key of
        Some rl \<Rightarrow>
          if one_minute < now - rl_window_start rl then
            (Inr (), st\<lparr> rate_limits :=
               AList.update key \<lparr> rl_window_start = now, rl_count = 1 \<rparr> (rate_limits st) \<rparr>)
          else
            (let rl' = rl\<lparr> rl_count := rl_count rl + 1 \<rparr>;
                 st' = st\<lparr> rate_limits := AList.update key rl' (rate_limits st) \<rparr>
             in if limit < rl_count rl'
                then (Inl (Err (PolicyDenied (rate_limit_text key (rl_count rl') limit))), st')
                else (Inr (), st'))
      | None \<Rightarrow>
          (Inr (), st\<lparr> rate_limits :=
             AList.update key \<lparr> rl_window_start = now, rl_count = 1 \<rparr> (rate_limits st) \<rparr>))"

text \<open>A panic in one session leaves the sessions visited before it updated.\<close>

fun decay_sessions ::
    "time \<Rightarrow> int \<Rightarrow> f64 \<Rightarrow> (string \<times> session_state) list \<Rightarrow> unit result \<times> (string \<times> session_state) list" where
  "decay_sessions now threshold rate [] = (Inr (), [])"
| "decay_sessions now threshold rate ((k, s) # m) =
     (case apply_trust_decay now threshold rate s of
        Inl e \<Rightarrow> (Inl e, (k, s) # m)
      | Inr s' \<Rightarrow> (case decay_sessions now threshold rate m of (r, m') \<Rightarrow> (r, (k, s') # m')))"

definition apply_trust_decay_all :: "time \<Rightarrow> int \<Rightarrow> f64 \<Rightarrow> session_store \<Rightarrow> unit result \<times> session_store" where
  "apply_trust_decay_all now threshold rate st =
     (case decay_sessions now threshold rate (sessions st) of (r, m) \<Rightarrow> (r, st\<lparr> sessions := m \<rparr>))"

definition list_sessions :: "session_store \<Rightarrow> session_state list" where
  "list_sessions st = map snd (sessions st)"

section \<open>Basic laws\<close>

lemma get_session_update:
  "get_session sid' (update_session sid f st) =
     (if sid' = sid then map_option f (get_session sid st) else get_session sid' st)"
  by (simp add: get_session_def update_session_def map_of_with_entry)

lemma get_session_kill_agent:
  "get_session sid (kill_agent a st) = map_option (mark_killed a True) (get_session sid st)"
  by (simp add: get_session_def kill_agent_def map_of_map_values)

lemma get_session_restore_agent:
  "get_session sid (restore_agent a st) = map_option (mark_killed a False) (get_session sid st)"
  by (simp add: get_session_def restore_agent_def unmark_sessions_def lift_stop_def map_of_map_values)

lemma is_killed_get_session: "is_killed sid st = (case get_session sid st of None \<Rightarrow> False | Some s \<Rightarrow> ss_killed s)"
  by (simp add: is_killed_def get_session_def)

lemma get_session_check_rate_limit [frame_simps]:
  "get_session sid (snd (check_rate_limit now key limit st)) = get_session sid st"
  by (simp add: check_rate_limit_def get_session_def Let_def split: option.split)

lemma killed_agents_frame [frame_simps]:
  "killed_agents (update_session sid f st) = killed_agents st"
  "killed_agents (snd (check_rate_limit now key limit st)) = killed_agents st"
  "killed_agents (snd (get_or_create_session now sid a p st)) = killed_agents st"
  "killed_agents (snd (apply_trust_decay_all now th rate st)) = killed_agents st"
  "killed_agents (snd (kill_session sid st)) = killed_agents st"
  by (simp_all add: update_session_def check_rate_limit_def get_or_create_session_def Let_def
      apply_trust_decay_all_def kill_session_def split: option.split prod.split)

lemma sessions_check_rate_limit [frame_simps]:
  "sessions (snd (check_rate_limit now key limit st)) = sessions st"
  by (simp add: check_rate_limit_def Let_def split: option.split)

lemma fst_get_or_create:
  "fst (get_or_create_session now sid a p st) =
     (case get_session sid st of Some s \<Rightarrow> s | None \<Rightarrow> new_session now sid a p)"
  by (simp add: get_or_create_session_def get_session_def Let_def split: option.split)

lemma get_session_get_or_create:
  "get_session sid' (snd (get_or_create_session now sid a p st)) =
     (if sid' = sid then Some (fst (get_or_create_session now sid a p st)) else get_session sid' st)"
  by (auto simp: get_or_create_session_def get_session_def Let_def update_conv' split: option.split)

section \<open>Histories of the store\<close>

datatype store_op =
    GetOrCreate time string uuid "uuid option"
  | RecordAction time string trajectory_event
  | RecordSpend string f64
  | RecordTokens string u64
  | KillSession string
  | KillAgent uuid
  | LiftStop uuid
  | UnmarkSessions uuid
  | CheckRateLimit time string u64
  | TrustDecay time int f64

fun store_step :: "store_op \<Rightarrow> session_store \<Rightarrow> session_store" where
  "store_step (GetOrCreate now sid a p) st = snd (get_or_create_session now sid a p st)"
| "store_step (RecordAction now sid ev) st = store_record_action now sid ev st"
| "store_step (RecordSpend sid amount) st = store_record_spend sid amount st"
| "store_step (RecordTokens sid n) st = store_record_tokens sid n st"
| "store_step (KillSession sid) st = snd (kill_session sid st)"
| "store_step (KillAgent a) st = kill_agent a st"
| "store_step (LiftStop a) st = lift_stop a st"
| "store_step (UnmarkSessions a) st = unmark_sessions a st"
| "store_step (CheckRateLimit now key limit) st = snd (check_rate_limit now key limit st)"
| "store_step (TrustDecay now th rate) st = snd (apply_trust_decay_all now th rate st)"

definition session_ok :: "string \<Rightarrow> session_state \<Rightarrow> bool" where
  "session_ok k s \<longleftrightarrow> ss_session_id s = k \<and> length (ss_trajectory s) \<le> trajectory_cap \<and>
     Fin 0 \<le> ss_trust_level s"

definition store_ok :: "session_store \<Rightarrow> bool" where
  "store_ok st \<longleftrightarrow> distinct (map fst (sessions st)) \<and> distinct (map fst (rate_limits st)) \<and>
     (\<forall>k s. get_session k st = Some s \<longrightarrow> session_ok k s)"

lemma store_ok_new: "store_ok new_store"
  by (simp add: store_ok_def new_store_def get_session_def)

lemma session_ok_record_action: "session_ok k s \<Longrightarrow> session_ok k (session_record_action now ev s)"
  by (auto simp: session_ok_def session_record_action_def Let_def)

lemma session_ok_record_spend: "session_ok k s \<Longrightarrow> session_ok k (session_record_spend x s)"
  by (simp add: session_ok_def session_record_spend_def)

lemma session_ok_record_tokens: "session_ok k s \<Longrightarrow> session_ok k (session_record_tokens n s)"
  by (simp add: session_ok_def session_record_tokens_def)

lemma session_ok_trust_decay:
  "apply_trust_decay now th rate s = Inr s' \<Longrightarrow> session_ok k s \<Longrightarrow> session_ok k s'"
  by (auto simp: apply_trust_decay_def session_ok_def Let_def f64_max_0_nonneg
      split: if_splits sum.splits)

lemma store_ok_update_session:
  assumes "store_ok st" and "\<And>s. session_ok sid s \<Longrightarrow> session_ok sid (f s)"
  shows "store_ok (update_session sid f st)"
  using assms
  by (auto simp: store_ok_def get_session_update distinct_with_entry split: if_splits)
    (auto simp: update_session_def distinct_with_entry)

lemma store_ok_map_values:
  assumes "store_ok st" and "\<And>k s. session_ok k s \<Longrightarrow> session_ok k (f s)"
  shows "store_ok (st\<lparr> sessions := map_values f (sessions st) \<rparr>)"
  using assms by (auto simp: store_ok_def get_session_def map_of_map_values)

lemma store_ok_killed_agents: "store_ok (st\<lparr> killed_agents := K \<rparr>) = store_ok st"
  by (simp add: store_ok_def get_session_def)

lemma session_ok_mark_killed: "session_ok k s \<Longrightarrow> session_ok k (mark_killed a b s)"
  by (simp add: session_ok_def mark_killed_def)

lemma store_ok_kill_agent: "store_ok st \<Longrightarrow> store_ok (kill_agent a st)"
  using store_ok_map_values [of "st\<lparr> killed_agents := insert a (killed_agents st) \<rparr>" "mark_killed a True"]
  by (simp add: kill_agent_def store_ok_killed_agents session_ok_mark_killed)

lemma decay_sessions_map_of:
  "decay_sessions now th rate m = (r, m') \<Longrightarrow>
     map fst m' = map fst m \<and>
     (\<forall>k s'. map_of m' k = Some s' \<longrightarrow>
        (\<exists>s. map_of m k = Some s \<and> (s' = s \<or> apply_trust_decay now th rate s = Inr s')))"
proof (induction now th rate m arbitrary: m' r rule: decay_sessions.induct)
  case (1 now th rate)
  then show ?case by simp
next
  case (2 now th rate k s m)
  then show ?case
    by (fastforce split: sum.splits prod.splits if_splits)
qed

lemma store_ok_trust_decay: "store_ok st \<Longrightarrow> store_ok (snd (apply_trust_decay_all now th rate st))"
  using decay_sessions_map_of [of now th rate "sessions st"]
  by (auto simp: store_ok_def apply_trust_decay_all_def get_session_def split: prod.splits)
    (metis session_ok_trust_decay)

lemma distinct_get_or_create:
  "distinct (map fst (sessions st)) \<Longrightarrow> distinct (map fst (sessions (snd (get_or_create_session now sid a p st))))"
  by (simp add: get_or_create_session_def Let_def distinct_update split: option.split)

lemma rate_limits_get_or_create [frame_simps]:
  "rate_limits (snd (get_or_create_session now sid a p st)) = rate_limits st"
  by (simp add: get_or_create_session_def Let_def split: option.split)

lemma session_ok_new: "session_ok sid (new_session now sid a p)"
  by (simp add: session_ok_def new_session_def)

lemma store_ok_get_or_create: "store_ok st \<Longrightarrow> store_ok (snd (get_or_create_session now sid a p st))"
  by (auto simp: store_ok_def distinct_get_or_create frame_simps get_session_get_or_create
      fst_get_or_create session_ok_new split: option.splits if_splits)

lemma store_ok_check_rate_limit: "store_ok st \<Longrightarrow> store_ok (snd (check_rate_limit now key limit st))"
  by (auto simp: store_ok_def check_rate_limit_def get_session_def Let_def distinct_update
      split: option.splits)

lemma store_ok_kill_session: "store_ok st \<Longrightarrow> store_ok (snd (kill_session sid st))"
  by (auto simp: kill_session_def session_ok_def intro: store_ok_update_session split: option.split)

lemma store_ok_step: "store_ok st \<Longrightarrow> store_ok (store_step op st)"
  by (cases op)
    (auto simp: store_record_action_def store_record_spend_def store_record_tokens_def
      lift_stop_def unmark_sessions_def store_ok_killed_agents
      intro!: store_ok_get_or_create store_ok_kill_session store_ok_check_rate_limit
      store_ok_trust_decay store_ok_update_session session_ok_record_action store_ok_kill_agent
      session_ok_record_spend session_ok_record_tokens store_ok_map_values session_ok_mark_killed)

interpretation store_run: stepper store_step "\<lambda>_. True" store_ok
  by unfold_locales (rule store_ok_step)

section \<open>The emergency stop\<close>

text \<open>
  The contract of a latch over any state with operations: nothing but the release of the same subject
  undoes it. An emergency stop is a latch with an operation that sets it.
\<close>

locale latch =
  fixes step :: "'o \<Rightarrow> 's \<Rightarrow> 's"
    and stopped :: "'k \<Rightarrow> 's \<Rightarrow> bool"
    and releases :: "'k \<Rightarrow> 'o \<Rightarrow> bool"
  assumes step_keeps: "stopped k s \<Longrightarrow> \<not> releases k x \<Longrightarrow> stopped k (step x s)"
begin

lemma stays_stopped: "stopped k s \<Longrightarrow> \<forall>x \<in> set xs. \<not> releases k x \<Longrightarrow> stopped k (fold step xs s)"
  by (induction xs arbitrary: s) (auto intro: step_keeps)

end

locale emergency_stop = latch step stopped releases
  for step :: "'o \<Rightarrow> 's \<Rightarrow> 's"
    and stopped :: "'k \<Rightarrow> 's \<Rightarrow> bool"
    and releases :: "'k \<Rightarrow> 'o \<Rightarrow> bool" +
  fixes stop :: "'k \<Rightarrow> 's \<Rightarrow> 's"
  assumes stop_stops: "stopped k (stop k s)"
begin

lemma stopped_after_stop: "\<forall>x \<in> set xs. \<not> releases k x \<Longrightarrow> stopped k (fold step xs (stop k s))"
  by (rule stays_stopped [OF stop_stops])

end

interpretation agent_stop: emergency_stop store_step is_agent_killed "\<lambda>a op. op = LiftStop a" kill_agent
proof unfold_locales
  show "is_agent_killed k (kill_agent k s)" for k s
    by (simp add: is_agent_killed_def kill_agent_def)
  show "is_agent_killed k (store_step x s)" if "is_agent_killed k s" and "x \<noteq> LiftStop k" for k s x
    using that by (cases x) (auto simp: is_agent_killed_def kill_agent_def lift_stop_def unmark_sessions_def frame_simps
        store_record_action_def store_record_spend_def store_record_tokens_def)
qed

text \<open>
  After the emergency stop of an agent, no interleaving of session-store steps other than the
  first step of a \<open>restore_agent\<close> of the same agent (new session ids, kills of sessions, rate-limit
  checks, trust decay, stops and restores of other agents) lifts the stop; in particular the second
  step of a restoration that began before the stop does not.
\<close>

lemma kill_agent_persists:
  "\<forall>op \<in> set ops. op \<noteq> LiftStop a \<Longrightarrow> is_agent_killed a (fold store_step ops (kill_agent a st))"
  by (rule agent_stop.stopped_after_stop)

lemma kill_agent_persists_witness:
  "is_agent_killed 7 (fold store_step [GetOrCreate 5 ''fresh'' 7 None, LiftStop 8, UnmarkSessions 7] (kill_agent 7 new_store))"
  by (rule kill_agent_persists) simp

lemma kill_agent_marks_sessions:
  "get_session sid (kill_agent a st) =
     (case get_session sid st of
        None \<Rightarrow> None
      | Some s \<Rightarrow> Some (if ss_agent_id s = a then s\<lparr> ss_killed := True \<rparr> else s))
   \<and> killed_agents (kill_agent a st) = insert a (killed_agents st)
   \<and> rate_limits (kill_agent a st) = rate_limits st"
  by (cases "get_session sid st")
    (simp_all add: get_session_kill_agent mark_killed_def, simp_all add: kill_agent_def)

text \<open>
  In every state the store can reach, session ids are the keys of their sessions and are unique,
  rate-limit keys are unique, no trajectory is longer than 1000 events, and no trust level is below 0.
\<close>

lemma store_ok_reachable: "store_ok (fold store_step ops new_store)"
  by (rule store_run.fold_inv [OF _ store_ok_new]) simp


section \<open>Rate limiting\<close>

fun rate_calls :: "string \<Rightarrow> u64 \<Rightarrow> time list \<Rightarrow> session_store \<Rightarrow> bool list \<times> session_store" where
  "rate_calls key limit [] st = ([], st)"
| "rate_calls key limit (t # ts) st =
     (case check_rate_limit t key limit st of (r, st1) \<Rightarrow>
        (case rate_calls key limit ts st1 of (oks, st2) \<Rightarrow> ((\<not> isl r) # oks, st2)))"

lemma rate_calls_in_window:
  assumes "map_of (rate_limits st) key = Some rl"
    and "\<forall>t \<in> set ts. t - rl_window_start rl \<le> one_minute"
    and "unat (rl_count rl) + length ts < 2 ^ 64"
  shows "fst (rate_calls key limit ts st) =
    map (\<lambda>k. unat (rl_count rl) + k + 1 \<le> unat limit) [0..<length ts]"
  using assms
proof (induction ts arbitrary: st rl)
  case Nil
  then show ?case by simp
next
  case (Cons t ts)
  define rl' where "rl' = rl\<lparr> rl_count := rl_count rl + 1 \<rparr>"
  define st' where "st' = st\<lparr> rate_limits := AList.update key rl' (rate_limits st) \<rparr>"
  have cnt: "unat (rl_count rl') = unat (rl_count rl) + 1"
    using Cons.prems(3) by (simp add: rl'_def unat_word_ariths)
  have chk: "check_rate_limit t key limit st =
      (if limit < rl_count rl'
       then (Inl (Err (PolicyDenied (rate_limit_text key (rl_count rl') limit))), st')
       else (Inr (), st'))"
    using Cons.prems(1,2) by (simp add: check_rate_limit_def Let_def rl'_def st'_def)
  have st': "map_of (rate_limits st') key = Some rl'"
    by (simp add: st'_def update_conv')
  have IH: "fst (rate_calls key limit ts st') =
      map (\<lambda>k. unat (rl_count rl') + k + 1 \<le> unat limit) [0..<length ts]"
    by (rule Cons.IH [OF st']) (use Cons.prems cnt in \<open>auto simp: rl'_def\<close>)
  have hd: "limit < rl_count rl' \<longleftrightarrow> \<not> unat (rl_count rl) + 1 \<le> unat limit"
    by (simp add: word_less_nat_alt cnt not_le)
  show ?case
    using IH by (cases "rate_calls key limit ts st'")
      (simp add: chk hd cnt upt_conv_Cons map_Suc_upt [symmetric] del: upt_Suc)
qed

lemma rate_calls_count:
  assumes "map_of (rate_limits st) key = None"
    and "\<forall>t \<in> set ts. t - t0 \<le> one_minute"
    and "length ts < 2 ^ 64 - 1"
  shows "length (filter id (fst (rate_calls key limit (t0 # ts) st))) =
    min (length (t0 # ts)) (max 1 (unat limit))"
proof -
  define rl :: rate_limit_state where "rl = \<lparr> rl_window_start = t0, rl_count = 1 \<rparr>"
  define st1 where "st1 = st\<lparr> rate_limits := AList.update key rl (rate_limits st) \<rparr>"
  have chk: "check_rate_limit t0 key limit st = (Inr (), st1)"
    using assms(1) by (simp add: check_rate_limit_def st1_def rl_def)
  have "fst (rate_calls key limit ts st1) =
      map (\<lambda>k. unat (rl_count rl) + k + 1 \<le> unat limit) [0..<length ts]"
    by (rule rate_calls_in_window [where rl = rl])
      (use assms in \<open>auto simp: st1_def rl_def update_conv'\<close>)
  then have oks: "fst (rate_calls key limit (t0 # ts) st) =
      True # map (\<lambda>k. k + 2 \<le> unat limit) [0..<length ts]"
    by (cases "rate_calls key limit ts st1") (simp add: chk rl_def)
  have "length (filter (\<lambda>k. k + 2 \<le> n) [0..<m]) = min m (n - 1)" for m n :: nat
    by (induction m) auto
  then show ?thesis
    unfolding oks by (auto simp: filter_map o_def max_def min_def)
qed

text \<open>
  Of the calls under a fresh key that fall within one minute of the first, exactly
  \<open>min n (max 1 limit)\<close> are accepted; the first is always accepted, even with a limit of 0.
\<close>

lemma rate_limit_exact:
  assumes "map_of (rate_limits st) key = None"
    and "\<forall>t \<in> set ts. t - t0 \<le> one_minute"
    and "length ts < 2 ^ 64 - 1"
  shows "length (filter id (fst (rate_calls key limit (t0 # ts) st))) =
    min (length (t0 # ts)) (max 1 (unat limit))"
  using assms by (rule rate_calls_count)

lemma rate_limit_exact_witness:
  "length (filter id (fst (rate_calls ''s1:read:db'' 2 [0, 5, 10, 60 * second_ns] new_store))) = 2"
proof -
  have "length (filter id (fst (rate_calls ''s1:read:db'' 2 (0 # [5, 10, 60 * second_ns]) new_store))) =
      min (length (0 # [5, 10, 60 * second_ns])) (max 1 (unat (2 :: u64)))"
    by (rule rate_limit_exact) (simp_all add: new_store_def one_minute_def second_ns_def)
  then show ?thesis by simp
qed

text \<open>
  The window is fixed, not sliding: with a limit of 3 calls per minute, five calls within three
  nanoseconds of the end of a window are all accepted, and six within 60 s and 3 ns.
\<close>

lemma rate_limit_burst:
  "fst (rate_calls key 3 [0, one_minute, one_minute, one_minute + 1, one_minute + 2, one_minute + 3] new_store)
   = [True, True, True, True, True, True]"
  by (simp add: check_rate_limit_def new_store_def one_minute_def second_ns_def Let_def)

section \<open>Trajectories and trust\<close>

lemma record_action_trajectory:
  "ss_trajectory (session_record_action now ev s) = keep_last trajectory_cap (ss_trajectory s @ [ev])"
  by (simp add: session_record_action_def Let_def keep_last_def)

lemma fold_record_action:
  "ss_trajectory (fold (\<lambda>(now, ev). session_record_action now ev) evs s) =
     (if evs = [] then ss_trajectory s else keep_last trajectory_cap (ss_trajectory s @ map snd evs))
   \<and> ss_actions_count (fold (\<lambda>(now, ev). session_record_action now ev) evs s) =
     ss_actions_count s + of_nat (length evs)"
proof (induction evs arbitrary: s)
  case Nil
  then show ?case by simp
next
  case (Cons e evs)
  obtain now ev where e: "e = (now, ev)" by (cases e)
  have cnt: "ss_actions_count (session_record_action now ev s) = ss_actions_count s + 1"
    by (simp add: session_record_action_def Let_def)
  show ?case
    using Cons.IH [of "session_record_action now ev s"]
      keep_last_append [of trajectory_cap "ss_trajectory s @ [ev]" "map snd evs"]
    by (simp add: e record_action_trajectory cnt)
qed

text \<open>
  Recording any list of actions keeps exactly the latest 1000 events of the session in order,
  and adds their number to the 64-bit action counter.
\<close>

lemma trajectory_keeps_latest:
  assumes "length (ss_trajectory s) \<le> trajectory_cap"
  shows "let s' = fold (\<lambda>(now, ev). session_record_action now ev) evs s in
    ss_trajectory s' = keep_last trajectory_cap (ss_trajectory s @ map snd evs)
    \<and> ss_actions_count s' = ss_actions_count s + of_nat (length evs)"
  using fold_record_action [of evs s] assms
  by (auto simp: Let_def keep_last_short)

lemma trajectory_keeps_latest_witness:
  "let ev = \<lparr> te_action = ''read'', te_resource = ''db'', te_decision = Allow, te_timestamp = 5 \<rparr>;
       s' = fold (\<lambda>(now, ev). session_record_action now ev) [(5, ev), (6, ev)] (new_session 0 ''s1'' 1 None)
   in ss_trajectory s' = [ev, ev] \<and> ss_actions_count s' = 2"
  using trajectory_keeps_latest [of "new_session 0 ''s1'' 1 None"
      "[(5, \<lparr> te_action = ''read'', te_resource = ''db'', te_decision = Allow, te_timestamp = 5 \<rparr>),
        (6, \<lparr> te_action = ''read'', te_resource = ''db'', te_decision = Allow, te_timestamp = 5 \<rparr>)]"]
  by (simp add: new_session_def trajectory_cap_def keep_last_def)

lemma sint_of_int_exact: "- (2 ^ 63) \<le> n \<Longrightarrow> n < 2 ^ 63 \<Longrightarrow> sint (word_of_int n :: 64 word) = n"
  by (simp add: sint_sbintrunc' signed_take_bit_int_eq_self)

lemma i64_sub_exact: "- (2 ^ 63) \<le> a - b \<Longrightarrow> a - b < 2 ^ 63 \<Longrightarrow> i64_sub a b = a - b"
  unfolding i64_sub_def by (rule sint_of_int_exact)

lemma sdiv_nonneg: "0 \<le> a \<Longrightarrow> 0 < b \<Longrightarrow> 0 \<le> a sdiv (b :: int)"
  by (simp add: signed_divide_int_def sgn_if div_int_pos_iff)

text \<open>
  Trust decay with a non-negative rate and a positive threshold keeps the trust level between
  0 and 1, whatever the rounding of the floating-point operations.
\<close>

lemma trust_in_unit_interval:
  assumes "apply_trust_decay now th rate s = Inr s'"
    and "Fin 0 \<le> rate" and "0 < th"
    and "minutes_since_last_activity now s < 2 ^ 63"
    and "Fin 0 \<le> ss_trust_level s" and "ss_trust_level s \<le> Fin 1"
  shows "Fin 0 \<le> ss_trust_level s' \<and> ss_trust_level s' \<le> Fin 1"
proof (cases "th < minutes_since_last_activity now s")
  case False
  with assms show ?thesis by (simp add: apply_trust_decay_def Let_def)
next
  case True
  define p where "p = (minutes_since_last_activity now s - th) sdiv th"
  have "i64_sub (minutes_since_last_activity now s) th = minutes_since_last_activity now s - th"
    using True assms(3,4) by (intro i64_sub_exact) auto
  with True assms(1,3) have s': "ss_trust_level s' = f64_max (Fin 1 - f64_of_int p * rate) (Fin 0)"
    by (auto simp: apply_trust_decay_def Let_def i64_div_def p_def split: if_splits)
  have "0 \<le> p" using True assms(3) by (simp add: p_def sdiv_nonneg)
  then have "f64_of_int p * rate = NaN \<or> Fin 0 \<le> f64_of_int p * rate"
    using assms(2) by (intro times_nonneg f64_of_int_nonneg)
  then have "Fin 1 - f64_of_int p * rate = NaN \<or> Fin 1 - f64_of_int p * rate \<le> Fin 1"
    using one_minus_le_1 by (auto simp: minus_f64_def)
  then show ?thesis by (simp add: s' f64_max_0_nonneg f64_max_0_le_1)
qed

lemma trust_in_unit_interval_witness:
  "\<exists>s'. apply_trust_decay (1800 * second_ns) 15 (Fin (1 / 4)) (new_session 0 ''s1'' 1 None) = Inr s' \<and>
     Fin 0 \<le> ss_trust_level s' \<and> ss_trust_level s' \<le> Fin 1"
proof -
  let ?s = "new_session 0 ''s1'' 1 None"
  have idle: "minutes_since_last_activity (1800 * second_ns) ?s = 30"
    by (simp add: minutes_since_last_activity_def new_session_def num_minutes_def num_seconds_def
        second_ns_def signed_divide_int_def)
  obtain s' where s': "apply_trust_decay (1800 * second_ns) 15 (Fin (1 / 4)) ?s = Inr s'"
    by (simp add: apply_trust_decay_def idle i64_div_def Let_def)
  from trust_in_unit_interval [OF s'] s' idle show ?thesis
    by (simp add: new_session_def)
qed

end
