(* ===== verification/Policy.thy ===== *)
theory Policy
  imports Sessions
begin

text \<open>
  The policy engine (\<open>src/policy/mod.rs\<close>, \<open>src/policy/yaml_engine.rs\<close>): pattern matching, rule
  matching, the temporal conditions that read the session, the rate limit that writes it, and
  first-match evaluation with default deny. The engine shares the session store with the rest of
  the server, so evaluation takes the store and returns it.
\<close>

section \<open>Patterns\<close>

definition match_pattern :: "string \<Rightarrow> string \<Rightarrow> bool" where
  "match_pattern pattern value =
     (if pattern = ''*'' \<or> pattern = value then True
      else if ends_with pattern ''/*'' then starts_with value (but_last pattern)
      else if ends_with pattern '':*'' then starts_with value (but_last pattern)
      else if ends_with pattern ''-*'' then starts_with value (but_last pattern)
      else (case strip_suffix pattern ''*'' of
              Some prefix \<Rightarrow> starts_with value prefix
            | None \<Rightarrow> False))"

section \<open>Rules\<close>

record yaml_engine =
  ye_rules :: "rule list"
  ye_session_store :: bool

definition new_engine :: yaml_engine where
  "new_engine = \<lparr> ye_rules = [], ye_session_store = False \<rparr>"

definition with_session_store :: "yaml_engine \<Rightarrow> yaml_engine" where
  "with_session_store eng = eng\<lparr> ye_session_store := True \<rparr>"

definition load_from_str :: "ext \<Rightarrow> string \<Rightarrow> yaml_engine \<Rightarrow> yaml_engine result" where
  "load_from_str X yaml eng =
     (case x_yaml_rules X yaml of
        Inl e \<Rightarrow> Inl (Err (ConfigError (''YAML policy parse error: '' @ e)))
      | Inr rules \<Rightarrow> Inr (eng\<lparr> ye_rules := rules \<rparr>))"

definition from_yaml :: "ext \<Rightarrow> string \<Rightarrow> yaml_engine result" where
  "from_yaml X yaml = load_from_str X yaml new_engine"

definition rule_matches :: "rule \<Rightarrow> policy_context \<Rightarrow> bool" where
  "rule_matches r ctx \<longleftrightarrow>
     (rule_agent_types r = [] \<or> agent_type_str (ag_principal_type (cx_agent ctx)) \<in> set (rule_agent_types r)) \<and>
     (rule_actions r = [] \<or> cx_action ctx \<in> set (rule_actions r)) \<and>
     (rule_resources r = [] \<or> (\<exists>pat \<in> set (rule_resources r). match_pattern pat (cx_resource ctx))) \<and>
     (rule_scopes r = [] \<or>
        (\<exists>req \<in> set (cx_requested_scopes ctx). \<exists>allowed \<in> set (rule_scopes r). match_pattern allowed req))"

definition quote :: string where
  "quote = [CHR 0x27]"

definition em_dash :: string where
  "em_dash = [CHR 0xE2, CHR 0x80, CHR 0x94]"

definition exceeds_actions :: "rule \<Rightarrow> session_state \<Rightarrow> string option" where
  "exceeds_actions r s =
     (case rule_max_actions_in_session r of
        Some m \<Rightarrow> if m \<le> ss_actions_count s
          then Some (''Max actions in session exceeded ('' @ show_u64 (ss_actions_count s) @ '' >= '' @ show_u64 m @ '')'')
          else None
      | None \<Rightarrow> None)"

definition exceeds_spend :: "ext \<Rightarrow> rule \<Rightarrow> session_state \<Rightarrow> string option" where
  "exceeds_spend X r s =
     (case rule_max_spend r of
        Some m \<Rightarrow> if m \<le> cumulative_spend s
          then Some (''Session spend cap exceeded ($ '' @ x_fmt_f64 X (cumulative_spend s) @ '' >= $ ''
                 @ x_fmt_f64 X m @ '')'')
          else None
      | None \<Rightarrow> None)"

definition lacks_trust :: "ext \<Rightarrow> rule \<Rightarrow> session_state \<Rightarrow> string option" where
  "lacks_trust X r s =
     (case rule_min_trust_level r of
        Some m \<Rightarrow> if \<not> is_allowed_by_trust m s
          then Some (''Trust level too low ('' @ x_fmt_f64 X (ss_trust_level s) @ '' < '' @ x_fmt_f64 X m
                 @ '') '' @ em_dash @ '' session may have been idle'')
          else None
      | None \<Rightarrow> None)"

definition lacks_prior_action :: "rule \<Rightarrow> session_state \<Rightarrow> string option" where
  "lacks_prior_action r s =
     (case rule_require_prior_action r of
        Some a \<Rightarrow> if \<not> (\<exists>e \<in> set (ss_trajectory s). te_action e = a)
          then Some (''Required prior action '' @ quote @ a @ quote @ '' not found in session trajectory'')
          else None
      | None \<Rightarrow> None)"

definition session_of :: "yaml_engine \<Rightarrow> policy_context \<Rightarrow> session_store \<Rightarrow> session_state option" where
  "session_of eng ctx st =
     (if ye_session_store eng then
        (case cx_session_id ctx of Some sid \<Rightarrow> get_session sid st | None \<Rightarrow> None)
      else None)"

definition check_temporal_conditions ::
    "ext \<Rightarrow> yaml_engine \<Rightarrow> rule \<Rightarrow> policy_context \<Rightarrow> session_store \<Rightarrow> string option" where
  "check_temporal_conditions X eng r ctx st =
     (case session_of eng ctx st of
        None \<Rightarrow> None
      | Some s \<Rightarrow>
          if ss_killed s then Some ''Session has been killed by emergency stop''
          else (case exceeds_actions r s of Some m \<Rightarrow> Some m | None \<Rightarrow>
               (case exceeds_spend X r s of Some m \<Rightarrow> Some m | None \<Rightarrow>
               (case lacks_trust X r s of Some m \<Rightarrow> Some m | None \<Rightarrow>
                lacks_prior_action r s))))"

definition rate_key :: "string \<Rightarrow> policy_context \<Rightarrow> string" where
  "rate_key sid ctx = sid @ '':'' @ cx_action ctx @ '':'' @ cx_resource ctx"

definition fail_text :: "fail \<Rightarrow> string" where
  "fail_text f = (case f of Err e \<Rightarrow> error_text e | Panic s \<Rightarrow> s)"

definition rule_rate_limit ::
    "time \<Rightarrow> yaml_engine \<Rightarrow> rule \<Rightarrow> policy_context \<Rightarrow> session_store \<Rightarrow> string option \<times> session_store" where
  "rule_rate_limit now eng r ctx st =
     (case (rule_rate_limit_per_minute r, ye_session_store eng, cx_session_id ctx) of
        (Some limit, True, Some sid) \<Rightarrow>
          (case check_rate_limit now (rate_key sid ctx) limit st of
             (Inl e, st') \<Rightarrow> (Some (fail_text e), st')
           | (Inr _, st') \<Rightarrow> (None, st'))
      | _ \<Rightarrow> (None, st))"

section \<open>Evaluation\<close>

definition deny_with :: "string \<Rightarrow> policy_evaluation" where
  "deny_with reason =
     \<lparr> ev_decision = Deny, ev_approved_scopes = [], ev_reason = reason, ev_constraints = [] \<rparr>"

definition rule_decision_of :: "rule \<Rightarrow> decision" where
  "rule_decision_of r =
     (if rule_decision r = ''allow'' then Allow
      else if rule_decision r = ''deny'' then Deny
      else if rule_decision r = ''require_approval'' then RequireApproval None (rule_reason r)
      else Deny)"

definition approved_scopes :: "rule \<Rightarrow> policy_context \<Rightarrow> string list" where
  "approved_scopes r ctx =
     (if rule_scopes r = [] then cx_requested_scopes ctx
      else filter (\<lambda>req. \<exists>allowed \<in> set (rule_scopes r). match_pattern allowed req) (cx_requested_scopes ctx))"

definition apply_rule :: "rule \<Rightarrow> policy_context \<Rightarrow> policy_evaluation" where
  "apply_rule r ctx =
     \<lparr> ev_decision = rule_decision_of r, ev_approved_scopes = approved_scopes r ctx,
       ev_reason = rule_reason r, ev_constraints = rule_constraints r \<rparr>"

fun eval_rules ::
    "ext \<Rightarrow> time \<Rightarrow> yaml_engine \<Rightarrow> rule list \<Rightarrow> policy_context \<Rightarrow> session_store \<Rightarrow>
     policy_evaluation \<times> session_store" where
  "eval_rules X now eng [] ctx st = (deny_with ''No matching policy found (default deny)'', st)"
| "eval_rules X now eng (r # rs) ctx st =
     (if rule_matches r ctx then
        (case check_temporal_conditions X eng r ctx st of
           Some reason \<Rightarrow> (deny_with reason, st)
         | None \<Rightarrow>
             (case rule_rate_limit now eng r ctx st of
                (Some reason, st') \<Rightarrow> (deny_with reason, st')
              | (None, st') \<Rightarrow> (apply_rule r ctx, st')))
      else eval_rules X now eng rs ctx st)"

definition evaluate ::
    "ext \<Rightarrow> yaml_engine \<Rightarrow> time \<Rightarrow> policy_context \<Rightarrow> session_store \<Rightarrow> policy_evaluation \<times> session_store" where
  "evaluate X eng now ctx st = eval_rules X now eng (ye_rules eng) ctx st"

definition create_engine :: "ext \<Rightarrow> string \<Rightarrow> string option \<Rightarrow> yaml_engine result" where
  "create_engine X engine_type policy_yaml =
     (if engine_type = ''yaml'' then
        (case policy_yaml of Some yaml \<Rightarrow> from_yaml X yaml | None \<Rightarrow> Inr new_engine)
      else Inl (Err (NotImplemented (''policy engine '' @ quote @ engine_type @ quote @ '' not yet implemented''))))"

definition create_engine_with_sessions :: "ext \<Rightarrow> string \<Rightarrow> string option \<Rightarrow> yaml_engine result" where
  "create_engine_with_sessions X engine_type policy_yaml =
     (if engine_type = ''yaml'' then
        (case (case policy_yaml of Some yaml \<Rightarrow> from_yaml X yaml | None \<Rightarrow> Inr new_engine) of
           Inl e \<Rightarrow> Inl e
         | Inr eng \<Rightarrow> Inr (with_session_store eng))
      else Inl (Err (NotImplemented (''policy engine '' @ quote @ engine_type @ quote @ '' not yet implemented''))))"

section \<open>What a pattern matches\<close>

lemma ends_with_star: "ends_with p [c, CHR ''*''] \<Longrightarrow> \<exists>q. p = q @ ''*'' \<and> but_last p = q"
  by (auto simp: ends_with_iff but_last_def)

text \<open>
  A pattern matches exactly the text it spells, or, when it ends in an asterisk, every text that
  extends what stands before the asterisk. The separators of the three special cases of the code
  (\<open>/\<close>, \<open>:\<close>, \<open>-\<close>) do not change the result.
\<close>

lemma match_pattern_spec:
  "match_pattern p v \<longleftrightarrow> v = p \<or> (\<exists>q r. p = q @ ''*'' \<and> v = q @ r)"
proof (cases "ends_with p ''*''")
  case True
  then obtain q where q: "p = q @ ''*''" by (auto simp: ends_with_iff)
  then have "strip_suffix p ''*'' = Some q" by (simp add: strip_suffix_Some)
  moreover have "but_last p = q" by (simp add: q)
  moreover have "p = ''*'' \<longleftrightarrow> q = []" by (simp add: q)
  ultimately show ?thesis
    by (auto simp: match_pattern_def starts_with_iff q)
next
  case False
  then have "p \<noteq> ''*''" "strip_suffix p ''*'' = None" "\<And>q. p \<noteq> q @ ''*''"
    by (auto simp: ends_with_iff strip_suffix_None)
  moreover have "\<not> ends_with p [c, CHR ''*'']" for c
    using False ends_with_star [of p c] by (auto simp: ends_with_iff)
  ultimately show ?thesis by (auto simp: match_pattern_def)
qed

section \<open>First match and default deny\<close>

lemma eval_rules_find:
  "eval_rules X now eng rs ctx st =
     (case find (\<lambda>r. rule_matches r ctx) rs of
        None \<Rightarrow> (deny_with ''No matching policy found (default deny)'', st)
      | Some r \<Rightarrow>
          (case check_temporal_conditions X eng r ctx st of
             Some reason \<Rightarrow> (deny_with reason, st)
           | None \<Rightarrow>
               (case rule_rate_limit now eng r ctx st of
                  (Some reason, st') \<Rightarrow> (deny_with reason, st')
                | (None, st') \<Rightarrow> (apply_rule r ctx, st'))))"
  by (induction rs) auto

lemmas evaluate_find = evaluate_def eval_rules_find

lemma deny_with_simps [simp]:
  "ev_decision (deny_with reason) = Deny" "ev_approved_scopes (deny_with reason) = []"
  "ev_reason (deny_with reason) = reason" "ev_constraints (deny_with reason) = []"
  by (simp_all add: deny_with_def)

lemma apply_rule_simps [simp]:
  "ev_decision (apply_rule r ctx) = rule_decision_of r"
  "ev_approved_scopes (apply_rule r ctx) = approved_scopes r ctx"
  "ev_reason (apply_rule r ctx) = rule_reason r"
  "ev_constraints (apply_rule r ctx) = rule_constraints r"
  by (simp_all add: apply_rule_def)

lemma rule_decision_of_allow [simp]: "rule_decision_of r = Allow \<longleftrightarrow> rule_decision r = ''allow''"
  by (auto simp: rule_decision_of_def)

lemma rule_decision_of_approval [simp]:
  "rule_decision_of r = RequireApproval a reason \<longleftrightarrow>
     rule_decision r = ''require_approval'' \<and> a = None \<and> reason = rule_reason r"
  by (auto simp: rule_decision_of_def)

lemma approved_scopes_subset: "set (approved_scopes r ctx) \<subseteq> set (cx_requested_scopes ctx)"
  by (auto simp: approved_scopes_def)

text \<open>An evaluation that is not a denial comes from the first matching rule, whose limits hold.\<close>

lemma evaluate_not_denyE:
  assumes "ev_decision (fst (evaluate X eng now ctx st)) \<noteq> Deny"
  obtains r where "find (\<lambda>r. rule_matches r ctx) (ye_rules eng) = Some r"
    and "check_temporal_conditions X eng r ctx st = None"
    and "fst (rule_rate_limit now eng r ctx st) = None"
    and "fst (evaluate X eng now ctx st) = apply_rule r ctx"
  using assms by (auto simp: evaluate_find split: option.splits prod.splits)

text \<open>
  C21: a request is allowed exactly when some rule matches it, and the first matching rule has the
  decision text \<open>allow\<close>, no temporal condition of it fails on the session, and its rate limit admits
  the call. Rules after the first matching one, and unknown decision texts, never allow anything.
\<close>

theorem evaluate_allow_iff:
  "ev_decision (fst (evaluate X eng now ctx st)) = Allow \<longleftrightarrow>
     (\<exists>r. find (\<lambda>r. rule_matches r ctx) (ye_rules eng) = Some r
        \<and> rule_decision r = ''allow''
        \<and> check_temporal_conditions X eng r ctx st = None
        \<and> fst (rule_rate_limit now eng r ctx st) = None)"
  by (auto simp: evaluate_find split: option.splits prod.splits)


lemma evaluate_approved_subset:
  "set (ev_approved_scopes (fst (evaluate X eng now ctx st))) \<subseteq> set (cx_requested_scopes ctx)"
  using approved_scopes_subset
  by (auto simp: evaluate_find split: option.splits prod.splits)

lemma temporal_None_limits:
  assumes "check_temporal_conditions X eng r ctx st = None" and "session_of eng ctx st = Some s"
  shows "\<not> ss_killed s"
    and "rule_max_actions_in_session r = Some m \<Longrightarrow> ss_actions_count s < m"
    and "rule_max_spend r = Some cap \<Longrightarrow> \<not> cap \<le> ss_spend_total s"
    and "rule_min_trust_level r = Some lvl \<Longrightarrow> lvl \<le> ss_trust_level s"
    and "rule_require_prior_action r = Some a \<Longrightarrow> a \<in> te_action ` set (ss_trajectory s)"
  using assms
  by (auto simp: check_temporal_conditions_def exceeds_actions_def exceeds_spend_def lacks_trust_def
      lacks_prior_action_def is_allowed_by_trust_def cumulative_spend_def
      split: if_splits option.splits)

text \<open>
  With the session store attached, a request that names a known session is not denied only if
  the session is alive and every limit of the first matching rule holds: fewer actions than its
  maximum, spend below its cap, trust at or above its minimum, and the prior action it requires in
  the trajectory.
\<close>

lemma evaluate_respects_limits:
  assumes "ye_session_store eng" and "cx_session_id ctx = Some sid" and "get_session sid st = Some s"
    and "ev_decision (fst (evaluate X eng now ctx st)) \<noteq> Deny"
  shows "\<not> ss_killed s \<and> (\<exists>r. find (\<lambda>r. rule_matches r ctx) (ye_rules eng) = Some r
    \<and> pred_option (\<lambda>m. ss_actions_count s < m) (rule_max_actions_in_session r)
    \<and> pred_option (\<lambda>cap. \<not> cap \<le> ss_spend_total s) (rule_max_spend r)
    \<and> pred_option (\<lambda>lvl. lvl \<le> ss_trust_level s) (rule_min_trust_level r)
    \<and> pred_option (\<lambda>a. a \<in> te_action ` set (ss_trajectory s)) (rule_require_prior_action r))"
proof -
  from assms(4) obtain r where r: "find (\<lambda>r. rule_matches r ctx) (ye_rules eng) = Some r"
    and t: "check_temporal_conditions X eng r ctx st = None"
    by (rule evaluate_not_denyE)
  from assms(1-3) have "session_of eng ctx st = Some s" by (simp add: session_of_def)
  from temporal_None_limits [OF t this] r show ?thesis
    by (auto simp: option.pred_set)
qed

text \<open>An engine, an agent and a session for the closed examples.\<close>

definition demo_rule :: rule where
  "demo_rule = \<lparr> rule_name = ''read'', rule_agent_types = [''service''], rule_actions = [''read''],
     rule_resources = [''db/*''], rule_scopes = [''db:*''], rule_decision = ''allow'', rule_reason = ''ok'',
     rule_require_approval_from = None, rule_constraints = [], rule_rate_limit_per_minute = Some 5,
     rule_max_spend = Some (Fin 10), rule_min_trust_level = Some (Fin (1 / 2)),
     rule_require_prior_action = None, rule_max_actions_in_session = Some 100 \<rparr>"

definition demo_engine :: yaml_engine where
  "demo_engine = \<lparr> ye_rules = [demo_rule], ye_session_store = True \<rparr>"

definition demo_agent :: agent where
  "demo_agent = \<lparr> ag_id = 7, ag_name = ''bot'', ag_principal_type = Service, ag_public_key = None,
     ag_did = None, ag_owner_id = None, ag_status = Active, ag_client_key_hash = None,
     ag_created_at = 0, ag_updated_at = 0 \<rparr>"

definition demo_context :: policy_context where
  "demo_context = \<lparr> cx_agent = demo_agent, cx_principal = None, cx_action = ''read'',
     cx_resource = ''db/users'', cx_requested_scopes = [''db:read'', ''admin''],
     cx_session_id = Some ''s1'', cx_trajectory = [] \<rparr>"

definition demo_store :: session_store where
  "demo_store = snd (get_or_create_session 0 ''s1'' 7 None new_store)"

lemmas demo_policy = demo_rule_def demo_engine_def demo_agent_def demo_context_def demo_store_def
  new_store_def new_session_def get_or_create_session_def Let_def

lemma demo_get_session: "get_session ''s1'' demo_store = Some (new_session 0 ''s1'' 7 None)"
  by (simp add: demo_policy get_session_def)

lemma demo_matches: "rule_matches demo_rule demo_context"
  by (simp add: rule_matches_def demo_policy match_pattern_def ends_with_def starts_with_def but_last_def)

lemma demo_evaluate:
  "fst (evaluate X demo_engine 0 demo_context demo_store) = apply_rule demo_rule demo_context"
proof -
  have "check_temporal_conditions X demo_engine demo_rule demo_context demo_store = None"
    using demo_get_session
    by (simp add: check_temporal_conditions_def session_of_def demo_rule_def demo_context_def
        demo_engine_def new_session_def exceeds_actions_def exceeds_spend_def lacks_trust_def
        lacks_prior_action_def is_allowed_by_trust_def cumulative_spend_def)
  moreover have "fst (rule_rate_limit 0 demo_engine demo_rule demo_context demo_store) = None"
    by (simp add: rule_rate_limit_def demo_policy check_rate_limit_def)
  ultimately show ?thesis
    using demo_matches by (auto simp: evaluate_find demo_engine_def split: prod.splits)
qed

lemma demo_decision: "rule_decision_of demo_rule = Allow"
  by (simp add: demo_rule_def)

lemma demo_approved: "approved_scopes demo_rule demo_context = [''db:read'']"
  by (simp add: approved_scopes_def demo_policy match_pattern_def ends_with_def starts_with_def
      but_last_def strip_suffix_def)


lemma evaluate_respects_limits_witness:
  "let s = new_session 0 ''s1'' 7 None in
   \<not> ss_killed s \<and> (\<exists>r. find (\<lambda>r. rule_matches r demo_context) (ye_rules demo_engine) = Some r
    \<and> pred_option (\<lambda>m. ss_actions_count s < m) (rule_max_actions_in_session r)
    \<and> pred_option (\<lambda>cap. \<not> cap \<le> ss_spend_total s) (rule_max_spend r)
    \<and> pred_option (\<lambda>lvl. lvl \<le> ss_trust_level s) (rule_min_trust_level r)
    \<and> pred_option (\<lambda>a. a \<in> te_action ` set (ss_trajectory s)) (rule_require_prior_action r))"
  unfolding Let_def
  by (rule evaluate_respects_limits [OF _ _ demo_get_session, where X = demo_ext and now = 0])
    (simp_all add: demo_evaluate demo_decision, simp_all add: demo_engine_def demo_context_def)

section \<open>What evaluation changes\<close>

lemma rule_rate_limit_frame [frame_simps]:
  "sessions (snd (rule_rate_limit now eng r ctx st)) = sessions st"
  "killed_agents (snd (rule_rate_limit now eng r ctx st)) = killed_agents st"
  by (auto simp: rule_rate_limit_def frame_simps split: option.split bool.split prod.split sum.split)
    (metis frame_simps snd_conv)+

lemma evaluate_frame [frame_simps]:
  "sessions (snd (evaluate X eng now ctx st)) = sessions st"
  "killed_agents (snd (evaluate X eng now ctx st)) = killed_agents st"
  by (auto simp: evaluate_find split: option.split prod.split) (metis rule_rate_limit_frame snd_conv)+

lemma get_session_evaluate [frame_simps]:
  "get_session sid (snd (evaluate X eng now ctx st)) = get_session sid st"
  by (simp add: get_session_def frame_simps)

section \<open>The interface of a policy engine\<close>

text \<open>
  The trait \<open>PolicyEngine\<close>: one function from a context to an evaluation, which may update a state of
  its own. Its callers rely on two things: what it approves was requested, and the part of the state
  that they own (\<open>view\<close>) is as before.
\<close>

locale policy_engine =
  fixes eval :: "time \<Rightarrow> policy_context \<Rightarrow> 's \<Rightarrow> policy_evaluation \<times> 's"
    and view :: "'s \<Rightarrow> 'v"
  assumes scopes_requested: "set (ev_approved_scopes (fst (eval t c s))) \<subseteq> set (cx_requested_scopes c)"
    and keeps_view: "view (snd (eval t c s)) = view s"
begin

lemma response_scopes:
  "set (rs_approved_scopes (response_of (fst (eval t c s)))) \<subseteq> set (cx_requested_scopes c)"
  using scopes_requested by (simp add: response_of_def)

lemma run_view: "view (fold (\<lambda>(t, c) s. snd (eval t c s)) calls s) = view s"
  by (induction calls arbitrary: s) (auto simp: keeps_view)

end

interpretation yaml_policy: policy_engine "evaluate X eng" "\<lambda>st. (sessions st, killed_agents st)" for X eng
  by unfold_locales (use evaluate_approved_subset in \<open>auto simp: frame_simps\<close>)

text \<open>
  No sequence of evaluations changes a session or lifts or sets an emergency stop: the only
  effect of an evaluation is on the rate-limit counters.
\<close>

lemma evaluations_keep_sessions:
  "sessions (fold (\<lambda>(t, c) s. snd (evaluate X eng t c s)) calls st) = sessions st
   \<and> killed_agents (fold (\<lambda>(t, c) s. snd (evaluate X eng t c s)) calls st) = killed_agents st"
  using yaml_policy.run_view [of X eng calls st] by simp

section \<open>Rate limits through the engine\<close>

fun eval_calls :: "ext \<Rightarrow> yaml_engine \<Rightarrow> policy_context \<Rightarrow> time list \<Rightarrow> session_store \<Rightarrow> decision list" where
  "eval_calls X eng ctx [] st = []"
| "eval_calls X eng ctx (t # ts) st =
     (case evaluate X eng t ctx st of (ev, st') \<Rightarrow> ev_decision ev # eval_calls X eng ctx ts st')"

lemma temporal_cong:
  "sessions st' = sessions st \<Longrightarrow>
     check_temporal_conditions X eng r ctx st' = check_temporal_conditions X eng r ctx st"
  by (simp add: check_temporal_conditions_def session_of_def get_session_def cong: option.case_cong)

lemma eval_calls_rate:
  assumes "find (\<lambda>r. rule_matches r ctx) (ye_rules eng) = Some r"
    and "rule_rate_limit_per_minute r = Some limit"
    and "ye_session_store eng" and "cx_session_id ctx = Some sid"
    and "check_temporal_conditions X eng r ctx st = None"
  shows "map (\<lambda>d. d \<noteq> Deny) (eval_calls X eng ctx ts st) =
    map (\<lambda>ok. ok \<and> rule_decision_of r \<noteq> Deny) (fst (rate_calls (rate_key sid ctx) limit ts st))"
  using assms(5)
proof (induction ts arbitrary: st)
  case Nil
  then show ?case by simp
next
  case (Cons t ts)
  obtain res st' where c: "check_rate_limit t (rate_key sid ctx) limit st = (res, st')"
    by (cases "check_rate_limit t (rate_key sid ctx) limit st")
  have "sessions st' = sessions st"
    using sessions_check_rate_limit [of t "rate_key sid ctx" limit st] c by simp
  with Cons.prems have "check_temporal_conditions X eng r ctx st' = None"
    using temporal_cong [of st' st] by simp
  note IH = Cons.IH [OF this]
  have "rule_rate_limit t eng r ctx st = (case res of Inl e \<Rightarrow> (Some (fail_text e), st') | Inr _ \<Rightarrow> (None, st'))"
    using assms(2-4) c by (cases res) (simp_all add: rule_rate_limit_def)
  with assms(1) Cons.prems have "evaluate X eng t ctx st =
      (case res of Inl e \<Rightarrow> (deny_with (fail_text e), st') | Inr _ \<Rightarrow> (apply_rule r ctx, st'))"
    by (cases res) (simp_all add: evaluate_find)
  with IH c show ?case
    by (cases res; cases "rate_calls (rate_key sid ctx) limit ts st'") simp_all
qed

lemma eval_calls_temporal:
  assumes "find (\<lambda>r. rule_matches r ctx) (ye_rules eng) = Some r"
    and "check_temporal_conditions X eng r ctx st = Some reason"
  shows "eval_calls X eng ctx ts st = replicate (length ts) Deny"
  using assms by (induction ts) (simp_all add: evaluate_find)


lemma demo_find: "find (\<lambda>r. rule_matches r demo_context) (ye_rules demo_engine) = Some demo_rule"
  by (simp add: demo_engine_def demo_matches)


end
