(* ===== verification/Tokens.thy ===== *)
theory Tokens
  imports Policy
begin

text \<open>
  Agent tokens (\<open>src/token/mod.rs\<close>, \<open>src/token/issuer.rs\<close>, \<open>src/token/verifier.rs\<close>) and the signing
  keys (\<open>src/crypto/mod.rs\<close>): issuing, the published key set, verification against issuer, audience,
  expiry and the in-memory revocation list.
\<close>

section \<open>Keys\<close>

definition crypto_err :: "string \<Rightarrow> string + 'a \<Rightarrow> 'a result" where
  "crypto_err what r = (case r of Inl e \<Rightarrow> Inl (Err (CryptoError (what @ e))) | Inr x \<Rightarrow> Inr x)"

record key_pair =
  kp_private_pem :: string
  kp_public_pem :: string

text \<open>\<open>KeyPair::generate\<close>: draw a key, print both halves.\<close>

definition generate_key_pair :: "ext \<Rightarrow> env \<Rightarrow> key_pair result" where
  "generate_key_pair X E =
     (case crypto_err ''key generation failed: '' (e_rsa_key E) of Inl e \<Rightarrow> Inl e | Inr key \<Rightarrow>
     (case crypto_err ''private key encoding failed: '' (x_rsa_private_pem X key) of Inl e \<Rightarrow> Inl e | Inr priv \<Rightarrow>
     (case crypto_err ''public key encoding failed: '' (x_rsa_public_pem X key) of Inl e \<Rightarrow> Inl e | Inr pub \<Rightarrow>
       Inr \<lparr> kp_private_pem = priv, kp_public_pem = pub \<rparr>)))"

text \<open>
  \<open>KeyPair::load_or_generate\<close>: the result of reading the two files is an argument, as are the build
  profile and the environment variable \<open>PATROCLUS_INSECURE_DEV\<close>.
\<close>

definition load_or_generate ::
    "ext \<Rightarrow> env \<Rightarrow> bool \<Rightarrow> string option \<Rightarrow> string \<Rightarrow> string \<Rightarrow> string + key_pair \<Rightarrow> key_pair result" where
  "load_or_generate X E debug_build dev_var priv_path pub_path files =
     (case files of
        Inr kp \<Rightarrow> Inr kp
      | Inl load_err \<Rightarrow>
          let insecure_dev = (dev_var = Some ''1'') in
          if \<not> debug_build \<and> \<not> insecure_dev then
            Inl (Err (CryptoError (''signing keys not found at '' @ priv_path @ '' / '' @ pub_path
              @ ''. Provide keys or set PATROCLUS_INSECURE_DEV=1 (development only).'')))
          else if \<not> insecure_dev then
            Inl (Err (CryptoError (''signing keys not found at '' @ priv_path @ '' / '' @ pub_path
              @ ''. Generate them with `patroclus init` or set PATROCLUS_INSECURE_DEV=1 to run with throwaway ephemeral keys.'')))
          else generate_key_pair X E)"

section \<open>The issuer\<close>

record token_issuer =
  ti_issuer :: string
  ti_encoding_key :: string
  ti_key_id :: string
  ti_public_key :: string

definition issuer_from_pem :: "ext \<Rightarrow> string \<Rightarrow> string \<Rightarrow> string \<Rightarrow> token_issuer result" where
  "issuer_from_pem X pem iss kid =
     (case crypto_err ''failed to load private key: '' (x_rsa_encoding_key X pem) of Inl e \<Rightarrow> Inl e | Inr ek \<Rightarrow>
     (case crypto_err ''failed to parse private key: ''
         (case x_rsa_pkcs1_private X pem of Inr k \<Rightarrow> Inr k | Inl _ \<Rightarrow> x_rsa_pkcs8_private X pem) of
        Inl e \<Rightarrow> Inl e
      | Inr priv \<Rightarrow>
          Inr \<lparr> ti_issuer = iss, ti_encoding_key = ek, ti_key_id = kid, ti_public_key = priv \<rparr>))"

definition issuer_ephemeral :: "ext \<Rightarrow> env \<Rightarrow> string \<Rightarrow> token_issuer result" where
  "issuer_ephemeral X E iss =
     (case crypto_err ''key generation failed: '' (e_rsa_key E) of Inl e \<Rightarrow> Inl e | Inr key \<Rightarrow>
     (case crypto_err ''private key encoding failed: '' (x_rsa_private_pem X key) of Inl e \<Rightarrow> Inl e | Inr pem \<Rightarrow>
       issuer_from_pem X pem iss ''ephemeral''))"

definition expiry :: "ext \<Rightarrow> time \<Rightarrow> issue_token_params \<Rightarrow> time result" where
  "expiry X now p = add_seconds X now (ip_ttl_seconds p)"

definition blank :: string where
  "blank = [CHR 0x20]"

text \<open>
  The claims of a new token. \<open>now\<close> is the first clock reading (the issue time), \<open>expires\<close> the expiry
  computed from the second.
\<close>

definition token_claims :: "token_issuer \<Rightarrow> time \<Rightarrow> time \<Rightarrow> string \<Rightarrow> issue_token_params \<Rightarrow> agent_claims" where
  "token_claims iss now expires jti p =
     \<lparr> cl_iss = ti_issuer iss,
       cl_sub = ip_subject p,
       cl_act = \<lparr> act_sub = ip_agent_id p, act_delegation_depth = ip_delegation_depth p,
                  act_delegation_chain = ip_delegation_chain p \<rparr>,
       cl_scope = join blank (ip_scopes p),
       cl_aud = ip_audience p,
       cl_exp = timestamp expires,
       cl_iat = timestamp now,
       cl_jti = jti,
       cl_constraints = ip_constraints p,
       cl_cnf = None \<rparr>"

definition issue ::
    "ext \<Rightarrow> token_issuer \<Rightarrow> time \<Rightarrow> time \<Rightarrow> uuid \<Rightarrow> issue_token_params \<Rightarrow> (string \<times> string) result" where
  "issue X iss now now' u p =
     (case expiry X now' p of Inl e \<Rightarrow> Inl e | Inr expires \<Rightarrow>
        let jti = x_uuid_str X u in
        (case crypto_err ''token encoding failed: ''
            (x_jwt_encode X (ti_encoding_key iss) (ti_key_id iss) (token_claims iss now expires jti p)) of
           Inl e \<Rightarrow> Inl e
         | Inr token \<Rightarrow> Inr (token, jti)))"

text \<open>The JSON Web Key Set of the signing key; members in the order of their names.\<close>

definition public_jwks :: "ext \<Rightarrow> token_issuer \<Rightarrow> json" where
  "public_jwks X iss =
     JObj [(''keys'', JArr [JObj
       [(''alg'', JStr ''RS256''),
        (''e'', JStr (x_base64url X (x_rsa_exponent X (ti_public_key iss)))),
        (''kid'', JStr (ti_key_id iss)),
        (''kty'', JStr ''RSA''),
        (''n'', JStr (x_base64url X (x_rsa_modulus X (ti_public_key iss)))),
        (''use'', JStr ''sig'')]])]"

section \<open>The verifier\<close>

record token_verifier =
  tv_decoding_key :: string
  tv_issuer :: string
  tv_jti_store :: "string set"

definition verifier_from_pem :: "ext \<Rightarrow> string \<Rightarrow> string \<Rightarrow> token_verifier result" where
  "verifier_from_pem X pem iss =
     (case crypto_err ''failed to load public key: '' (x_rsa_decoding_key X pem) of Inl e \<Rightarrow> Inl e | Inr dk \<Rightarrow>
        Inr \<lparr> tv_decoding_key = dk, tv_issuer = iss, tv_jti_store = {} \<rparr>)"

definition verifier_ephemeral :: "ext \<Rightarrow> env \<Rightarrow> string \<Rightarrow> token_verifier result" where
  "verifier_ephemeral X E iss =
     (case crypto_err ''key generation failed: '' (e_rsa_key E) of Inl e \<Rightarrow> Inl e | Inr key \<Rightarrow>
     (case crypto_err ''public key encoding failed: '' (x_rsa_public_pem X key) of Inl e \<Rightarrow> Inl e | Inr pem \<Rightarrow>
       verifier_from_pem X pem iss))"

definition jwt_failure :: "ext \<Rightarrow> jwt_error \<Rightarrow> perror" where
  "jwt_failure X e = (case e of ExpiredSignature \<Rightarrow> ExpiredToken | OtherJwtError s \<Rightarrow> InvalidToken s)"

definition verify ::
    "ext \<Rightarrow> token_verifier \<Rightarrow> time \<Rightarrow> time \<Rightarrow> string \<Rightarrow> string option \<Rightarrow> agent_claims result" where
  "verify X v now now' token expected_audience =
     (case x_jwt_decode X (tv_decoding_key v)
         \<lparr> va_issuer = tv_issuer v, va_audience = expected_audience \<rparr> now token of
        Inl e \<Rightarrow> Inl (Err (jwt_failure X e))
      | Inr c \<Rightarrow>
          if cl_exp c < timestamp now' then Inl (Err ExpiredToken)
          else if cl_jti c \<in> tv_jti_store v then Inl (Err (RevokedToken (cl_jti c)))
          else Inr c)"

definition revoke :: "string \<Rightarrow> token_verifier \<Rightarrow> token_verifier" where
  "revoke jti v = v\<lparr> tv_jti_store := insert jti (tv_jti_store v) \<rparr>"

definition is_revoked :: "string \<Rightarrow> token_verifier \<Rightarrow> bool" where
  "is_revoked jti v \<longleftrightarrow> jti \<in> tv_jti_store v"

section \<open>Verification\<close>

lemma verify_InrD:
  assumes "verify X v now now' tok aud = Inr c"
  shows "x_jwt_decode X (tv_decoding_key v) \<lparr> va_issuer = tv_issuer v, va_audience = aud \<rparr> now tok = Inr c"
    and "timestamp now' \<le> cl_exp c" and "\<not> is_revoked (cl_jti c) v"
  using assms by (auto simp: verify_def is_revoked_def split: sum.splits if_splits)

lemma verify_sound:
  assumes "verify X v now now' tok aud = Inr c" and "jwt_sound X (tv_decoding_key v)"
  shows "cl_iss c = tv_issuer v" and "aud = Some a \<Longrightarrow> cl_aud c = a"
  using verify_InrD(1) [OF assms(1)] assms(2) by (fastforce simp: jwt_sound_def)+

text \<open>Verification ends with a value of one of four kinds; it never panics.\<close>

lemma verify_errors:
  "verify X v now now' tok aud = Inl e \<Longrightarrow>
     e = Err ExpiredToken \<or> (\<exists>s. e = Err (InvalidToken s)) \<or> (\<exists>j. e = Err (RevokedToken j) \<and> is_revoked j v)"
  by (auto simp: verify_def jwt_failure_def is_revoked_def split: sum.splits if_splits jwt_error.splits)

text \<open>Revocation is an emergency stop that nothing lifts.\<close>

interpretation token_stop: emergency_stop revoke is_revoked "\<lambda>_ _. False" revoke
  by unfold_locales (auto simp: revoke_def is_revoked_def)

lemma revoke_keys [frame_simps]:
  "tv_decoding_key (revoke j v) = tv_decoding_key v" "tv_issuer (revoke j v) = tv_issuer v"
  by (simp_all add: revoke_def)

text \<open>
  Once a token id is revoked in the verifier, no token with that id verifies again, at whatever
  times and for whatever audience, after any further revocations.
\<close>

lemma revoked_never_verifies:
  "verify X (fold revoke jtis (revoke jti v)) now now' tok aud = Inr c \<Longrightarrow> cl_jti c \<noteq> jti"
  using verify_InrD(3) token_stop.stopped_after_stop [of jtis jti v] by auto

section \<open>Issued tokens\<close>

lemma issue_InrE:
  assumes "issue X iss now now' u p = Inr (tok, jti)"
  obtains expires where "expiry X now' p = Inr expires" and "jti = x_uuid_str X u"
    and "x_jwt_encode X (ti_encoding_key iss) (ti_key_id iss) (token_claims iss now expires jti p) = Inr tok"
  using assms by (auto simp: issue_def crypto_err_def Let_def split: sum.splits)

lemma expiry_InrD: "expiry X now p = Inr expires \<Longrightarrow> expires = now + sint (ip_ttl_seconds p) * second_ns"
  unfolding expiry_def by (rule add_seconds_InrD)

lemma timestamp_mono: "s \<le> t \<Longrightarrow> timestamp s \<le> timestamp t"
  by (simp add: timestamp_def second_ns_def zdiv_mono1)

lemma timestamp_add_seconds: "timestamp (t + n * second_ns) = timestamp t + n"
  by (simp add: timestamp_def second_ns_def)

lemma token_claims_simps [simp]:
  "cl_iss (token_claims iss now expires jti p) = ti_issuer iss"
  "cl_sub (token_claims iss now expires jti p) = ip_subject p"
  "act_sub (cl_act (token_claims iss now expires jti p)) = ip_agent_id p"
  "cl_scope (token_claims iss now expires jti p) = join blank (ip_scopes p)"
  "cl_aud (token_claims iss now expires jti p) = ip_audience p"
  "cl_exp (token_claims iss now expires jti p) = timestamp expires"
  "cl_jti (token_claims iss now expires jti p) = jti"
  by (simp_all add: token_claims_def)

text \<open>
  C31: an issued token verifies, until the second its lifetime ends in, to exactly the claims it was
  issued with, and splitting its scope claim gives the granted scopes back when no scope contains
  white space. The issuer's and the verifier's keys are two halves of one pair (\<open>jwt_rt\<close>).
\<close>

theorem issue_verify_round_trip:
  assumes "issue X iss t0 t1 u p = Inr (tok, jti)"
    and "jwt_rt X (ti_encoding_key iss) (tv_decoding_key v)
      (token_claims iss t0 (t1 + sint (ip_ttl_seconds p) * second_ns) jti p)"
    and "tv_issuer v = ti_issuer iss" and "\<not> is_revoked jti v"
    and "aud = None \<or> aud = Some (ip_audience p)"
    and "t2 \<le> t3" and "timestamp t3 \<le> timestamp t1 + sint (ip_ttl_seconds p)"
    and "\<forall>s \<in> set (ip_scopes p). is_word s"
  shows "\<exists>c. verify X v t2 t3 tok aud = Inr c
    \<and> c = token_claims iss t0 (t1 + sint (ip_ttl_seconds p) * second_ns) jti p
    \<and> split_whitespace (cl_scope c) = ip_scopes p"
proof -
  define c where "c = token_claims iss t0 (t1 + sint (ip_ttl_seconds p) * second_ns) jti p"
  from assms(1) obtain expires where expires: "expiry X t1 p = Inr expires"
    and enc: "x_jwt_encode X (ti_encoding_key iss) (ti_key_id iss) (token_claims iss t0 expires jti p) = Inr tok"
    by (rule issue_InrE)
  from expiry_InrD [OF expires] enc have enc: "x_jwt_encode X (ti_encoding_key iss) (ti_key_id iss) c = Inr tok"
    by (simp add: c_def)
  have exp_c: "cl_exp c = timestamp t1 + sint (ip_ttl_seconds p)"
    by (simp add: c_def timestamp_add_seconds)
  with assms(6,7) timestamp_mono [of t2 t3] have lee: "timestamp t2 - 60 \<le> cl_exp c" by simp
  have "x_jwt_decode X (tv_decoding_key v) \<lparr> va_issuer = tv_issuer v, va_audience = aud \<rparr> t2 tok = Inr c"
    using assms(2,3,5) enc lee unfolding jwt_rt_def c_def [symmetric] by (auto simp: c_def)
  with assms(4,7) exp_c have "verify X v t2 t3 tok aud = Inr c"
    by (simp add: verify_def is_revoked_def) (simp add: c_def)
  moreover have "split_whitespace (cl_scope c) = ip_scopes p"
    using split_join_words [OF assms(8)] by (simp add: c_def blank_def)
  ultimately show ?thesis by (auto simp: c_def)
qed

text \<open>
  C30: a token is not accepted after its expiry, although the library's own check leaves 60 seconds
  of leeway, nor for another audience or issuer than the verifier expects.
\<close>

theorem verified_token_is_current:
  assumes "verify X v now now' tok (Some aud) = Inr c" and "jwt_sound X (tv_decoding_key v)"
  shows "timestamp now' \<le> cl_exp c \<and> cl_aud c = aud \<and> cl_iss c = tv_issuer v
    \<and> \<not> is_revoked (cl_jti c) v"
  using verify_InrD [OF assms(1)] verify_sound [OF assms] by simp

section \<open>Closed examples\<close>

definition demo_issuer :: token_issuer where
  "demo_issuer = \<lparr> ti_issuer = ''iss'', ti_encoding_key = ''k'', ti_key_id = ''kid'', ti_public_key = ''k'' \<rparr>"

definition demo_verifier :: token_verifier where
  "demo_verifier = \<lparr> tv_decoding_key = ''k'', tv_issuer = ''iss'', tv_jti_store = {} \<rparr>"

definition demo_params :: issue_token_params where
  "demo_params = \<lparr> ip_issuer = ''iss'', ip_subject = ''agent:7'', ip_agent_id = ''agent:7'',
     ip_scopes = [''db:read'', ''db:list''], ip_audience = ''db'', ip_ttl_seconds = 300,
     ip_delegation_depth = 0, ip_delegation_chain = None, ip_constraints = None \<rparr>"

definition demo_claims :: agent_claims where
  "demo_claims = token_claims demo_issuer 0 (300 * second_ns) ''1'' demo_params"

text \<open>A signature scheme that knows one token.\<close>

definition demo_jwt :: ext where
  "demo_jwt = demo_ext\<lparr>
     x_jwt_encode := (\<lambda>_ _ c. if c = demo_claims then Inr ''tok'' else Inl ''unknown''),
     x_jwt_decode := (\<lambda>_ v t tok.
       if tok = ''tok'' \<and> va_issuer v = ''iss'' \<and> va_audience v \<in> {None, Some ''db''}
       then (if timestamp t - 60 \<le> 300 then Inr demo_claims else Inl ExpiredSignature)
       else Inl (OtherJwtError ''invalid'')) \<rparr>"

lemma demo_claims_fields:
  "cl_iss demo_claims = ''iss''" "cl_aud demo_claims = ''db''" "cl_exp demo_claims = 300"
  "cl_jti demo_claims = ''1''"
  by (simp_all add: demo_claims_def demo_issuer_def demo_params_def timestamp_def second_ns_def)

lemma demo_jwt_rt: "jwt_rt demo_jwt ek dk demo_claims"
  by (auto simp: jwt_rt_def demo_jwt_def demo_claims_fields split: if_splits)

lemma demo_jwt_sound: "jwt_sound demo_jwt dk"
  by (auto simp: jwt_sound_def demo_jwt_def demo_claims_fields split: if_splits)

lemma demo_ttl: "sint (ip_ttl_seconds demo_params) = 300"
  by (simp add: demo_params_def)

lemma demo_issue: "issue demo_jwt demo_issuer 0 0 1 demo_params = Inr (''tok'', ''1'')"
  by (simp add: issue_def expiry_def add_seconds_def demo_ttl)
    (simp add: demo_jwt_def demo_ext_def unary_def crypto_err_def demo_claims_def demo_issuer_def second_ns_def)

lemma demo_verify: "verify demo_jwt demo_verifier 0 (300 * second_ns) ''tok'' (Some ''db'') = Inr demo_claims"
  by (simp add: verify_def demo_verifier_def)
    (simp add: demo_jwt_def timestamp_def second_ns_def demo_claims_fields)

lemma demo_scopes: "\<forall>s \<in> set (ip_scopes demo_params). is_word s"
  by (simp add: demo_params_def is_word_iff no_ws_Cons ws_at_0 white_space_def starts_with_def)

theorem issue_verify_round_trip_witness:
  "\<exists>c. verify demo_jwt demo_verifier 0 (300 * second_ns) ''tok'' (Some ''db'') = Inr c
    \<and> c = token_claims demo_issuer 0 (0 + sint (ip_ttl_seconds demo_params) * second_ns) ''1'' demo_params
    \<and> split_whitespace (cl_scope c) = ip_scopes demo_params"
  by (rule issue_verify_round_trip [OF demo_issue])
    (simp_all add: demo_ttl demo_jwt_rt demo_claims_def [symmetric] demo_scopes,
     simp_all add: demo_verifier_def demo_issuer_def is_revoked_def demo_params_def timestamp_def second_ns_def)

theorem verified_token_is_current_witness:
  "timestamp (300 * second_ns) \<le> cl_exp demo_claims \<and> cl_aud demo_claims = ''db''
    \<and> cl_iss demo_claims = tv_issuer demo_verifier \<and> \<not> is_revoked (cl_jti demo_claims) demo_verifier"
  by (rule verified_token_is_current [OF demo_verify demo_jwt_sound])

lemma revoked_never_verifies_witness: "cl_jti demo_claims \<noteq> ''2''"
  by (rule revoked_never_verifies [of demo_jwt "[''3'']" "''2''" demo_verifier 0 "300 * second_ns" "''tok''" "Some ''db''"])
    (simp add: verify_def revoke_def demo_verifier_def,
     simp add: demo_jwt_def timestamp_def second_ns_def demo_claims_fields)

end
