(* ===== verification/Audit_Trail.thy ===== *)
theory Audit_Trail
  imports Tokens
begin

text \<open>
  The audit log's hash chain (\<open>src/audit/mod.rs\<close>, \<open>src/audit/verifier.rs\<close>): an entry, the digest of
  its payload, and the verifier that reports the first broken link. The theory of hash chains is a
  locale over any entry type; the digest's collision resistance is a hypothesis about the finitely
  many texts that are hashed.
\<close>

section \<open>Entries\<close>

record audit_entry =
  au_id :: int
  au_prev_hash :: string
  au_row_hash :: string
  au_agent_id :: uuid
  au_principal_id :: "uuid option"
  au_action :: string
  au_resource :: string
  au_decision :: string
  au_reason :: string
  au_delegation_chain :: "json option"
  au_token_jti :: "string option"
  au_dry_run :: bool
  au_timestamp :: time

record create_audit_entry =
  cae_agent_id :: uuid
  cae_principal_id :: "uuid option"
  cae_action :: string
  cae_resource :: string
  cae_decision :: decision
  cae_reason :: string
  cae_delegation_chain :: "json option"
  cae_token_jti :: "string option"
  cae_dry_run :: bool

text \<open>The bytes the digest is computed of, and the digest. No separator stands between two fields.\<close>

definition opt_text :: "('a \<Rightarrow> string) \<Rightarrow> 'a option \<Rightarrow> string" where
  "opt_text f x = (case x of None \<Rightarrow> [] | Some a \<Rightarrow> f a)"

definition hash_input :: "ext \<Rightarrow> audit_entry \<Rightarrow> string" where
  "hash_input X e =
     au_prev_hash e @ x_uuid_str X (au_agent_id e) @ opt_text (x_uuid_str X) (au_principal_id e)
     @ au_action e @ au_resource e @ au_decision e @ au_reason e @ x_rfc3339 X (au_timestamp e)
     @ opt_text (x_json_str X) (au_delegation_chain e) @ opt_text id (au_token_jti e)
     @ [if au_dry_run e then CHR 0x01 else CHR 0x00]"

definition compute_hash :: "ext \<Rightarrow> audit_entry \<Rightarrow> string" where
  "compute_hash X e = sha256_hex X (hash_input X e)"

definition genesis_prev_hash :: string where
  "genesis_prev_hash = replicate 64 CHR ''0''"

section \<open>The verifier\<close>

datatype broken_link_reason = RowHashMismatch | PrevHashMismatch

record broken_link =
  bl_row_id :: int
  bl_reason :: broken_link_reason

record chain_verification =
  cv_entries_checked :: nat
  cv_first_broken_link :: "broken_link option"

definition is_valid :: "chain_verification \<Rightarrow> bool" where
  "is_valid cv \<longleftrightarrow> cv_first_broken_link cv = None"

fun verify_from :: "ext \<Rightarrow> nat \<Rightarrow> string option \<Rightarrow> audit_entry list \<Rightarrow> chain_verification" where
  "verify_from X index prev_stored_hash [] =
     \<lparr> cv_entries_checked = index, cv_first_broken_link = None \<rparr>"
| "verify_from X index prev_stored_hash (e # es) =
     (let expected_prev = (case prev_stored_hash of None \<Rightarrow> genesis_prev_hash | Some prev \<Rightarrow> prev) in
      if au_prev_hash e \<noteq> expected_prev then
        \<lparr> cv_entries_checked = index + 1,
          cv_first_broken_link = Some \<lparr> bl_row_id = au_id e, bl_reason = PrevHashMismatch \<rparr> \<rparr>
      else if compute_hash X e \<noteq> au_row_hash e then
        \<lparr> cv_entries_checked = index + 1,
          cv_first_broken_link = Some \<lparr> bl_row_id = au_id e, bl_reason = RowHashMismatch \<rparr> \<rparr>
      else verify_from X (index + 1) (Some (au_row_hash e)) es)"

definition verify_chain :: "ext \<Rightarrow> audit_entry list \<Rightarrow> chain_verification" where
  "verify_chain X es = verify_from X 0 None es"

section \<open>Hash chains\<close>

text \<open>
  A list of entries that chain from the hash \<open>h\<close>: each names its predecessor's hash, and carries its
  own. The same in terms of positions: entry \<open>i\<close> is linked.
\<close>

fun chained :: "('e \<Rightarrow> 'h) \<Rightarrow> ('e \<Rightarrow> 'h) \<Rightarrow> ('e \<Rightarrow> 'h) \<Rightarrow> 'h \<Rightarrow> 'e list \<Rightarrow> bool" where
  "chained prev own digest h [] \<longleftrightarrow> True"
| "chained prev own digest h (e # es) \<longleftrightarrow>
     prev e = h \<and> digest e = own e \<and> chained prev own digest (own e) es"

text \<open>
  The contract between an entry type and the chain: the digest of an entry is the digest of a text
  that begins with the hash of the predecessor, and hashes that occur have one length.
\<close>

locale hash_chain =
  fixes prev :: "'e \<Rightarrow> string"
    and own :: "'e \<Rightarrow> string"
    and payload :: "'e \<Rightarrow> string"
    and digest :: "string \<Rightarrow> string"
    and genesis :: string
begin

abbreviation chain :: "string \<Rightarrow> 'e list \<Rightarrow> bool" where
  "chain \<equiv> chained prev own (\<lambda>e. digest (payload e))"

definition head :: "string \<Rightarrow> 'e list \<Rightarrow> string" where
  "head h es = (if es = [] then h else own (last es))"

lemma head_simps [simp]: "head h [] = h" "head h (e # es) = head (own e) es"
  by (simp_all add: head_def)

lemma head_snoc [simp]: "head h (es @ [e]) = own e"
  by (simp add: head_def)

lemma chain_append: "chain h (as @ bs) \<longleftrightarrow> chain h as \<and> chain (head h as) bs"
  by (induction as arbitrary: h) auto

lemma chain_nth:
  "chain h es \<longleftrightarrow> (\<forall>i < length es. prev (es ! i) = (if i = 0 then h else own (es ! (i - 1)))
     \<and> digest (payload (es ! i)) = own (es ! i))"
proof (induction es arbitrary: h)
  case Nil
  then show ?case by simp
next
  case (Cons e es)
  have "(\<forall>i < length (e # es). prev ((e # es) ! i) = (if i = 0 then h else own ((e # es) ! (i - 1)))
       \<and> digest (payload ((e # es) ! i)) = own ((e # es) ! i))
    \<longleftrightarrow> prev e = h \<and> digest (payload e) = own e \<and>
      (\<forall>i < length es. prev (es ! i) = (if i = 0 then own e else own (es ! (i - 1)))
       \<and> digest (payload (es ! i)) = own (es ! i))"
    by (simp add: All_less_Suc2 nth_Cons')
  with Cons.IH show ?case by simp
qed

lemma chain_delete:
  assumes "chain h (as @ e # bs)" and "bs \<noteq> []"
  shows "chain h (as @ bs) \<longleftrightarrow> own e = prev e"
  using assms by (cases bs) (auto simp: chain_append)

end

text \<open>Entries whose hashed text begins with the predecessor's hash.\<close>

locale linked_payload = hash_chain +
  fixes body :: "'a \<Rightarrow> string"
  assumes payload_prev: "payload e = prev e @ body e"
begin

lemma head_length:
  assumes "chain h es" and "length h = n" and "\<forall>e \<in> set es. length (digest (payload e)) = n"
  shows "length (head h es) = n"
  using assms by (induction es arbitrary: h) auto

text \<open>
  Two chains of the same length with the same last hash commit to the same texts, as long as the
  hashes have one length and no two of the hashed texts collide.
\<close>

lemma same_head_same_payloads:
  assumes "length es = length es'" and "chain h es" and "chain h es'"
    and "head h es = head h es'" and "length h = n"
    and "\<forall>e \<in> set es \<union> set es'. length (digest (payload e)) = n"
    and "inj_on digest (payload ` (set es \<union> set es'))"
  shows "map payload es = map payload es'"
  using assms(1-4,6,7)
proof (induction es arbitrary: es' rule: rev_induct)
  case Nil
  then show ?case by simp
next
  case (snoc e es)
  from snoc.prems(1) obtain fs f where es': "es' = fs @ [f]"
    by (cases es' rule: rev_cases) auto
  from snoc.prems es' have c: "chain h es" "chain h fs"
    and p: "prev e = head h es" "prev f = head h fs"
    and d: "digest (payload e) = digest (payload f)" and l: "length es = length fs"
    by (auto simp: chain_append)
  from d snoc.prems(6) es' have pay: "payload e = payload f"
    using inj_onD [OF snoc.prems(6) d] by simp
  have "length (prev e) = length (prev f)"
    unfolding p using snoc.prems(5) es' c assms(5) head_length [of h] by simp
  with pay have "prev e = prev f" by (simp add: payload_prev)
  with p have "head h es = head h fs" by simp
  with snoc.IH [OF l c] snoc.prems(5,6) es' have "map payload es = map payload fs"
    by (auto intro: inj_on_subset)
  with pay es' show ?case by simp
qed

end

section \<open>The audit log as a hash chain\<close>

definition hash_body :: "ext \<Rightarrow> audit_entry \<Rightarrow> string" where
  "hash_body X e = drop (length (au_prev_hash e)) (hash_input X e)"

interpretation audit_chain: linked_payload au_prev_hash au_row_hash "hash_input X" "sha256_hex X"
    genesis_prev_hash "hash_body X" for X
  by unfold_locales (simp add: hash_body_def hash_input_def)

abbreviation audit_chained :: "ext \<Rightarrow> string \<Rightarrow> audit_entry list \<Rightarrow> bool" where
  "audit_chained X \<equiv> chained au_prev_hash au_row_hash (\<lambda>e. sha256_hex X (hash_input X e))"

text \<open>Entry \<open>i\<close> carries its predecessor's hash and its own.\<close>

definition link_ok :: "ext \<Rightarrow> audit_entry list \<Rightarrow> nat \<Rightarrow> bool" where
  "link_ok X es i \<longleftrightarrow>
     au_prev_hash (es ! i) = (if i = 0 then genesis_prev_hash else au_row_hash (es ! (i - 1)))
     \<and> compute_hash X (es ! i) = au_row_hash (es ! i)"

definition expected_prev_hash :: "string option \<Rightarrow> string" where
  "expected_prev_hash prev = (case prev of None \<Rightarrow> genesis_prev_hash | Some h \<Rightarrow> h)"

text \<open>What the verifier reports, position by position.\<close>

definition report :: "ext \<Rightarrow> nat \<Rightarrow> string \<Rightarrow> audit_entry list \<Rightarrow> chain_verification" where
  "report X k h es =
     (case find (\<lambda>i. \<not> (au_prev_hash (es ! i) = (if i = 0 then h else au_row_hash (es ! (i - 1)))
           \<and> compute_hash X (es ! i) = au_row_hash (es ! i))) [0..<length es] of
        None \<Rightarrow> \<lparr> cv_entries_checked = k + length es, cv_first_broken_link = None \<rparr>
      | Some i \<Rightarrow> \<lparr> cv_entries_checked = k + i + 1, cv_first_broken_link = Some
          \<lparr> bl_row_id = au_id (es ! i),
            bl_reason = (if au_prev_hash (es ! i) = (if i = 0 then h else au_row_hash (es ! (i - 1)))
              then RowHashMismatch else PrevHashMismatch) \<rparr> \<rparr>)"

lemma find_upt_Suc:
  "find P [0..<Suc n] = (if P 0 then Some 0 else map_option Suc (find (\<lambda>i. P (Suc i)) [0..<n]))"
proof -
  have "find P (map Suc xs) = map_option Suc (find (\<lambda>i. P (Suc i)) xs)" for xs
    by (induction xs) auto
  then show ?thesis
    by (simp add: upt_conv_Cons map_Suc_upt [symmetric] del: upt_Suc)
qed

lemma report_Cons:
  "report X k h (e # es) =
     (if au_prev_hash e \<noteq> h then
        \<lparr> cv_entries_checked = k + 1,
          cv_first_broken_link = Some \<lparr> bl_row_id = au_id e, bl_reason = PrevHashMismatch \<rparr> \<rparr>
      else if compute_hash X e \<noteq> au_row_hash e then
        \<lparr> cv_entries_checked = k + 1,
          cv_first_broken_link = Some \<lparr> bl_row_id = au_id e, bl_reason = RowHashMismatch \<rparr> \<rparr>
      else report X (k + 1) (au_row_hash e) es)"
  unfolding report_def list.size add_Suc_right add_0_right find_upt_Suc
  by (auto simp: nth_Cons' split: option.splits)

lemma verify_from_report: "verify_from X k prev es = report X k (expected_prev_hash prev) es"
proof (induction es arbitrary: k prev)
  case Nil
  then show ?case by (simp add: report_def)
next
  case (Cons e es)
  then show ?case
    by (simp add: report_Cons expected_prev_hash_def Let_def split: option.split)
qed

lemma verify_chain_report:
  "verify_chain X es =
     (case find (\<lambda>i. \<not> link_ok X es i) [0..<length es] of
        None \<Rightarrow> \<lparr> cv_entries_checked = length es, cv_first_broken_link = None \<rparr>
      | Some i \<Rightarrow> \<lparr> cv_entries_checked = i + 1, cv_first_broken_link = Some
          \<lparr> bl_row_id = au_id (es ! i),
            bl_reason = (if au_prev_hash (es ! i) = (if i = 0 then genesis_prev_hash else au_row_hash (es ! (i - 1)))
              then RowHashMismatch else PrevHashMismatch) \<rparr> \<rparr>)"
  unfolding verify_chain_def verify_from_report report_def link_ok_def expected_prev_hash_def
    option.case add_0
  by (rule refl)

text \<open>
  C32: the verifier reports the first entry that is not linked, with the number of entries read and
  whether its back reference or its own digest is wrong; and it reports nothing exactly when every
  entry is linked.
\<close>

theorem verify_chain_first_broken:
  "verify_chain X es =
     (case find (\<lambda>i. \<not> link_ok X es i) [0..<length es] of
        None \<Rightarrow> \<lparr> cv_entries_checked = length es, cv_first_broken_link = None \<rparr>
      | Some i \<Rightarrow> \<lparr> cv_entries_checked = i + 1, cv_first_broken_link = Some
          \<lparr> bl_row_id = au_id (es ! i),
            bl_reason = (if au_prev_hash (es ! i) = (if i = 0 then genesis_prev_hash else au_row_hash (es ! (i - 1)))
              then RowHashMismatch else PrevHashMismatch) \<rparr> \<rparr>)"
  by (rule verify_chain_report)

lemma is_valid_verify_from:
  "is_valid (verify_from X k prev es) \<longleftrightarrow> audit_chained X (expected_prev_hash prev) es"
  by (induction es arbitrary: k prev)
    (auto simp: is_valid_def expected_prev_hash_def compute_hash_def Let_def split: option.splits)

lemma is_valid_chain: "is_valid (verify_chain X es) \<longleftrightarrow> audit_chained X genesis_prev_hash es"
  by (simp add: verify_chain_def is_valid_verify_from expected_prev_hash_def)

lemma is_valid_snoc:
  "is_valid (verify_chain X (es @ [e])) \<longleftrightarrow>
     is_valid (verify_chain X es)
     \<and> au_prev_hash e = (if es = [] then genesis_prev_hash else au_row_hash (last es))
     \<and> compute_hash X e = au_row_hash e"
  by (auto simp: is_valid_chain audit_chain.chain_append audit_chain.head_def compute_hash_def)

section \<open>Tampering\<close>

text \<open>
  An entry of a valid log that is edited in place, its hashes kept, is reported by number and id
  as soon as the digest of its text changes; the entries before it are not blamed.
\<close>

lemma edit_is_located:
  assumes "is_valid (verify_chain X es)" and "i < length es"
    and "au_prev_hash e = au_prev_hash (es ! i)" and "au_row_hash e = au_row_hash (es ! i)"
    and "x_sha256 X (hash_input X e) \<noteq> x_sha256 X (hash_input X (es ! i))"
  shows "verify_chain X (es[i := e]) = \<lparr> cv_entries_checked = i + 1,
    cv_first_broken_link = Some \<lparr> bl_row_id = au_id e, bl_reason = RowHashMismatch \<rparr> \<rparr>"
proof -
  let ?fs = "es[i := e]"
  have ok: "\<forall>k < length es. link_ok X es k"
    using assms(1) unfolding is_valid_chain audit_chain.chain_nth by (simp add: link_ok_def compute_hash_def)
  have "compute_hash X e \<noteq> compute_hash X (es ! i)"
    using assms(5) by (simp add: compute_hash_def sha256_hex_def hex_inj)
  with ok assms(2,4) have "\<not> link_ok X ?fs i" by (simp add: link_ok_def)
  moreover have "link_ok X ?fs k" if "k < i" for k
    using ok assms(2) that by (simp add: link_ok_def)
  ultimately have "find (\<lambda>k. \<not> link_ok X ?fs k) [0..<length ?fs] = Some i"
    using assms(2) by (auto simp: find_Some_iff intro!: exI [of _ i])
  moreover have "au_prev_hash (?fs ! i) = (if i = 0 then genesis_prev_hash else au_row_hash (?fs ! (i - 1)))"
    using ok assms(2,3) by (auto simp: link_ok_def)
  ultimately show ?thesis
    unfolding verify_chain_report using assms(2) by simp
qed

text \<open>
  An entry deleted from inside a valid log is detected, unless its digest equals the back
  reference it is computed from.
\<close>

lemma deletion_is_detected:
  assumes "is_valid (verify_chain X (as @ e # bs))" and "bs \<noteq> []"
  shows "is_valid (verify_chain X (as @ bs)) \<longleftrightarrow> au_row_hash e = au_prev_hash e"
  using assms unfolding is_valid_chain by (rule audit_chain.chain_delete)

text \<open>
  C33: two valid logs of the same length that end in the same row hash were computed from the same
  texts, entry by entry, unless two of those texts collide under SHA-256: whoever knows the last row
  hash and the length can tell every rewriting of the history.
\<close>

theorem last_hash_commits_history:
  assumes "is_valid (verify_chain X es)" and "is_valid (verify_chain X es')"
    and "length es = length es'" and "es \<noteq> []" and "au_row_hash (last es) = au_row_hash (last es')"
    and "\<forall>e \<in> set es \<union> set es'. length (x_sha256 X (hash_input X e)) = 32"
    and "inj_on (x_sha256 X) (hash_input X ` (set es \<union> set es'))"
  shows "map (hash_input X) es = map (hash_input X) es'"
proof (rule audit_chain.same_head_same_payloads)
  show "audit_chained X genesis_prev_hash es" "audit_chained X genesis_prev_hash es'"
    using assms(1,2) by (simp_all add: is_valid_chain)
  show "audit_chain.head genesis_prev_hash es = audit_chain.head genesis_prev_hash es'"
    using assms(3-5) by (auto simp: audit_chain.head_def)
  show "length genesis_prev_hash = 64" by (simp add: genesis_prev_hash_def)
  show "\<forall>e \<in> set es \<union> set es'. length (sha256_hex X (hash_input X e)) = 64"
    using assms(6) by (simp add: sha256_hex_def)
  show "inj_on (sha256_hex X) (hash_input X ` (set es \<union> set es'))"
    using assms(7) by (simp add: inj_on_def sha256_hex_def hex_inj)
qed (rule assms(3))

lemma verify_from_cong:
  "list_all2 (\<lambda>e f. au_id e = au_id f \<and> au_prev_hash e = au_prev_hash f \<and> au_row_hash e = au_row_hash f
       \<and> compute_hash X e = compute_hash X f) es fs \<Longrightarrow> verify_from X k prev es = verify_from X k prev fs"
  by (induction es fs arbitrary: k prev rule: list_all2_induct) (simp_all add: Let_def)

text \<open>
  The digest does not commit to the boundary between two fields: moving the tail of an entry's
  action to the front of its resource changes nothing in the verifier's report.
\<close>

lemma field_boundary_not_committed:
  assumes "i < length es" and "au_action (es ! i) = a @ b"
  shows "verify_chain X (es[i := (es ! i)\<lparr> au_action := a, au_resource := b @ au_resource (es ! i) \<rparr>]) =
    verify_chain X es"
proof -
  have "hash_input X ((es ! i)\<lparr> au_action := a, au_resource := b @ au_resource (es ! i) \<rparr>) = hash_input X (es ! i)"
    using assms(2) by (simp add: hash_input_def)
  then show ?thesis
    unfolding verify_chain_def using assms(1)
    by (intro verify_from_cong) (simp add: list_all2_conv_all_nth nth_list_update compute_hash_def)
qed

text \<open>Cutting a valid log off at any length leaves a valid log: a truncated tail is not detected.\<close>

lemma truncation_not_detected:
  assumes "is_valid (verify_chain X es)"
  shows "is_valid (verify_chain X (take n es))"
  using assms audit_chain.chain_append [of X genesis_prev_hash "take n es" "drop n es"]
  by (simp add: is_valid_chain)

section \<open>A log for the closed examples\<close>

definition demo_hash :: ext where
  "demo_hash = demo_ext\<lparr> x_sha256 := (\<lambda>s. take 32 (rev s @ replicate 32 CHR ''x'')) \<rparr>"

definition sealed :: "ext \<Rightarrow> audit_entry \<Rightarrow> audit_entry" where
  "sealed X e = e\<lparr> au_row_hash := compute_hash X e \<rparr>"

lemma sealed_simps [simp]:
  "au_row_hash (sealed X e) = compute_hash X e" "au_prev_hash (sealed X e) = au_prev_hash e"
  "au_id (sealed X e) = au_id e" "au_action (sealed X e) = au_action e"
  "au_resource (sealed X e) = au_resource e"
  "compute_hash X (sealed X e) = compute_hash X e" "hash_input X (sealed X e) = hash_input X e"
  by (simp_all add: sealed_def compute_hash_def hash_input_def)

definition demo_entry :: "int \<Rightarrow> string \<Rightarrow> string \<Rightarrow> string \<Rightarrow> audit_entry" where
  "demo_entry n prev a r = sealed demo_hash
     \<lparr> au_id = n, au_prev_hash = prev, au_row_hash = [], au_agent_id = 1, au_principal_id = None,
       au_action = a, au_resource = r, au_decision = ''allow'', au_reason = '''',
       au_delegation_chain = None, au_token_jti = None, au_dry_run = False, au_timestamp = 0 \<rparr>"

definition demo_first :: audit_entry where
  "demo_first = demo_entry 1 genesis_prev_hash ''read'' ''db''"

definition demo_second :: audit_entry where
  "demo_second = demo_entry 2 (au_row_hash demo_first) ''write'' ''db''"

lemma demo_hash_text [simp]:
  "hash_input demo_hash (demo_entry n prev a r) = prev @ ''1'' @ a @ r @ ''allow'' @ [CHR 0x00]"
  by (simp add: demo_entry_def) (simp add: hash_input_def opt_text_def demo_hash_def demo_ext_def unary_def)

lemma demo_entry_simps [simp]:
  "au_id (demo_entry n prev a r) = n" "au_prev_hash (demo_entry n prev a r) = prev"
  "au_action (demo_entry n prev a r) = a" "au_resource (demo_entry n prev a r) = r"
  "au_row_hash (demo_entry n prev a r) = compute_hash demo_hash (demo_entry n prev a r)"
  by (simp_all add: demo_entry_def)

lemma demo_log_valid: "is_valid (verify_chain demo_hash [demo_first, demo_second])"
  by (simp add: is_valid_chain demo_first_def demo_second_def compute_hash_def)

lemma length_demo_sha [simp]: "length (x_sha256 demo_hash s) = 32"
  by (simp add: demo_hash_def)

lemma demo_first_hash: "au_row_hash demo_first \<noteq> au_prev_hash demo_first"
proof -
  have "x_sha256 demo_hash (hash_input demo_hash demo_first) ! 1 = CHR ''w''"
    by (simp add: demo_first_def) (simp add: demo_hash_def)
  then have "\<exists>b bs. au_row_hash demo_first = hex (b # CHR ''w'' # bs)"
    using length_demo_sha [of "hash_input demo_hash demo_first"]
    by (cases "x_sha256 demo_hash (hash_input demo_hash demo_first)";
        cases "tl (x_sha256 demo_hash (hash_input demo_hash demo_first))")
      (auto simp: demo_first_def compute_hash_def sha256_hex_def)
  then have "au_row_hash demo_first ! 2 = CHR ''7''"
    by (auto simp: hex_def Let_def hex_digit_def char_of_eq_iff take_bit_eq_mod)
  then show ?thesis by (auto simp: demo_first_def genesis_prev_hash_def)
qed

lemma edit_is_located_witness:
  "verify_chain demo_hash ([demo_first, demo_second][1 := demo_second\<lparr> au_resource := ''vault'' \<rparr>]) =
   \<lparr> cv_entries_checked = 1 + 1, cv_first_broken_link = Some
       \<lparr> bl_row_id = au_id (demo_second\<lparr> au_resource := ''vault'' \<rparr>), bl_reason = RowHashMismatch \<rparr> \<rparr>"
proof (rule edit_is_located [OF demo_log_valid])
  have "hash_input demo_hash (demo_second\<lparr> au_resource := ''vault'' \<rparr>) =
      au_row_hash demo_first @ ''1writevaultallow'' @ [CHR 0x00]"
    using demo_hash_text [of 2 "au_row_hash demo_first" "''write''" "''vault''"]
    by (simp add: demo_second_def demo_entry_def) (simp add: hash_input_def sealed_def)
  then show "x_sha256 demo_hash (hash_input demo_hash (demo_second\<lparr> au_resource := ''vault'' \<rparr>)) \<noteq>
      x_sha256 demo_hash (hash_input demo_hash ([demo_first, demo_second] ! 1))"
    by (simp add: demo_second_def) (simp add: demo_hash_def)
qed simp_all

lemma deletion_is_detected_witness: "\<not> is_valid (verify_chain demo_hash ([] @ [demo_second]))"
  using deletion_is_detected [of demo_hash "[]" demo_first "[demo_second]"] demo_log_valid demo_first_hash
  by simp

theorem last_hash_commits_history_witness:
  "map (hash_input demo_hash) [demo_entry 1 genesis_prev_hash ''read'' ''db''] =
   map (hash_input demo_hash) [demo_entry 1 genesis_prev_hash ''re'' ''addb'']"
  by (rule last_hash_commits_history) (simp_all add: is_valid_chain compute_hash_def)

lemma field_boundary_not_committed_witness:
  "verify_chain demo_hash ([demo_first][0 := ([demo_first] ! 0)\<lparr> au_action := ''re'',
     au_resource := ''ad'' @ au_resource ([demo_first] ! 0) \<rparr>]) = verify_chain demo_hash [demo_first]"
  by (rule field_boundary_not_committed) (simp_all add: demo_first_def)

lemma truncation_not_detected_witness: "is_valid (verify_chain demo_hash (take 1 [demo_first, demo_second]))"
  by (rule truncation_not_detected [OF demo_log_valid])

end
