(* ===== verification/Tables.thy ===== *)
theory Tables
  imports Audit_Trail
begin

text \<open>
  The SQLite tables (\<open>src/db/migrations.rs\<close>) and how the program reaches them (\<open>src/db/mod.rs\<close>). A
  column of type TEXT holds a string, NULL is \<open>None\<close>; a table is the list of its rows in insertion
  order. An operation is a failing state transformer of the database: SQL errors, failures of the
  blocking task and of the read pool are errors, and a statement that failed changes nothing.
  Operations take the clock readings and identifiers they draw as arguments.
\<close>

section \<open>Rows\<close>

record agent_row =
  agr_id :: string
  agr_name :: string
  agr_principal_type :: string
  agr_public_key :: "string option"
  agr_did :: "string option"
  agr_owner_id :: "string option"
  agr_status :: string
  agr_client_key_hash :: "string option"
  agr_created_at :: string
  agr_updated_at :: string

record principal_row =
  prr_id :: string
  prr_external_id :: string
  prr_idp_provider :: string
  prr_email :: string
  prr_display_name :: string
  prr_created_at :: string

record resource_row =
  rer_id :: string
  rer_name :: string
  rer_resource_type :: string
  rer_uri :: string
  rer_actions :: string
  rer_sensitivity :: string
  rer_owner_id :: "string option"
  rer_credential_config :: "string option"
  rer_created_at :: string

record policy_row =
  por_id :: string
  por_name :: string
  por_version :: int
  por_engine :: string
  por_definition :: string
  por_status :: string
  por_created_at :: string
  por_updated_at :: string

record grant_row =
  grr_id :: string
  grr_agent_id :: string
  grr_principal_id :: string
  grr_parent_grant_id :: "string option"
  grr_scopes :: string
  grr_constraints :: "string option"
  grr_expires_at :: string
  grr_revocable :: int
  grr_revoked_at :: "string option"
  grr_created_at :: string

record token_row =
  tor_id :: string
  tor_grant_id :: "string option"
  tor_agent_id :: string
  tor_scopes :: string
  tor_audience :: string
  tor_issued_at :: string
  tor_expires_at :: string
  tor_revoked :: int
  tor_dpop_bound :: int
  tor_key_thumbprint :: "string option"

record approval_row =
  apr_id :: string
  apr_agent_id :: string
  apr_principal_id :: "string option"
  apr_resource_id :: "string option"
  apr_action :: string
  apr_requested_scopes :: string
  apr_status :: string
  apr_approver_id :: "string option"
  apr_reason :: "string option"
  apr_approval_token :: "string option"
  apr_expires_at :: string
  apr_created_at :: string
  apr_resolved_at :: "string option"

record audit_row =
  aur_id :: int
  aur_prev_hash :: string
  aur_row_hash :: string
  aur_agent_id :: string
  aur_principal_id :: "string option"
  aur_action :: string
  aur_resource :: string
  aur_decision :: string
  aur_reason :: string
  aur_delegation_chain :: "string option"
  aur_token_jti :: "string option"
  aur_dry_run :: int
  aur_timestamp :: string

record vault_row =
  var_id :: string
  var_principal_id :: string
  var_provider :: string
  var_encrypted_token :: string
  var_nonce :: string
  var_encryption_key_id :: string
  var_scopes :: string
  var_expires_at :: "string option"
  var_created_at :: string
  var_updated_at :: string

section \<open>The database\<close>

text \<open>\<open>d_audit_seq\<close> is the AUTOINCREMENT counter of the audit log: the largest row id ever used.\<close>

record db =
  d_agents :: "agent_row list"
  d_principals :: "principal_row list"
  d_resources :: "resource_row list"
  d_policies :: "policy_row list"
  d_grants :: "grant_row list"
  d_tokens :: "token_row list"
  d_approvals :: "approval_row list"
  d_audit :: "audit_row list"
  d_audit_seq :: int
  d_vault :: "vault_row list"

definition empty_db :: db where
  "empty_db = \<lparr> d_agents = [], d_principals = [], d_resources = [], d_policies = [], d_grants = [],
     d_tokens = [], d_approvals = [], d_audit = [], d_audit_seq = 0, d_vault = [] \<rparr>"

text \<open>Opening a database: every table is created if it does not exist, and left alone if it does.\<close>

definition migrate :: "db option \<Rightarrow> db" where
  "migrate file = (case file of None \<Rightarrow> empty_db | Some d \<Rightarrow> d)"

text \<open>
  \<open>Database::new\<close> and \<open>Database::with_config\<close>: connecting, the pragmas or the migrations may fail. The pool
  of read connections, if there is one, sees the same tables.
\<close>

definition open_database :: "env \<Rightarrow> db option \<Rightarrow> db result" where
  "open_database E file =
     (case e_fault E CallOpen of Some msg \<Rightarrow> Inl (Err (DatabaseError msg)) | None \<Rightarrow> Inr (migrate file))"

type_synonym 'a db_act = "(db, fail, 'a) act"

definition sql_error :: "ext \<Rightarrow> sql_failure \<Rightarrow> fail" where
  "sql_error X f = Err (DatabaseError (x_sql_text X f))"

text \<open>
  \<open>spawn_write\<close> and \<open>spawn_read\<close>: the closure runs on the blocking pool, unless the task, the pool or
  the statement's I/O fails first.
\<close>

definition spawn_write :: "env \<Rightarrow> db_call \<Rightarrow> 'a db_act \<Rightarrow> 'a db_act" where
  "spawn_write E call f = (\<lambda>d. case e_fault E call of
     Some msg \<Rightarrow> (Inl (Err (DatabaseError msg)), d) | None \<Rightarrow> f d)"

definition spawn_read :: "env \<Rightarrow> db_call \<Rightarrow> (db \<Rightarrow> 'a result) \<Rightarrow> 'a db_act" where
  "spawn_read E call f = (\<lambda>d. case e_fault E call of
     Some msg \<Rightarrow> (Inl (Err (DatabaseError msg)), d) | None \<Rightarrow> (f d, d))"

text \<open>
  The only closure that can panic (date arithmetic in \<open>create_approval_request\<close>) does so in the task,
  whose failure is reported as a database error.
\<close>

definition in_task :: "'a db_act \<Rightarrow> 'a db_act" where
  "in_task f = (\<lambda>d. case f d of
     (Inl (Panic msg), d') \<Rightarrow> (Inl (Err (DatabaseError (''db task panicked: '' @ msg))), d')
   | r \<Rightarrow> r)"

text \<open>An INSERT into a table with a TEXT primary key.\<close>

definition insert_row :: "ext \<Rightarrow> string \<Rightarrow> ('r \<Rightarrow> string) \<Rightarrow> 'r \<Rightarrow> 'r list \<Rightarrow> 'r list result" where
  "insert_row X column key r rows =
     (if key r \<in> key ` set rows then Inl (sql_error X (UniqueViolation column)) else Inr (rows @ [r]))"

text \<open>A FOREIGN KEY clause on a column that may be NULL, enforced when the connection enforces it.\<close>

definition fk_ok :: "ext \<Rightarrow> ('r \<Rightarrow> string) \<Rightarrow> 'r list \<Rightarrow> string option \<Rightarrow> bool" where
  "fk_ok X key rows ref \<longleftrightarrow>
     \<not> x_foreign_keys X \<or> (case ref of None \<Rightarrow> True | Some k \<Rightarrow> k \<in> key ` set rows)"

section \<open>Columns\<close>

definition uuid_or_nil :: "ext \<Rightarrow> string \<Rightarrow> uuid" where
  "uuid_or_nil X s = (case x_uuid_parse X s of None \<Rightarrow> nil_uuid | Some u \<Rightarrow> u)"

definition opt_uuid :: "ext \<Rightarrow> string option \<Rightarrow> uuid option" where
  "opt_uuid X s = Option.bind s (x_uuid_parse X)"

text \<open>\<open>parse_from_rfc3339(..).unwrap_or(Utc::now())\<close>.\<close>

definition time_or_now :: "ext \<Rightarrow> time \<Rightarrow> string \<Rightarrow> time" where
  "time_or_now X now s = (case x_rfc3339_parse X s of None \<Rightarrow> now | Some t \<Rightarrow> t)"

definition opt_time :: "ext \<Rightarrow> string option \<Rightarrow> time option" where
  "opt_time X s = Option.bind s (x_rfc3339_parse X)"

definition opt_json :: "ext \<Rightarrow> string option \<Rightarrow> json option" where
  "opt_json X s = Option.bind s (x_json_parse X)"

lemma uuid_or_nil_str [simp]: "uuid_rt X \<Longrightarrow> uuid_or_nil X (x_uuid_str X u) = u"
  by (simp add: uuid_or_nil_def)

lemma opt_uuid_str [simp]: "uuid_rt X \<Longrightarrow> opt_uuid X (map_option (x_uuid_str X) u) = u"
  by (cases u) (simp_all add: opt_uuid_def)

lemma opt_uuid_None [simp]: "opt_uuid X None = None"
  by (simp add: opt_uuid_def)

lemma time_or_now_rt [simp]: "time_rt X t \<Longrightarrow> time_or_now X now (x_rfc3339 X t) = t"
  by (simp add: time_or_now_def)

lemma opt_time_rt [simp]: "pred_option (time_rt X) t \<Longrightarrow> opt_time X (map_option (x_rfc3339 X) t) = t"
  by (cases t) (simp_all add: opt_time_def)

lemma opt_time_None [simp]: "opt_time X None = None"
  by (simp add: opt_time_def)

lemma opt_json_rt [simp]: "pred_option (json_rt X) j \<Longrightarrow> opt_json X (map_option (x_json_str X) j) = j"
  by (cases j) (simp_all add: opt_json_def)

lemma opt_json_None [simp]: "opt_json X None = None"
  by (simp add: opt_json_def)

section \<open>Laws of the helpers\<close>

lemma spawn_write_apply [act_simps]:
  "spawn_write E call f d = (case e_fault E call of
     Some msg \<Rightarrow> (Inl (Err (DatabaseError msg)), d) | None \<Rightarrow> f d)"
  by (simp add: spawn_write_def)

lemma spawn_read_apply [act_simps]:
  "spawn_read E call f d = (case e_fault E call of
     Some msg \<Rightarrow> (Inl (Err (DatabaseError msg)), d) | None \<Rightarrow> (f d, d))"
  by (simp add: spawn_read_def)

lemma keeps_spawn_write [intro]: "keeps P f \<Longrightarrow> keeps P (spawn_write E call f)"
  by (simp add: keeps_def spawn_write_def split: option.split)

lemma keeps_spawn_read [intro]: "keeps P (spawn_read E call f)"
  by (simp add: keeps_def spawn_read_def split: option.split)

lemma in_task_Inr [simp]: "in_task f d = (Inr x, d') \<longleftrightarrow> f d = (Inr x, d')"
  by (auto simp: in_task_def split: prod.splits sum.splits fail.splits)

lemma in_task_state [simp]: "snd (in_task f d) = snd (f d)"
  by (auto simp: in_task_def split: prod.splits sum.splits fail.splits)

lemma keeps_in_task [intro]: "keeps P f \<Longrightarrow> keeps P (in_task f)"
  by (simp add: keeps_def)

lemma spawn_read_state [simp]: "snd (spawn_read E call f d) = d"
  by (simp add: spawn_read_def split: option.split)

lemma spawn_read_Inr: "spawn_read E call f d = (Inr x, d') \<longleftrightarrow> e_fault E call = None \<and> f d = Inr x \<and> d' = d"
  by (auto simp: spawn_read_def split: option.split)

lemma spawn_write_InrD:
  "spawn_write E call f d = (Inr x, d') \<Longrightarrow> e_fault E call = None \<and> f d = (Inr x, d')"
  by (simp add: spawn_write_def split: option.splits)

lemma insert_row_Inr: "insert_row X c key r rows = Inr rows' \<longleftrightarrow> key r \<notin> key ` set rows \<and> rows' = rows @ [r]"
  by (auto simp: insert_row_def)

lemma insert_row_distinct:
  "insert_row X c key r rows = Inr rows' \<Longrightarrow> distinct (map key rows) \<Longrightarrow> distinct (map key rows')"
  by (auto simp: insert_row_Inr)

section \<open>Values stored in rows\<close>

text \<open>
  The contract between a struct and its table: \<open>row_of\<close> is how the code writes a value, \<open>read\<close> how it
  reads a row, and values whose texts survive printing and parsing (\<open>good\<close>) are read back as written.
\<close>

locale stored =
  fixes row_of :: "'a \<Rightarrow> 'r"
    and read :: "'r \<Rightarrow> 'a"
    and key :: "'r \<Rightarrow> string"
    and good :: "'a \<Rightarrow> bool"
  assumes read_row: "good a \<Longrightarrow> read (row_of a) = a"
begin

lemma fetch_new:
  assumes "good a" and "key (row_of a) \<notin> key ` set rows"
  shows "map_option read (find (\<lambda>r. key r = key (row_of a)) (rows @ [row_of a])) = Some a"
  using assms find_key_None [of key "key (row_of a)" rows] by (simp add: find_append read_row)

lemma fetch_old:
  assumes "k \<noteq> key r"
  shows "find (\<lambda>r. key r = k) (rows @ [r]) = find (\<lambda>r. key r = k) rows"
  using assms by (simp add: find_append split: option.split)

lemma read_rows: "\<forall>a \<in> set as. good a \<Longrightarrow> map read (map row_of as) = as"
  by (induction as) (auto simp: read_row)

end

end
