(* ===== verification/Accounts.thy ===== *)
theory Accounts
  imports Tables
begin

text \<open>
  Agents and principals in the database (\<open>src/db/mod.rs\<close>): creation, lookup by id, by client-key
  hash (active agents only) and by e-mail, listing, and the client-key hash.
\<close>

section \<open>Agents\<close>

definition read_agent :: "ext \<Rightarrow> time \<Rightarrow> agent_row \<Rightarrow> agent" where
  "read_agent X now r =
     \<lparr> ag_id = uuid_or_nil X (agr_id r),
       ag_name = agr_name r,
       ag_principal_type = agent_type_of (agr_principal_type r),
       ag_public_key = agr_public_key r,
       ag_did = agr_did r,
       ag_owner_id = opt_uuid X (agr_owner_id r),
       ag_status = agent_status_of (agr_status r),
       ag_client_key_hash = agr_client_key_hash r,
       ag_created_at = time_or_now X now (agr_created_at r),
       ag_updated_at = time_or_now X now (agr_updated_at r) \<rparr>"

definition get_agent_sync :: "ext \<Rightarrow> time \<Rightarrow> uuid \<Rightarrow> db \<Rightarrow> agent result" where
  "get_agent_sync X now i d =
     (case find (\<lambda>r. agr_id r = x_uuid_str X i) (d_agents d) of
        Some r \<Rightarrow> Inr (read_agent X now r)
      | None \<Rightarrow> Inl (Err (AgentNotFound (x_uuid_str X i))))"

definition get_agent :: "ext \<Rightarrow> env \<Rightarrow> time \<Rightarrow> uuid \<Rightarrow> agent db_act" where
  "get_agent X E now i = spawn_read E CallGetAgent (get_agent_sync X now i)"

definition new_agent_row :: "ext \<Rightarrow> time \<Rightarrow> uuid \<Rightarrow> create_agent_request \<Rightarrow> agent_row" where
  "new_agent_row X now u req =
     \<lparr> agr_id = x_uuid_str X u,
       agr_name = car_name req,
       agr_principal_type = agent_type_str (car_principal_type req),
       agr_public_key = car_public_key req,
       agr_did = car_did req,
       agr_owner_id = map_option (x_uuid_str X) (car_owner_id req),
       agr_status = ''active'',
       agr_client_key_hash = None,
       agr_created_at = x_rfc3339 X now,
       agr_updated_at = x_rfc3339 X now \<rparr>"

definition create_agent_sync :: "ext \<Rightarrow> time \<Rightarrow> uuid \<Rightarrow> create_agent_request \<Rightarrow> agent db_act" where
  "create_agent_sync X now u req = (\<lambda>d.
     case insert_row X ''agents.id'' agr_id (new_agent_row X now u req) (d_agents d) of
       Inl e \<Rightarrow> (Inl e, d)
     | Inr rows \<Rightarrow> let d' = d\<lparr> d_agents := rows \<rparr> in (get_agent_sync X now u d', d'))"

definition create_agent :: "ext \<Rightarrow> env \<Rightarrow> time \<Rightarrow> uuid \<Rightarrow> create_agent_request \<Rightarrow> agent db_act" where
  "create_agent X E now u req = spawn_write E CallCreateAgent (create_agent_sync X now u req)"

definition set_agent_client_key_hash_sync :: "ext \<Rightarrow> time \<Rightarrow> uuid \<Rightarrow> string \<Rightarrow> unit db_act" where
  "set_agent_client_key_hash_sync X now i key_hash = (\<lambda>d.
     let P = (\<lambda>r. agr_id r = x_uuid_str X i) in
     if changes P (d_agents d) = 0 then (Inl (Err (AgentNotFound (x_uuid_str X i))), d)
     else (Inr (), d\<lparr> d_agents := update_where P
        (\<lambda>r. r\<lparr> agr_client_key_hash := Some key_hash, agr_updated_at := x_rfc3339 X now \<rparr>) (d_agents d) \<rparr>))"

definition set_agent_client_key_hash :: "ext \<Rightarrow> env \<Rightarrow> time \<Rightarrow> uuid \<Rightarrow> string \<Rightarrow> unit db_act" where
  "set_agent_client_key_hash X E now i key_hash =
     spawn_write E CallSetKeyHash (set_agent_client_key_hash_sync X now i key_hash)"

definition get_agent_by_client_key_hash_sync :: "ext \<Rightarrow> time \<Rightarrow> string \<Rightarrow> db \<Rightarrow> agent option result" where
  "get_agent_by_client_key_hash_sync X now key_hash d =
     (case find (\<lambda>r. agr_client_key_hash r = Some key_hash \<and> agr_status r = ''active'') (d_agents d) of
        None \<Rightarrow> Inr None
      | Some r \<Rightarrow>
          (case get_agent_sync X now (uuid_or_nil X (agr_id r)) d of
             Inl e \<Rightarrow> Inl e
           | Inr a \<Rightarrow> Inr (Some a)))"

definition get_agent_by_client_key_hash :: "ext \<Rightarrow> env \<Rightarrow> time \<Rightarrow> string \<Rightarrow> agent option db_act" where
  "get_agent_by_client_key_hash X E now key_hash =
     spawn_read E CallGetAgentByKey (get_agent_by_client_key_hash_sync X now key_hash)"

definition list_agents_sync :: "ext \<Rightarrow> time \<Rightarrow> db \<Rightarrow> agent list result" where
  "list_agents_sync X now d = Inr (map (read_agent X now) (order_desc agr_created_at (d_agents d)))"

definition list_agents :: "ext \<Rightarrow> env \<Rightarrow> time \<Rightarrow> agent list db_act" where
  "list_agents X E now = spawn_read E CallListAgents (list_agents_sync X now)"

definition health_check :: "env \<Rightarrow> unit db_act" where
  "health_check E = spawn_read E CallHealth (\<lambda>d. Inr ())"

definition checkpoint_wal :: "env \<Rightarrow> unit db_act" where
  "checkpoint_wal E = spawn_write E CallCheckpoint (\<lambda>d. (Inr (), d))"

section \<open>Principals\<close>

definition read_principal :: "ext \<Rightarrow> time \<Rightarrow> principal_row \<Rightarrow> principal" where
  "read_principal X now r =
     \<lparr> pr_id = uuid_or_nil X (prr_id r),
       pr_external_id = prr_external_id r,
       pr_idp_provider = prr_idp_provider r,
       pr_email = prr_email r,
       pr_display_name = prr_display_name r,
       pr_created_at = time_or_now X now (prr_created_at r) \<rparr>"

definition get_principal_sync :: "ext \<Rightarrow> time \<Rightarrow> uuid \<Rightarrow> db \<Rightarrow> principal result" where
  "get_principal_sync X now i d =
     (case find (\<lambda>r. prr_id r = x_uuid_str X i) (d_principals d) of
        Some r \<Rightarrow> Inr (read_principal X now r)
      | None \<Rightarrow> Inl (sql_error X NoRows))"

definition get_principal :: "ext \<Rightarrow> env \<Rightarrow> time \<Rightarrow> uuid \<Rightarrow> principal db_act" where
  "get_principal X E now i = spawn_read E CallGetPrincipal (get_principal_sync X now i)"

definition new_principal_row :: "ext \<Rightarrow> time \<Rightarrow> uuid \<Rightarrow> create_principal_request \<Rightarrow> principal_row" where
  "new_principal_row X now u req =
     \<lparr> prr_id = x_uuid_str X u,
       prr_external_id = cpr_external_id req,
       prr_idp_provider = cpr_idp_provider req,
       prr_email = cpr_email req,
       prr_display_name = cpr_display_name req,
       prr_created_at = x_rfc3339 X now \<rparr>"

definition create_principal_sync :: "ext \<Rightarrow> time \<Rightarrow> uuid \<Rightarrow> create_principal_request \<Rightarrow> principal db_act" where
  "create_principal_sync X now u req = (\<lambda>d.
     case insert_row X ''principals.id'' prr_id (new_principal_row X now u req) (d_principals d) of
       Inl e \<Rightarrow> (Inl e, d)
     | Inr rows \<Rightarrow> let d' = d\<lparr> d_principals := rows \<rparr> in (get_principal_sync X now u d', d'))"

definition create_principal :: "ext \<Rightarrow> env \<Rightarrow> time \<Rightarrow> uuid \<Rightarrow> create_principal_request \<Rightarrow> principal db_act" where
  "create_principal X E now u req = spawn_write E CallCreatePrincipal (create_principal_sync X now u req)"

definition get_principal_by_email_sync :: "ext \<Rightarrow> time \<Rightarrow> string \<Rightarrow> db \<Rightarrow> principal option" where
  "get_principal_by_email_sync X now email d =
     map_option (read_principal X now) (find (\<lambda>r. prr_email r = email) (d_principals d))"

text \<open>\<open>unwrap_or(None)\<close>: a failing read looks like an unknown address.\<close>

definition get_principal_by_email :: "ext \<Rightarrow> env \<Rightarrow> time \<Rightarrow> string \<Rightarrow> db \<Rightarrow> principal option" where
  "get_principal_by_email X E now email d =
     (case spawn_read E CallPrincipalByEmail (\<lambda>d. Inr (get_principal_by_email_sync X now email d)) d of
        (Inl _, _) \<Rightarrow> None
      | (Inr p, _) \<Rightarrow> p)"

section \<open>Reading back what was written\<close>

definition agent_row_of :: "ext \<Rightarrow> agent \<Rightarrow> agent_row" where
  "agent_row_of X a =
     \<lparr> agr_id = x_uuid_str X (ag_id a), agr_name = ag_name a,
       agr_principal_type = agent_type_str (ag_principal_type a),
       agr_public_key = ag_public_key a, agr_did = ag_did a,
       agr_owner_id = map_option (x_uuid_str X) (ag_owner_id a),
       agr_status = agent_status_str (ag_status a),
       agr_client_key_hash = ag_client_key_hash a,
       agr_created_at = x_rfc3339 X (ag_created_at a), agr_updated_at = x_rfc3339 X (ag_updated_at a) \<rparr>"

definition good_agent :: "ext \<Rightarrow> agent \<Rightarrow> bool" where
  "good_agent X a \<longleftrightarrow> uuid_rt X \<and> time_rt X (ag_created_at a) \<and> time_rt X (ag_updated_at a)"

interpretation agents: stored "agent_row_of X" "read_agent X now" agr_id "good_agent X" for X now
  by unfold_locales (simp add: read_agent_def agent_row_of_def good_agent_def enum_simps)

definition principal_row_of :: "ext \<Rightarrow> principal \<Rightarrow> principal_row" where
  "principal_row_of X p =
     \<lparr> prr_id = x_uuid_str X (pr_id p), prr_external_id = pr_external_id p,
       prr_idp_provider = pr_idp_provider p, prr_email = pr_email p,
       prr_display_name = pr_display_name p, prr_created_at = x_rfc3339 X (pr_created_at p) \<rparr>"

definition good_principal :: "ext \<Rightarrow> principal \<Rightarrow> bool" where
  "good_principal X p \<longleftrightarrow> uuid_rt X \<and> time_rt X (pr_created_at p)"

interpretation principals: stored "principal_row_of X" "read_principal X now" prr_id "good_principal X" for X now
  by unfold_locales (simp add: read_principal_def principal_row_of_def good_principal_def)

text \<open>The agent and the principal a request describes.\<close>

definition agent_of_request :: "time \<Rightarrow> uuid \<Rightarrow> create_agent_request \<Rightarrow> agent" where
  "agent_of_request now u req =
     \<lparr> ag_id = u, ag_name = car_name req, ag_principal_type = car_principal_type req,
       ag_public_key = car_public_key req, ag_did = car_did req, ag_owner_id = car_owner_id req,
       ag_status = Active, ag_client_key_hash = None, ag_created_at = now, ag_updated_at = now \<rparr>"

lemma new_agent_row_of: "new_agent_row X now u req = agent_row_of X (agent_of_request now u req)"
  by (simp add: new_agent_row_def agent_row_of_def agent_of_request_def)

definition principal_of_request :: "time \<Rightarrow> uuid \<Rightarrow> create_principal_request \<Rightarrow> principal" where
  "principal_of_request now u req =
     \<lparr> pr_id = u, pr_external_id = cpr_external_id req, pr_idp_provider = cpr_idp_provider req,
       pr_email = cpr_email req, pr_display_name = cpr_display_name req, pr_created_at = now \<rparr>"

lemma new_principal_row_of:
  "new_principal_row X now u req = principal_row_of X (principal_of_request now u req)"
  by (simp add: new_principal_row_def principal_row_of_def principal_of_request_def)

lemma get_agent_sync_alt:
  "get_agent_sync X now i d =
     ok_or (map_option (read_agent X now) (find (\<lambda>r. agr_id r = x_uuid_str X i) (d_agents d)))
       (Err (AgentNotFound (x_uuid_str X i)))"
  by (simp add: get_agent_sync_def split: option.split)

lemma get_agent_after_insert:
  assumes "good_agent X a" and "x_uuid_str X (ag_id a) \<notin> agr_id ` set (d_agents d)"
  shows "get_agent_sync X now (ag_id a) (d\<lparr> d_agents := d_agents d @ [agent_row_of X a] \<rparr>) = Inr a"
  using agents.fetch_new [OF assms(1), where rows = "d_agents d"] assms(2)
  by (simp add: get_agent_sync_alt agent_row_of_def)

text \<open>
  Creating an agent with a fresh identifier succeeds and returns exactly the agent of the request,
  active and without a client key; it can be read back, and every other agent reads as before.
\<close>

lemma create_agent_then_get:
  assumes "uuid_rt X" and "time_rt X now" and "e_fault E CallCreateAgent = None"
    and "x_uuid_str X u \<notin> agr_id ` set (d_agents d)"
  shows "\<exists>d'. create_agent X E now u req d = (Inr (agent_of_request now u req), d')
    \<and> get_agent_sync X now' u d' = Inr (agent_of_request now u req)
    \<and> (\<forall>v. v \<noteq> u \<longrightarrow> get_agent_sync X now' v d' = get_agent_sync X now' v d)"
proof -
  define a where "a = agent_of_request now u req"
  define d' where "d' = d\<lparr> d_agents := d_agents d @ [agent_row_of X a] \<rparr>"
  have a: "ag_id a = u" "good_agent X a"
    using assms(1,2) by (simp_all add: a_def agent_of_request_def good_agent_def)
  have get: "get_agent_sync X n u d' = Inr a" for n
    using get_agent_after_insert [OF a(2)] assms(4) a(1) by (simp add: d'_def)
  have ins: "insert_row X ''agents.id'' agr_id (new_agent_row X now u req) (d_agents d)
      = Inr (d_agents d @ [agent_row_of X a])"
    using assms(4) by (simp add: insert_row_def new_agent_row_of a_def [symmetric])
      (simp add: agent_row_of_def a)
  have "create_agent X E now u req d = (Inr a, d')"
    using get by (simp add: create_agent_def act_simps assms(3) create_agent_sync_def ins Let_def d'_def)
  moreover have "get_agent_sync X now' v d' = get_agent_sync X now' v d" if "v \<noteq> u" for v
  proof -
    have "x_uuid_str X v \<noteq> agr_id (agent_row_of X a)"
      using that assms(1) by (simp add: agent_row_of_def a uuid_str_inj)
    then show ?thesis
      using agents.fetch_old [where k = "x_uuid_str X v" and r = "agent_row_of X a" and rows = "d_agents d"]
      by (simp add: get_agent_sync_alt d'_def)
  qed
  ultimately show ?thesis using get by (auto simp: a_def)
qed

definition demo_agent_request :: create_agent_request where
  "demo_agent_request = \<lparr> car_name = ''bot'', car_principal_type = Delegated, car_public_key = None,
     car_did = None, car_owner_id = Some 3 \<rparr>"

lemma create_agent_then_get_witness:
  "\<exists>d'. create_agent demo_ext demo_env 5 7 demo_agent_request empty_db
      = (Inr (agent_of_request 5 7 demo_agent_request), d')
    \<and> get_agent_sync demo_ext 9 7 d' = Inr (agent_of_request 5 7 demo_agent_request)
    \<and> (\<forall>v. v \<noteq> 7 \<longrightarrow> get_agent_sync demo_ext 9 v d' = get_agent_sync demo_ext 9 v empty_db)"
  by (rule create_agent_then_get)
    (simp_all add: demo_uuid_rt demo_time_rt, simp_all add: demo_env_def empty_db_def)

section \<open>Client keys\<close>

definition agent_ids_ok :: "ext \<Rightarrow> db \<Rightarrow> bool" where
  "agent_ids_ok X d \<longleftrightarrow> distinct (map agr_id (d_agents d)) \<and>
     (\<forall>r \<in> set (d_agents d). \<exists>u. agr_id r = x_uuid_str X u)"

lemma agent_ids_ok_empty: "agent_ids_ok X empty_db"
  by (simp add: agent_ids_ok_def empty_db_def)

text \<open>
  A lookup by client-key hash returns only an active agent that carries this very hash and whose row
  is stored under its own id: a suspended or decommissioned agent cannot be found by its key.
\<close>

lemma client_key_lookup_sound:
  assumes "get_agent_by_client_key_hash_sync X now h d = Inr (Some a)"
    and "agent_ids_ok X d" and "uuid_rt X"
  shows "ag_client_key_hash a = Some h \<and> ag_status a = Active
    \<and> get_agent_sync X now (ag_id a) d = Inr a"
proof -
  from assms(1) obtain r where r: "find (\<lambda>r. agr_client_key_hash r = Some h \<and> agr_status r = ''active'') (d_agents d) = Some r"
    and a: "get_agent_sync X now (uuid_or_nil X (agr_id r)) d = Inr a"
    by (auto simp: get_agent_by_client_key_hash_sync_def split: option.splits sum.splits)
  from r have mem: "r \<in> set (d_agents d)" and h: "agr_client_key_hash r = Some h" "agr_status r = ''active''"
    by (auto simp: find_Some_iff)
  from assms(2) have ids: "distinct (map agr_id (d_agents d))" by (simp add: agent_ids_ok_def)
  from assms(2) mem obtain u where u: "agr_id r = x_uuid_str X u" by (auto simp: agent_ids_ok_def)
  have "find (\<lambda>r. agr_id r = x_uuid_str X u) (d_agents d) = Some r"
    using find_key_distinct [OF ids mem u] .
  with a u assms(3) have "a = read_agent X now r" and "ag_id a = u" and get: "get_agent_sync X now u d = Inr a"
    by (auto simp: get_agent_sync_def read_agent_def)
  with h show ?thesis by (simp add: read_agent_def agent_status_of_def)
qed

lemma set_key_hash_InrD:
  assumes "set_agent_client_key_hash_sync X now i h d = (Inr (), d')"
  shows "d' = d\<lparr> d_agents := update_where (\<lambda>r. agr_id r = x_uuid_str X i)
      (\<lambda>r. r\<lparr> agr_client_key_hash := Some h, agr_updated_at := x_rfc3339 X now \<rparr>) (d_agents d) \<rparr>"
    and "\<exists>r \<in> set (d_agents d). agr_id r = x_uuid_str X i"
  using assms by (auto simp: set_agent_client_key_hash_sync_def Let_def changes_def filter_empty_conv split: if_splits)

end
