(* ===== verification/Audit_Log.thy ===== *)
theory Audit_Log
  imports Accounts
begin

text \<open>
  The audit log in the database (\<open>src/db/mod.rs\<close>): appending an entry chains it to the newest row
  under the write lock; listing and the readers that feed the verifier. The main result: whatever is
  appended, the log read back in insertion order is a valid chain.
\<close>

section \<open>Appending\<close>

definition previous_hash :: "db \<Rightarrow> string" where
  "previous_hash d = (case order_desc aur_id (d_audit d) of [] \<Rightarrow> genesis_prev_hash | r # _ \<Rightarrow> aur_row_hash r)"

definition new_audit_entry :: "ext \<Rightarrow> time \<Rightarrow> create_audit_entry \<Rightarrow> db \<Rightarrow> audit_entry" where
  "new_audit_entry X now entry d =
     (let audit = \<lparr> au_id = 0, au_prev_hash = previous_hash d, au_row_hash = [],
        au_agent_id = cae_agent_id entry, au_principal_id = cae_principal_id entry,
        au_action = cae_action entry, au_resource = cae_resource entry,
        au_decision = decision_str (cae_decision entry), au_reason = cae_reason entry,
        au_delegation_chain = cae_delegation_chain entry, au_token_jti = cae_token_jti entry,
        au_dry_run = cae_dry_run entry, au_timestamp = now \<rparr>
      in audit\<lparr> au_row_hash := compute_hash X audit \<rparr>)"

definition audit_row_of :: "ext \<Rightarrow> audit_entry \<Rightarrow> audit_row" where
  "audit_row_of X e =
     \<lparr> aur_id = au_id e, aur_prev_hash = au_prev_hash e, aur_row_hash = au_row_hash e,
       aur_agent_id = x_uuid_str X (au_agent_id e),
       aur_principal_id = map_option (x_uuid_str X) (au_principal_id e),
       aur_action = au_action e, aur_resource = au_resource e, aur_decision = au_decision e,
       aur_reason = au_reason e,
       aur_delegation_chain = map_option (x_json_str X) (au_delegation_chain e),
       aur_token_jti = au_token_jti e, aur_dry_run = (if au_dry_run e then 1 else 0),
       aur_timestamp = x_rfc3339 X (au_timestamp e) \<rparr>"

definition max_rowid :: int where
  "max_rowid = 2 ^ 63 - 1"

definition create_audit_entry_sync :: "ext \<Rightarrow> time \<Rightarrow> create_audit_entry \<Rightarrow> audit_entry db_act" where
  "create_audit_entry_sync X now entry = (\<lambda>d.
     if d_audit_seq d = max_rowid then (Inl (sql_error X DatabaseFull), d)
     else
       let audit = (new_audit_entry X now entry d)\<lparr> au_id := d_audit_seq d + 1 \<rparr>
       in (Inr audit, d\<lparr> d_audit := d_audit d @ [audit_row_of X audit], d_audit_seq := d_audit_seq d + 1 \<rparr>))"

definition create_audit_entry :: "ext \<Rightarrow> env \<Rightarrow> time \<Rightarrow> create_audit_entry \<Rightarrow> audit_entry db_act" where
  "create_audit_entry X E now entry = spawn_write E CallCreateAudit (create_audit_entry_sync X now entry)"

section \<open>Reading\<close>

definition audit_entry_from_row :: "ext \<Rightarrow> time \<Rightarrow> audit_row \<Rightarrow> audit_entry" where
  "audit_entry_from_row X now r =
     \<lparr> au_id = aur_id r, au_prev_hash = aur_prev_hash r, au_row_hash = aur_row_hash r,
       au_agent_id = uuid_or_nil X (aur_agent_id r),
       au_principal_id = opt_uuid X (aur_principal_id r),
       au_action = aur_action r, au_resource = aur_resource r, au_decision = aur_decision r,
       au_reason = aur_reason r,
       au_delegation_chain = opt_json X (aur_delegation_chain r),
       au_token_jti = aur_token_jti r, au_dry_run = (aur_dry_run r \<noteq> 0),
       au_timestamp = time_or_now X now (aur_timestamp r) \<rparr>"

text \<open>SQLite reads a negative LIMIT as no limit.\<close>

definition sql_limit :: "int \<Rightarrow> 'r list \<Rightarrow> 'r list" where
  "sql_limit n rows = (if n < 0 then rows else take (nat n) rows)"

definition list_audit_entries_sync :: "ext \<Rightarrow> time \<Rightarrow> int \<Rightarrow> db \<Rightarrow> audit_entry list result" where
  "list_audit_entries_sync X now limit d =
     Inr (map (audit_entry_from_row X now) (sql_limit limit (order_desc aur_id (d_audit d))))"

definition list_audit_entries :: "ext \<Rightarrow> env \<Rightarrow> time \<Rightarrow> int \<Rightarrow> audit_entry list db_act" where
  "list_audit_entries X E now limit = spawn_read E CallListAudit (list_audit_entries_sync X now limit)"

definition all_audit_entries_sync :: "ext \<Rightarrow> time \<Rightarrow> db \<Rightarrow> audit_entry list result" where
  "all_audit_entries_sync X now d = Inr (map (audit_entry_from_row X now) (sort_key aur_id (d_audit d)))"

definition all_audit_entries :: "ext \<Rightarrow> env \<Rightarrow> time \<Rightarrow> audit_entry list db_act" where
  "all_audit_entries X E now = spawn_read E CallAllAudit (all_audit_entries_sync X now)"

text \<open>The reader of the command-line verifier, on a connection of its own.\<close>

definition read_audit_entries_for_verification :: "ext \<Rightarrow> time \<Rightarrow> db \<Rightarrow> audit_entry list result" where
  "read_audit_entries_for_verification X now d =
     Inr (map (audit_entry_from_row X now) (sort_key aur_id (d_audit d)))"

section \<open>Entries survive storage\<close>

definition good_entry :: "ext \<Rightarrow> audit_entry \<Rightarrow> bool" where
  "good_entry X e \<longleftrightarrow> uuid_rt X \<and> time_rt X (au_timestamp e) \<and> pred_option (json_rt X) (au_delegation_chain e)"

interpretation audit_rows: stored "audit_row_of X" "audit_entry_from_row X now" aur_row_hash "good_entry X" for X now
  by unfold_locales (simp add: audit_entry_from_row_def audit_row_of_def good_entry_def)

text \<open>
  The log is well formed: row ids increase up to the counter, every row was written from an entry
  that reads back, and those entries chain.
\<close>

definition log_ok :: "ext \<Rightarrow> db \<Rightarrow> bool" where
  "log_ok X d \<longleftrightarrow> sorted_wrt (<) (map aur_id (d_audit d)) \<and> (\<forall>r \<in> set (d_audit d). aur_id r \<le> d_audit_seq d)
     \<and> (\<exists>es. d_audit d = map (audit_row_of X) es \<and> (\<forall>e \<in> set es. good_entry X e)
          \<and> is_valid (verify_chain X es))"

lemma log_ok_empty: "log_ok X empty_db"
  by (simp add: log_ok_def empty_db_def is_valid_def verify_chain_def)

lemma insort_last: "\<forall>x \<in> set xs. k x < k r \<Longrightarrow> insort_key k r xs = xs @ [r]"
  by (induction xs) auto

lemma sort_key_rev_increasing: "sorted_wrt (<) (map k rows) \<Longrightarrow> sort_key k (rev rows) = rows"
proof (induction rows rule: rev_induct)
  case Nil
  then show ?case by simp
next
  case (snoc r rows)
  then show ?case by (simp add: sorted_wrt_append insort_last)
qed

lemma order_desc_increasing: "sorted_wrt (<) (map k rows) \<Longrightarrow> order_desc k rows = rev rows"
  by (simp add: order_desc_def sort_key_rev_increasing)

lemma sort_key_increasing: "sorted_wrt (<) (map k rows) \<Longrightarrow> sort_key k rows = rows"
proof (induction rows)
  case Nil
  then show ?case by simp
next
  case (Cons r rows)
  then have "sort_key k rows = rows" and "\<forall>x \<in> set rows. k r < k x" by auto
  then show ?case by (cases rows) (auto simp: less_imp_le)
qed

text \<open>The hash an appended entry refers to is the hash of the last row.\<close>

lemma previous_hash_last:
  assumes "sorted_wrt (<) (map aur_id (d_audit d))"
  shows "previous_hash d = (if d_audit d = [] then genesis_prev_hash else aur_row_hash (last (d_audit d)))"
  using assms by (cases "d_audit d" rule: rev_cases) (simp_all add: previous_hash_def order_desc_increasing)

lemma all_audit_entries_log_ok:
  assumes "log_ok X d" and "d_audit d = map (audit_row_of X) es" and "\<forall>e \<in> set es. good_entry X e"
  shows "all_audit_entries_sync X now d = Inr es"
  using assms audit_rows.read_rows [OF assms(3)]
  by (simp add: all_audit_entries_sync_def log_ok_def sort_key_increasing del: map_map)

text \<open>The entries of a well-formed log.\<close>

definition log_entries :: "ext \<Rightarrow> db \<Rightarrow> audit_entry list" where
  "log_entries X d = map (audit_entry_from_row X 0) (d_audit d)"

lemma log_okE:
  assumes "log_ok X d"
  shows "all_audit_entries_sync X now d = Inr (log_entries X d)"
    and "is_valid (verify_chain X (log_entries X d))"
    and "d_audit d = map (audit_row_of X) (log_entries X d)"
    and "\<forall>e \<in> set (log_entries X d). good_entry X e"
    and "list_audit_entries_sync X now limit d = Inr (sql_limit limit (rev (log_entries X d)))"
proof -
  from assms obtain es where es: "d_audit d = map (audit_row_of X) es" "\<forall>e \<in> set es. good_entry X e"
    "is_valid (verify_chain X es)" and ids: "sorted_wrt (<) (map aur_id (d_audit d))"
    by (auto simp: log_ok_def)
  have read: "map (audit_entry_from_row X n) (d_audit d) = es" for n
    unfolding es(1) by (rule audit_rows.read_rows [OF es(2)])
  then have les: "log_entries X d = es" by (simp add: log_entries_def)
  show "all_audit_entries_sync X now d = Inr (log_entries X d)"
    using read ids by (simp add: all_audit_entries_sync_def sort_key_increasing les)
  show "list_audit_entries_sync X now limit d = Inr (sql_limit limit (rev (log_entries X d)))"
    unfolding les read [of now, symmetric] using ids
    by (simp add: list_audit_entries_sync_def sql_limit_def order_desc_increasing rev_map take_map)
  show "is_valid (verify_chain X (log_entries X d))" "d_audit d = map (audit_row_of X) (log_entries X d)"
    "\<forall>e \<in> set (log_entries X d). good_entry X e"
    using es les by auto
qed

lemma new_audit_entry_simps [simp]:
  "au_prev_hash (new_audit_entry X now entry d) = previous_hash d"
  "au_row_hash (new_audit_entry X now entry d) = compute_hash X (new_audit_entry X now entry d)"
  "au_timestamp (new_audit_entry X now entry d) = now"
  "au_delegation_chain (new_audit_entry X now entry d) = cae_delegation_chain entry"
  by (simp_all add: new_audit_entry_def compute_hash_def hash_input_def Let_def)

lemma compute_hash_id [simp]: "compute_hash X (e\<lparr> au_id := n \<rparr>) = compute_hash X e"
  by (simp add: compute_hash_def hash_input_def)

text \<open>One append: the new entry is the old ones' successor and the log stays well formed.\<close>

lemma create_audit_log_ok:
  assumes "log_ok X d" and "uuid_rt X" and "time_rt X now" and "pred_option (json_rt X) (cae_delegation_chain entry)"
    and "create_audit_entry_sync X now entry d = (Inr audit, d')"
  shows "log_ok X d' \<and> log_entries X d' = log_entries X d @ [audit]"
proof -
  let ?es = "log_entries X d"
  from assms(5) have audit: "audit = (new_audit_entry X now entry d)\<lparr> au_id := d_audit_seq d + 1 \<rparr>"
    and d': "d' = d\<lparr> d_audit := d_audit d @ [audit_row_of X audit], d_audit_seq := d_audit_seq d + 1 \<rparr>"
    by (auto simp: create_audit_entry_sync_def Let_def split: if_splits)
  have rows: "d_audit d = map (audit_row_of X) ?es" and good: "\<forall>e \<in> set ?es. good_entry X e"
    and valid: "is_valid (verify_chain X ?es)"
    using log_okE [OF assms(1)] by auto
  have ids: "sorted_wrt (<) (map aur_id (d_audit d))" and seq: "\<forall>r \<in> set (d_audit d). aur_id r \<le> d_audit_seq d"
    using assms(1) by (auto simp: log_ok_def)
  have good': "good_entry X audit"
    using assms(2-4) by (simp add: good_entry_def audit)
  have "previous_hash d = (if ?es = [] then genesis_prev_hash else au_row_hash (last ?es))"
    unfolding previous_hash_last [OF ids] by (subst (1 2) rows) (simp add: last_map audit_row_of_def)
  then have valid': "is_valid (verify_chain X (?es @ [audit]))"
    using valid unfolding is_valid_snoc by (simp add: audit)
  have rows': "d_audit d' = map (audit_row_of X) (?es @ [audit])"
    using rows by (simp add: d')
  have "sorted_wrt (<) (map aur_id (d_audit d'))" "\<forall>r \<in> set (d_audit d'). aur_id r \<le> d_audit_seq d'"
    using ids seq by (fastforce simp: d' sorted_wrt_append audit_row_of_def audit)+
  with rows' valid' good good' have ok: "log_ok X d'"
    unfolding log_ok_def by (intro conjI exI [of _ "?es @ [audit]"]) auto
  have "log_entries X d' = ?es @ [audit]"
    unfolding log_entries_def [of X d'] rows' by (rule audit_rows.read_rows) (use good good' in auto)
  with ok show ?thesis by blast
qed

lemma create_audit_fail_state: "create_audit_entry_sync X now entry d = (Inl e, d') \<Longrightarrow> d' = d"
  by (simp add: create_audit_entry_sync_def Let_def split: if_splits)

section \<open>Histories of the log\<close>

text \<open>A request appends an entry at some time; the call may fail.\<close>

definition audit_step :: "ext \<Rightarrow> env \<times> time \<times> create_audit_entry \<Rightarrow> db \<Rightarrow> db" where
  "audit_step X op d = (case op of (E, now, entry) \<Rightarrow> snd (create_audit_entry X E now entry d))"

definition good_append :: "ext \<Rightarrow> env \<times> time \<times> create_audit_entry \<Rightarrow> bool" where
  "good_append X op = (case op of (E, now, entry) \<Rightarrow>
     uuid_rt X \<and> time_rt X now \<and> pred_option (json_rt X) (cae_delegation_chain entry))"

lemma log_ok_audit_step: "good_append X op \<Longrightarrow> log_ok X d \<Longrightarrow> log_ok X (audit_step X op d)"
proof -
  assume g: "good_append X op" and ok: "log_ok X d"
  obtain E now entry where op: "op = (E, now, entry)" by (cases op)
  show "log_ok X (audit_step X op d)"
  proof (cases "create_audit_entry_sync X now entry d")
    case (Pair r d')
    then show ?thesis
      using g ok create_audit_log_ok [of X d now entry _ d'] create_audit_fail_state [of X now entry d _ d']
      by (cases r) (auto simp: op audit_step_def good_append_def create_audit_entry_def act_simps split: option.splits)
  qed
qed

interpretation audit_run: stepper "audit_step X" "good_append X" "log_ok X" for X
  by unfold_locales (rule log_ok_audit_step)

text \<open>
  From an empty database, after any sequence of appends, some of which may fail, the verifier
  accepts the log that the database reads back. The texts of identifiers, of the times and of the
  delegation chains involved are assumed to survive printing and parsing.
\<close>

lemma audit_log_verifies:
  assumes "\<forall>op \<in> set ops. good_append X op"
  shows "\<exists>es. all_audit_entries_sync X now (fold (audit_step X) ops empty_db) = Inr es
    \<and> is_valid (verify_chain X es)"
  using log_okE(1,2) [OF audit_run.fold_inv [OF assms log_ok_empty]] by blast

text \<open>
  A successful append to a well-formed log returns an entry with the request's fields, chained to
  the newest row, and the log afterwards reads as before with that entry at the end; the listing for
  operators begins with it.
\<close>

lemma append_extends_log:
  assumes "log_ok X d" and "uuid_rt X" and "time_rt X now"
    and "pred_option (json_rt X) (cae_delegation_chain entry)"
    and "create_audit_entry_sync X now entry d = (Inr audit, d')"
  shows "all_audit_entries_sync X n d' = Inr (log_entries X d @ [audit])
    \<and> list_audit_entries_sync X n 1 d' = Inr [audit]
    \<and> au_agent_id audit = cae_agent_id entry \<and> au_action audit = cae_action entry
    \<and> au_resource audit = cae_resource entry \<and> au_decision audit = decision_str (cae_decision entry)
    \<and> au_reason audit = cae_reason entry \<and> au_token_jti audit = cae_token_jti entry
    \<and> au_dry_run audit = cae_dry_run entry \<and> au_timestamp audit = now"
proof -
  from create_audit_log_ok [OF assms] have ok: "log_ok X d'" and es: "log_entries X d' = log_entries X d @ [audit]"
    by auto
  have "audit = (new_audit_entry X now entry d)\<lparr> au_id := d_audit_seq d + 1 \<rparr>"
    using assms(5) by (auto simp: create_audit_entry_sync_def Let_def split: if_splits)
  then show ?thesis
    using log_okE(1,5) [OF ok] es by (simp add: sql_limit_def new_audit_entry_def Let_def)
qed

definition demo_create_audit :: create_audit_entry where
  "demo_create_audit = \<lparr> cae_agent_id = 7, cae_principal_id = None, cae_action = ''read'',
     cae_resource = ''db'', cae_decision = Deny, cae_reason = ''no'', cae_delegation_chain = None,
     cae_token_jti = None, cae_dry_run = True \<rparr>"

lemma demo_good_append: "0 \<le> t \<Longrightarrow> good_append demo_ext (E, t, demo_create_audit)"
  by (simp add: good_append_def demo_uuid_rt demo_time_rt demo_create_audit_def)

lemma audit_log_verifies_witness:
  "\<exists>es. all_audit_entries_sync demo_ext 0 (fold (audit_step demo_ext)
       [(demo_env, 4, demo_create_audit), (demo_env, 9, demo_create_audit)] empty_db) = Inr es
     \<and> is_valid (verify_chain demo_ext es)"
  by (rule audit_log_verifies) (simp add: demo_good_append)

lemma append_extends_log_witness:
  "\<exists>audit d'. create_audit_entry_sync demo_ext 4 demo_create_audit empty_db = (Inr audit, d')
     \<and> all_audit_entries_sync demo_ext 0 d' = Inr (log_entries demo_ext empty_db @ [audit])"
proof -
  obtain audit d' where c: "create_audit_entry_sync demo_ext 4 demo_create_audit empty_db = (Inr audit, d')"
    by (simp add: create_audit_entry_sync_def empty_db_def max_rowid_def Let_def)
  have "pred_option (json_rt demo_ext) (cae_delegation_chain demo_create_audit)"
    by (simp add: demo_create_audit_def)
  from append_extends_log [OF log_ok_empty demo_uuid_rt _ this c] c demo_time_rt [of 4] show ?thesis
    by auto
qed

end
