(* ===== verification/Catalog.thy ===== *)
theory Catalog
  imports Audit_Log
begin

text \<open>
  Policies and resources in the database (\<open>src/db/mod.rs\<close>): the default policy, activation of a new
  policy, the active policy's text, and the resource catalogue.
\<close>

section \<open>Policies\<close>

definition newline :: string where
  "newline = [CHR 0x0A]"

definition default_policy_yaml :: string where
  "default_policy_yaml =
     ''- name: deny-by-default'' @ newline @ ''  decision: deny'' @ newline
     @ ''  reason: No matching policy'' @ newline"

definition is_active :: "policy_row \<Rightarrow> bool" where
  "is_active r \<longleftrightarrow> por_status r = ''active''"

definition new_policy_row :: "ext \<Rightarrow> time \<Rightarrow> uuid \<Rightarrow> string \<Rightarrow> string \<Rightarrow> string \<Rightarrow> policy_row" where
  "new_policy_row X now u name engine yaml =
     \<lparr> por_id = x_uuid_str X u, por_name = name, por_version = 1, por_engine = engine,
       por_definition = yaml, por_status = ''active'',
       por_created_at = x_rfc3339 X now, por_updated_at = x_rfc3339 X now \<rparr>"

definition insert_policy :: "ext \<Rightarrow> policy_row \<Rightarrow> unit db_act" where
  "insert_policy X r = (\<lambda>d.
     case insert_row X ''policies.id'' por_id r (d_policies d) of
       Inl e \<Rightarrow> (Inl e, d)
     | Inr rows \<Rightarrow> (Inr (), d\<lparr> d_policies := rows \<rparr>))"

definition create_default_policy_sync :: "ext \<Rightarrow> time \<Rightarrow> uuid \<Rightarrow> unit db_act" where
  "create_default_policy_sync X now u = (\<lambda>d.
     if changes is_active (d_policies d) = 0
     then insert_policy X (new_policy_row X now u ''default'' ''yaml'' default_policy_yaml) d
     else (Inr (), d))"

definition create_default_policy :: "ext \<Rightarrow> env \<Rightarrow> time \<Rightarrow> uuid \<Rightarrow> unit db_act" where
  "create_default_policy X E now u = spawn_write E CallDefaultPolicy (create_default_policy_sync X now u)"

definition active_policy :: "db \<Rightarrow> policy_row option" where
  "active_policy d = (case order_desc por_updated_at (filter is_active (d_policies d)) of
     [] \<Rightarrow> None | r # _ \<Rightarrow> Some r)"

definition load_active_policy_yaml :: "env \<Rightarrow> string db_act" where
  "load_active_policy_yaml E = spawn_read E CallLoadPolicy
     (\<lambda>d. Inr (case active_policy d of None \<Rightarrow> [] | Some r \<Rightarrow> por_definition r))"

text \<open>
  \<open>create_policy\<close>: two statements that are not one transaction. When the second fails, the first has
  already deprecated the active policy.
\<close>

definition deprecate_active :: "ext \<Rightarrow> time \<Rightarrow> db \<Rightarrow> db" where
  "deprecate_active X now d =
     d\<lparr> d_policies := update_where is_active
         (\<lambda>r. r\<lparr> por_status := ''deprecated'', por_updated_at := x_rfc3339 X now \<rparr>) (d_policies d) \<rparr>"

definition create_policy ::
    "ext \<Rightarrow> env \<Rightarrow> time \<Rightarrow> uuid \<Rightarrow> string \<Rightarrow> string \<Rightarrow> string \<Rightarrow> unit db_act" where
  "create_policy X E now u name engine yaml =
     spawn_write E CallCreatePolicy
       (and_then (modify (deprecate_active X now)) (\<lambda>_.
          spawn_write E CallInsertPolicy (insert_policy X (new_policy_row X now u name engine yaml))))"

definition list_policies :: "ext \<Rightarrow> env \<Rightarrow> (uuid \<times> string \<times> string \<times> string \<times> string) list db_act" where
  "list_policies X E = spawn_read E CallListPolicies (\<lambda>d. Inr
     (map (\<lambda>r. (uuid_or_nil X (por_id r), por_name r, por_engine r, por_status r, por_definition r))
        (order_desc por_created_at (d_policies d))))"

section \<open>Resources\<close>

definition read_resource :: "ext \<Rightarrow> time \<Rightarrow> resource_row \<Rightarrow> resource" where
  "read_resource X now r =
     \<lparr> re_id = uuid_or_nil X (rer_id r),
       re_name = rer_name r,
       re_resource_type = resource_type_of (rer_resource_type r),
       re_uri = rer_uri r,
       re_actions = (case x_json_parse X (rer_actions r) of None \<Rightarrow> JNull | Some j \<Rightarrow> j),
       re_sensitivity = sensitivity_of (rer_sensitivity r),
       re_owner_id = opt_uuid X (rer_owner_id r),
       re_credential_config = opt_json X (rer_credential_config r),
       re_created_at = time_or_now X now (rer_created_at r) \<rparr>"

definition get_resource_sync :: "ext \<Rightarrow> time \<Rightarrow> uuid \<Rightarrow> db \<Rightarrow> resource result" where
  "get_resource_sync X now i d =
     (case find (\<lambda>r. rer_id r = x_uuid_str X i) (d_resources d) of
        Some r \<Rightarrow> Inr (read_resource X now r)
      | None \<Rightarrow> Inl (sql_error X NoRows))"

definition get_resource :: "ext \<Rightarrow> env \<Rightarrow> time \<Rightarrow> uuid \<Rightarrow> resource db_act" where
  "get_resource X E now i = spawn_read E CallGetResource (get_resource_sync X now i)"

definition new_resource_row :: "ext \<Rightarrow> time \<Rightarrow> uuid \<Rightarrow> create_resource_request \<Rightarrow> resource_row" where
  "new_resource_row X now u req =
     \<lparr> rer_id = x_uuid_str X u,
       rer_name = crr_name req,
       rer_resource_type = resource_type_str (crr_resource_type req),
       rer_uri = crr_uri req,
       rer_actions = x_json_str X (crr_actions req),
       rer_sensitivity = sensitivity_str (crr_sensitivity req),
       rer_owner_id = map_option (x_uuid_str X) (crr_owner_id req),
       rer_credential_config = map_option (x_json_str X) (crr_credential_config req),
       rer_created_at = x_rfc3339 X now \<rparr>"

definition create_resource_sync :: "ext \<Rightarrow> time \<Rightarrow> uuid \<Rightarrow> create_resource_request \<Rightarrow> resource db_act" where
  "create_resource_sync X now u req = (\<lambda>d.
     case insert_row X ''resources.id'' rer_id (new_resource_row X now u req) (d_resources d) of
       Inl e \<Rightarrow> (Inl e, d)
     | Inr rows \<Rightarrow> let d' = d\<lparr> d_resources := rows \<rparr> in (get_resource_sync X now u d', d'))"

definition create_resource :: "ext \<Rightarrow> env \<Rightarrow> time \<Rightarrow> uuid \<Rightarrow> create_resource_request \<Rightarrow> resource db_act" where
  "create_resource X E now u req = spawn_write E CallCreateResource (create_resource_sync X now u req)"

definition list_resources_sync :: "ext \<Rightarrow> time \<Rightarrow> db \<Rightarrow> resource list result" where
  "list_resources_sync X now d = Inr (map (read_resource X now) (order_desc rer_created_at (d_resources d)))"

definition list_resources :: "ext \<Rightarrow> env \<Rightarrow> time \<Rightarrow> resource list db_act" where
  "list_resources X E now = spawn_read E CallListResources (list_resources_sync X now)"

definition find_resource_by_uri :: "ext \<Rightarrow> env \<Rightarrow> string \<Rightarrow> uuid option db_act" where
  "find_resource_by_uri X E uri = spawn_read E CallFindResource
     (\<lambda>d. Inr (opt_uuid X (map_option rer_id (find (\<lambda>r. rer_uri r = uri) (d_resources d)))))"

section \<open>The active policy\<close>

lemma insert_policy_Inr:
  "insert_policy X r d = (Inr (), d') \<longleftrightarrow>
     por_id r \<notin> por_id ` set (d_policies d) \<and> d' = d\<lparr> d_policies := d_policies d @ [r] \<rparr>"
  by (auto simp: insert_policy_def insert_row_def)

lemma insert_policy_Inl: "insert_policy X r d = (Inl e, d') \<Longrightarrow> d' = d"
  by (auto simp: insert_policy_def split: sum.splits)

lemma filter_deprecated [simp]: "filter is_active (d_policies (deprecate_active X now d)) = []"
  by (auto simp: deprecate_active_def filter_empty_conv set_update_where is_active_def)

lemma active_new_policy [simp]: "is_active (new_policy_row X now u name engine yaml)"
  by (simp add: is_active_def new_policy_row_def)

lemma create_policy_cases:
  assumes "create_policy X E now u name engine yaml d = (r, d')"
  obtains (ok) "r = Inr ()" and "filter is_active (d_policies d') = [new_policy_row X now u name engine yaml]"
  | (no_insert) e where "r = Inl e" and "filter is_active (d_policies d') = []"
  | (no_start) e where "r = Inl e" and "d' = d"
proof (cases "e_fault E CallCreatePolicy")
  case (Some msg)
  with assms no_start show ?thesis by (auto simp: create_policy_def act_simps)
next
  case None
  note start = this
  show ?thesis
  proof (cases "e_fault E CallInsertPolicy")
    case (Some msg)
    with assms start no_insert show ?thesis by (auto simp: create_policy_def act_simps)
  next
    case None
    let ?d = "deprecate_active X now d"
    from assms start None have ins: "insert_policy X (new_policy_row X now u name engine yaml) ?d = (r, d')"
      by (simp add: create_policy_def act_simps)
    show ?thesis
    proof (cases r)
      case (Inl e)
      with ins insert_policy_Inl have "d' = ?d" by fastforce
      with Inl no_insert show ?thesis by simp
    next
      case (Inr x)
      with ins have "d_policies d' = d_policies ?d @ [new_policy_row X now u name engine yaml]"
        by (auto simp: insert_policy_Inr)
      with Inr ok show ?thesis by simp
    qed
  qed
qed

text \<open>Everything that writes policies.\<close>

datatype policy_op =
    DefaultPolicy env time uuid
  | CreatePolicy env time uuid string string string

fun policy_step :: "ext \<Rightarrow> policy_op \<Rightarrow> db \<Rightarrow> db" where
  "policy_step X (DefaultPolicy E now u) d = snd (create_default_policy X E now u d)"
| "policy_step X (CreatePolicy E now u name engine yaml) d = snd (create_policy X E now u name engine yaml d)"

definition one_active :: "db \<Rightarrow> bool" where
  "one_active d \<longleftrightarrow> length (filter is_active (d_policies d)) \<le> 1"

lemma one_active_default: "one_active d \<Longrightarrow> one_active (snd (create_default_policy X E now u d))"
  by (auto simp: one_active_def create_default_policy_def create_default_policy_sync_def act_simps
      insert_policy_def insert_row_def changes_def split: option.splits)

lemma one_active_create: "one_active d \<Longrightarrow> one_active (snd (create_policy X E now u name engine yaml d))"
proof (cases "create_policy X E now u name engine yaml d")
  case (Pair r d')
  assume "one_active d"
  with Pair show ?thesis by (cases rule: create_policy_cases [OF Pair]) (simp_all add: one_active_def)
qed

interpretation policy_run: stepper "policy_step X" "\<lambda>_. True" one_active for X
  by unfold_locales (case_tac i; simp add: one_active_default one_active_create)

text \<open>
  At every moment at most one policy is active, after any sequence of activations and start-ups,
  whichever of their statements fail.
\<close>

lemma at_most_one_active_policy:
  "length (filter is_active (d_policies (fold (policy_step X) ops empty_db))) \<le> 1"
proof -
  have "one_active empty_db" by (simp add: one_active_def empty_db_def)
  from policy_run.fold_inv [OF _ this] show ?thesis by (simp add: one_active_def)
qed

lemma active_policy_single: "filter is_active (d_policies d) = [r] \<Longrightarrow> active_policy d = Some r"
  by (simp add: active_policy_def order_desc_def)

text \<open>
  After \<open>create_policy\<close> succeeds, the policy that is loaded is the new one, whatever the times are;
  after it fails, either nothing changed or no policy is active and the text that is loaded is empty.
\<close>

lemma create_policy_then_load:
  assumes "e_fault E' CallLoadPolicy = None"
  shows "case create_policy X E now u name engine yaml d of
      (Inr _, d') \<Rightarrow> fst (load_active_policy_yaml E' d') = Inr yaml
    | (Inl _, d') \<Rightarrow> d' = d \<or> fst (load_active_policy_yaml E' d') = Inr []"
proof (cases "create_policy X E now u name engine yaml d")
  case (Pair r d')
  then show ?thesis
  proof (cases rule: create_policy_cases)
    case ok
    then show ?thesis
      using assms Pair active_policy_single [OF ok(2)]
      by (simp add: load_active_policy_yaml_def act_simps new_policy_row_def)
  next
    case (no_insert e)
    then show ?thesis
      using assms Pair by (simp add: load_active_policy_yaml_def act_simps active_policy_def order_desc_def)
  next
    case (no_start e)
    then show ?thesis using Pair by simp
  qed
qed

lemma create_policy_then_load_witness:
  "fst (load_active_policy_yaml demo_env
     (snd (create_policy demo_ext demo_env 5 9 ''p'' ''yaml'' ''rules'' empty_db))) = Inr ''rules''"
  using create_policy_then_load [where E' = demo_env and X = demo_ext and E = demo_env and now = 5 and u = 9
      and name = "''p''" and engine = "''yaml''" and yaml = "''rules''" and d = empty_db]
  by (simp add: demo_env_def create_policy_def act_simps insert_policy_def insert_row_def deprecate_active_def
      empty_db_def)

section \<open>Resources read back\<close>

definition resource_of_request :: "time \<Rightarrow> uuid \<Rightarrow> create_resource_request \<Rightarrow> resource" where
  "resource_of_request now u req =
     \<lparr> re_id = u, re_name = crr_name req, re_resource_type = crr_resource_type req, re_uri = crr_uri req,
       re_actions = crr_actions req, re_sensitivity = crr_sensitivity req, re_owner_id = crr_owner_id req,
       re_credential_config = crr_credential_config req, re_created_at = now \<rparr>"

definition resource_row_of :: "ext \<Rightarrow> resource \<Rightarrow> resource_row" where
  "resource_row_of X r =
     \<lparr> rer_id = x_uuid_str X (re_id r), rer_name = re_name r,
       rer_resource_type = resource_type_str (re_resource_type r), rer_uri = re_uri r,
       rer_actions = x_json_str X (re_actions r), rer_sensitivity = sensitivity_str (re_sensitivity r),
       rer_owner_id = map_option (x_uuid_str X) (re_owner_id r),
       rer_credential_config = map_option (x_json_str X) (re_credential_config r),
       rer_created_at = x_rfc3339 X (re_created_at r) \<rparr>"

definition good_resource :: "ext \<Rightarrow> resource \<Rightarrow> bool" where
  "good_resource X r \<longleftrightarrow> uuid_rt X \<and> time_rt X (re_created_at r) \<and> json_rt X (re_actions r)
     \<and> pred_option (json_rt X) (re_credential_config r)"

interpretation resources: stored "resource_row_of X" "read_resource X now" rer_id "good_resource X" for X now
  by unfold_locales (simp add: read_resource_def resource_row_of_def good_resource_def enum_simps)

lemma new_resource_row_of: "new_resource_row X now u req = resource_row_of X (resource_of_request now u req)"
  by (simp add: new_resource_row_def resource_row_of_def resource_of_request_def)

text \<open>
  A resource that is registered is found under its URI when no older row has the same one.
\<close>

lemma create_resource_then_find:
  assumes "create_resource_sync X now u req d = (Inr r, d')" and "uuid_rt X"
    and "crr_uri req \<notin> rer_uri ` set (d_resources d)" and "e_fault E CallFindResource = None"
  shows "fst (find_resource_by_uri X E (crr_uri req) d') = Inr (Some u)"
proof -
  from assms(1) have "d_resources d' = d_resources d @ [new_resource_row X now u req]"
    by (auto simp: create_resource_sync_def insert_row_def Let_def split: sum.splits if_splits)
  moreover have "find (\<lambda>r. rer_uri r = crr_uri req) (d_resources d) = None"
    using assms(3) by (simp add: find_None_iff) (metis imageI)
  ultimately show ?thesis
    using assms(2,4)
    by (simp add: find_resource_by_uri_def act_simps find_append new_resource_row_def opt_uuid_def)
qed

lemma create_resource_Inr:
  assumes "create_resource_sync X now u req d = (Inr r, d')"
    and "good_resource X (resource_of_request now u req)"
  shows "r = resource_of_request now u req \<and> get_resource_sync X n u d' = Inr r"
proof -
  let ?a = "resource_of_request now u req"
  from assms(1) have fresh: "rer_id (resource_row_of X ?a) \<notin> rer_id ` set (d_resources d)"
    and d': "d_resources d' = d_resources d @ [resource_row_of X ?a]"
    and r: "get_resource_sync X now u d' = Inr r"
    by (auto simp: create_resource_sync_def insert_row_def new_resource_row_of Let_def
        split: sum.splits if_splits)
  have "get_resource_sync X n u d' = Inr ?a" for n
    using resources.fetch_new [OF assms(2) fresh, of n]
    by (auto simp: get_resource_sync_def d' resource_row_of_def resource_of_request_def split: option.splits)
  with r show ?thesis by simp
qed

end
