(* ===== verification/Grants.thy ===== *)
theory Grants
  imports Catalog
begin

text \<open>
  Delegation grants in the database (\<open>src/db/mod.rs\<close>): creation under foreign keys, lookup, listing,
  and revocation, which walks the tree of child grants. The walk is recursive and threads the
  database; it is modelled with fuel, and the fuel is shown to suffice, also when parent links form
  cycles.
\<close>

section \<open>Grants\<close>

record grant =
  gr_id :: uuid
  gr_agent_id :: uuid
  gr_principal_id :: uuid
  gr_parent_grant_id :: "uuid option"
  gr_scopes :: "string list"
  gr_constraints :: "json option"
  gr_expires_at :: time
  gr_revocable :: bool
  gr_revoked_at :: "time option"
  gr_created_at :: time

definition read_grant :: "ext \<Rightarrow> time \<Rightarrow> grant_row \<Rightarrow> grant" where
  "read_grant X now r =
     \<lparr> gr_id = uuid_or_nil X (grr_id r),
       gr_agent_id = uuid_or_nil X (grr_agent_id r),
       gr_principal_id = uuid_or_nil X (grr_principal_id r),
       gr_parent_grant_id = opt_uuid X (grr_parent_grant_id r),
       gr_scopes = scopes_of_text X (grr_scopes r),
       gr_constraints = opt_json X (grr_constraints r),
       gr_expires_at = time_or_now X now (grr_expires_at r),
       gr_revocable = (grr_revocable r \<noteq> 0),
       gr_revoked_at = opt_time X (grr_revoked_at r),
       gr_created_at = time_or_now X now (grr_created_at r) \<rparr>"

definition new_grant_row ::
    "ext \<Rightarrow> time \<Rightarrow> uuid \<Rightarrow> uuid \<Rightarrow> uuid \<Rightarrow> uuid option \<Rightarrow> string list \<Rightarrow> json option \<Rightarrow> time \<Rightarrow> grant_row" where
  "new_grant_row X now u agent pid parent scopes constraints expires =
     \<lparr> grr_id = x_uuid_str X u,
       grr_agent_id = x_uuid_str X agent,
       grr_principal_id = x_uuid_str X pid,
       grr_parent_grant_id = map_option (x_uuid_str X) parent,
       grr_scopes = scopes_text X scopes,
       grr_constraints = map_option (x_json_str X) constraints,
       grr_expires_at = x_rfc3339 X expires,
       grr_revocable = 1,
       grr_revoked_at = None,
       grr_created_at = x_rfc3339 X now \<rparr>"

definition insert_grant :: "ext \<Rightarrow> grant_row \<Rightarrow> unit db_act" where
  "insert_grant X r = (\<lambda>d.
     if \<not> (fk_ok X agr_id (d_agents d) (Some (grr_agent_id r))
           \<and> fk_ok X prr_id (d_principals d) (Some (grr_principal_id r))
           \<and> fk_ok X grr_id (d_grants d) (grr_parent_grant_id r))
     then (Inl (sql_error X ForeignKeyViolation), d)
     else (case insert_row X ''grants.id'' grr_id r (d_grants d) of
             Inl e \<Rightarrow> (Inl e, d)
           | Inr rows \<Rightarrow> (Inr (), d\<lparr> d_grants := rows \<rparr>)))"

definition create_grant ::
    "ext \<Rightarrow> env \<Rightarrow> time \<Rightarrow> uuid \<Rightarrow> uuid \<Rightarrow> uuid \<Rightarrow> uuid option \<Rightarrow> string list \<Rightarrow> json option \<Rightarrow> time \<Rightarrow> uuid db_act" where
  "create_grant X E now u agent pid parent scopes constraints expires =
     spawn_write E CallCreateGrant
       (and_then (insert_grant X (new_grant_row X now u agent pid parent scopes constraints expires)) (\<lambda>_. ret u))"

definition get_grant_sync :: "ext \<Rightarrow> time \<Rightarrow> uuid \<Rightarrow> db \<Rightarrow> grant result" where
  "get_grant_sync X now i d =
     (case find (\<lambda>r. grr_id r = x_uuid_str X i) (d_grants d) of
        Some r \<Rightarrow> Inr (read_grant X now r)
      | None \<Rightarrow> Inl (sql_error X NoRows))"

definition get_grant :: "ext \<Rightarrow> env \<Rightarrow> time \<Rightarrow> uuid \<Rightarrow> grant db_act" where
  "get_grant X E now i = spawn_read E CallGetGrant (get_grant_sync X now i)"

definition list_all_grants_sync :: "ext \<Rightarrow> time \<Rightarrow> db \<Rightarrow> grant list result" where
  "list_all_grants_sync X now d = Inr (map (read_grant X now) (order_desc grr_created_at (d_grants d)))"

definition list_all_grants :: "ext \<Rightarrow> env \<Rightarrow> time \<Rightarrow> grant list db_act" where
  "list_all_grants X E now = spawn_read E CallListGrants (list_all_grants_sync X now)"

text \<open>The texts of the two times are compared, as SQLite compares TEXT.\<close>

definition list_grants_for_agent_sync :: "ext \<Rightarrow> time \<Rightarrow> uuid \<Rightarrow> db \<Rightarrow> grant list result" where
  "list_grants_for_agent_sync X now agent d =
     Inr (map (read_grant X now) (order_desc grr_created_at
       (filter (\<lambda>r. grr_agent_id r = x_uuid_str X agent \<and> grr_revoked_at r = None
          \<and> x_rfc3339 X now < grr_expires_at r) (d_grants d))))"

definition list_grants_for_agent :: "ext \<Rightarrow> env \<Rightarrow> time \<Rightarrow> uuid \<Rightarrow> grant list db_act" where
  "list_grants_for_agent X E now agent = spawn_read E CallAgentGrants (list_grants_for_agent_sync X now agent)"

section \<open>Revocation\<close>

text \<open>\<open>clock s\<close> is the reading taken when the call for the grant with id text \<open>s\<close> begins.\<close>

definition mark_revoked :: "ext \<Rightarrow> (string \<Rightarrow> time) \<Rightarrow> string \<Rightarrow> db \<Rightarrow> db" where
  "mark_revoked X clock s d = d\<lparr> d_grants :=
     update_where (\<lambda>r. grr_id r = s \<and> grr_revoked_at r = None)
       (\<lambda>r. r\<lparr> grr_revoked_at := Some (x_rfc3339 X (clock s)) \<rparr>) (d_grants d) \<rparr>"

definition live_children :: "string \<Rightarrow> db \<Rightarrow> string list" where
  "live_children s d =
     map grr_id (filter (\<lambda>r. grr_parent_grant_id r = Some s \<and> grr_revoked_at r = None) (d_grants d))"

fun revoke_fuel :: "ext \<Rightarrow> (string \<Rightarrow> time) \<Rightarrow> nat \<Rightarrow> uuid \<Rightarrow> db \<Rightarrow> (uuid list \<times> db) option"
and revoke_children :: "ext \<Rightarrow> (string \<Rightarrow> time) \<Rightarrow> nat \<Rightarrow> string list \<Rightarrow> db \<Rightarrow> (uuid list \<times> db) option" where
  "revoke_fuel X clock 0 i d = None"
| "revoke_fuel X clock (Suc n) i d =
     (let d1 = mark_revoked X clock (x_uuid_str X i) d in
      case revoke_children X clock n (live_children (x_uuid_str X i) d1) d1 of
        None \<Rightarrow> None
      | Some (revoked, d2) \<Rightarrow> Some (i # revoked, d2))"
| "revoke_children X clock n [] d = Some ([], d)"
| "revoke_children X clock n (s # ss) d =
     (case x_uuid_parse X s of
        None \<Rightarrow> revoke_children X clock n ss d
      | Some child \<Rightarrow>
          (case revoke_fuel X clock n child d of
             None \<Rightarrow> None
           | Some (revoked, d1) \<Rightarrow>
               (case revoke_children X clock n ss d1 of
                  None \<Rightarrow> None
                | Some (revoked', d2) \<Rightarrow> Some (revoked @ revoked', d2))))"

text \<open>One call per row and two more are enough; running out is the stack overflow of the program.\<close>

definition revoke_grant_sync :: "ext \<Rightarrow> (string \<Rightarrow> time) \<Rightarrow> uuid \<Rightarrow> uuid list db_act" where
  "revoke_grant_sync X clock i = (\<lambda>d.
     case revoke_fuel X clock (length (d_grants d) + 2) i d of
       None \<Rightarrow> (Inl (Panic ''stack overflow''), d)
     | Some (revoked, d') \<Rightarrow> (Inr revoked, d'))"

definition revoke_grant :: "ext \<Rightarrow> env \<Rightarrow> (string \<Rightarrow> time) \<Rightarrow> uuid \<Rightarrow> uuid list db_act" where
  "revoke_grant X E clock i = spawn_write E CallRevokeGrant (revoke_grant_sync X clock i)"

section \<open>Reachability\<close>

text \<open>The nodes reached from \<open>a\<close> along \<open>E\<close> through nodes of \<open>U\<close>.\<close>

inductive reach :: "'n set \<Rightarrow> ('n \<Rightarrow> 'n \<Rightarrow> bool) \<Rightarrow> 'n \<Rightarrow> 'n \<Rightarrow> bool" for U E a where
  reach_one: "E a b \<Longrightarrow> b \<in> U \<Longrightarrow> reach U E a b"
| reach_more: "reach U E a b \<Longrightarrow> E b c \<Longrightarrow> c \<in> U \<Longrightarrow> reach U E a c"

definition closure :: "'n set \<Rightarrow> ('n \<Rightarrow> 'n \<Rightarrow> bool) \<Rightarrow> 'n set \<Rightarrow> 'n set" where
  "closure U E A = A \<union> {b. \<exists>a \<in> A. reach U E a b}"

lemma reach_mono: "reach U E a b \<Longrightarrow> U \<subseteq> U' \<Longrightarrow> reach U' E a b"
  by (induction rule: reach.induct) (auto intro: reach.intros)

lemma closure_closed: "s \<in> closure U E A \<Longrightarrow> E s t \<Longrightarrow> t \<in> U \<Longrightarrow> t \<in> closure U E A"
  by (auto simp: closure_def intro: reach.intros)

lemma closure_empty [simp]: "closure U E {} = {}"
  by (simp add: closure_def)

lemma reach_outside:
  assumes "reach U E a b" and "\<And>s t. s \<in> S \<Longrightarrow> E s t \<Longrightarrow> t \<in> U \<Longrightarrow> t \<in> S"
  shows "b \<in> S \<or> reach (U - S) E a b"
  using assms(1) by (induction rule: reach.induct) (auto intro: reach.intros assms(2))

text \<open>Visiting the first node's closure and then the rest among what is left visits the closure.\<close>

lemma closure_insert:
  "closure U E (insert c A) = closure U E {c} \<union> closure (U - closure U E {c}) E A"
proof (intro set_eqI iffI)
  let ?S = "closure U E {c}"
  fix b
  assume "b \<in> closure U E (insert c A)"
  then consider "b \<in> ?S" | "b \<in> A" | a where "a \<in> A" "reach U E a b"
    by (auto simp: closure_def)
  then show "b \<in> ?S \<union> closure (U - ?S) E A"
  proof cases
    case (3 a)
    from reach_outside [OF 3(2), of ?S] closure_closed [of _ U E "{c}"]
    have "b \<in> ?S \<or> reach (U - ?S) E a b" by blast
    with 3(1) show ?thesis unfolding closure_def [of _ _ A] by blast
  qed (simp_all add: closure_def [of _ _ A])
next
  let ?S = "closure U E {c}"
  fix b
  assume "b \<in> ?S \<union> closure (U - ?S) E A"
  then consider "b \<in> ?S" | "b \<in> A" | a where "a \<in> A" "reach (U - ?S) E a b"
    unfolding closure_def [of _ _ A] by blast
  then show "b \<in> closure U E (insert c A)"
  proof cases
    case (3 a)
    from reach_mono [OF 3(2)] 3(1) show ?thesis by (auto simp: closure_def)
  qed (auto simp: closure_def)
qed

text \<open>The closure of a node is the node and the closure of its successors without it.\<close>

lemma closure_node:
  "closure U E {a} = insert a (closure (U - {a}) E {b \<in> U - {a}. E a b})"
proof -
  let ?C = "{b \<in> U - {a}. E a b}"
  have "b = a \<or> b \<in> closure (U - {a}) E ?C" if "reach U E a b" for b
    using that
  proof (induction rule: reach.induct)
    case (reach_one b)
    then show ?case by (auto simp: closure_def)
  next
    case (reach_more b c)
    then show ?case
      using closure_closed [of b "U - {a}" E ?C c] by (cases "c = a"; cases "b = a") (auto simp: closure_def)
  qed
  moreover have "reach U E a b" if "b \<in> closure (U - {a}) E ?C" "b \<noteq> a" for b
  proof -
    have step: "reach U E a y" if "reach (U - {a}) E x y" "x \<in> U" "E a x" for x y
      using that by (induction rule: reach.induct) (auto intro: reach.intros)
    from that show ?thesis by (auto simp: closure_def intro: reach.intros step)
  qed
  ultimately show ?thesis by (auto simp: closure_def)
qed

section \<open>What revocation does\<close>

definition live :: "db \<Rightarrow> string set" where
  "live d = {grr_id r |r. r \<in> set (d_grants d) \<and> grr_revoked_at r = None}"

definition child_of :: "db \<Rightarrow> string \<Rightarrow> string \<Rightarrow> bool" where
  "child_of d a b \<longleftrightarrow> (\<exists>r \<in> set (d_grants d). grr_id r = b \<and> grr_parent_grant_id r = Some a)"

text \<open>The live rows of a set of grants get the time of their revocation.\<close>

definition revoke_set :: "ext \<Rightarrow> (string \<Rightarrow> time) \<Rightarrow> string set \<Rightarrow> db \<Rightarrow> db" where
  "revoke_set X clock V d = d\<lparr> d_grants :=
     update_where (\<lambda>r. grr_id r \<in> V \<and> grr_revoked_at r = None)
       (\<lambda>r. r\<lparr> grr_revoked_at := Some (x_rfc3339 X (clock (grr_id r))) \<rparr>) (d_grants d) \<rparr>"

definition grant_ids_ok :: "ext \<Rightarrow> db \<Rightarrow> bool" where
  "grant_ids_ok X d \<longleftrightarrow> distinct (map grr_id (d_grants d))
     \<and> (\<forall>r \<in> set (d_grants d). \<exists>u. grr_id r = x_uuid_str X u)"

lemma mark_revoked_set: "mark_revoked X clock s d = revoke_set X clock {s} d"
  by (simp add: mark_revoked_def revoke_set_def update_where_def cong: if_cong)

lemma revoke_set_Un: "revoke_set X clock V (revoke_set X clock W d) = revoke_set X clock (W \<union> V) d"
  by (simp add: revoke_set_def update_where_def)

lemma revoke_set_empty [simp]: "revoke_set X clock {} d = d"
  by (simp add: revoke_set_def update_where_def)

lemma live_revoke_set [simp]: "live (revoke_set X clock V d) = live d - V"
  by (auto simp: live_def revoke_set_def update_where_def)

lemma links_revoke_set:
  "(\<lambda>r. (grr_id r, grr_parent_grant_id r)) ` set (d_grants (revoke_set X clock V d)) =
   (\<lambda>r. (grr_id r, grr_parent_grant_id r)) ` set (d_grants d)"
  by (simp add: revoke_set_def flip: set_map add: map_update_where)

lemma child_of_links: "child_of d a b \<longleftrightarrow> (b, Some a) \<in> (\<lambda>r. (grr_id r, grr_parent_grant_id r)) ` set (d_grants d)"
  by (auto simp: child_of_def image_iff)

lemma child_of_revoke_set [simp]: "child_of (revoke_set X clock V d) = child_of d"
  by (simp add: fun_eq_iff child_of_links links_revoke_set)

lemma grant_ids_ok_map:
  "grant_ids_ok X d \<longleftrightarrow> (let ids = map grr_id (d_grants d) in
     distinct ids \<and> (\<forall>s \<in> set ids. \<exists>u. s = x_uuid_str X u))"
  by (simp add: grant_ids_ok_def)

lemma grant_ids_ok_revoke_set [simp]: "grant_ids_ok X (revoke_set X clock V d) = grant_ids_ok X d"
  by (simp add: grant_ids_ok_map revoke_set_def map_update_where del: set_map)

lemma finite_live [simp]: "finite (live d)"
  by (rule finite_subset [of _ "grr_id ` set (d_grants d)"]) (auto simp: live_def)

lemma card_live: "card (live d) \<le> length (d_grants d)"
proof -
  have "live d \<subseteq> grr_id ` set (d_grants d)" by (auto simp: live_def)
  then have "card (live d) \<le> card (grr_id ` set (d_grants d))" by (intro card_mono) auto
  also have "\<dots> \<le> card (set (d_grants d))" by (rule card_image_le) simp
  also have "\<dots> \<le> length (d_grants d)" by (rule card_length)
  finally show ?thesis .
qed

text \<open>The walk visits the closure of its start among the live grants, and ends.\<close>

lemma set_live_children:
  assumes "grant_ids_ok X d"
  shows "set (live_children s d) = {b \<in> live d. child_of d s b}"
proof -
  have dist: "distinct (map grr_id (d_grants d))" using assms by (simp add: grant_ids_ok_def)
  have "r = r'" if "r \<in> set (d_grants d)" "r' \<in> set (d_grants d)" "grr_id r = grr_id r'" for r r'
    using dist that by (simp add: distinct_map inj_on_def)
  then show ?thesis
    by (fastforce simp: live_children_def live_def child_of_def)
qed

lemma start_children:
  fixes clock s
  assumes "grant_ids_ok X d"
  defines "d' \<equiv> revoke_set X clock {s} d"
  shows "set (live_children s d') = {b \<in> live d - {s}. child_of d s b}"
    and "live d' \<union> set (live_children s d') = live d - {s}"
    and "\<forall>k \<in> set (live_children s d'). \<exists>u. k = x_uuid_str X u"
proof -
  have "grant_ids_ok X d'" using assms(1) by (simp add: d'_def)
  then show ch: "set (live_children s d') = {b \<in> live d - {s}. child_of d s b}"
    using set_live_children [of X d' s] by (auto simp: d'_def)
  then show "live d' \<union> set (live_children s d') = live d - {s}" by (auto simp: d'_def)
  show "\<forall>k \<in> set (live_children s d'). \<exists>u. k = x_uuid_str X u"
    unfolding ch using assms(1) by (auto simp: live_def grant_ids_ok_def)
qed

lemma revoke_closure:
  "uuid_rt X \<Longrightarrow> grant_ids_ok X d \<Longrightarrow> card (live d - {x_uuid_str X i}) < n \<Longrightarrow>
     \<exists>rs. revoke_fuel X clock n i d =
         Some (rs, revoke_set X clock (closure (live d) (child_of d) {x_uuid_str X i}) d)
       \<and> x_uuid_str X ` set rs = closure (live d) (child_of d) {x_uuid_str X i}"
  "uuid_rt X \<Longrightarrow> grant_ids_ok X d \<Longrightarrow> card (live d \<union> set ss) \<le> n \<Longrightarrow>
     \<forall>s \<in> set ss. \<exists>u. s = x_uuid_str X u \<Longrightarrow>
     \<exists>rs. revoke_children X clock n ss d =
         Some (rs, revoke_set X clock (closure (live d) (child_of d) (set ss)) d)
       \<and> x_uuid_str X ` set rs = closure (live d) (child_of d) (set ss)"
proof (induction X clock n i d and X clock n ss d rule: revoke_fuel_revoke_children.induct)
  case (2 X clock n i d)
  let ?s = "x_uuid_str X i"
  let ?d = "revoke_set X clock {?s} d"
  note start = start_children [OF "2.prems"(2), where clock = clock and s = ?s]
  have "card (live ?d \<union> set (live_children ?s ?d)) \<le> n" using "2.prems"(3) start(2) by simp
  with "2.IH" [OF _ "2.prems"(1)] "2.prems"(2) start(3) obtain rs where
    rs: "revoke_children X clock n (live_children ?s ?d) ?d =
        Some (rs, revoke_set X clock (closure (live ?d) (child_of ?d) (set (live_children ?s ?d))) ?d)"
      "x_uuid_str X ` set rs = closure (live ?d) (child_of ?d) (set (live_children ?s ?d))"
    by (auto simp: mark_revoked_set Let_def)
  then show ?case
    unfolding closure_node [of "live d" "child_of d" ?s]
    by (simp add: mark_revoked_set revoke_set_Un start(1) Let_def)
next
  case (4 X clock n s ss d)
  from "4.prems"(4) obtain c where c: "s = x_uuid_str X c" by auto
  with "4.prems"(1) have parse: "x_uuid_parse X s = Some c" by simp
  let ?S = "closure (live d) (child_of d) {s}"
  let ?d = "revoke_set X clock ?S d"
  have "card (live d - {s}) < card (live d \<union> set (s # ss))" by (intro psubset_card_mono) auto
  with "4.prems"(3) have "card (live d - {x_uuid_str X c}) < n" by (simp add: c)
  from "4.IH"(2) [OF parse "4.prems"(1,2) this] obtain rs where
    rs: "revoke_fuel X clock n c d = Some (rs, ?d)" "x_uuid_str X ` set rs = ?S"
    by (auto simp: c)
  have "card (live ?d \<union> set ss) \<le> card (live d \<union> set (s # ss))" by (intro card_mono) auto
  with "4.prems"(3) have le: "card (live ?d \<union> set ss) \<le> n" by simp
  from "4.IH"(3) [OF parse rs(1) refl "4.prems"(1) _ le] "4.prems"(2,4) obtain rs' where
    "revoke_children X clock n ss ?d = Some (rs', revoke_set X clock (closure (live ?d) (child_of ?d) (set ss)) ?d)"
    "x_uuid_str X ` set rs' = closure (live ?d) (child_of ?d) (set ss)" by auto
  then show ?case
    using rs parse unfolding list.set(2) closure_insert [of "live d" "child_of d" s "set ss"]
    by (simp add: revoke_set_Un image_Un)
qed simp_all

text \<open>The fuel of \<open>revoke_grant_sync\<close> is enough.\<close>

lemma revoke_fuel_enough:
  assumes "uuid_rt X" and "grant_ids_ok X d"
  shows "\<exists>rs. revoke_fuel X clock (length (d_grants d) + 2) i d =
      Some (rs, revoke_set X clock (closure (live d) (child_of d) {x_uuid_str X i}) d)
    \<and> x_uuid_str X ` set rs = closure (live d) (child_of d) {x_uuid_str X i}"
proof -
  have "card (live d - {x_uuid_str X i}) \<le> card (live d)" by (intro card_mono) auto
  with card_live [of d] have "card (live d - {x_uuid_str X i}) < length (d_grants d) + 2" by simp
  from revoke_closure(1) [OF assms this, of clock] show ?thesis .
qed

text \<open>
  C34: revoking a grant ends, whatever the shape of the parent links, and revokes exactly the live
  grants among it and those that reach it through live grants: their rows get the time of the
  revocation, every other row and every other table, the tokens among them, stays as it was, and the
  ids returned are those of the grants visited.
\<close>

theorem revoke_grant_cascades:
  assumes "uuid_rt X" and "grant_ids_ok X d" and "e_fault E CallRevokeGrant = None"
  shows "\<exists>rs. revoke_grant X E clock i d =
      (Inr rs, revoke_set X clock (closure (live d) (child_of d) {x_uuid_str X i}) d)
    \<and> x_uuid_str X ` set rs = closure (live d) (child_of d) {x_uuid_str X i}"
  using revoke_fuel_enough [OF assms(1,2), of clock i] assms(3)
  by (auto simp: revoke_grant_def revoke_grant_sync_def act_simps simp del: revoke_fuel.simps)

text \<open>A grant, its child and its grandchild, and an unrelated one.\<close>

definition demo_grants :: db where
  "demo_grants = empty_db\<lparr> d_grants :=
     [new_grant_row demo_ext 0 1 7 3 None [''a''] None 50,
      new_grant_row demo_ext 0 2 7 3 (Some 1) [''a''] None 50,
      new_grant_row demo_ext 0 3 7 3 (Some 2) [''a''] None 50,
      new_grant_row demo_ext 0 4 7 3 None [''a''] None 50] \<rparr>"

lemma demo_grant_ids: "grant_ids_ok demo_ext demo_grants"
  by (auto simp: grant_ids_ok_def demo_grants_def new_grant_row_def uuid_str_inj [OF demo_uuid_rt])

theorem revoke_grant_cascades_witness:
  "\<exists>rs. revoke_grant demo_ext demo_env (\<lambda>_. 9) 2 demo_grants =
      (Inr rs, revoke_set demo_ext (\<lambda>_. 9)
        (closure (live demo_grants) (child_of demo_grants) {x_uuid_str demo_ext 2}) demo_grants)
    \<and> x_uuid_str demo_ext ` set rs = closure (live demo_grants) (child_of demo_grants) {x_uuid_str demo_ext 2}"
  by (rule revoke_grant_cascades [OF demo_uuid_rt demo_grant_ids]) (simp add: demo_env_def)

section \<open>Foreign keys and expiry\<close>

lemma create_grant_InrD:
  assumes "create_grant X E now u agent pid parent scopes constraints expires d = (Inr u', d')"
  shows "u' = u"
    and "d' = d\<lparr> d_grants := d_grants d @ [new_grant_row X now u agent pid parent scopes constraints expires] \<rparr>"
    and "x_uuid_str X u \<notin> grr_id ` set (d_grants d)"
    and "x_foreign_keys X \<Longrightarrow> x_uuid_str X agent \<in> agr_id ` set (d_agents d)
      \<and> x_uuid_str X pid \<in> prr_id ` set (d_principals d)
      \<and> (\<forall>p. parent = Some p \<longrightarrow> x_uuid_str X p \<in> grr_id ` set (d_grants d))"
  using assms
  by (auto simp: create_grant_def act_simps insert_grant_def insert_row_def fk_ok_def new_grant_row_def
      split: option.splits if_splits sum.splits prod.splits)

lemma grant_ids_ok_create:
  assumes "create_grant X E now u agent pid parent scopes constraints expires d = (Inr u', d')"
    and "grant_ids_ok X d"
  shows "grant_ids_ok X d'"
  using create_grant_InrD [OF assms(1)] assms(2) by (auto simp: grant_ids_ok_def new_grant_row_def)

end
