(* ===== verification/Token_Table.thy ===== *)
theory Token_Table
  imports Grants
begin

text \<open>
  Issued tokens in the database (\<open>src/db/mod.rs\<close>): recording, revocation by id, by agent, and the
  question whether a token is revoked. Revocation marks rows, so it affects only tokens that have
  been recorded; once marked, a row stays marked.
\<close>

section \<open>Operations\<close>

definition new_token_row ::
    "ext \<Rightarrow> time \<Rightarrow> string \<Rightarrow> uuid option \<Rightarrow> uuid \<Rightarrow> string list \<Rightarrow> string \<Rightarrow> time \<Rightarrow> token_row" where
  "new_token_row X now jti grant agent scopes audience expires =
     \<lparr> tor_id = jti,
       tor_grant_id = map_option (x_uuid_str X) grant,
       tor_agent_id = x_uuid_str X agent,
       tor_scopes = scopes_text X scopes,
       tor_audience = audience,
       tor_issued_at = x_rfc3339 X now,
       tor_expires_at = x_rfc3339 X expires,
       tor_revoked = 0, tor_dpop_bound = 0, tor_key_thumbprint = None \<rparr>"

definition insert_token :: "ext \<Rightarrow> token_row \<Rightarrow> unit db_act" where
  "insert_token X r = (\<lambda>d.
     if \<not> (fk_ok X agr_id (d_agents d) (Some (tor_agent_id r)) \<and> fk_ok X grr_id (d_grants d) (tor_grant_id r))
     then (Inl (sql_error X ForeignKeyViolation), d)
     else (case insert_row X ''tokens.id'' tor_id r (d_tokens d) of
             Inl e \<Rightarrow> (Inl e, d)
           | Inr rows \<Rightarrow> (Inr (), d\<lparr> d_tokens := rows \<rparr>)))"

definition record_token ::
    "ext \<Rightarrow> env \<Rightarrow> time \<Rightarrow> string \<Rightarrow> uuid option \<Rightarrow> uuid \<Rightarrow> string list \<Rightarrow> string \<Rightarrow> time \<Rightarrow> unit db_act" where
  "record_token X E now jti grant agent scopes audience expires =
     spawn_write E CallRecordToken (insert_token X (new_token_row X now jti grant agent scopes audience expires))"

definition mark_token :: "(token_row \<Rightarrow> bool) \<Rightarrow> db \<Rightarrow> db" where
  "mark_token P d = d\<lparr> d_tokens := update_where P (\<lambda>r. r\<lparr> tor_revoked := 1 \<rparr>) (d_tokens d) \<rparr>"

definition revoke_token :: "env \<Rightarrow> string \<Rightarrow> unit db_act" where
  "revoke_token E jti = spawn_write E CallRevokeToken (modify (mark_token (\<lambda>r. tor_id r = jti)))"

definition is_token_revoked :: "env \<Rightarrow> string \<Rightarrow> bool db_act" where
  "is_token_revoked E jti = spawn_read E CallIsTokenRevoked
     (\<lambda>d. Inr (case find (\<lambda>r. tor_id r = jti) (d_tokens d) of None \<Rightarrow> False | Some r \<Rightarrow> tor_revoked r \<noteq> 0))"

definition revoke_agent_tokens :: "ext \<Rightarrow> env \<Rightarrow> uuid \<Rightarrow> nat db_act" where
  "revoke_agent_tokens X E agent = spawn_write E CallRevokeAgentTokens (\<lambda>d.
     let P = (\<lambda>r. tor_agent_id r = x_uuid_str X agent \<and> tor_revoked r = 0)
     in (Inr (changes P (d_tokens d)), mark_token P d))"

section \<open>Revocation is permanent\<close>

definition token_revoked :: "string \<Rightarrow> db \<Rightarrow> bool" where
  "token_revoked jti d \<longleftrightarrow>
     (case find (\<lambda>r. tor_id r = jti) (d_tokens d) of None \<Rightarrow> False | Some r \<Rightarrow> tor_revoked r \<noteq> 0)"

lemma is_token_revoked_iff:
  "is_token_revoked E jti d = (if e_fault E CallIsTokenRevoked = None then (Inr (token_revoked jti d), d)
     else (Inl (Err (DatabaseError (the (e_fault E CallIsTokenRevoked)))), d))"
  by (auto simp: is_token_revoked_def act_simps token_revoked_def split: option.splits)

lemma find_mark_token:
  "find (\<lambda>r. tor_id r = jti) (d_tokens (mark_token P d)) =
     map_option (\<lambda>r. if P r then r\<lparr> tor_revoked := 1 \<rparr> else r) (find (\<lambda>r. tor_id r = jti) (d_tokens d))"
  by (simp add: mark_token_def find_update_where_key)

lemma token_revoked_mark: "token_revoked jti d \<Longrightarrow> token_revoked jti (mark_token P d)"
  by (simp add: token_revoked_def find_mark_token split: option.splits)

datatype token_op =
    RecordToken env time string "uuid option" uuid "string list" string time
  | RevokeToken env string
  | RevokeAgentTokens env uuid

fun token_step :: "ext \<Rightarrow> token_op \<Rightarrow> db \<Rightarrow> db" where
  "token_step X (RecordToken E now jti grant agent scopes audience expires) d =
     snd (record_token X E now jti grant agent scopes audience expires d)"
| "token_step X (RevokeToken E jti) d = snd (revoke_token E jti d)"
| "token_step X (RevokeAgentTokens E agent) d = snd (revoke_agent_tokens X E agent d)"

lemma token_revoked_step: "token_revoked jti d \<Longrightarrow> token_revoked jti (token_step X op d)"
proof (cases op)
  case (RecordToken E now j grant agent scopes audience expires)
  assume "token_revoked jti d"
  then show ?thesis
    by (auto simp: RecordToken record_token_def act_simps insert_token_def insert_row_def token_revoked_def
        find_append split: option.splits)
qed (auto simp: revoke_token_def revoke_agent_tokens_def act_simps Let_def intro: token_revoked_mark
    split: option.splits)

interpretation revoked_tokens: latch "token_step X" token_revoked "\<lambda>_ _. False" for X
  by unfold_locales (simp add: token_revoked_step)

lemma revoke_token_recorded:
  assumes "jti \<in> tor_id ` set (d_tokens d)"
  shows "token_revoked jti (mark_token (\<lambda>r. tor_id r = jti) d)"
proof -
  from assms have "find (\<lambda>r. tor_id r = jti) (d_tokens d) \<noteq> None"
    by (auto simp: find_None_iff)
  then obtain r where "find (\<lambda>r. tor_id r = jti) (d_tokens d) = Some r" by auto
  then show ?thesis by (auto simp: token_revoked_def find_mark_token dest: find_key_SomeD)
qed

text \<open>
  A token that was recorded and then revoked is reported as revoked ever after, whatever tokens
  are recorded and revoked later; revoking a token that was not recorded has no effect at all, also
  when it is recorded afterwards.
\<close>

lemma revoked_token_stays_revoked:
  assumes "e_fault E CallRevokeToken = None" and "e_fault E CallIsTokenRevoked = None"
  shows "if jti \<in> tor_id ` set (d_tokens d)
    then fst (is_token_revoked E jti (fold (token_step X) ops (snd (revoke_token E jti d)))) = Inr True
    else snd (revoke_token E jti d) = d"
proof (cases "jti \<in> tor_id ` set (d_tokens d)")
  case True
  then show ?thesis
    using assms revoked_tokens.stays_stopped [OF revoke_token_recorded [OF True], of ops X]
    by (simp add: revoke_token_def act_simps is_token_revoked_iff)
next
  case False
  then have "changes (\<lambda>r. tor_id r = jti) (d_tokens d) = 0" by (auto simp: changes_def filter_empty_conv)
  then have "mark_token (\<lambda>r. tor_id r = jti) d = d" by (simp add: mark_token_def update_where_none)
  with False assms(1) show ?thesis by (simp add: revoke_token_def act_simps)
qed

text \<open>
  Revoking an agent's tokens marks every recorded token of that agent, leaves those of other
  agents, and counts the ones that were not revoked before.
\<close>

lemma revoke_agent_tokens_complete:
  assumes "e_fault E CallRevokeAgentTokens = None"
  shows "\<exists>d'. revoke_agent_tokens X E agent d =
      (Inr (length (filter (\<lambda>r. tor_agent_id r = x_uuid_str X agent \<and> tor_revoked r = 0) (d_tokens d))), d')
    \<and> map (\<lambda>r. (tor_id r, tor_revoked r \<noteq> 0)) (d_tokens d') =
      map (\<lambda>r. (tor_id r, tor_revoked r \<noteq> 0 \<or> tor_agent_id r = x_uuid_str X agent)) (d_tokens d)"
  using assms
  by (auto simp: revoke_agent_tokens_def act_simps Let_def changes_def mark_token_def update_where_def)

definition demo_tokens :: db where
  "demo_tokens = empty_db\<lparr> d_tokens :=
     [new_token_row demo_ext 0 ''t1'' None 7 [''a''] ''db'' 50, new_token_row demo_ext 0 ''t2'' None 8 [''a''] ''db'' 50] \<rparr>"

lemma demo_t1: "''t1'' \<in> tor_id ` set (d_tokens demo_tokens)"
  by (simp add: demo_tokens_def new_token_row_def)

lemma revoked_token_stays_revoked_witness:
  "fst (is_token_revoked demo_env ''t1''
     (fold (token_step demo_ext) [RecordToken demo_env 1 ''t3'' None 7 [''a''] ''db'' 60]
       (snd (revoke_token demo_env ''t1'' demo_tokens)))) = Inr True"
  using revoked_token_stays_revoked [where E = demo_env and jti = "''t1''" and d = demo_tokens and X = demo_ext
      and ops = "[RecordToken demo_env 1 ''t3'' None 7 [''a''] ''db'' 60]"]
  by (simp only: demo_t1 demo_fault if_True simp_thms)

lemma revoke_agent_tokens_complete_witness:
  "\<exists>d'. revoke_agent_tokens demo_ext demo_env 7 demo_tokens =
      (Inr (length (filter (\<lambda>r. tor_agent_id r = x_uuid_str demo_ext 7 \<and> tor_revoked r = 0) (d_tokens demo_tokens))), d')
    \<and> map (\<lambda>r. (tor_id r, tor_revoked r \<noteq> 0)) (d_tokens d') =
      map (\<lambda>r. (tor_id r, tor_revoked r \<noteq> 0 \<or> tor_agent_id r = x_uuid_str demo_ext 7)) (d_tokens demo_tokens)"
  by (rule revoke_agent_tokens_complete) simp

end
