(* ===== verification/Approvals.thy ===== *)
theory Approvals
  imports Token_Table
begin

text \<open>
  Human-in-the-loop approvals (\<open>src/approval/mod.rs\<close>, \<open>src/db/mod.rs\<close>) and the credential table. A
  request is created pending and is resolved once, by an update that tests the status in its WHERE
  clause.
\<close>

section \<open>Approval requests\<close>

text \<open>\<open>CreateApprovalRequest::expiry\<close>: five minutes by default.\<close>

definition approval_expiry :: "ext \<Rightarrow> time \<Rightarrow> u64 option \<Rightarrow> time result" where
  "approval_expiry X now ttl_seconds =
     add_seconds X now (case ttl_seconds of None \<Rightarrow> 300 | Some n \<Rightarrow> n)"

definition read_approval :: "ext \<Rightarrow> time \<Rightarrow> approval_row \<Rightarrow> approval_request" where
  "read_approval X now r =
     \<lparr> ap_id = uuid_or_nil X (apr_id r),
       ap_agent_id = uuid_or_nil X (apr_agent_id r),
       ap_principal_id = opt_uuid X (apr_principal_id r),
       ap_resource_id = (case opt_uuid X (apr_resource_id r) of None \<Rightarrow> nil_uuid | Some u \<Rightarrow> u),
       ap_action = apr_action r,
       ap_requested_scopes = scopes_of_text X (apr_requested_scopes r),
       ap_status = approval_status_of (apr_status r),
       ap_approver_id = opt_uuid X (apr_approver_id r),
       ap_reason = apr_reason r,
       ap_approval_token = apr_approval_token r,
       ap_expires_at = time_or_now X now (apr_expires_at r),
       ap_created_at = time_or_now X now (apr_created_at r),
       ap_resolved_at = opt_time X (apr_resolved_at r) \<rparr>"

definition get_approval_request_sync :: "ext \<Rightarrow> time \<Rightarrow> uuid \<Rightarrow> db \<Rightarrow> approval_request result" where
  "get_approval_request_sync X now i d =
     (case find (\<lambda>r. apr_id r = x_uuid_str X i) (d_approvals d) of
        Some r \<Rightarrow> Inr (read_approval X now r)
      | None \<Rightarrow> Inl (sql_error X NoRows))"

definition get_approval_request :: "ext \<Rightarrow> env \<Rightarrow> time \<Rightarrow> uuid \<Rightarrow> approval_request db_act" where
  "get_approval_request X E now i = spawn_read E CallGetApproval (get_approval_request_sync X now i)"

definition new_approval_row ::
    "ext \<Rightarrow> time \<Rightarrow> time \<Rightarrow> uuid \<Rightarrow> uuid \<Rightarrow> uuid option \<Rightarrow> uuid option \<Rightarrow> string \<Rightarrow> string list \<Rightarrow> approval_row" where
  "new_approval_row X now expires u agent pid resource action scopes =
     \<lparr> apr_id = x_uuid_str X u,
       apr_agent_id = x_uuid_str X agent,
       apr_principal_id = map_option (x_uuid_str X) pid,
       apr_resource_id = map_option (x_uuid_str X) resource,
       apr_action = action,
       apr_requested_scopes = scopes_text X scopes,
       apr_status = ''pending'',
       apr_approver_id = None, apr_reason = None, apr_approval_token = None,
       apr_expires_at = x_rfc3339 X expires,
       apr_created_at = x_rfc3339 X now,
       apr_resolved_at = None \<rparr>"

definition insert_approval :: "ext \<Rightarrow> approval_row \<Rightarrow> unit db_act" where
  "insert_approval X r = (\<lambda>d.
     if \<not> fk_ok X agr_id (d_agents d) (Some (apr_agent_id r)) then (Inl (sql_error X ForeignKeyViolation), d)
     else (case insert_row X ''approval_requests.id'' apr_id r (d_approvals d) of
             Inl e \<Rightarrow> (Inl e, d)
           | Inr rows \<Rightarrow> (Inr (), d\<lparr> d_approvals := rows \<rparr>)))"

definition create_approval_request ::
    "ext \<Rightarrow> env \<Rightarrow> time \<Rightarrow> uuid \<Rightarrow> uuid \<Rightarrow> uuid option \<Rightarrow> uuid option \<Rightarrow> string \<Rightarrow> string list \<Rightarrow> u64 \<Rightarrow>
     approval_request db_act" where
  "create_approval_request X E now u agent pid resource action scopes ttl_seconds =
     spawn_write E CallCreateApproval (in_task
       (and_then (of_result (add_seconds X now ttl_seconds)) (\<lambda>expires.
        and_then (insert_approval X (new_approval_row X now expires u agent pid resource action scopes)) (\<lambda>_.
        (\<lambda>d. (get_approval_request_sync X now u d, d))))))"

definition is_pending :: "approval_row \<Rightarrow> bool" where
  "is_pending r \<longleftrightarrow> apr_status r = ''pending''"

definition list_pending_approvals_sync :: "ext \<Rightarrow> time \<Rightarrow> db \<Rightarrow> approval_request list result" where
  "list_pending_approvals_sync X now d =
     Inr (map (\<lambda>r. (read_approval X now r)\<lparr> ap_status := Pending \<rparr>)
       (order_desc apr_created_at (filter is_pending (d_approvals d))))"

definition list_pending_approvals :: "ext \<Rightarrow> env \<Rightarrow> time \<Rightarrow> approval_request list db_act" where
  "list_pending_approvals X E now = spawn_read E CallListPending (list_pending_approvals_sync X now)"

definition resolution ::
    "ext \<Rightarrow> time \<Rightarrow> uuid \<Rightarrow> uuid \<Rightarrow> bool \<Rightarrow> string option \<Rightarrow> approval_row \<Rightarrow> approval_row" where
  "resolution X now u approver approved reason r =
     r\<lparr> apr_status := (if approved then ''approved'' else ''denied''),
        apr_approver_id := Some (x_uuid_str X approver),
        apr_reason := reason,
        apr_approval_token := (if approved then Some (x_uuid_str X u) else None),
        apr_resolved_at := Some (x_rfc3339 X now) \<rparr>"

definition resolve_approval_request ::
    "ext \<Rightarrow> env \<Rightarrow> time \<Rightarrow> uuid \<Rightarrow> uuid \<Rightarrow> uuid \<Rightarrow> bool \<Rightarrow> string option \<Rightarrow> approval_request db_act" where
  "resolve_approval_request X E now u i approver approved reason =
     spawn_write E CallResolveApproval (\<lambda>d.
       let P = (\<lambda>r. apr_id r = x_uuid_str X i \<and> is_pending r);
           d' = d\<lparr> d_approvals := update_where P (resolution X now u approver approved reason) (d_approvals d) \<rparr>
       in if changes P (d_approvals d) = 0
          then (Inl (Err (DatabaseError ''approval request not found or already resolved'')), d')
          else (get_approval_request_sync X now i d', d'))"

section \<open>Vault credentials\<close>

record vault_credential =
  vc_id :: uuid
  vc_principal_id :: uuid
  vc_provider :: string
  vc_encrypted_token :: string
  vc_nonce :: string
  vc_encryption_key_id :: string
  vc_scopes :: "string list"
  vc_expires_at :: "time option"
  vc_created_at :: time
  vc_updated_at :: time

definition new_vault_row ::
    "ext \<Rightarrow> time \<Rightarrow> uuid \<Rightarrow> uuid \<Rightarrow> string \<Rightarrow> string \<Rightarrow> string \<Rightarrow> string \<Rightarrow> string list \<Rightarrow> time option \<Rightarrow> vault_row" where
  "new_vault_row X now u pid provider encrypted nonce key_id scopes expires =
     \<lparr> var_id = x_uuid_str X u,
       var_principal_id = x_uuid_str X pid,
       var_provider = provider,
       var_encrypted_token = encrypted,
       var_nonce = nonce,
       var_encryption_key_id = key_id,
       var_scopes = scopes_text X scopes,
       var_expires_at = map_option (x_rfc3339 X) expires,
       var_created_at = x_rfc3339 X now,
       var_updated_at = x_rfc3339 X now \<rparr>"

text \<open>\<open>INSERT OR REPLACE\<close>: a row with the same id, and only such a row, makes way.\<close>

definition store_vault_credential ::
    "ext \<Rightarrow> env \<Rightarrow> time \<Rightarrow> uuid \<Rightarrow> uuid \<Rightarrow> string \<Rightarrow> string \<Rightarrow> string \<Rightarrow> string \<Rightarrow> string list \<Rightarrow> time option \<Rightarrow> uuid db_act" where
  "store_vault_credential X E now u pid provider encrypted nonce key_id scopes expires =
     spawn_write E CallStoreCredential (\<lambda>d.
       if \<not> fk_ok X prr_id (d_principals d) (Some (x_uuid_str X pid))
       then (Inl (sql_error X ForeignKeyViolation), d)
       else (Inr u, d\<lparr> d_vault := filter (\<lambda>r. var_id r \<noteq> x_uuid_str X u) (d_vault d)
              @ [new_vault_row X now u pid provider encrypted nonce key_id scopes expires] \<rparr>))"

definition read_vault_row :: "ext \<Rightarrow> time \<Rightarrow> vault_row \<Rightarrow> vault_credential" where
  "read_vault_row X now r =
     \<lparr> vc_id = uuid_or_nil X (var_id r),
       vc_principal_id = uuid_or_nil X (var_principal_id r),
       vc_provider = var_provider r,
       vc_encrypted_token = var_encrypted_token r,
       vc_nonce = var_nonce r,
       vc_encryption_key_id = var_encryption_key_id r,
       vc_scopes = scopes_of_text X (var_scopes r),
       vc_expires_at = opt_time X (var_expires_at r),
       vc_created_at = time_or_now X now (var_created_at r),
       vc_updated_at = time_or_now X now (var_updated_at r) \<rparr>"

definition get_vault_credential ::
    "ext \<Rightarrow> env \<Rightarrow> time \<Rightarrow> uuid \<Rightarrow> string \<Rightarrow> vault_credential option db_act" where
  "get_vault_credential X E now pid provider = spawn_read E CallGetCredential (\<lambda>d.
     Inr (case order_desc var_updated_at
            (filter (\<lambda>r. var_principal_id r = x_uuid_str X pid \<and> var_provider r = provider) (d_vault d)) of
          [] \<Rightarrow> None
        | r # _ \<Rightarrow> Some (read_vault_row X now r)))"

section \<open>An approval is resolved once\<close>

text \<open>A resolved request with a given content.\<close>

definition resolved_as :: "approval_row \<Rightarrow> db \<Rightarrow> bool" where
  "resolved_as r d \<longleftrightarrow> \<not> is_pending r \<and> find (\<lambda>q. apr_id q = apr_id r) (d_approvals d) = Some r"

datatype approval_op =
    CreateApproval env time uuid uuid "uuid option" "uuid option" string "string list" u64
  | ResolveApproval env time uuid uuid uuid bool "string option"

fun approval_step :: "ext \<Rightarrow> approval_op \<Rightarrow> db \<Rightarrow> db" where
  "approval_step X (CreateApproval E now u agent pid resource action scopes ttl) d =
     snd (create_approval_request X E now u agent pid resource action scopes ttl d)"
| "approval_step X (ResolveApproval E now u i approver approved reason) d =
     snd (resolve_approval_request X E now u i approver approved reason d)"

lemma insert_approval_find:
  assumes "find P (d_approvals d) = Some r"
  shows "find P (d_approvals (snd (insert_approval X q d))) = Some r"
  using assms by (simp add: insert_approval_def insert_row_def find_append)

lemma create_approval_find:
  assumes "find P (d_approvals d) = Some r"
  shows "find P (d_approvals (snd (create_approval_request X E now u agent pid resource action scopes ttl d))) = Some r"
proof -
  have "find P (d_approvals (snd (and_then (insert_approval X q) (\<lambda>_. \<lambda>d. (g d, d)) d))) = Some r" for q g
    using insert_approval_find [OF assms, of X q]
    by (cases "insert_approval X q d") (auto simp: act_simps split: sum.splits)
  with assms show ?thesis
    by (auto simp: create_approval_request_def act_simps split: option.splits sum.splits)
qed

lemma resolve_approval_find:
  assumes "find (\<lambda>q. apr_id q = k) (d_approvals d) = Some r" and "\<not> is_pending r"
  shows "find (\<lambda>q. apr_id q = k)
    (d_approvals (snd (resolve_approval_request X E now u i approver approved reason d))) = Some r"
  using assms by (auto simp: resolve_approval_request_def act_simps Let_def find_update_where_key
      resolution_def split: option.splits)

interpretation resolved: latch "approval_step X" resolved_as "\<lambda>_ _. False" for X
proof unfold_locales
  show "resolved_as k (approval_step X x s)" if "resolved_as k s" for k s x
    using that by (cases x) (auto simp: resolved_as_def intro: create_approval_find resolve_approval_find)
qed

lemma distinct_insert_approval:
  "distinct (map apr_id (d_approvals d)) \<Longrightarrow> distinct (map apr_id (d_approvals (snd (insert_approval X q d))))"
  by (simp add: insert_approval_def insert_row_def)

lemma distinct_create_approval:
  assumes "distinct (map apr_id (d_approvals d))"
  shows "distinct (map apr_id (d_approvals (snd (create_approval_request X E now u agent pid resource action scopes ttl d))))"
proof -
  have "distinct (map apr_id (d_approvals (snd (and_then (insert_approval X q) (\<lambda>_. \<lambda>d. (g d, d)) d))))" for q g
    using distinct_insert_approval [OF assms, of X q]
    by (cases "insert_approval X q d") (auto simp: act_simps split: sum.splits)
  with assms show ?thesis
    by (auto simp: create_approval_request_def act_simps split: option.splits sum.splits)
qed

lemma distinct_resolve_approval:
  assumes "distinct (map apr_id (d_approvals d))"
  shows "distinct (map apr_id (d_approvals (snd (resolve_approval_request X E now u i approver approved reason d))))"
proof -
  have "map apr_id (update_where P (resolution X now u approver approved reason) rows) = map apr_id rows" for P rows
    by (rule map_update_where) (simp add: resolution_def)
  with assms show ?thesis
    by (simp add: resolve_approval_request_def act_simps Let_def split: option.splits)
qed

interpretation approval_ids: stepper "approval_step X" "\<lambda>_. True" "\<lambda>d. distinct (map apr_id (d_approvals d))" for X
proof unfold_locales
  show "distinct (map apr_id (d_approvals (approval_step X i s)))" if "distinct (map apr_id (d_approvals s))" for i s
    using that by (cases i) (simp_all add: distinct_create_approval distinct_resolve_approval)
qed

lemma resolve_InrD:
  assumes "resolve_approval_request X E now u i approver approved reason d = (Inr ap, d')"
  obtains r where "find (\<lambda>q. apr_id q = x_uuid_str X i) (d_approvals d') = Some r"
    and "ap = read_approval X now r"
    and "d' = d\<lparr> d_approvals := update_where (\<lambda>r. apr_id r = x_uuid_str X i \<and> is_pending r)
           (resolution X now u approver approved reason) (d_approvals d) \<rparr>"
  using assms
  by (auto simp: resolve_approval_request_def act_simps Let_def get_approval_request_sync_def
      split: option.splits if_splits)

text \<open>
  A pending request is resolved by the first decision on it: approving gives it an approval token,
  denying does not; both record the approver, the reason and the time.
\<close>

lemma resolve_pending_approval:
  assumes "e_fault E CallResolveApproval = None" and "uuid_rt X" and "time_rt X now"
    and "find (\<lambda>q. apr_id q = x_uuid_str X i) (d_approvals d) = Some r" and "is_pending r"
  shows "\<exists>d' ap. resolve_approval_request X E now u i approver approved reason d = (Inr ap, d')
    \<and> ap_id ap = i \<and> ap_status ap = (if approved then Approved else Denied)
    \<and> ap_approval_token ap = (if approved then Some (x_uuid_str X u) else None)
    \<and> ap_approver_id ap = Some approver \<and> ap_reason ap = reason \<and> ap_resolved_at ap = Some now
    \<and> ap_action ap = apr_action r \<and> ap_requested_scopes ap = scopes_of_text X (apr_requested_scopes r)"
proof -
  let ?P = "\<lambda>r. apr_id r = x_uuid_str X i \<and> is_pending r"
  let ?f = "resolution X now u approver approved reason"
  from assms(4) have mem: "r \<in> set (d_approvals d)" and idr: "apr_id r = x_uuid_str X i"
    by (auto dest: find_key_SomeD)
  have ch: "changes ?P (d_approvals d) \<noteq> 0"
    using mem idr assms(5) by (auto simp: changes_def filter_empty_conv)
  have find: "find (\<lambda>q. apr_id q = x_uuid_str X i) (update_where ?P ?f (d_approvals d)) = Some (?f r)"
    using assms(4,5) idr by (simp add: find_update_where_key resolution_def)
  show ?thesis
    using assms(1-3) ch find idr
    by (auto simp: resolve_approval_request_def act_simps Let_def get_approval_request_sync_def
        read_approval_def resolution_def approval_status_of_def opt_uuid_def opt_time_def)
qed

text \<open>
  Once a request is resolved, its row never changes again: every later decision on it, by any
  approver, is refused, and no other operation touches it.
\<close>

lemma resolved_approval_is_final:
  assumes "find (\<lambda>q. apr_id q = x_uuid_str X i) (d_approvals d) = Some r" and "\<not> is_pending r"
    and "distinct (map apr_id (d_approvals d))"
    and "e_fault E CallResolveApproval = None"
  shows "find (\<lambda>q. apr_id q = x_uuid_str X i) (d_approvals (fold (approval_step X) ops d)) = Some r
    \<and> fst (resolve_approval_request X E now u i approver approved reason (fold (approval_step X) ops d)) =
      Inl (Err (DatabaseError ''approval request not found or already resolved''))"
proof -
  let ?d = "fold (approval_step X) ops d"
  from assms(1) have idr: "apr_id r = x_uuid_str X i" by (auto dest: find_key_SomeD)
  with assms(1,2) have "resolved_as r d" by (simp add: resolved_as_def)
  from resolved.stays_stopped [OF this, of ops X] idr
  have find: "find (\<lambda>q. apr_id q = x_uuid_str X i) (d_approvals ?d) = Some r" by (simp add: resolved_as_def)
  have "distinct (map apr_id (d_approvals ?d))"
    using approval_ids.fold_inv [OF _ assms(3)] by simp
  note key = find_key_distinct [OF this]
  have "\<not> is_pending q" if "q \<in> set (d_approvals ?d)" "apr_id q = x_uuid_str X i" for q
    using key [OF that] find assms(2) by simp
  then have "changes (\<lambda>r. apr_id r = x_uuid_str X i \<and> is_pending r) (d_approvals ?d) = 0"
    by (auto simp: changes_def filter_empty_conv)
  with find assms(4) show ?thesis by (simp add: resolve_approval_request_def act_simps Let_def)
qed

definition demo_approvals :: db where
  "demo_approvals = empty_db\<lparr> d_approvals := [new_approval_row demo_ext 0 50 1 7 None None ''read'' [''a'']] \<rparr>"

lemma resolve_pending_approval_witness:
  "\<exists>d' ap. resolve_approval_request demo_ext demo_env 5 9 1 3 True None demo_approvals = (Inr ap, d')
    \<and> ap_status ap = Approved \<and> ap_approval_token ap = Some (x_uuid_str demo_ext 9)"
  using resolve_pending_approval [of demo_env demo_ext 5 1 demo_approvals
      "new_approval_row demo_ext 0 50 1 7 None None ''read'' [''a'']" 9 3 True None] demo_uuid_rt demo_time_rt
  by (auto simp: demo_env_def demo_approvals_def is_pending_def new_approval_row_def)

lemma resolved_approval_is_final_witness:
  "fst (resolve_approval_request demo_ext demo_env 5 9 1 3 True None
     (fold (approval_step demo_ext) [ResolveApproval demo_env 3 4 1 8 True None]
       (empty_db\<lparr> d_approvals := [(new_approval_row demo_ext 0 50 1 7 None None ''read'' [''a''])\<lparr> apr_status := ''denied'' \<rparr>] \<rparr>)))
   = Inl (Err (DatabaseError ''approval request not found or already resolved''))"
  by (rule conjunct2, rule resolved_approval_is_final)
    (simp_all add: is_pending_def new_approval_row_def del: fold.simps, simp)

section \<open>Credentials\<close>

text \<open>
  A stored credential is the one that is fetched when its time is later, as text, than that of every
  older row of the same principal and provider; older rows are kept.
\<close>

lemma store_then_get_credential:
  assumes "store_vault_credential X E now u pid provider encrypted nonce key_id scopes expires d = (Inr u, d')"
    and "\<forall>r \<in> set (d_vault d). var_principal_id r = x_uuid_str X pid \<and> var_provider r = provider
           \<longrightarrow> var_updated_at r < x_rfc3339 X now"
    and "e_fault E' CallGetCredential = None" and "uuid_rt X" and "json_rt X (strings_json scopes)"
  shows "\<exists>c. fst (get_vault_credential X E' n pid provider d') = Inr (Some c)
    \<and> vc_id c = u \<and> vc_principal_id c = pid \<and> vc_provider c = provider
    \<and> vc_encrypted_token c = encrypted \<and> vc_nonce c = nonce \<and> vc_scopes c = scopes"
proof -
  let ?new = "new_vault_row X now u pid provider encrypted nonce key_id scopes expires"
  let ?P = "\<lambda>r. var_principal_id r = x_uuid_str X pid \<and> var_provider r = provider"
  let ?old = "filter ?P (filter (\<lambda>r. var_id r \<noteq> x_uuid_str X u) (d_vault d))"
  from assms(1) have d': "d_vault d' = filter (\<lambda>r. var_id r \<noteq> x_uuid_str X u) (d_vault d) @ [?new]"
    by (auto simp: store_vault_credential_def act_simps split: option.splits if_splits)
  have new: "filter ?P (d_vault d') = ?old @ [?new]"
    unfolding d' by (simp add: new_vault_row_def)
  have "\<forall>r \<in> set ?old. var_updated_at r < var_updated_at ?new"
    using assms(2) by (simp add: new_vault_row_def)
  then have "order_desc var_updated_at (?old @ [?new]) = ?new # order_desc var_updated_at ?old"
    by (simp add: order_desc_def insort_last)
  with new assms(3-5) show ?thesis
    by (simp add: get_vault_credential_def act_simps read_vault_row_def) (simp add: new_vault_row_def scopes_round_trip)
qed

end
