(* ===== verification/Auth.thy ===== *)
theory Auth
  imports Approvals
begin

text \<open>
  Authentication (\<open>src/api/auth.rs\<close>): the two domains of protected paths, the admin bearer token
  compared in constant time, the agents' client keys of which only digests are stored, and the
  middleware that every request passes.
\<close>

section \<open>Configuration\<close>

record auth_config =
  ac_admin_token :: "string option"

definition auth_from_env :: "string option \<Rightarrow> auth_config" where
  "auth_from_env var = \<lparr> ac_admin_token = (case var of None \<Rightarrow> None | Some t \<Rightarrow> if t = [] then None else Some t) \<rparr>"

definition auth_for_test :: auth_config where
  "auth_for_test = \<lparr> ac_admin_token = Some ''test-admin-token'' \<rparr>"

text \<open>\<open>insecure\<close> is the value of \<open>PATROCLUS_INSECURE_DEV\<close>.\<close>

definition ensure_startable :: "auth_config \<Rightarrow> string option \<Rightarrow> bool \<Rightarrow> string + unit" where
  "ensure_startable cfg insecure is_release =
     (if ac_admin_token cfg \<noteq> None then Inr ()
      else if insecure = Some ''1'' then Inr ()
      else if is_release then
        Inl (''refusing to start: PATROCLUS_ADMIN_TOKEN is not set. Set it to a strong secret ''
          @ ''(or set PATROCLUS_INSECURE_DEV=1 for local development only).'')
      else Inr ())"

section \<open>Client keys\<close>

definition hash_client_key :: "ext \<Rightarrow> string \<Rightarrow> string" where
  "hash_client_key X raw = sha256_hex X raw"

text \<open>\<open>bytes\<close> are the 32 random bytes drawn.\<close>

definition generate_client_key :: "ext \<Rightarrow> string \<Rightarrow> string \<times> string" where
  "generate_client_key X bytes = (let raw = ''pat_'' @ hex bytes in (raw, hash_client_key X raw))"

section \<open>Comparison in constant time\<close>

definition constant_time_eq :: "u8 list \<Rightarrow> u8 list \<Rightarrow> bool" where
  "constant_time_eq a b =
     (if length a \<noteq> length b then False
      else fold (\<lambda>(x, y) diff. or diff (xor x y)) (zip a b) 0 = 0)"

definition str_bytes :: "string \<Rightarrow> u8 list" where
  "str_bytes s = map of_char s"

section \<open>Paths\<close>

definition paths_start_with :: "string \<Rightarrow> string list \<Rightarrow> bool" where
  "paths_start_with path prefixes \<longleftrightarrow> (\<exists>p \<in> set prefixes. path = p \<or> starts_with path (p @ ''/''))"

definition is_admin_path :: "string \<Rightarrow> bool" where
  "is_admin_path path = paths_start_with path [''/v1/admin'', ''/v1/vault'', ''/v1/sessions'', ''/v1/principal'']"

definition is_agent_path :: "string \<Rightarrow> bool" where
  "is_agent_path path = paths_start_with path [''/v1/agent'']"

section \<open>The middleware\<close>

text \<open>The parts of a request the middleware reads: its path and two headers.\<close>

record http_request =
  hr_path :: string
  hr_authorization :: "string option"
  hr_client_key :: "string option"

text \<open>\<open>HeaderValue::to_str\<close>: visible ASCII and tabs only.\<close>

definition header_to_str :: "string \<Rightarrow> string option" where
  "header_to_str v =
     (if \<forall>c \<in> set v. (32 \<le> (of_char c :: nat) \<and> (of_char c :: nat) < 127) \<or> (of_char c :: nat) = 9
      then Some v else None)"

definition presented_token :: "http_request \<Rightarrow> string" where
  "presented_token req =
     (case Option.bind (Option.bind (hr_authorization req) header_to_str) (\<lambda>v. strip_prefix v ''Bearer '') of
        None \<Rightarrow> [] | Some t \<Rightarrow> t)"

definition presented_key :: "http_request \<Rightarrow> string" where
  "presented_key req = (case Option.bind (hr_client_key req) header_to_str of None \<Rightarrow> [] | Some k \<Rightarrow> k)"

text \<open>
  \<open>Inl\<close> is the 401 response with its message; \<open>Inr\<close> lets the request through, with the identity of
  the agent it was authenticated as.
\<close>

definition auth_middleware ::
    "ext \<Rightarrow> env \<Rightarrow> time \<Rightarrow> auth_config \<Rightarrow> http_request \<Rightarrow> db \<Rightarrow> string + uuid option" where
  "auth_middleware X E now cfg req d =
     (if is_admin_path (hr_path req) then
        (case ac_admin_token cfg of
           None \<Rightarrow> Inr None
         | Some expected \<Rightarrow>
             if \<not> constant_time_eq (str_bytes (presented_token req)) (str_bytes expected)
             then Inl ''missing or invalid admin token''
             else Inr None)
      else if is_agent_path (hr_path req) then
        (if presented_key req = [] then Inl ''missing agent client key''
         else (case fst (get_agent_by_client_key_hash X E now (hash_client_key X (presented_key req)) d) of
                 Inr (Some a) \<Rightarrow> Inr (Some (ag_id a))
               | _ \<Rightarrow> Inl ''invalid agent client key''))
      else Inr None)"

definition authenticated_agent :: "uuid option \<Rightarrow> uuid result" where
  "authenticated_agent ext =
     ok_or ext (Err (Forbidden ''request was not authenticated as an agent''))"

section \<open>Correctness\<close>

lemma xor_eq_0: "xor a b = 0 \<longleftrightarrow> a = b" for a b :: u8
proof
  assume "xor a b = 0"
  then have "xor (xor a b) b = b" by simp
  then show "a = b" by (simp add: xor.assoc)
qed simp

lemma fold_or_eq_0:
  fixes d :: u8
  shows "fold (\<lambda>(x, y) diff. or diff (xor x y)) ps d = 0 \<longleftrightarrow> d = 0 \<and> (\<forall>(x, y) \<in> set ps. x = y)"
  by (induction ps arbitrary: d) (auto simp: or_eq_0_iff xor_eq_0)

lemma constant_time_iff: "constant_time_eq a b \<longleftrightarrow> a = b"
proof (cases "length a = length b")
  case True
  then have "(\<forall>(x, y) \<in> set (zip a b). x = y) \<longleftrightarrow> a = b"
    by (induction a b rule: list_induct2) auto
  with True show ?thesis by (simp add: constant_time_eq_def fold_or_eq_0)
qed (auto simp: constant_time_eq_def)

text \<open>The comparison in constant time decides equality of the two byte strings.\<close>

lemma constant_time_eq_is_eq: "constant_time_eq a b \<longleftrightarrow> a = b"
  by (rule constant_time_iff)

lemma inj_of_char_u8: "inj (of_char :: char \<Rightarrow> u8)"
proof (rule injI)
  fix c c' :: char
  assume "(of_char c :: u8) = of_char c'"
  then have "(of_nat (of_char c) :: u8) = of_nat (of_char c')" by (simp only: of_nat_of_char)
  then have "unat (of_nat (of_char c) :: u8) = unat (of_nat (of_char c') :: u8)" by simp
  then have "(of_char c :: nat) mod 256 = of_char c' mod 256" by (simp add: unat_of_nat)
  then show "c = c'" by simp
qed

lemma str_bytes_eq: "str_bytes s = str_bytes t \<longleftrightarrow> s = t"
  by (simp add: str_bytes_def inj_map_eq_map [OF inj_of_char_u8])

lemma get_agent_by_client_key_hash_fst:
  "fst (get_agent_by_client_key_hash X E now h d) = Inr x \<longleftrightarrow>
     e_fault E CallGetAgentByKey = None \<and> get_agent_by_client_key_hash_sync X now h d = Inr x"
  by (simp add: get_agent_by_client_key_hash_def spawn_read_def split: option.split)

lemma agent_path_not_admin: "is_agent_path path \<Longrightarrow> \<not> is_admin_path path"
  by (auto simp: is_agent_path_def is_admin_path_def paths_start_with_def starts_with_iff)

lemma middleware_agent_InrD:
  assumes "auth_middleware X E now cfg req d = Inr who" and "is_agent_path (hr_path req)"
  obtains a where "who = Some (ag_id a)" and "presented_key req \<noteq> []"
    and "get_agent_by_client_key_hash_sync X now (hash_client_key X (presented_key req)) d = Inr (Some a)"
proof -
  have "\<exists>a. fst (get_agent_by_client_key_hash X E now (hash_client_key X (presented_key req)) d) = Inr (Some a)
      \<and> who = Some (ag_id a) \<and> presented_key req \<noteq> []"
    using assms agent_path_not_admin [OF assms(2)]
    by (auto simp: auth_middleware_def split: if_splits sum.splits option.splits)
  with that show ?thesis by (auto simp: get_agent_by_client_key_hash_fst)
qed

lemma middleware_admin:
  assumes "is_admin_path (hr_path req)" and "ac_admin_token cfg = Some t"
  shows "auth_middleware X E now cfg req d =
    (if presented_token req = t then Inr None else Inl ''missing or invalid admin token'')"
  using assms by (simp add: auth_middleware_def constant_time_iff str_bytes_eq)

text \<open>
  C36: a request to an agent path passes only with a client key whose digest is stored for an active
  agent, and the identity the handlers see is that of this agent; no admin token helps, and a
  database failure refuses the request.
\<close>

theorem agent_identity_is_proven:
  assumes "auth_middleware X E now cfg req d = Inr who" and "is_agent_path (hr_path req)"
    and "agent_ids_ok X d" and "uuid_rt X"
  shows "\<exists>a. who = Some (ag_id a) \<and> get_agent_sync X now (ag_id a) d = Inr a \<and> ag_status a = Active
    \<and> ag_client_key_hash a = Some (sha256_hex X (presented_key req)) \<and> presented_key req \<noteq> []"
proof -
  from middleware_agent_InrD [OF assms(1,2)] obtain a where a: "who = Some (ag_id a)" "presented_key req \<noteq> []"
    "get_agent_by_client_key_hash_sync X now (hash_client_key X (presented_key req)) d = Inr (Some a)" .
  with client_key_lookup_sound [OF a(3) assms(3,4)] show ?thesis by (auto simp: hash_client_key_def)
qed

section \<open>Provisioning and rotation\<close>

lemma agent_ids_ok_set_key_hash:
  "set_agent_client_key_hash_sync X now i h d = (Inr (), d') \<Longrightarrow> agent_ids_ok X d \<Longrightarrow> agent_ids_ok X d'"
proof -
  assume "set_agent_client_key_hash_sync X now i h d = (Inr (), d')" and ok: "agent_ids_ok X d"
  then have "map agr_id (d_agents d') = map agr_id (d_agents d)"
    using set_key_hash_InrD(1) by (fastforce intro: map_update_where)
  note eq = this
  have iff: "agent_ids_ok X e \<longleftrightarrow> distinct (map agr_id (d_agents e)) \<and>
      (\<forall>s \<in> set (map agr_id (d_agents e)). \<exists>u. s = x_uuid_str X u)" for e
    by (simp add: agent_ids_ok_def)
  show "agent_ids_ok X d'" using ok unfolding iff eq .
qed

text \<open>
  C37: provisioning a client key for an active agent lets exactly that key authenticate it: the new key
  (whose digest no agent carries yet) identifies the agent, and every key with another digest, the
  previous one among them, no longer does.
\<close>

theorem client_key_rotation:
  assumes "set_agent_client_key_hash_sync X now i h d = (Inr (), d')"
    and "agent_ids_ok X d" and "uuid_rt X"
    and "get_agent_sync X now i d = Inr a" and "ag_status a = Active"
    and "\<forall>r \<in> set (d_agents d). agr_client_key_hash r \<noteq> Some h \<and> agr_status r \<in> range agent_status_str"
  shows "(\<exists>b. get_agent_by_client_key_hash_sync X n h d' = Inr (Some b) \<and> ag_id b = i)
    \<and> (\<forall>h' b. h' \<noteq> h \<longrightarrow> get_agent_by_client_key_hash_sync X n h' d' = Inr (Some b) \<longrightarrow> ag_id b \<noteq> i)"
proof -
  have ok': "agent_ids_ok X d'" by (rule agent_ids_ok_set_key_hash [OF assms(1,2)])
  let ?f = "\<lambda>r. r\<lparr> agr_client_key_hash := Some h, agr_updated_at := x_rfc3339 X now \<rparr>"
  have rows: "d_agents d' = update_where (\<lambda>r. agr_id r = x_uuid_str X i) ?f (d_agents d)"
    using set_key_hash_InrD(1) [OF assms(1)] by simp
  from assms(4) obtain r where r: "find (\<lambda>r. agr_id r = x_uuid_str X i) (d_agents d) = Some r"
    and a: "a = read_agent X now r"
    by (auto simp: get_agent_sync_def split: option.splits)
  then have mem: "r \<in> set (d_agents d)" and idr: "agr_id r = x_uuid_str X i" by (auto dest: find_key_SomeD)
  from assms(6) mem obtain st where st: "agr_status r = agent_status_str st" by auto
  with a assms(5) have act: "agr_status r = ''active''" by (simp add: read_agent_def enum_simps)
  have key: "agr_client_key_hash q = Some h \<longleftrightarrow> agr_id q = x_uuid_str X i" if "q \<in> set (d_agents d')" for q
    using that assms(6) by (auto simp: rows set_update_where)
  have "?f r \<in> set (d_agents d')" using mem idr by (auto simp: rows set_update_where)
  then have ne: "find (\<lambda>q. agr_client_key_hash q = Some h \<and> agr_status q = ''active'') (d_agents d') \<noteq> None"
    using act by (simp add: find_None_iff) (rule exI [of _ "?f r"], simp)
  have get: "get_agent_sync X n i d' = Inr b \<Longrightarrow> ag_client_key_hash b = Some h" for b
    using key by (auto simp: get_agent_sync_def read_agent_def dest!: find_key_SomeD split: option.splits)
  have "\<exists>b. get_agent_by_client_key_hash_sync X n h d' = Inr (Some b) \<and> ag_id b = i"
  proof -
    from ne obtain q where q: "find (\<lambda>q. agr_client_key_hash q = Some h \<and> agr_status q = ''active'') (d_agents d') = Some q"
      by auto
    then have "q \<in> set (d_agents d')" "agr_client_key_hash q = Some h" by (auto simp: find_Some_iff)
    with key have idq: "agr_id q = x_uuid_str X i" by blast
    have "find (\<lambda>r. agr_id r = x_uuid_str X i) (d_agents d') = Some (?f r)"
      using r idr unfolding rows by (subst find_update_where_key) auto
    then have "get_agent_sync X n i d' = Inr (read_agent X n (?f r))" by (simp add: get_agent_sync_def)
    with q idq assms(3) idr show ?thesis
      by (simp add: get_agent_by_client_key_hash_sync_def) (simp add: read_agent_def)
  qed
  moreover have "ag_id b \<noteq> i" if "h' \<noteq> h" "get_agent_by_client_key_hash_sync X n h' d' = Inr (Some b)" for h' b
    using client_key_lookup_sound [OF that(2) ok' assms(3)] that(1) get [of b] by auto
  ultimately show ?thesis by blast
qed

section \<open>Closed examples\<close>

definition demo_request :: "string \<Rightarrow> http_request" where
  "demo_request path = \<lparr> hr_path = path, hr_authorization = None, hr_client_key = Some ''k1'' \<rparr>"

definition demo_keyed :: agent where
  "demo_keyed = demo_agent\<lparr> ag_client_key_hash := Some (sha256_hex demo_ext ''k1'') \<rparr>"

definition demo_db :: db where
  "demo_db = empty_db\<lparr> d_agents := [agent_row_of demo_ext demo_keyed] \<rparr>"

lemma demo_keyed_fields: "ag_id demo_keyed = 7" "ag_status demo_keyed = Active"
  by (simp_all add: demo_keyed_def demo_agent_def)

lemma demo_ids_ok: "agent_ids_ok demo_ext demo_db"
  by (auto simp: agent_ids_ok_def demo_db_def agent_row_of_def)

lemma demo_get_agent: "get_agent_sync demo_ext n 7 demo_db = Inr demo_keyed"
proof -
  have "good_agent demo_ext demo_keyed"
    by (simp add: good_agent_def demo_uuid_rt demo_time_rt demo_keyed_def demo_agent_def)
  from get_agent_after_insert [OF this, of empty_db n] show ?thesis
    by (simp add: demo_db_def empty_db_def demo_keyed_fields)
qed

lemma demo_lookup: "get_agent_by_client_key_hash_sync demo_ext n (sha256_hex demo_ext ''k1'') demo_db = Inr (Some demo_keyed)"
proof -
  have "agr_status (agent_row_of demo_ext demo_keyed) = ''active''"
    "agr_client_key_hash (agent_row_of demo_ext demo_keyed) = Some (sha256_hex demo_ext ''k1'')"
    "agr_id (agent_row_of demo_ext demo_keyed) = x_uuid_str demo_ext 7"
    by (simp_all add: agent_row_of_def demo_keyed_fields) (simp add: demo_keyed_def)
  then show ?thesis
    using demo_get_agent [of n] by (simp add: get_agent_by_client_key_hash_sync_def demo_db_def demo_uuid_rt)
qed

lemma demo_agent_path: "is_agent_path ''/v1/agent/check''"
  by (simp add: is_agent_path_def paths_start_with_def starts_with_def)

lemma demo_key: "presented_key (demo_request path) = ''k1''"
  by (simp add: presented_key_def demo_request_def header_to_str_def)

lemma demo_middleware:
  "auth_middleware demo_ext demo_env 0 cfg (demo_request ''/v1/agent/check'') demo_db = Inr (Some 7)"
  using agent_path_not_admin [OF demo_agent_path] demo_agent_path demo_lookup [of 0]
  by (simp add: auth_middleware_def demo_key hash_client_key_def get_agent_by_client_key_hash_def act_simps
      demo_keyed_fields) (simp add: demo_request_def)

theorem agent_identity_is_proven_witness:
  "\<exists>a. Some 7 = Some (ag_id a) \<and> get_agent_sync demo_ext 0 (ag_id a) demo_db = Inr a \<and> ag_status a = Active
    \<and> ag_client_key_hash a = Some (sha256_hex demo_ext (presented_key (demo_request ''/v1/agent/check'')))
    \<and> presented_key (demo_request ''/v1/agent/check'') \<noteq> []"
  by (rule agent_identity_is_proven [OF demo_middleware _ demo_ids_ok demo_uuid_rt])
    (simp add: demo_request_def demo_agent_path)

theorem client_key_rotation_witness:
  "\<exists>d' b. set_agent_client_key_hash_sync demo_ext 4 7 ''new'' demo_db = (Inr (), d')
     \<and> get_agent_by_client_key_hash_sync demo_ext 9 ''new'' d' = Inr (Some b) \<and> ag_id b = 7"
proof -
  have "changes (\<lambda>r. agr_id r = x_uuid_str demo_ext 7) (d_agents demo_db) \<noteq> 0"
    by (simp add: changes_def demo_db_def agent_row_of_def demo_keyed_fields)
  then obtain d' where d': "set_agent_client_key_hash_sync demo_ext 4 7 ''new'' demo_db = (Inr (), d')"
    by (simp add: set_agent_client_key_hash_sync_def Let_def)
  have "\<forall>r \<in> set (d_agents demo_db). agr_client_key_hash r \<noteq> Some ''new'' \<and> agr_status r \<in> range agent_status_str"
    by (simp add: demo_db_def agent_row_of_def demo_keyed_def sha256_hex_def demo_ext_def hex_def hex_digit_def
        char_of_eq_iff)
  from client_key_rotation [OF d' demo_ids_ok demo_uuid_rt demo_get_agent demo_keyed_fields(2) this] d'
  show ?thesis by blast
qed

end
