(* ===== verification/Vault.thy ===== *)
theory Vault
  imports Auth
begin

text \<open>
  The credential vault (\<open>src/vault/mod.rs\<close>) and the exchange of stored refresh tokens for access
  tokens at GitHub, Google and Slack (\<open>src/vault/providers.rs\<close>). The cipher and the HTTP client are
  parameters; key derivation, nonce handling, the requests that are sent, and the reading of every
  kind of reply are the code's.
\<close>

section \<open>Files\<close>

type_synonym files = "string \<Rightarrow> string option"

definition read_file :: "env \<Rightarrow> files \<Rightarrow> string \<Rightarrow> string + string" where
  "read_file E fs path =
     (case e_read_fault E path of
        Some e \<Rightarrow> Inl e
      | None \<Rightarrow>
          (case fs path of
             None \<Rightarrow> Inl ''No such file or directory (os error 2)''
           | Some bytes \<Rightarrow>
               if utf8_error 0 bytes = None then Inr bytes
               else Inl ''stream did not contain valid UTF-8''))"

definition write_file :: "env \<Rightarrow> string \<Rightarrow> string \<Rightarrow> (files, string, unit) act" where
  "write_file E path bytes = (\<lambda>fs.
     case e_write_fault E path of Some e \<Rightarrow> (Inl e, fs) | None \<Rightarrow> (Inr (), fs(path \<mapsto> bytes)))"

section \<open>The vault\<close>

record vault =
  vt_encryption_key :: string
  vt_key_id :: string

definition new_vault :: "ext \<Rightarrow> string \<Rightarrow> vault" where
  "new_vault X key_material =
     (let key = x_sha256 X key_material in \<lparr> vt_encryption_key = key, vt_key_id = hex (take 8 key) \<rparr>)"

definition vault_err :: "string \<Rightarrow> string + 'a \<Rightarrow> 'a result" where
  "vault_err what r = (case r of Inl e \<Rightarrow> Inl (Err (VaultError (what @ e))) | Inr x \<Rightarrow> Inr x)"

definition vault_from_file :: "ext \<Rightarrow> env \<Rightarrow> files \<Rightarrow> string \<Rightarrow> vault result" where
  "vault_from_file X E fs path =
     (case vault_err ''failed to read vault key: '' (read_file E fs path) of
        Inl e \<Rightarrow> Inl e
      | Inr material \<Rightarrow> Inr (new_vault X material))"

text \<open>\<open>key\<close> are the 32 random bytes drawn; an I/O error becomes a configuration error.\<close>

definition generate_vault_key :: "env \<Rightarrow> string \<Rightarrow> string \<Rightarrow> (files, fail, unit) act" where
  "generate_vault_key E path key = (\<lambda>fs.
     case write_file E path (hex key) fs of
       (Inl e, fs') \<Rightarrow> (Inl (Err (ConfigError e)), fs')
     | (Inr _, fs') \<Rightarrow> (Inr (), fs'))"

text \<open>\<open>nonce\<close> are the 12 random bytes drawn; the result is the ciphertext with the nonce.\<close>

definition encrypt :: "ext \<Rightarrow> vault \<Rightarrow> string \<Rightarrow> string \<Rightarrow> (string \<times> string) result" where
  "encrypt X v nonce plaintext =
     (case vault_err ''encryption failed: '' (x_aes_encrypt X (vt_encryption_key v) nonce plaintext) of
        Inl e \<Rightarrow> Inl e
      | Inr ciphertext \<Rightarrow> Inr (ciphertext, nonce))"

text \<open>\<open>Nonce::from_slice\<close> panics unless the slice has the nonce's 12 bytes.\<close>

definition decrypt :: "ext \<Rightarrow> vault \<Rightarrow> string \<Rightarrow> string \<Rightarrow> string result" where
  "decrypt X v ciphertext nonce =
     (if length nonce \<noteq> 12 then Inl (Panic ''nonce of the wrong length'')
      else
        (case vault_err ''decryption failed: '' (x_aes_decrypt X (vt_encryption_key v) nonce ciphertext) of
           Inl e \<Rightarrow> Inl e
         | Inr plaintext \<Rightarrow> vault_err ''plaintext decode failed: '' (from_utf8 plaintext)))"

record store_credential_request =
  scr_principal_id :: uuid
  scr_provider :: string
  scr_refresh_token :: string
  scr_scopes :: "string list"
  scr_expires_at :: "time option"

record vend_credential_response =
  vr_provider :: string
  vr_access_token :: string
  vr_scopes :: "string list"
  vr_expires_at :: "time option"
  vr_vended_for_jti :: string

section \<open>Providers\<close>

record provider_token_response =
  pt_access_token :: string
  pt_token_type :: string
  pt_scope :: "string option"
  pt_expires_in :: "u64 option"
  pt_refresh_token :: "string option"

record provider_config =
  pc_name :: string
  pc_token_url :: string
  pc_client_id :: string
  pc_client_secret :: string
  pc_default_scopes :: "string list"

datatype provider = GitHubProvider provider_config | GoogleProvider provider_config | SlackProvider provider_config

definition new_github :: "string \<Rightarrow> string \<Rightarrow> provider" where
  "new_github client_id client_secret = GitHubProvider
     \<lparr> pc_name = ''github'', pc_token_url = ''https://github.com/login/oauth/access_token'',
       pc_client_id = client_id, pc_client_secret = client_secret,
       pc_default_scopes = [''repo'', ''read:user''] \<rparr>"

definition new_google :: "string \<Rightarrow> string \<Rightarrow> provider" where
  "new_google client_id client_secret = GoogleProvider
     \<lparr> pc_name = ''google'', pc_token_url = ''https://oauth2.googleapis.com/token'',
       pc_client_id = client_id, pc_client_secret = client_secret,
       pc_default_scopes = [''https://www.googleapis.com/auth/userinfo.email''] \<rparr>"

definition new_slack :: "string \<Rightarrow> string \<Rightarrow> provider" where
  "new_slack client_id client_secret = SlackProvider
     \<lparr> pc_name = ''slack'', pc_token_url = ''https://slack.com/api/oauth.token'',
       pc_client_id = client_id, pc_client_secret = client_secret,
       pc_default_scopes = [''chat:write'', ''channels:read''] \<rparr>"

fun provider_label :: "provider \<Rightarrow> string" where
  "provider_label (GitHubProvider _) = ''github''"
| "provider_label (GoogleProvider _) = ''google''"
| "provider_label (SlackProvider _) = ''slack''"

definition create_provider :: "string \<Rightarrow> string \<Rightarrow> string \<Rightarrow> provider option" where
  "create_provider name client_id client_secret =
     (if name = ''github'' then Some (new_github client_id client_secret)
      else if name = ''google'' then Some (new_google client_id client_secret)
      else if name = ''slack'' then Some (new_slack client_id client_secret)
      else None)"

text \<open>The form every provider posts; \<open>scope\<close> is added by GitHub and Google when scopes are asked for.\<close>

definition refresh_form :: "provider_config \<Rightarrow> string \<Rightarrow> (string \<times> string) list" where
  "refresh_form cfg refresh_token =
     [(''client_id'', pc_client_id cfg), (''client_secret'', pc_client_secret cfg),
      (''refresh_token'', refresh_token), (''grant_type'', ''refresh_token'')]"

definition with_scope :: "string list \<Rightarrow> (string \<times> string) list \<Rightarrow> (string \<times> string) list" where
  "with_scope scopes form = (if scopes = [] then form else form @ [(''scope'', join blank scopes)])"

definition refresh_call :: "provider \<Rightarrow> string \<Rightarrow> string list \<Rightarrow> http_call" where
  "refresh_call p refresh_token scopes =
     (case p of
        GitHubProvider cfg \<Rightarrow>
          \<lparr> hc_method = ''POST'', hc_url = pc_token_url cfg, hc_headers = [(''Accept'', ''application/json'')],
            hc_form = with_scope scopes (refresh_form cfg refresh_token) \<rparr>
      | GoogleProvider cfg \<Rightarrow>
          \<lparr> hc_method = ''POST'', hc_url = pc_token_url cfg, hc_headers = [],
            hc_form = with_scope scopes (refresh_form cfg refresh_token) \<rparr>
      | SlackProvider cfg \<Rightarrow>
          \<lparr> hc_method = ''POST'', hc_url = pc_token_url cfg, hc_headers = [],
            hc_form = refresh_form cfg refresh_token \<rparr>)"

text \<open>Sending a call and reading its body as JSON; \<open>who\<close> names the service in the error texts.\<close>

definition call_json :: "env \<Rightarrow> string \<Rightarrow> string \<Rightarrow> string \<Rightarrow> (string \<Rightarrow> perror) \<Rightarrow> http_call \<Rightarrow> json result" where
  "call_json E send_failed bad_status bad_body wrap call =
     (case e_http E call of
        Inl e \<Rightarrow> Inl (Err (wrap (send_failed @ e)))
      | Inr r \<Rightarrow>
          if \<not> is_success r then
            Inl (Err (wrap (bad_status @ hp_status_line r @ '': '' @ or_else (hp_text r) '''')))
          else
            (case hp_json r of
               Inl e \<Rightarrow> Inl (Err (wrap (bad_body @ e)))
             | Inr j \<Rightarrow> Inr j))"

definition token_of_reply :: "string \<Rightarrow> json \<Rightarrow> provider_token_response" where
  "token_of_reply default_type data =
     \<lparr> pt_access_token = or_else (json_get_str ''access_token'' data) '''',
       pt_token_type = or_else (json_get_str ''token_type'' data) default_type,
       pt_scope = json_get_str ''scope'' data,
       pt_expires_in = Option.bind (json_get ''expires_in'' data) json_u64,
       pt_refresh_token = json_get_str ''refresh_token'' data \<rparr>"

definition github_reply :: "json \<Rightarrow> provider_token_response result" where
  "github_reply data =
     (case json_get ''error'' data of
        Some err \<Rightarrow> Inl (Err (VaultError (''GitHub token exchange error: '' @ or_else (json_string err) ''unknown'')))
      | None \<Rightarrow> Inr (token_of_reply ''bearer'' data))"

definition google_reply :: "json \<Rightarrow> provider_token_response result" where
  "google_reply data =
     (case json_get ''error'' data of
        Some err \<Rightarrow> Inl (Err (VaultError (''Google token exchange error: '' @ or_else (json_string err) ''unknown'')))
      | None \<Rightarrow> Inr (token_of_reply ''Bearer'' data))"

definition slack_reply :: "json \<Rightarrow> provider_token_response result" where
  "slack_reply data =
     (if \<not> or_else (Option.bind (json_get ''ok'' data) json_bool) False
      then Inl (Err (VaultError (''Slack token exchange error: '' @ or_else (json_get_str ''error'' data) ''unknown'')))
      else Inr
        \<lparr> pt_access_token = or_else (json_get_str ''access_token'' data) '''',
          pt_token_type = ''bearer'',
          pt_scope = json_get_str ''scope'' data,
          pt_expires_in = None,
          pt_refresh_token = json_get_str ''refresh_token'' data \<rparr>)"

definition exchange_with ::
    "env \<Rightarrow> string \<Rightarrow> (json \<Rightarrow> provider_token_response result) \<Rightarrow> http_call \<Rightarrow> provider_token_response result" where
  "exchange_with E who reply call =
     (case call_json E (who @ '' token exchange failed: '') (who @ '' token exchange HTTP '')
         (who @ '' response parse error: '') VaultError call of
        Inl e \<Rightarrow> Inl e
      | Inr data \<Rightarrow> reply data)"

definition exchange_refresh :: "env \<Rightarrow> provider \<Rightarrow> string \<Rightarrow> string list \<Rightarrow> provider_token_response result" where
  "exchange_refresh E p refresh_token scopes =
     (let call = refresh_call p refresh_token scopes in
      case p of
        GitHubProvider _ \<Rightarrow> exchange_with E ''GitHub'' github_reply call
      | GoogleProvider _ \<Rightarrow> exchange_with E ''Google'' google_reply call
      | SlackProvider _ \<Rightarrow> exchange_with E ''Slack'' slack_reply call)"

section \<open>What every provider keeps\<close>

text \<open>
  The trait \<open>TokenExchangeProvider\<close>: an answer is used only when \<open>accepts\<close> holds of it, its access
  token is the one of the answer, and everything else is a vault error.
\<close>

locale token_exchange =
  fixes reply :: "json \<Rightarrow> provider_token_response result"
    and accepts :: "json \<Rightarrow> bool"
  assumes reply_Inr: "reply j = Inr t \<Longrightarrow>
      accepts j \<and> pt_access_token t = or_else (json_get_str ''access_token'' j) ''''"
    and reply_Inl: "reply j = Inl e \<Longrightarrow> \<not> accepts j \<and> (\<exists>m. e = Err (VaultError m))"
begin

lemma exchange_Inr:
  assumes "exchange_with E who reply call = Inr t"
  obtains r j where "e_http E call = Inr r" and "is_success r" and "hp_json r = Inr j" and "accepts j"
    and "pt_access_token t = or_else (json_get_str ''access_token'' j) ''''"
  using assms by (auto simp: exchange_with_def call_json_def dest: reply_Inr split: sum.splits if_splits)

lemma exchange_Inl: "exchange_with E who reply call = Inl e \<Longrightarrow> \<exists>m. e = Err (VaultError m)"
  by (auto simp: exchange_with_def call_json_def dest: reply_Inl split: sum.splits if_splits)

lemma exchange_complete:
  assumes "e_http E call = Inr r" and "is_success r" and "hp_json r = Inr j" and "accepts j"
  shows "\<exists>t. exchange_with E who reply call = Inr t"
  using assms reply_Inl [of j] by (cases "reply j") (auto simp: exchange_with_def call_json_def)

end

definition no_error :: "json \<Rightarrow> bool" where
  "no_error j \<longleftrightarrow> json_get ''error'' j = None"

definition says_ok :: "json \<Rightarrow> bool" where
  "says_ok j \<longleftrightarrow> Option.bind (json_get ''ok'' j) json_bool = Some True"

interpretation github: token_exchange github_reply no_error
  by unfold_locales (auto simp: github_reply_def no_error_def token_of_reply_def split: option.splits)

interpretation google: token_exchange google_reply no_error
  by unfold_locales (auto simp: google_reply_def no_error_def token_of_reply_def split: option.splits)

interpretation slack: token_exchange slack_reply says_ok
  by unfold_locales (auto simp: slack_reply_def says_ok_def or_else_def split: option.splits if_splits)

definition answer_accepted :: "provider \<Rightarrow> json \<Rightarrow> bool" where
  "answer_accepted p j = (case p of SlackProvider _ \<Rightarrow> says_ok j | _ \<Rightarrow> no_error j)"

lemma exchange_refresh_InrD:
  assumes "exchange_refresh E p token scopes = Inr t"
  shows "\<exists>r j. e_http E (refresh_call p token scopes) = Inr r \<and> is_success r \<and> hp_json r = Inr j
    \<and> answer_accepted p j \<and> pt_access_token t = or_else (json_get_str ''access_token'' j) ''''"
  using assms
  by (cases p) (auto simp: exchange_refresh_def Let_def answer_accepted_def
    elim!: github.exchange_Inr google.exchange_Inr slack.exchange_Inr)

lemma exchange_refresh_InlD: "exchange_refresh E p token scopes = Inl e \<Longrightarrow> \<exists>m. e = Err (VaultError m)"
  by (cases p) (auto simp: exchange_refresh_def Let_def
    dest: github.exchange_Inl google.exchange_Inl slack.exchange_Inl)

text \<open>Slack never sees the scopes that are asked for.\<close>

lemma slack_ignores_scopes:
  "exchange_refresh E (new_slack i s) token scopes = exchange_refresh E (new_slack i s) token scopes'"
  by (simp add: exchange_refresh_def new_slack_def refresh_call_def)

lemma create_provider_name: "create_provider name i s = Some p \<Longrightarrow> provider_label p = name"
  by (auto simp: create_provider_def new_github_def new_google_def new_slack_def split: if_splits)

section \<open>Sealing\<close>

lemma hex_digit_ascii: "n < 16 \<Longrightarrow> (of_char (hex_digit n) :: nat) < 0x80"
  by (simp add: hex_digit_def)

lemma hex_ascii: "is_ascii (hex bs)"
proof (induction bs)
  case Nil
  show ?case by (simp add: hex_def)
next
  case (Cons b bs)
  have "(of_char b :: nat) < 256"
    using of_char_of [of "of_char b :: nat"] by (metis char_of_char mod_less_divisor zero_less_numeral)
  then have "(of_char b :: nat) div 16 < 16" by (simp add: less_mult_imp_div_less)
  with Cons show ?case by (simp add: hex_def Let_def hex_digit_ascii)
qed

lemma key_file_round_trip:
  assumes "generate_vault_key E path key fs = (Inr (), fs')" and "e_read_fault E' path = None"
  shows "vault_from_file X E' fs' path = Inr (new_vault X (hex key))"
  using assms by (auto simp: generate_vault_key_def write_file_def vault_from_file_def vault_err_def
    read_file_def ascii_utf8_error hex_ascii split: option.splits sum.splits prod.splits)

lemma decrypt_InrD:
  assumes "decrypt X v ct nonce = Inr text" and "aes_sound X (vt_encryption_key v) nonce"
  shows "length nonce = 12 \<and> encrypt X v nonce text = Inr (ct, nonce)"
  using assms by (auto simp: decrypt_def encrypt_def vault_err_def aes_sound_def
    split: if_splits sum.splits dest!: from_utf8_InrD)


definition demo_vault :: vault where
  "demo_vault = \<lparr> vt_encryption_key = ''key'', vt_key_id = ''id'' \<rparr>"

definition demo_nonce :: string where
  "demo_nonce = replicate 12 CHR ''n''"


end
