(* ===== verification/Configuration.thy ===== *)
theory Configuration
  imports Vault
begin

text \<open>
  The configuration (\<open>src/config/mod.rs\<close>, and the group mappings of \<open>src/idp/mod.rs\<close> that it
  holds): the sections as records and the built-in defaults.
\<close>

record server_config =
  cs_host :: string
  cs_port :: "16 word"
  cs_cors_allowed_origins :: "string list"

record database_config =
  cd_path :: string
  cd_read_pool_size :: u64

record token_config =
  ct_issuer :: string
  ct_private_key_path :: string
  ct_public_key_path :: string
  ct_default_ttl_seconds :: u64
  ct_max_ttl_seconds :: u64

record policy_config =
  cp_engine :: string
  cp_default_decision :: string
  cp_max_delegation_depth :: u64

record vault_config =
  cv_encryption_key_path :: string

record group_policy_mapping =
  gm_group :: string
  gm_policy_yaml :: string
  gm_scopes :: "string list"
  gm_max_spend :: "f64 option"

record idp_provider =
  id_name :: string
  id_issuer :: string
  id_client_id :: string
  id_client_secret :: string
  id_scopes :: "string list"
  id_group_claim :: string
  id_group_policy_mappings :: "group_policy_mapping list"

record idp_config =
  ci_enabled :: bool
  ci_providers :: "idp_provider list"

record config =
  cf_server :: server_config
  cf_database :: database_config
  cf_token :: token_config
  cf_policy :: policy_config
  cf_vault :: vault_config
  cf_idp :: idp_config

definition default_config :: config where
  "default_config =
     \<lparr> cf_server = \<lparr> cs_host = ''127.0.0.1'', cs_port = 8484, cs_cors_allowed_origins = [] \<rparr>,
       cf_database = \<lparr> cd_path = ''patroclus.db'', cd_read_pool_size = 0 \<rparr>,
       cf_token = \<lparr> ct_issuer = ''http://localhost:8484'', ct_private_key_path = ''keys/private.pem'',
         ct_public_key_path = ''keys/public.pem'', ct_default_ttl_seconds = 900, ct_max_ttl_seconds = 3600 \<rparr>,
       cf_policy = \<lparr> cp_engine = ''yaml'', cp_default_decision = ''deny'', cp_max_delegation_depth = 3 \<rparr>,
       cf_vault = \<lparr> cv_encryption_key_path = ''keys/vault.key'' \<rparr>,
       cf_idp = \<lparr> ci_enabled = False, ci_providers = [] \<rparr> \<rparr>"

text \<open>\<open>[idp].providers\<close> is searched by name by every federation route.\<close>

definition find_provider :: "config \<Rightarrow> string \<Rightarrow> idp_provider option" where
  "find_provider cfg name = find (\<lambda>p. id_name p = name) (ci_providers (cf_idp cfg))"

lemma find_provider_SomeD: "find_provider cfg name = Some p \<Longrightarrow> p \<in> set (ci_providers (cf_idp cfg)) \<and> id_name p = name"
  unfolding find_provider_def by (rule find_key_SomeD)

end
