(* ===== verification/Federation.thy ===== *)
theory Federation
  imports Configuration
begin

text \<open>
  Federation with OpenID Connect providers (\<open>src/idp/mod.rs\<close>): the server-side store of pending
  logins keyed by a single-use state, PKCE, the authorization URL with its percent-encoding, the two
  calls to the provider, and the policy assembled from the user's groups.
\<close>

section \<open>Pending logins\<close>

record pkce_transaction =
  px_provider_name :: string
  px_code_verifier :: string
  px_created_at :: time

type_synonym pkce_store = "(string \<times> pkce_transaction) list"

definition pkce_state_ttl_seconds :: int where
  "pkce_state_ttl_seconds = 600"

definition pkce_fresh :: "time \<Rightarrow> pkce_transaction \<Rightarrow> bool" where
  "pkce_fresh now t \<longleftrightarrow> now - px_created_at t < pkce_state_ttl_seconds * second_ns"

definition pkce_insert :: "time \<Rightarrow> string \<Rightarrow> string \<Rightarrow> string \<Rightarrow> pkce_store \<Rightarrow> pkce_store" where
  "pkce_insert now state provider_name code_verifier txns =
     AList.update state
       \<lparr> px_provider_name = provider_name, px_code_verifier = code_verifier, px_created_at = now \<rparr>
       (filter (\<lambda>(_, t). pkce_fresh now t) txns)"

definition pkce_consume :: "time \<Rightarrow> string \<Rightarrow> pkce_store \<Rightarrow> pkce_transaction option \<times> pkce_store" where
  "pkce_consume now state txns =
     (case map_of txns state of
        None \<Rightarrow> (None, txns)
      | Some t \<Rightarrow> (if pkce_fresh now t then Some t else None, AList.delete state txns))"

text \<open>\<open>bytes\<close> are the random bytes drawn: 32 for a verifier, 24 for a state.\<close>

definition generate_code_verifier :: "ext \<Rightarrow> string \<Rightarrow> string" where
  "generate_code_verifier X bytes = x_base64url X bytes"

definition generate_state :: "ext \<Rightarrow> string \<Rightarrow> string" where
  "generate_state X bytes = x_base64url X bytes"

definition pkce_s256_challenge :: "ext \<Rightarrow> string \<Rightarrow> string" where
  "pkce_s256_challenge X code_verifier = x_base64url X (x_sha256 X code_verifier)"

section \<open>Percent-encoding\<close>

definition is_alphanumeric :: "ext \<Rightarrow> nat \<Rightarrow> bool" where
  "is_alphanumeric X c =
     (if c < 0x80 then (48 \<le> c \<and> c \<le> 57) \<or> (65 \<le> c \<and> c \<le> 90) \<or> (97 \<le> c \<and> c \<le> 122)
      else x_alphanumeric X c)"

definition encode_char :: "ext \<Rightarrow> string \<Rightarrow> string" where
  "encode_char X c =
     (if is_alphanumeric X (code_point c) \<or> c \<in> {''-'', ''_'', ''.'', ''~''} then c
      else ''%'' @ hex_byte_upper (code_point c mod 256))"

definition urlencode :: "ext \<Rightarrow> string \<Rightarrow> string" where
  "urlencode X s = concat (map (encode_char X) (str_chars s))"

definition authorization_url :: "ext \<Rightarrow> idp_provider \<Rightarrow> string \<Rightarrow> string \<Rightarrow> string \<Rightarrow> string" where
  "authorization_url X p redirect_uri state code_challenge =
     (let scopes = (if id_scopes p = [] then ''openid email profile'' else join blank (id_scopes p)) in
      id_issuer p @ ''/authorize?response_type=code&client_id='' @ urlencode X (id_client_id p)
        @ ''&redirect_uri='' @ urlencode X redirect_uri @ ''&scope='' @ urlencode X scopes
        @ ''&state='' @ urlencode X state @ ''&code_challenge='' @ urlencode X code_challenge
        @ ''&code_challenge_method=S256'')"

section \<open>Calls to the provider\<close>

record idp_user_info =
  ui_subject :: string
  ui_email :: string
  ui_name :: "string option"
  ui_groups :: "string list"
  ui_issuer :: string
  ui_raw_claims :: json

definition exchange_oidc_token :: "env \<Rightarrow> idp_provider \<Rightarrow> string \<Rightarrow> string \<Rightarrow> string \<Rightarrow> string result" where
  "exchange_oidc_token E p authorization_code redirect_uri code_verifier =
     (case call_json E ''IdP token exchange failed: '' ''IdP token exchange HTTP '' ''IdP response parse: '' ConfigError
         \<lparr> hc_method = ''POST'', hc_url = id_issuer p @ ''/token'', hc_headers = [],
           hc_form = [(''grant_type'', ''authorization_code''), (''code'', authorization_code),
             (''redirect_uri'', redirect_uri), (''client_id'', id_client_id p),
             (''client_secret'', id_client_secret p), (''code_verifier'', code_verifier)] \<rparr> of
        Inl e \<Rightarrow> Inl e
      | Inr data \<Rightarrow>
          ok_or (json_get_str ''access_token'' data) (Err (ConfigError ''No access_token in IdP response'')))"

definition groups_of :: "idp_provider \<Rightarrow> json \<Rightarrow> string list" where
  "groups_of p claims =
     (case Option.bind (json_get (id_group_claim p) claims) json_array of
        None \<Rightarrow> []
      | Some arr \<Rightarrow> List.map_filter json_string arr)"

definition user_info_of :: "idp_provider \<Rightarrow> json \<Rightarrow> idp_user_info" where
  "user_info_of p claims =
     \<lparr> ui_subject = or_else (json_get_str ''sub'' claims) '''',
       ui_email = or_else (json_get_str ''email'' claims) '''',
       ui_name = json_get_str ''name'' claims,
       ui_groups = groups_of p claims,
       ui_issuer = id_issuer p,
       ui_raw_claims = claims \<rparr>"

definition fetch_userinfo :: "env \<Rightarrow> idp_provider \<Rightarrow> string \<Rightarrow> idp_user_info result" where
  "fetch_userinfo E p access_token =
     (case call_json E ''IdP userinfo failed: '' ''IdP userinfo HTTP '' ''IdP userinfo parse: '' ConfigError
         \<lparr> hc_method = ''GET'', hc_url = id_issuer p @ ''/userinfo'',
           hc_headers = [(''Authorization'', ''Bearer '' @ access_token)], hc_form = [] \<rparr> of
        Inl e \<Rightarrow> Inl e
      | Inr claims \<Rightarrow> Inr (user_info_of p claims))"

section \<open>Policies from groups\<close>

definition add_mapping ::
    "idp_user_info \<Rightarrow> group_policy_mapping \<Rightarrow> string list \<times> string list \<Rightarrow> string list \<times> string list" where
  "add_mapping user m acc =
     (case acc of (policies, scopes) \<Rightarrow>
        if gm_group m \<in> set (ui_groups user) then (policies @ [gm_policy_yaml m], scopes @ gm_scopes m)
        else (policies, scopes))"

definition build_policy_from_groups ::
    "idp_user_info \<Rightarrow> group_policy_mapping list \<Rightarrow> (string \<times> string list) option" where
  "build_policy_from_groups user mappings =
     (case fold (add_mapping user) mappings ([], []) of (policies, scopes) \<Rightarrow>
        if policies = [] then None
        else Some (join newline policies, remdups_adj (sort scopes)))"

section \<open>A login completes at most once\<close>

datatype pkce_op = PkceInsert time string string string | PkceConsume time string

primrec pkce_step :: "pkce_op \<Rightarrow> pkce_store \<Rightarrow> pkce_store" where
  "pkce_step (PkceInsert now state provider v) txns = pkce_insert now state provider v txns"
| "pkce_step (PkceConsume now state) txns = snd (pkce_consume now state txns)"

definition pkce_unknown :: "string \<Rightarrow> pkce_store \<Rightarrow> bool" where
  "pkce_unknown state txns \<longleftrightarrow> state \<notin> fst ` set txns"

primrec inserts :: "string \<Rightarrow> pkce_op \<Rightarrow> bool" where
  "inserts state (PkceInsert _ state' _ _) \<longleftrightarrow> state' = state"
| "inserts state (PkceConsume _ _) \<longleftrightarrow> False"

lemma pkce_consume_unknown: "pkce_unknown state txns \<Longrightarrow> pkce_consume now state txns = (None, txns)"
proof -
  assume "pkce_unknown state txns"
  then have "map_of txns state = None" by (simp add: pkce_unknown_def map_of_eq_None_iff)
  then show ?thesis by (simp add: pkce_consume_def)
qed

lemma dom_delete: "fst ` set (AList.delete k xs) = fst ` set xs - {k}"
  by (induction xs) auto

lemma pkce_consume_keys: "fst ` set (snd (pkce_consume now state txns)) = fst ` set txns - {state}"
  by (auto simp: pkce_consume_def dom_delete map_of_eq_None_iff split: option.splits)

lemma pkce_insert_keys: "fst ` set (pkce_insert now state p v txns) \<subseteq> insert state (fst ` set txns)"
  by (auto simp: pkce_insert_def dom_update)

interpretation used_state: latch pkce_step pkce_unknown inserts
proof unfold_locales
  show "pkce_unknown k (pkce_step x s)" if "pkce_unknown k s" and "\<not> inserts k x" for k s x
  proof (cases x)
    case (PkceInsert now state provider v)
    with that pkce_insert_keys [of now state provider v s] show ?thesis
      by (auto simp: pkce_unknown_def)
  next
    case (PkceConsume now state)
    with that show ?thesis by (simp add: pkce_unknown_def pkce_consume_keys)
  qed
qed

text \<open>
  A login state is good for one callback: once it has been presented, valid or not, no interleaving
  of other logins makes it good again, unless the server issues the very same state anew.
\<close>

lemma login_state_single_use:
  assumes "\<forall>op \<in> set ops. \<not> inserts state op"
  shows "pkce_consume later state (fold pkce_step ops (snd (pkce_consume now state txns))) =
    (None, fold pkce_step ops (snd (pkce_consume now state txns)))"
proof (rule pkce_consume_unknown)
  have "pkce_unknown state (snd (pkce_consume now state txns))"
    by (simp add: pkce_unknown_def pkce_consume_keys)
  then show "pkce_unknown state (fold pkce_step ops (snd (pkce_consume now state txns)))"
    using assms by (rule used_state.stays_stopped)
qed

lemma login_state_single_use_witness:
  "pkce_consume 5 ''a'' (fold pkce_step [PkceInsert 3 ''b'' ''idp'' ''v2'']
      (snd (pkce_consume 2 ''a'' (pkce_insert 1 ''a'' ''idp'' ''v1'' [])))) =
    (None, fold pkce_step [PkceInsert 3 ''b'' ''idp'' ''v2'']
      (snd (pkce_consume 2 ''a'' (pkce_insert 1 ''a'' ''idp'' ''v1'' []))))"
  by (rule login_state_single_use) simp

text \<open>
  And it is good for its own login only: what a callback gets is the provider and verifier recorded
  under that state, less than ten minutes old.
\<close>

lemma pkce_consume_SomeD:
  "pkce_consume now state txns = (Some t, txns') \<Longrightarrow>
     map_of txns state = Some t \<and> now - px_created_at t < 600 * second_ns \<and> txns' = AList.delete state txns"
  by (auto simp: pkce_consume_def pkce_fresh_def pkce_state_ttl_seconds_def split: option.splits if_splits)

lemma pkce_insert_then_consume:
  assumes "later - now < 600 * second_ns"
  shows "fst (pkce_consume later state (pkce_insert now state p v txns)) =
    Some \<lparr> px_provider_name = p, px_code_verifier = v, px_created_at = now \<rparr>"
  using assms
  by (simp add: pkce_consume_def pkce_insert_def pkce_fresh_def pkce_state_ttl_seconds_def update_conv')

text \<open>Every insertion prunes, so the store holds only logins begun in the last ten minutes.\<close>

lemma pkce_insert_prunes:
  "(k, t) \<in> set (pkce_insert now state p v txns) \<Longrightarrow> now - px_created_at t < 600 * second_ns"
proof -
  assume "(k, t) \<in> set (pkce_insert now state p v txns)"
  then have "t = \<lparr> px_provider_name = p, px_code_verifier = v, px_created_at = now \<rparr> \<or> pkce_fresh now t"
    unfolding pkce_insert_def by (induction txns) (auto split: if_splits)
  then show ?thesis by (auto simp: pkce_fresh_def pkce_state_ttl_seconds_def second_ns_def)
qed

section \<open>What the provider reads back\<close>

text \<open>Percent-decoding, as the reader of a URL does it.\<close>

definition hex_value :: "char \<Rightarrow> nat" where
  "hex_value c = (let n = of_char c in if n < 58 then n - 48 else n - 55)"

fun urldecode :: "string \<Rightarrow> string" where
  "urldecode (c # h # l # r) =
     (if c = CHR ''%'' then char_of (16 * hex_value h + hex_value l) # urldecode r else c # urldecode (h # l # r))"
| "urldecode (c # r) = c # urldecode r"
| "urldecode [] = []"

definition url_separators :: string where
  "url_separators = ''&=?#/:+ ''"

lemma urldecode_plain: "c \<noteq> CHR ''%'' \<Longrightarrow> urldecode (c # r) = c # urldecode r"
  by (cases r; cases "tl r") auto

lemma hex_value_digit: "n < 16 \<Longrightarrow> hex_value (hex_digit_upper n) = n"
  by (auto simp: hex_value_def hex_digit_upper_def Let_def)

lemma encode_char_cases:
  assumes "(of_char c :: nat) < 0x80"
  obtains "encode_char X [c] = [c]" and "c \<noteq> CHR ''%''" and "c \<notin> set url_separators"
  | "encode_char X [c] = ''%'' @ hex_byte_upper (of_char c)"
proof (cases "is_alphanumeric X (of_char c) \<or> [c] \<in> {''-'', ''_'', ''.'', ''~''}")
  case True
  then have "c \<noteq> CHR ''%''" "c \<notin> set url_separators"
    using assms by (auto simp: is_alphanumeric_def url_separators_def)
  with True that(1) show ?thesis by (simp add: encode_char_def code_point_def)
next
  case False
  with assms that(2) show ?thesis by (simp add: encode_char_def code_point_def)
qed

lemma urldecode_encode_char: "(of_char c :: nat) < 0x80 \<Longrightarrow> urldecode (encode_char X [c] @ r) = c # urldecode r"
  by (rule encode_char_cases [of c X])
    (simp_all add: urldecode_plain hex_byte_upper_def hex_value_digit less_mult_imp_div_less)

lemma hex_digit_upper_separator: "n < 16 \<Longrightarrow> hex_digit_upper n \<notin> set url_separators"
proof -
  have "\<forall>k \<in> set [0..<16]. hex_digit_upper k \<notin> set url_separators" by code_simp
  then show "n < 16 \<Longrightarrow> hex_digit_upper n \<notin> set url_separators" by simp
qed

lemma encode_char_separator: "(of_char c :: nat) < 0x80 \<Longrightarrow> set (encode_char X [c]) \<inter> set url_separators = {}"
proof -
  assume c: "(of_char c :: nat) < 0x80"
  then show ?thesis
  proof (cases rule: encode_char_cases [of c X, consumes 1, case_names plain escaped])
    case escaped
    have "CHR ''%'' \<notin> set url_separators" by (simp add: url_separators_def)
    with c escaped show ?thesis
      by (simp add: hex_byte_upper_def less_mult_imp_div_less hex_digit_upper_separator)
  qed simp
qed

text \<open>
  A parameter of the authorization URL with ASCII text is read back by the provider as it was given
  (client id, redirect URI, scopes, state and challenge), and contains nothing that could end the
  parameter or begin another one.
\<close>

lemma url_parameter_round_trip:
  assumes "is_ascii s"
  shows "urldecode (urlencode X s) = s \<and> set (urlencode X s) \<inter> set url_separators = {}"
  using assms
proof (induction s)
  case Nil
  show ?case by (simp add: urlencode_def)
next
  case (Cons c s)
  then have "str_chars (c # s) = [c] # str_chars s"
    using ascii_chars [of "c # s"] ascii_chars [of s] by simp
  then have "urlencode X (c # s) = encode_char X [c] @ urlencode X s"
    by (simp add: urlencode_def)
  with Cons show ?case
    by (simp add: urldecode_encode_char Int_Un_distrib2 encode_char_separator)
qed

lemma url_parameter_round_trip_witness:
  "urldecode (urlencode demo_ext ''a&b c'') = ''a&b c'' \<and> set (urlencode demo_ext ''a&b c'') \<inter> set url_separators = {}"
  by (rule url_parameter_round_trip) simp

text \<open>
  Outside ASCII the code keeps only the low eight bits of the code point, so different texts become
  the same parameter: the euro sign (U+20AC) and the not sign (U+00AC).
\<close>

lemma urlencode_not_injective:
  assumes "\<not> x_alphanumeric X 0x20AC" and "\<not> x_alphanumeric X 0xAC"
  shows "urlencode X [CHR 0xE2, CHR 0x82, CHR 0xAC] = ''%AC'' \<and> urlencode X [CHR 0xC2, CHR 0xAC] = ''%AC''"
  using assms by (simp add: urlencode_def utf8_tests_def utf8_cont_def encode_char_def code_point_def is_alphanumeric_def
      hex_byte_upper_def hex_digit_upper_def char_of_eq_iff)

section \<open>Groups\<close>

lemma fold_add_mapping:
  "fold (add_mapping user) ms (ps, ss) =
     (ps @ map gm_policy_yaml [m \<leftarrow> ms. gm_group m \<in> set (ui_groups user)],
      ss @ concat (map gm_scopes [m \<leftarrow> ms. gm_group m \<in> set (ui_groups user)]))"
  by (induction ms arbitrary: ps ss) (auto simp: add_mapping_def)

lemma distinct_remdups_adj_sorted: "sorted xs \<Longrightarrow> distinct (remdups_adj xs)" for xs :: "'a::linorder list"
  by (induction xs rule: remdups_adj.induct) (auto simp: less_le)

text \<open>
  A user gets exactly the policies and scopes of the groups that are both claimed and mapped: the
  policies in the order of the mappings, the scopes sorted and without duplicates; and no policy if
  no group is mapped.
\<close>

lemma group_policy_spec:
  "build_policy_from_groups user mappings =
     (let ms = [m \<leftarrow> mappings. gm_group m \<in> set (ui_groups user)] in
      if ms = [] then None
      else Some (join newline (map gm_policy_yaml ms), sorted_list_of_set (\<Union>m \<in> set ms. set (gm_scopes m))))"
proof -
  have "remdups_adj (sort xs) = sorted_list_of_set (set xs)" for xs :: "string list"
    by (rule sorted_distinct_set_unique [symmetric]) (simp_all add: distinct_remdups_adj_sorted)
  then show ?thesis by (simp add: build_policy_from_groups_def fold_add_mapping Let_def set_concat)
qed

end
