(* ===== verification/Metrics.thy ===== *)
theory Metrics
  imports Federation
begin

text \<open>
  The metric families (\<open>src/metrics/mod.rs\<close>): counters of decisions by outcome and action and of
  issued tokens, two gauges, and the observed request latencies. A counter of the metrics library is
  the number of its increments; rendering to text is the library's and is an argument.
\<close>

record metrics =
  me_authz_decisions :: "((string \<times> string) \<times> u64) list"
  me_request_duration :: "((string \<times> string) \<times> f64 list) list"
  me_active_sessions :: int
  me_approval_queue_depth :: int
  me_tokens_issued :: u64

definition new_metrics :: metrics where
  "new_metrics =
     \<lparr> me_authz_decisions = [], me_request_duration = [], me_active_sessions = 0,
       me_approval_queue_depth = 0, me_tokens_issued = 0 \<rparr>"

definition decision_count :: "string \<Rightarrow> string \<Rightarrow> metrics \<Rightarrow> u64" where
  "decision_count outcome action m = or_else (map_of (me_authz_decisions m) (outcome, action)) 0"

definition record_decision :: "string \<Rightarrow> string \<Rightarrow> metrics \<Rightarrow> metrics" where
  "record_decision outcome action m =
     m\<lparr> me_authz_decisions :=
          AList.update (outcome, action) (decision_count outcome action m + 1) (me_authz_decisions m) \<rparr>"

definition count_token :: "metrics \<Rightarrow> metrics" where
  "count_token m = m\<lparr> me_tokens_issued := me_tokens_issued m + 1 \<rparr>"

definition observe_duration :: "string \<Rightarrow> string \<Rightarrow> f64 \<Rightarrow> metrics \<Rightarrow> metrics" where
  "observe_duration verb path elapsed m =
     m\<lparr> me_request_duration :=
          AList.update (verb, path) (or_else (map_of (me_request_duration m) (verb, path)) [] @ [elapsed])
            (me_request_duration m) \<rparr>"

definition gather :: "(metrics \<Rightarrow> string) \<Rightarrow> metrics \<Rightarrow> string" where
  "gather render m = render m"

lemma decision_count_record:
  "decision_count o1 a1 (record_decision o2 a2 m) =
     decision_count o1 a1 m + (if (o1, a1) = (o2, a2) then 1 else 0)"
  by (simp add: decision_count_def record_decision_def update_conv')

lemma decision_count_token [simp]: "decision_count o1 a1 (count_token m) = decision_count o1 a1 m"
  by (simp add: decision_count_def count_token_def)

lemma tokens_issued_record [simp]: "me_tokens_issued (record_decision outcome action m) = me_tokens_issued m"
  by (simp add: record_decision_def)

end
