(* ===== verification/App_State.thy ===== *)
theory App_State
  imports Metrics
begin

text \<open>
  The state the handlers share (\<open>src/api/state.rs\<close>): the database, the session store, the policy
  engine, the token issuer and verifier, the vault, the metrics and the pending logins. The engine
  reads the same session store as the routes. A handler is a failing state transformer over it.
\<close>

record app_state =
  st_db :: db
  st_config :: config
  st_auth :: auth_config
  st_policy_engine :: yaml_engine
  st_token_issuer :: token_issuer
  st_token_verifier :: token_verifier
  st_vault :: "vault option"
  st_session_store :: session_store
  st_metrics :: metrics
  st_pkce_store :: pkce_store
  st_files :: files

type_synonym 'a handler = "(app_state, fail, 'a) act"

section \<open>Access to the parts\<close>

definition on_db :: "'a db_act \<Rightarrow> 'a handler" where
  "on_db f = (\<lambda>s. case f (st_db s) of (r, d) \<Rightarrow> (r, s\<lparr> st_db := d \<rparr>))"

definition on_files :: "(files, fail, 'a) act \<Rightarrow> 'a handler" where
  "on_files f = (\<lambda>s. case f (st_files s) of (r, fs) \<Rightarrow> (r, s\<lparr> st_files := fs \<rparr>))"

definition on_sessions :: "(session_store \<Rightarrow> 'a \<times> session_store) \<Rightarrow> 'a handler" where
  "on_sessions f = (\<lambda>s. case f (st_session_store s) of (x, st) \<Rightarrow> (Inr x, s\<lparr> st_session_store := st \<rparr>))"

definition change_sessions :: "(session_store \<Rightarrow> session_store) \<Rightarrow> unit handler" where
  "change_sessions f = modify (\<lambda>s. s\<lparr> st_session_store := f (st_session_store s) \<rparr>)"

definition change_metrics :: "(metrics \<Rightarrow> metrics) \<Rightarrow> unit handler" where
  "change_metrics f = modify (\<lambda>s. s\<lparr> st_metrics := f (st_metrics s) \<rparr>)"

definition on_pkce :: "(pkce_store \<Rightarrow> 'a \<times> pkce_store) \<Rightarrow> 'a handler" where
  "on_pkce f = (\<lambda>s. case f (st_pkce_store s) of (x, p) \<Rightarrow> (Inr x, s\<lparr> st_pkce_store := p \<rparr>))"

definition reads :: "(app_state \<Rightarrow> 'a) \<Rightarrow> 'a handler" where
  "reads f = (\<lambda>s. (Inr (f s), s))"

definition reads_result :: "(app_state \<Rightarrow> 'a result) \<Rightarrow> 'a handler" where
  "reads_result f = (\<lambda>s. (f s, s))"

lemma on_db_apply [act_simps]: "on_db f s = (case f (st_db s) of (r, d) \<Rightarrow> (r, s\<lparr> st_db := d \<rparr>))"
  by (simp add: on_db_def)

lemma on_files_apply [act_simps]: "on_files f s = (case f (st_files s) of (r, fs) \<Rightarrow> (r, s\<lparr> st_files := fs \<rparr>))"
  by (simp add: on_files_def)

lemma on_sessions_apply [act_simps]:
  "on_sessions f s = (case f (st_session_store s) of (x, st) \<Rightarrow> (Inr x, s\<lparr> st_session_store := st \<rparr>))"
  by (simp add: on_sessions_def)

lemma change_sessions_apply [act_simps]:
  "change_sessions f s = (Inr (), s\<lparr> st_session_store := f (st_session_store s) \<rparr>)"
  by (simp add: change_sessions_def modify_def)

lemma change_metrics_apply [act_simps]: "change_metrics f s = (Inr (), s\<lparr> st_metrics := f (st_metrics s) \<rparr>)"
  by (simp add: change_metrics_def modify_def)

lemma on_pkce_apply [act_simps]:
  "on_pkce f s = (case f (st_pkce_store s) of (x, p) \<Rightarrow> (Inr x, s\<lparr> st_pkce_store := p \<rparr>))"
  by (simp add: on_pkce_def)

lemma reads_apply [act_simps]: "reads f s = (Inr (f s), s)"
  by (simp add: reads_def)

lemma reads_result_apply [act_simps]: "reads_result f s = (f s, s)"
  by (simp add: reads_result_def)

section \<open>The policy engine\<close>

definition build_engine :: "ext \<Rightarrow> env \<Rightarrow> config \<Rightarrow> yaml_engine db_act" where
  "build_engine X E cfg =
     and_then (load_active_policy_yaml E) (\<lambda>policy_yaml.
       of_result (create_engine_with_sessions X (cp_engine (cf_policy cfg))
         (if policy_yaml = [] then None else Some policy_yaml)))"

definition reload_policy :: "ext \<Rightarrow> env \<Rightarrow> unit handler" where
  "reload_policy X E =
     and_then (reads st_config) (\<lambda>cfg.
     and_then (on_db (build_engine X E cfg)) (\<lambda>engine.
       modify (\<lambda>s. s\<lparr> st_policy_engine := engine \<rparr>)))"

text \<open>\<open>map_err(|e| PatroclusError::Config(e.to_string()))\<close>; a panic is not an error value.\<close>

definition as_config_error :: "'a handler \<Rightarrow> 'a handler" where
  "as_config_error m = (\<lambda>s. case m s of
     (Inl (Err e), s') \<Rightarrow> (Inl (Err (ConfigError (error_text e))), s')
   | r \<Rightarrow> r)"

definition eval_engine :: "ext \<Rightarrow> time \<Rightarrow> policy_context \<Rightarrow> policy_evaluation handler" where
  "eval_engine X now ctx = (\<lambda>s.
     case evaluate X (st_policy_engine s) now ctx (st_session_store s) of
       (ev, st) \<Rightarrow> (Inr ev, s\<lparr> st_session_store := st \<rparr>))"

lemma eval_engine_apply [act_simps]:
  "eval_engine X now ctx s = (case evaluate X (st_policy_engine s) now ctx (st_session_store s) of
     (ev, st) \<Rightarrow> (Inr ev, s\<lparr> st_session_store := st \<rparr>))"
  by (simp add: eval_engine_def)

section \<open>Start-up\<close>

text \<open>
  \<open>file\<close> is the database found at the configured path, if any; \<open>fs\<close> the files, from which the signing
  keys and the vault key are read; \<open>debug_build\<close>, \<open>dev_var\<close> and \<open>admin_var\<close> the build profile and the
  environment variables \<open>PATROCLUS_INSECURE_DEV\<close> and \<open>PATROCLUS_ADMIN_TOKEN\<close>.
\<close>

definition key_files :: "env \<Rightarrow> files \<Rightarrow> config \<Rightarrow> string + key_pair" where
  "key_files E fs cfg =
     (case read_file E fs (ct_private_key_path (cf_token cfg)) of Inl e \<Rightarrow> Inl e | Inr priv \<Rightarrow>
     (case read_file E fs (ct_public_key_path (cf_token cfg)) of Inl e \<Rightarrow> Inl e | Inr pub \<Rightarrow>
       Inr \<lparr> kp_private_pem = priv, kp_public_pem = pub \<rparr>))"

definition new_app ::
    "ext \<Rightarrow> env \<Rightarrow> bool \<Rightarrow> string option \<Rightarrow> string option \<Rightarrow> config \<Rightarrow> db option \<Rightarrow> files \<Rightarrow> app_state result" where
  "new_app X E debug_build dev_var admin_var cfg file fs =
     (case open_database E file of Inl e \<Rightarrow> Inl e | Inr d0 \<Rightarrow>
     (case create_default_policy X E (e_now E 0) (e_uuid E 0) d0 of
        (Inl e, _) \<Rightarrow> Inl e
      | (Inr _, d) \<Rightarrow>
     (case fst (build_engine X E cfg d) of Inl e \<Rightarrow> Inl e | Inr engine \<Rightarrow>
     (case load_or_generate X E debug_build dev_var (ct_private_key_path (cf_token cfg))
         (ct_public_key_path (cf_token cfg)) (key_files E fs cfg) of Inl e \<Rightarrow> Inl e | Inr keys \<Rightarrow>
     (case issuer_from_pem X (kp_private_pem keys) (ct_issuer (cf_token cfg)) ''key-1'' of
        Inl e \<Rightarrow> Inl e | Inr issuer \<Rightarrow>
     (case verifier_from_pem X (kp_public_pem keys) (ct_issuer (cf_token cfg)) of
        Inl e \<Rightarrow> Inl e | Inr verifier \<Rightarrow>
       Inr
        \<lparr> st_db = d, st_config = cfg, st_auth = auth_from_env admin_var, st_policy_engine = engine,
          st_token_issuer = issuer, st_token_verifier = verifier,
          st_vault = (case vault_from_file X E fs (cv_encryption_key_path (cf_vault cfg)) of
              Inl _ \<Rightarrow> None | Inr v \<Rightarrow> Some v),
          st_session_store = new_store, st_metrics = new_metrics, st_pkce_store = [], st_files = fs \<rparr>))))))"

text \<open>
  \<open>AppState::new_test_with_config\<close>: an in-memory database, a fresh key pair and fixed vault material; the
  environment is not read. There are no files.
\<close>

definition new_test_app :: "ext \<Rightarrow> env \<Rightarrow> config \<Rightarrow> app_state result" where
  "new_test_app X E cfg =
     (case open_database E None of Inl e \<Rightarrow> Inl e | Inr d0 \<Rightarrow>
     (case create_default_policy X E (e_now E 0) (e_uuid E 0) d0 of
        (Inl e, _) \<Rightarrow> Inl e
      | (Inr _, d) \<Rightarrow>
     (case fst (build_engine X E cfg d) of Inl e \<Rightarrow> Inl e | Inr engine \<Rightarrow>
     (case generate_key_pair X E of Inl e \<Rightarrow> Inl e | Inr keys \<Rightarrow>
     (case issuer_from_pem X (kp_private_pem keys) (ct_issuer (cf_token cfg)) ''test-key'' of
        Inl e \<Rightarrow> Inl e | Inr issuer \<Rightarrow>
     (case verifier_from_pem X (kp_public_pem keys) (ct_issuer (cf_token cfg)) of
        Inl e \<Rightarrow> Inl e | Inr verifier \<Rightarrow>
       Inr
        \<lparr> st_db = d, st_config = cfg, st_auth = auth_for_test, st_policy_engine = engine,
          st_token_issuer = issuer, st_token_verifier = verifier,
          st_vault = Some (new_vault X ''test-vault-key-material''),
          st_session_store = new_store, st_metrics = new_metrics, st_pkce_store = [],
          st_files = (\<lambda>_. None) \<rparr>))))))"

end
