(* ===== verification/Agent_Routes.thy ===== *)
theory Agent_Routes
  imports App_State
begin

text \<open>
  The agent-facing handlers (\<open>src/api/routes.rs\<close>): \<open>request_access\<close>, \<open>check_access\<close>, \<open>delegate\<close> and
  \<open>approval_status\<close>. Each is the composition of the steps of its body, in their order; the clock
  readings and fresh identifiers are numbered per handler. \<open>auth\<close> is the identity the middleware put
  into the request.
\<close>

section \<open>Requesting access\<close>

definition agent_urn :: "ext \<Rightarrow> uuid \<Rightarrow> string" where
  "agent_urn X u = ''agent:'' @ x_uuid_str X u"

definition check_own_agent :: "uuid option \<Rightarrow> uuid \<Rightarrow> unit handler" where
  "check_own_agent auth agent =
     and_then (of_result (authenticated_agent auth)) (\<lambda>who.
       if who \<noteq> agent then throw (Err (Forbidden ''client key does not belong to the requested agent''))
       else ret ())"

text \<open>The principal behind the request, and the delegation chain of a presented delegation token.\<close>

definition owner_of :: "ext \<Rightarrow> env \<Rightarrow> time \<Rightarrow> agent \<Rightarrow> principal option handler" where
  "owner_of X E now a =
     (case ag_owner_id a of
        Some oid \<Rightarrow> ok_of (on_db (get_principal X E now oid))
      | None \<Rightarrow> ret None)"

definition present_token :: "ext \<Rightarrow> env \<Rightarrow> uuid \<Rightarrow> string \<Rightarrow> (principal option \<times> delegation_hop list option) handler" where
  "present_token X E agent token =
     and_then (reads_result (\<lambda>s. verify X (st_token_verifier s) (e_now E 1) (e_now E 2) token
         (Some (agent_urn X agent)))) (\<lambda>claims.
     reads (\<lambda>s. (get_principal_by_email X E (e_now E 3) (replace_all ''user:'' '''' (cl_sub claims)) (st_db s),
         act_delegation_chain (cl_act claims))))"

definition request_principal ::
    "ext \<Rightarrow> env \<Rightarrow> access_request \<Rightarrow> agent \<Rightarrow> (principal option \<times> delegation_hop list option) handler" where
  "request_principal X E req a =
     (case rq_delegation_token req of
        Some token \<Rightarrow> present_token X E (rq_agent_id req) token
      | None \<Rightarrow> and_then (owner_of X E (e_now E 3) a) (\<lambda>p. ret (p, None)))"

definition context_session :: "access_request \<Rightarrow> string option" where
  "context_session req = Option.bind (rq_context req) rc_session_id"

definition request_session_id :: "ext \<Rightarrow> access_request \<Rightarrow> agent \<Rightarrow> string" where
  "request_session_id X req a =
     or_else (context_session req) (''agent-'' @ x_uuid_str X (ag_id a) @ ''-default'')"

definition killed_response :: "string \<Rightarrow> access_response" where
  "killed_response reason =
     \<lparr> rs_decision = ''deny'', rs_token = None, rs_approval = None, rs_reason = reason,
       rs_approved_scopes = [] \<rparr>"

definition request_policy_context ::
    "access_request \<Rightarrow> agent \<Rightarrow> principal option \<Rightarrow> string option \<Rightarrow> trajectory_event list \<Rightarrow> policy_context" where
  "request_policy_context req a p sid trajectory =
     \<lparr> cx_agent = a, cx_principal = p, cx_action = rq_action req, cx_resource = rq_resource req,
       cx_requested_scopes = rq_requested_scopes req, cx_session_id = sid, cx_trajectory = trajectory \<rparr>"

definition constraints_claim :: "policy_constraint list \<Rightarrow> json option" where
  "constraints_claim cs = (if cs = [] then None else Some (JObj (fold (\<lambda>(k, v). json_insert k v) cs [])))"

definition access_token_params ::
    "ext \<Rightarrow> config \<Rightarrow> access_request \<Rightarrow> agent \<Rightarrow> principal option \<Rightarrow> policy_evaluation \<Rightarrow> issue_token_params" where
  "access_token_params X cfg req a p ev =
     \<lparr> ip_issuer = ct_issuer (cf_token cfg),
       ip_subject = (case p of Some q \<Rightarrow> ''user:'' @ pr_email q | None \<Rightarrow> agent_urn X (ag_id a)),
       ip_agent_id = agent_urn X (ag_id a),
       ip_scopes = ev_approved_scopes ev,
       ip_audience = rq_resource req,
       ip_ttl_seconds = ct_default_ttl_seconds (cf_token cfg),
       ip_delegation_depth = 0,
       ip_delegation_chain = None,
       ip_constraints = constraints_claim (ev_constraints ev) \<rparr>"

definition issue_access_token ::
    "ext \<Rightarrow> env \<Rightarrow> access_request \<Rightarrow> agent \<Rightarrow> principal option \<Rightarrow> policy_evaluation \<Rightarrow> issued_token_info handler" where
  "issue_access_token X E req a p ev =
     and_then (reads st_config) (\<lambda>cfg.
     let params = access_token_params X cfg req a p ev in
     and_then (reads_result (\<lambda>s. issue X (st_token_issuer s) (e_now E 6) (e_now E 7) (e_uuid E 0) params)) (\<lambda>(jwt, jti).
     and_then (of_result (expiry X (e_now E 8) params)) (\<lambda>expires_at.
     and_then (on_db (record_token X E (e_now E 9) jti None (ag_id a) (ev_approved_scopes ev) (rq_resource req)
         expires_at)) (\<lambda>_.
     and_then (change_metrics count_token) (\<lambda>_.
       ret \<lparr> it_jwt = jwt, it_expires_at = expires_at, it_scopes = ev_approved_scopes ev, it_jti = jti \<rparr>)))))"

definition open_approval ::
    "ext \<Rightarrow> env \<Rightarrow> access_request \<Rightarrow> agent \<Rightarrow> principal option \<Rightarrow> approval_info handler" where
  "open_approval X E req a p =
     and_then (ok_of (on_db (find_resource_by_uri X E (rq_resource req)))) (\<lambda>found.
     and_then (on_db (create_approval_request X E (e_now E 10) (e_uuid E 1) (ag_id a) (map_option pr_id p)
         (Option.bind found id) (rq_action req) (rq_requested_scopes req) 300)) (\<lambda>approval.
       ret \<lparr> ai_request_id = ap_id approval, ai_status = ''pending'' \<rparr>))"

definition carry_out ::
    "ext \<Rightarrow> env \<Rightarrow> access_request \<Rightarrow> agent \<Rightarrow> principal option \<Rightarrow> policy_evaluation \<Rightarrow> access_response handler" where
  "carry_out X E req a p ev =
     (case ev_decision ev of
        Allow \<Rightarrow> and_then (issue_access_token X E req a p ev) (\<lambda>t. ret ((response_of ev)\<lparr> rs_token := Some t \<rparr>))
      | RequireApproval _ _ \<Rightarrow>
          and_then (open_approval X E req a p) (\<lambda>i. ret ((response_of ev)\<lparr> rs_approval := Some i \<rparr>))
      | Deny \<Rightarrow> ret (response_of ev))"

definition access_audit ::
    "access_request \<Rightarrow> agent \<Rightarrow> principal option \<Rightarrow> delegation_hop list option \<Rightarrow> policy_evaluation \<Rightarrow>
     access_response \<Rightarrow> create_audit_entry" where
  "access_audit req a p chain ev resp =
     \<lparr> cae_agent_id = ag_id a, cae_principal_id = map_option pr_id p, cae_action = rq_action req,
       cae_resource = rq_resource req, cae_decision = ev_decision ev, cae_reason = ev_reason ev,
       cae_delegation_chain = map_option chain_json chain,
       cae_token_jti = map_option it_jti (rs_token resp), cae_dry_run = False \<rparr>"

text \<open>From the evaluation on: decide, carry out, record in the session and in the audit log.\<close>

definition decide_access ::
    "ext \<Rightarrow> env \<Rightarrow> access_request \<Rightarrow> agent \<Rightarrow> principal option \<Rightarrow> delegation_hop list option \<Rightarrow> string \<Rightarrow>
     trajectory_event list \<Rightarrow> access_response handler" where
  "decide_access X E req a p chain sid trajectory =
     and_then (eval_engine X (e_now E 5) (request_policy_context req a p (Some sid) trajectory)) (\<lambda>ev.
     and_then (change_metrics (record_decision (decision_str (ev_decision ev)) (rq_action req))) (\<lambda>_.
     and_then (carry_out X E req a p ev) (\<lambda>resp.
     and_then (change_sessions (store_record_action (e_now E 12) sid
        \<lparr> te_action = rq_action req, te_resource = rq_resource req, te_decision = ev_decision ev,
          te_timestamp = e_now E 11 \<rparr>)) (\<lambda>_.
     and_then (on_db (create_audit_entry X E (e_now E 13) (access_audit req a p chain ev resp))) (\<lambda>_.
       ret resp)))))"

definition request_access :: "ext \<Rightarrow> env \<Rightarrow> uuid option \<Rightarrow> access_request \<Rightarrow> access_response handler" where
  "request_access X E auth req =
     and_then (check_own_agent auth (rq_agent_id req)) (\<lambda>_.
     and_then (on_db (get_agent X E (e_now E 0) (rq_agent_id req))) (\<lambda>a.
     and_then (request_principal X E req a) (\<lambda>(p, chain).
     let sid = request_session_id X req a in
     and_then (on_sessions (get_or_create_session (e_now E 4) sid (ag_id a) (map_option pr_id p))) (\<lambda>session.
       if ss_killed session then ret (killed_response ''Agent session has been killed by emergency stop'')
       else
         and_then (reads (\<lambda>s. is_agent_killed (ag_id a) (st_session_store s))) (\<lambda>killed.
           if killed then ret (killed_response ''Agent has been killed by emergency stop'')
           else decide_access X E req a p chain sid (ss_trajectory session))))))"

section \<open>Asking without taking\<close>

definition check_json :: "bool \<Rightarrow> string list \<Rightarrow> string \<Rightarrow> string \<Rightarrow> json" where
  "check_json allowed scopes decision reason =
     JObj [(''allowed'', JBool allowed), (''approved_scopes'', strings_json scopes),
       (''decision'', JStr decision), (''reason'', JStr reason)]"

definition check_audit :: "access_request \<Rightarrow> agent \<Rightarrow> principal option \<Rightarrow> policy_evaluation \<Rightarrow> create_audit_entry" where
  "check_audit req a p ev =
     \<lparr> cae_agent_id = ag_id a, cae_principal_id = map_option pr_id p, cae_action = rq_action req,
       cae_resource = rq_resource req, cae_decision = ev_decision ev, cae_reason = ev_reason ev,
       cae_delegation_chain = None, cae_token_jti = None, cae_dry_run = True \<rparr>"

definition check_access :: "ext \<Rightarrow> env \<Rightarrow> uuid option \<Rightarrow> access_request \<Rightarrow> json handler" where
  "check_access X E auth req =
     and_then (check_own_agent auth (rq_agent_id req)) (\<lambda>_.
     and_then (on_db (get_agent X E (e_now E 0) (rq_agent_id req))) (\<lambda>a.
     and_then (owner_of X E (e_now E 1) a) (\<lambda>p.
     and_then (reads (\<lambda>s. is_agent_killed (ag_id a) (st_session_store s))) (\<lambda>killed.
       if killed then ret (check_json False [] ''deny'' ''Agent has been killed by emergency stop'')
       else
         and_then (eval_engine X (e_now E 2) (request_policy_context req a p (context_session req) [])) (\<lambda>ev.
         and_then (change_metrics (record_decision (decision_str (ev_decision ev)) (rq_action req))) (\<lambda>_.
         and_then (on_db (create_audit_entry X E (e_now E 3) (check_audit req a p ev))) (\<lambda>_.
           ret (check_json (ev_decision ev = Allow) (ev_approved_scopes ev)
             (decision_str (ev_decision ev)) (ev_reason ev)))))))))"

section \<open>Delegating to another agent\<close>

text \<open>The first requested scope that the parent does not have, if any, stops the delegation.\<close>

fun check_scopes :: "string list \<Rightarrow> string \<Rightarrow> string list \<Rightarrow> unit result" where
  "check_scopes parent_scopes parent [] = Inr ()"
| "check_scopes parent_scopes parent (scope # scopes) =
     (if scope \<notin> set parent_scopes then Inl (Err (ScopeEscalation scope parent))
      else check_scopes parent_scopes parent scopes)"

definition check_depth :: "u64 \<Rightarrow> u64 \<Rightarrow> unit result" where
  "check_depth max_depth new_depth =
     (if new_depth > max_depth then Inl (Err (DelegationDepthExceeded max_depth new_depth)) else Inr ())"

text \<open>\<open>from_timestamp\<close> fails outside the range of dates, where the current time is taken instead.\<close>

definition parent_expiry :: "ext \<Rightarrow> time \<Rightarrow> agent_claims \<Rightarrow> time" where
  "parent_expiry X now c = (if x_time_add_ok X 0 (cl_exp c) then from_timestamp (cl_exp c) else now)"

definition effective_ttl :: "time \<Rightarrow> time \<Rightarrow> u64" where
  "effective_ttl now expires = of_int (max (num_seconds (expires - now)) 0)"

definition delegation_chain :: "agent_claims \<Rightarrow> delegation_hop list" where
  "delegation_chain c =
     or_else (act_delegation_chain (cl_act c)) [] @ [\<lparr> hop_sub = cl_sub c, hop_act = act_sub (cl_act c) \<rparr>]"

definition delegated_params ::
    "ext \<Rightarrow> config \<Rightarrow> delegate_request \<Rightarrow> agent_claims \<Rightarrow> u64 \<Rightarrow> issue_token_params" where
  "delegated_params X cfg req c ttl =
     \<lparr> ip_issuer = ct_issuer (cf_token cfg), ip_subject = cl_sub c,
       ip_agent_id = agent_urn X (dq_sub_agent_id req), ip_scopes = dq_scopes req,
       ip_audience = agent_urn X (dq_sub_agent_id req), ip_ttl_seconds = ttl,
       ip_delegation_depth = act_delegation_depth (cl_act c) + 1,
       ip_delegation_chain = Some (delegation_chain c), ip_constraints = cl_constraints c \<rparr>"

definition delegate_audit :: "ext \<Rightarrow> delegate_request \<Rightarrow> agent_claims \<Rightarrow> u64 \<Rightarrow> string \<Rightarrow> create_audit_entry" where
  "delegate_audit X req c max_depth jti =
     \<lparr> cae_agent_id = dq_sub_agent_id req, cae_principal_id = None, cae_action = ''delegate'',
       cae_resource = agent_urn X (dq_sub_agent_id req), cae_decision = Allow,
       cae_reason = ''Delegated scopes ['' @ join '', '' (dq_scopes req) @ ''] from '' @ act_sub (cl_act c)
         @ '' (depth '' @ show_u64 (act_delegation_depth (cl_act c) + 1) @ ''/'' @ show_u64 max_depth @ '')'',
       cae_delegation_chain = Some (chain_json (delegation_chain c)),
       cae_token_jti = Some jti, cae_dry_run = False \<rparr>"

definition issue_delegated ::
    "ext \<Rightarrow> env \<Rightarrow> delegate_request \<Rightarrow> agent_claims \<Rightarrow> config \<Rightarrow> time \<Rightarrow> delegate_response handler" where
  "issue_delegated X E req c cfg expires =
     (let params = delegated_params X cfg req c (effective_ttl (e_now E 4) expires) in
      and_then (reads_result (\<lambda>s. issue X (st_token_issuer s) (e_now E 5) (e_now E 6) (e_uuid E 0) params)) (\<lambda>(jwt, jti).
      and_then (on_db (record_token X E (e_now E 7) jti None (dq_sub_agent_id req) (dq_scopes req)
          (agent_urn X (dq_sub_agent_id req)) expires)) (\<lambda>_.
      and_then (change_metrics count_token) (\<lambda>_.
      and_then (on_db (create_audit_entry X E (e_now E 8)
          (delegate_audit X req c (cp_max_delegation_depth (cf_policy cfg)) jti))) (\<lambda>_.
        ret \<lparr> dr_delegated_token = jwt, dr_expires_at = expires, dr_scopes = dq_scopes req \<rparr>)))))"

definition delegate :: "ext \<Rightarrow> env \<Rightarrow> uuid option \<Rightarrow> delegate_request \<Rightarrow> delegate_response handler" where
  "delegate X E auth req =
     and_then (of_result (authenticated_agent auth)) (\<lambda>who.
     and_then (reads_result (\<lambda>s. verify X (st_token_verifier s) (e_now E 0) (e_now E 1)
         (dq_parent_grant_token req) (Some (agent_urn X who)))) (\<lambda>c.
     and_then (of_result (check_scopes (split_whitespace (cl_scope c)) (cl_scope c) (dq_scopes req))) (\<lambda>_.
     and_then (reads st_config) (\<lambda>cfg.
     and_then (of_result (check_depth (cp_max_delegation_depth (cf_policy cfg))
         (act_delegation_depth (cl_act c) + 1))) (\<lambda>_.
     and_then (of_result (add_seconds X (e_now E 3) (dq_expires_in_seconds req))) (\<lambda>requested_expiry.
       issue_delegated X E req c cfg (min (parent_expiry X (e_now E 2) c) requested_expiry)))))))"

section \<open>The state of an approval\<close>

definition approval_status_route :: "ext \<Rightarrow> env \<Rightarrow> uuid option \<Rightarrow> uuid \<Rightarrow> approval_request handler" where
  "approval_status_route X E auth i =
     and_then (of_result (authenticated_agent auth)) (\<lambda>who.
     and_then (on_db (get_approval_request X E (e_now E 0) i)) (\<lambda>r.
       if ap_agent_id r \<noteq> who then throw (Err (Forbidden ''approval request belongs to a different agent''))
       else ret r))"

end
