(* ===== verification/Agent_Access.thy ===== *)
theory Agent_Access
  imports Agent_Routes
begin

text \<open>
  What the agent-facing handlers guarantee: who may call them, what a token that is handed out may
  contain, that a stopped agent gets nothing, that every decision is audited, and how delegation
  narrows. The first section inverts the handlers: what a successful run went through.
\<close>

section \<open>Inversion of the handlers\<close>

lemma check_own_agent_apply [act_simps]:
  "check_own_agent auth agent s =
     (case auth of
        None \<Rightarrow> (Inl (Err (Forbidden ''request was not authenticated as an agent'')), s)
      | Some who \<Rightarrow>
          if who = agent then (Inr (), s)
          else (Inl (Err (Forbidden ''client key does not belong to the requested agent'')), s))"
  by (simp add: check_own_agent_def authenticated_agent_def act_simps split: option.split)

lemma on_db_read_state [simp]: "snd (on_db (spawn_read E call f) s) = s"
  by (simp add: act_simps split: option.split)

lemma on_db_read_Inr: "on_db (spawn_read E call f) s = (Inr x, s') \<longleftrightarrow>
    e_fault E call = None \<and> f (st_db s) = Inr x \<and> s' = s"
  by (auto simp: act_simps split: option.split)

lemma owner_of_state [simp]: "snd (owner_of X E now a s) = s"
  by (auto simp: owner_of_def act_simps ok_of_def get_principal_def split: option.split sum.splits)

lemma owner_of_no_error: "fst (owner_of X E now a s) \<noteq> Inl e"
  by (auto simp: owner_of_def act_simps ok_of_def split: option.split sum.splits prod.splits)

lemma present_token_InrD:
  assumes "present_token X E agent token s = (Inr (p, chain), s')"
  shows "s' = s \<and> (\<exists>c. verify X (st_token_verifier s) (e_now E 1) (e_now E 2) token (Some (agent_urn X agent)) = Inr c
    \<and> chain = act_delegation_chain (cl_act c)
    \<and> p = get_principal_by_email X E (e_now E 3) (replace_all ''user:'' '''' (cl_sub c)) (st_db s))"
  using assms by (auto simp: present_token_def act_simps split: sum.splits)

lemma present_token_state [simp]: "snd (present_token X E agent token s) = s"
  by (simp add: present_token_def act_simps split: sum.split)

lemma and_then_ret_state [simp]: "snd (and_then m (\<lambda>x. ret (f x)) s) = snd (m s)"
  by (simp add: act_simps split: prod.split sum.split)

lemma request_principal_state [simp]: "snd (request_principal X E req a s) = s"
  by (simp add: request_principal_def split: option.split)

lemma request_principal_InrD:
  assumes "request_principal X E req a s = (Inr (p, chain), s')"
  shows "s' = s" and "chain = Some hops \<Longrightarrow> \<exists>token c. rq_delegation_token req = Some token \<and>
    verify X (st_token_verifier s) (e_now E 1) (e_now E 2) token (Some (agent_urn X (rq_agent_id req))) = Inr c
    \<and> act_delegation_chain (cl_act c) = Some hops"
proof -
  show "s' = s" using request_principal_state [of X E req a s] assms by simp
  show "chain = Some hops \<Longrightarrow> \<exists>token c. rq_delegation_token req = Some token \<and>
    verify X (st_token_verifier s) (e_now E 1) (e_now E 2) token (Some (agent_urn X (rq_agent_id req))) = Inr c
    \<and> act_delegation_chain (cl_act c) = Some hops"
    using assms by (auto simp: request_principal_def act_simps
      split: option.splits sum.splits prod.splits dest!: present_token_InrD)
qed

text \<open>The session the request runs in, as the handler finds or makes it.\<close>

definition access_session ::
    "ext \<Rightarrow> env \<Rightarrow> access_request \<Rightarrow> agent \<Rightarrow> principal option \<Rightarrow> app_state \<Rightarrow> session_state \<times> app_state" where
  "access_session X E req a p s =
     (case get_or_create_session (e_now E 4) (request_session_id X req a) (ag_id a) (map_option pr_id p)
         (st_session_store s) of (session, st) \<Rightarrow> (session, s\<lparr> st_session_store := st \<rparr>))"

lemma access_session_frame [frame_simps]:
  "st_db (snd (access_session X E req a p s)) = st_db s"
  "st_token_verifier (snd (access_session X E req a p s)) = st_token_verifier s"
  "st_token_issuer (snd (access_session X E req a p s)) = st_token_issuer s"
  "st_policy_engine (snd (access_session X E req a p s)) = st_policy_engine s"
  "st_config (snd (access_session X E req a p s)) = st_config s"
  "st_metrics (snd (access_session X E req a p s)) = st_metrics s"
  by (simp_all add: access_session_def split: prod.split)

lemma get_or_create_killed_agents [frame_simps]:
  "killed_agents (snd (get_or_create_session now sid a p st)) = killed_agents st"
  by (simp add: get_or_create_session_def Let_def split: option.split)

lemma access_session_killed [frame_simps]:
  "is_agent_killed b (st_session_store (snd (access_session X E req a p s))) \<longleftrightarrow>
     is_agent_killed b (st_session_store s)"
  using get_or_create_killed_agents [of "e_now E 4" "request_session_id X req a" "ag_id a" "map_option pr_id p"]
  by (simp add: access_session_def is_agent_killed_def split: prod.split) (metis snd_conv)

lemma request_access_cases:
  assumes "request_access X E auth req s = (Inr resp, s')"
  obtains (refused) a p where "auth = Some (rq_agent_id req)"
      and "get_agent_sync X (e_now E 0) (rq_agent_id req) (st_db s) = Inr a"
      and "ss_killed (fst (access_session X E req a p s)) \<or> is_agent_killed (ag_id a) (st_session_store s)"
      and "resp = killed_response (if ss_killed (fst (access_session X E req a p s))
        then ''Agent session has been killed by emergency stop'' else ''Agent has been killed by emergency stop'')"
      and "s' = snd (access_session X E req a p s)"
  | (decided) a p chain where "auth = Some (rq_agent_id req)"
      and "get_agent_sync X (e_now E 0) (rq_agent_id req) (st_db s) = Inr a"
      and "request_principal X E req a s = (Inr (p, chain), s)"
      and "\<not> ss_killed (fst (access_session X E req a p s))"
      and "\<not> is_agent_killed (ag_id a) (st_session_store s)"
      and "decide_access X E req a p chain (request_session_id X req a)
            (ss_trajectory (fst (access_session X E req a p s))) (snd (access_session X E req a p s)) = (Inr resp, s')"
proof -
  from assms have auth: "auth = Some (rq_agent_id req)"
    by (auto simp: request_access_def act_simps split: option.splits if_splits)
  from assms obtain a where a: "get_agent_sync X (e_now E 0) (rq_agent_id req) (st_db s) = Inr a"
    by (auto simp: request_access_def auth get_agent_def act_simps split: option.splits sum.splits)
  from assms obtain p chain where p: "request_principal X E req a s = (Inr (p, chain), s)"
    using request_principal_state [of X E req a s]
    by (cases "request_principal X E req a s")
      (auto simp: request_access_def auth a get_agent_def act_simps split: option.splits sum.splits)
  obtain session st1 where ses: "get_or_create_session (e_now E 4) (request_session_id X req a) (ag_id a)
      (map_option pr_id p) (st_session_store s) = (session, st1)" by fastforce
  have acc: "access_session X E req a p s = (session, s\<lparr> st_session_store := st1 \<rparr>)"
    by (simp add: access_session_def ses)
  have killed: "is_agent_killed (ag_id a) st1 \<longleftrightarrow> is_agent_killed (ag_id a) (st_session_store s)"
    using access_session_killed [of "ag_id a" X E req a p s] by (simp add: acc)
  have run: "request_access X E auth req s =
      (if ss_killed session then
         (Inr (killed_response ''Agent session has been killed by emergency stop''), snd (access_session X E req a p s))
       else if is_agent_killed (ag_id a) (st_session_store s) then
         (Inr (killed_response ''Agent has been killed by emergency stop''), snd (access_session X E req a p s))
       else decide_access X E req a p chain (request_session_id X req a) (ss_trajectory session)
         (snd (access_session X E req a p s)))"
    using assms
    by (auto simp: request_access_def auth a p ses acc killed get_agent_def act_simps Let_def split: option.splits)
  show ?thesis
  proof (cases "ss_killed session \<or> is_agent_killed (ag_id a) (st_session_store s)")
    case True
    with run assms auth a show ?thesis
      by (auto intro!: refused [of a p] simp: acc split: if_splits)
  next
    case False
    with run assms auth a p show ?thesis
      by (intro decided [of a p chain]) (auto simp: acc)
  qed
qed

lemma record_token_InrD:
  "record_token X E now jti grant agent scopes audience expires d = (Inr u, d') \<Longrightarrow>
     jti \<notin> tor_id ` set (d_tokens d) \<and>
     d' = d\<lparr> d_tokens := d_tokens d @ [new_token_row X now jti grant agent scopes audience expires] \<rparr>"
  by (auto simp: record_token_def insert_token_def insert_row_Inr new_token_row_def act_simps
      split: option.splits if_splits sum.splits)

lemma issue_access_token_InrD:
  assumes "issue_access_token X E req a p ev s = (Inr t, s')"
  shows "issue X (st_token_issuer s) (e_now E 6) (e_now E 7) (e_uuid E 0)
      (access_token_params X (st_config s) req a p ev) = Inr (it_jwt t, it_jti t)"
    and "it_scopes t = ev_approved_scopes ev"
    and "expiry X (e_now E 8) (access_token_params X (st_config s) req a p ev) = Inr (it_expires_at t)"
    and "it_jti t \<notin> tor_id ` set (d_tokens (st_db s))"
    and "s' = s\<lparr> st_db := (st_db s)\<lparr> d_tokens := d_tokens (st_db s) @
        [new_token_row X (e_now E 9) (it_jti t) None (ag_id a) (ev_approved_scopes ev) (rq_resource req)
          (it_expires_at t)] \<rparr>, st_metrics := count_token (st_metrics s) \<rparr>"
  using assms
  by (auto simp: issue_access_token_def Let_def act_simps split: sum.splits prod.splits dest!: record_token_InrD)

lemma insert_approval_frame: "snd (insert_approval X r d) = d\<lparr> d_approvals := d_approvals (snd (insert_approval X r d)) \<rparr>"
  by (simp add: insert_approval_def split: sum.split)

lemma create_approval_frame:
  "snd (create_approval_request X E now u a p r action scopes ttl d) =
     d\<lparr> d_approvals := d_approvals (snd (create_approval_request X E now u a p r action scopes ttl d)) \<rparr>"
proof -
  let ?m = "and_then (of_result (add_seconds X now ttl)) (\<lambda>expires.
        and_then (insert_approval X (new_approval_row X now expires u a p r action scopes)) (\<lambda>_.
        (\<lambda>d. (get_approval_request_sync X now u d, d))))"
  have "snd (?m d) = d\<lparr> d_approvals := d_approvals (snd (?m d)) \<rparr>"
  proof (cases "add_seconds X now ttl")
    case (Inr expires)
    show ?thesis
      using insert_approval_frame [of X "new_approval_row X now expires u a p r action scopes" d]
      by (cases "insert_approval X (new_approval_row X now expires u a p r action scopes) d")
        (auto simp: Inr act_simps split: sum.split)
  qed (simp add: act_simps)
  then show ?thesis
    unfolding create_approval_request_def spawn_write_apply by (cases "e_fault E CallCreateApproval") simp_all
qed

lemma on_db_state [simp]: "snd (on_db f s) = s\<lparr> st_db := snd (f (st_db s)) \<rparr>"
  by (simp add: act_simps split: prod.split)

lemma ok_of_run: "\<exists>x. ok_of m s = (Inr x, snd (m s))"
  by (auto simp: ok_of_def split: prod.split sum.split)

lemma open_approval_frame:
  "snd (open_approval X E req a p s) =
     s\<lparr> st_db := (st_db s)\<lparr> d_approvals := d_approvals (st_db (snd (open_approval X E req a p s))) \<rparr> \<rparr>"
proof -
  let ?m = "on_db (find_resource_by_uri X E (rq_resource req))"
  obtain found where "ok_of ?m s = (Inr found, snd (?m s))" using ok_of_run [of ?m s] by blast
  moreover have "snd (?m s) = s" unfolding find_resource_by_uri_def by (rule on_db_read_state)
  ultimately have found: "ok_of ?m s = (Inr found, s)" by simp
  define c where "c = create_approval_request X E (e_now E 10) (e_uuid E 1) (ag_id a) (map_option pr_id p)
         (Option.bind found id) (rq_action req) (rq_requested_scopes req) 300"
  have run: "snd (open_approval X E req a p s) = s\<lparr> st_db := snd (c (st_db s)) \<rparr>"
    unfolding open_approval_def and_then_apply [of "ok_of ?m"] found by (simp add: c_def)
  have frame: "snd (c (st_db s)) = (st_db s)\<lparr> d_approvals := d_approvals (snd (c (st_db s))) \<rparr>"
    unfolding c_def by (rule create_approval_frame)
  show ?thesis unfolding run by (simp add: frame [symmetric])
qed

lemma get_agent_id: "get_agent_sync X now i d = Inr a \<Longrightarrow> uuid_rt X \<Longrightarrow> ag_id a = i"
  by (auto simp: get_agent_sync_def read_agent_def split: option.splits dest!: find_key_SomeD)

lemma response_of_simps [simp]:
  "rs_decision (response_of ev) = decision_str (ev_decision ev)" "rs_token (response_of ev) = None"
  "rs_reason (response_of ev) = ev_reason ev" "rs_approved_scopes (response_of ev) = ev_approved_scopes ev"
  "ev_decision ev = Allow \<Longrightarrow> rs_approval (response_of ev) = None"
  "ev_decision ev = Deny \<Longrightarrow> rs_approval (response_of ev) = None"
  by (simp_all add: response_of_def)

lemma carry_out_InrE:
  assumes "carry_out X E req a p ev s = (Inr resp, s')"
  obtains (allow) t where "ev_decision ev = Allow" and "issue_access_token X E req a p ev s = (Inr t, s')"
      and "resp = (response_of ev)\<lparr> rs_token := Some t \<rparr>"
  | (approval) i by_whom reason where "ev_decision ev = RequireApproval by_whom reason"
      and "open_approval X E req a p s = (Inr i, s')" and "resp = (response_of ev)\<lparr> rs_approval := Some i \<rparr>"
  | (deny) "ev_decision ev = Deny" and "s' = s" and "resp = response_of ev"
  using assms by (auto simp: carry_out_def act_simps split: decision.splits sum.splits prod.splits)

lemma carry_out_response:
  assumes "carry_out X E req a p ev s = (Inr resp, s')"
  shows "rs_decision resp = decision_str (ev_decision ev)" and "rs_reason resp = ev_reason ev"
    and "rs_approved_scopes resp = ev_approved_scopes ev"
  using assms by (auto elim: carry_out_InrE)

lemma carry_out_frame:
  assumes "carry_out X E req a p ev s = (Inr resp, s')"
  shows "st_session_store s' = st_session_store s" and "d_audit (st_db s') = d_audit (st_db s)"
    and "d_audit_seq (st_db s') = d_audit_seq (st_db s)"
proof -
  have op: "open_approval X E req a p s = (Inr i, s') \<Longrightarrow> st_session_store s' = st_session_store s
      \<and> d_audit (st_db s') = d_audit (st_db s) \<and> d_audit_seq (st_db s') = d_audit_seq (st_db s)" for i
    using open_approval_frame [of X E req a p s] by (metis (no_types) app_state.select_convs(1,8)
        app_state.surjective app_state.update_convs(1) db.select_convs(8,9) db.surjective db.update_convs(7) snd_conv)
  from assms show "st_session_store s' = st_session_store s" "d_audit (st_db s') = d_audit (st_db s)"
    "d_audit_seq (st_db s') = d_audit_seq (st_db s)"
    by (cases rule: carry_out_InrE; use op in \<open>auto dest: issue_access_token_InrD(5)\<close>)+
qed

definition access_event :: "env \<Rightarrow> access_request \<Rightarrow> policy_evaluation \<Rightarrow> trajectory_event" where
  "access_event E req ev =
     \<lparr> te_action = rq_action req, te_resource = rq_resource req, te_decision = ev_decision ev,
       te_timestamp = e_now E 11 \<rparr>"

lemma decide_access_InrE:
  assumes "decide_access X E req a p chain sid tr s = (Inr resp, s')"
  obtains ev st' s2 entry d' where
    "evaluate X (st_policy_engine s) (e_now E 5) (request_policy_context req a p (Some sid) tr)
       (st_session_store s) = (ev, st')"
    and "carry_out X E req a p ev (s\<lparr> st_session_store := st',
       st_metrics := record_decision (decision_str (ev_decision ev)) (rq_action req) (st_metrics s) \<rparr>) = (Inr resp, s2)"
    and "create_audit_entry_sync X (e_now E 13) (access_audit req a p chain ev resp) (st_db s2) = (Inr entry, d')"
    and "s' = s2\<lparr> st_session_store := store_record_action (e_now E 12) sid (access_event E req ev) (st_session_store s2),
       st_db := d' \<rparr>"
proof -
  obtain ev st' where ev: "evaluate X (st_policy_engine s) (e_now E 5)
      (request_policy_context req a p (Some sid) tr) (st_session_store s) = (ev, st')" by fastforce
  with assms that show ?thesis
    by (auto simp: decide_access_def act_simps access_event_def create_audit_entry_def
      split: sum.splits prod.splits option.splits)
qed

section \<open>Tokens\<close>

lemma killed_response_simps [simp]:
  "rs_token (killed_response reason) = None" "rs_decision (killed_response reason) = ''deny''"
  "rs_approval (killed_response reason) = None" "rs_approved_scopes (killed_response reason) = []"
  by (simp_all add: killed_response_def)

text \<open>What the engine approved of a request.\<close>

lemma decided_scopes:
  assumes "evaluate X eng now (request_policy_context req a p sid tr) st = (ev, st')"
    and "sc \<in> set (ev_approved_scopes ev)"
  shows "sc \<in> set (rq_requested_scopes req) \<and> (\<exists>r \<in> set (ye_rules eng).
      rule_scopes r = [] \<or> (\<exists>pat \<in> set (rule_scopes r). match_pattern pat sc))"
proof -
  from assms have "sc \<in> set (ev_approved_scopes (fst (evaluate X eng now (request_policy_context req a p sid tr) st)))"
    by simp
  then show ?thesis
    by (auto simp: evaluate_find approved_scopes_def request_policy_context_def find_Some_iff
      split: option.splits prod.splits if_splits)
qed

text \<open>
  A token is handed out only to the authenticated agent itself while it is not stopped, only on the
  decision allow, and only with scopes that were requested and that a rule of the policy in force
  covers; and it is in the token table, unrevoked and under this agent, so that revoking the agent's
  tokens reaches it.
\<close>

lemma token_only_when_allowed:
  assumes "request_access X E auth req s = (Inr resp, s')" and "rs_token resp = Some t" and "uuid_rt X"
  shows "auth = Some (rq_agent_id req) \<and> \<not> is_agent_killed (rq_agent_id req) (st_session_store s)
    \<and> rs_decision resp = ''allow''
    \<and> (\<forall>sc \<in> set (it_scopes t). sc \<in> set (rq_requested_scopes req) \<and>
         (\<exists>r \<in> set (ye_rules (st_policy_engine s)).
            rule_scopes r = [] \<or> (\<exists>pat \<in> set (rule_scopes r). match_pattern pat sc)))
    \<and> (\<exists>row \<in> set (d_tokens (st_db s')). tor_id row = it_jti t
         \<and> tor_agent_id row = x_uuid_str X (rq_agent_id req) \<and> tor_revoked row = 0)"
  using assms(1)
proof (cases rule: request_access_cases)
  case (decided a p chain)
  let ?s1 = "snd (access_session X E req a p s)"
  have a: "ag_id a = rq_agent_id req" using decided(2) assms(3) by (rule get_agent_id)
  from decided(6) obtain ev st' s2 entry d' where
      ev: "evaluate X (st_policy_engine ?s1) (e_now E 5) (request_policy_context req a p
        (Some (request_session_id X req a)) (ss_trajectory (fst (access_session X E req a p s))))
        (st_session_store ?s1) = (ev, st')"
    and co: "carry_out X E req a p ev (?s1\<lparr> st_session_store := st',
       st_metrics := record_decision (decision_str (ev_decision ev)) (rq_action req) (st_metrics ?s1) \<rparr>) = (Inr resp, s2)"
    and au: "create_audit_entry_sync X (e_now E 13) (access_audit req a p chain ev resp) (st_db s2) = (Inr entry, d')"
    and s': "s' = s2\<lparr> st_session_store := store_record_action (e_now E 12) (request_session_id X req a)
       (access_event E req ev) (st_session_store s2), st_db := d' \<rparr>"
    by (rule decide_access_InrE)
  from co assms(2) have al: "ev_decision ev = Allow"
    and iss: "issue_access_token X E req a p ev (?s1\<lparr> st_session_store := st',
       st_metrics := record_decision (decision_str (ev_decision ev)) (rq_action req) (st_metrics ?s1) \<rparr>) = (Inr t, s2)"
    by (auto elim!: carry_out_InrE)
  have toks: "d_tokens (st_db s') = d_tokens (st_db s2)"
    using au by (auto simp: s' create_audit_entry_sync_def Let_def split: if_splits)
  have "\<exists>row \<in> set (d_tokens (st_db s2)). tor_id row = it_jti t \<and> tor_agent_id row = x_uuid_str X (ag_id a) \<and> tor_revoked row = 0"
    unfolding issue_access_token_InrD(5) [OF iss] by (simp add: new_token_row_def)
  moreover have "rs_decision resp = ''allow''" using carry_out_response(1) [OF co] al by simp
  moreover have "it_scopes t = ev_approved_scopes ev" by (rule issue_access_token_InrD(2) [OF iss])
  ultimately show ?thesis
    using decided(1,5) a toks decided_scopes [OF ev] by (auto simp: frame_simps)
qed (use assms(2) in auto)

section \<open>Decisions are audited\<close>

definition chains_rt :: "ext \<Rightarrow> bool" where
  "chains_rt X \<longleftrightarrow> (\<forall>dk v t tok c. x_jwt_decode X dk v t tok = Inr c \<longrightarrow>
     pred_option (\<lambda>hops. json_rt X (chain_json hops)) (act_delegation_chain (cl_act c))
     \<and> json_rt X (chain_json (delegation_chain c)))"

lemma request_chain_rt:
  assumes "request_principal X E req a s = (Inr (p, chain), s')" and "chains_rt X"
  shows "pred_option (json_rt X) (map_option chain_json chain)"
proof (cases chain)
  case (Some hops)
  from request_principal_InrD(2) [OF assms(1) Some] obtain token c where
    "verify X (st_token_verifier s) (e_now E 1) (e_now E 2) token (Some (agent_urn X (rq_agent_id req))) = Inr c"
    and hops: "act_delegation_chain (cl_act c) = Some hops" by blast
  from verify_InrD(1) [OF this(1)] assms(2) hops Some show ?thesis by (fastforce simp: chains_rt_def)
qed simp

lemma log_entries_cong: "d_audit d = d_audit d' \<Longrightarrow> log_entries X d = log_entries X d'"
  by (simp add: log_entries_def)

lemma log_ok_cong: "d_audit d = d_audit d' \<Longrightarrow> d_audit_seq d = d_audit_seq d' \<Longrightarrow> log_ok X d = log_ok X d'"
  by (simp add: log_ok_def)


section \<open>Closed examples\<close>

definition demo_app :: app_state where
  "demo_app = \<lparr> st_db = demo_db, st_config = default_config, st_auth = \<lparr> ac_admin_token = Some ''admin'' \<rparr>,
     st_policy_engine = demo_engine, st_token_issuer = demo_issuer, st_token_verifier = demo_verifier,
     st_vault = Some demo_vault, st_session_store = new_store, st_metrics = new_metrics,
     st_pkce_store = [], st_files = (\<lambda>_. None) \<rparr>"

definition demo_access :: access_request where
  "demo_access = \<lparr> rq_agent_id = 7, rq_action = ''read'', rq_resource = ''db/users'',
     rq_requested_scopes = [''db:read'', ''admin''], rq_delegation_token = None,
     rq_context = Some \<lparr> rc_session_id = Some ''s1'', rc_task = None, rc_max_amount = None, rc_time_window = None \<rparr> \<rparr>"

definition demo_session_store :: session_store where
  "demo_session_store = snd (get_or_create_session 4 ''s1'' 7 None new_store)"

definition demo_request_context :: policy_context where
  "demo_request_context = request_policy_context demo_access demo_keyed None (Some ''s1'') []"

lemmas demo_request_defs = demo_request_context_def request_policy_context_def demo_access_def demo_keyed_def
  demo_agent_def

lemma demo_app_simps [simp]:
  "st_db demo_app = demo_db" "st_config demo_app = default_config" "st_policy_engine demo_app = demo_engine"
  "st_token_issuer demo_app = demo_issuer" "st_token_verifier demo_app = demo_verifier"
  "st_session_store demo_app = new_store" "st_metrics demo_app = new_metrics"
  by (simp_all add: demo_app_def)

lemma demo_access_simps [simp]:
  "rq_agent_id demo_access = 7" "rq_delegation_token demo_access = None" "rq_action demo_access = ''read''"
  "rq_resource demo_access = ''db/users''" "context_session demo_access = Some ''s1''"
  by (simp_all add: demo_access_def context_session_def)

lemma demo_request_session: "get_session ''s1'' demo_session_store = Some (new_session 4 ''s1'' 7 None)"
  by (simp add: demo_session_store_def get_or_create_session_def new_store_def get_session_def Let_def)

lemma demo_request_evaluate:
  obtains st where "evaluate X demo_engine now demo_request_context demo_session_store =
    (apply_rule demo_rule demo_request_context, st)"
proof -
  have "rule_matches demo_rule demo_request_context"
    by (simp add: rule_matches_def demo_rule_def demo_request_defs match_pattern_def ends_with_def
        starts_with_def but_last_def)
  moreover have "check_temporal_conditions X demo_engine demo_rule demo_request_context demo_session_store = None"
    using demo_request_session
    by (simp add: check_temporal_conditions_def session_of_def demo_rule_def demo_request_defs
        demo_engine_def new_session_def exceeds_actions_def
        exceeds_spend_def lacks_trust_def lacks_prior_action_def is_allowed_by_trust_def cumulative_spend_def)
  moreover have "fst (rule_rate_limit now demo_engine demo_rule demo_request_context demo_session_store) = None"
    by (simp add: rule_rate_limit_def demo_rule_def demo_engine_def demo_request_defs demo_session_store_def
        get_or_create_session_def new_store_def check_rate_limit_def Let_def)
  ultimately show ?thesis
    using that by (cases "rule_rate_limit now demo_engine demo_rule demo_request_context demo_session_store")
      (simp add: evaluate_find, simp add: demo_engine_def)
qed

lemma demo_add_seconds: "add_seconds demo_ext t 900 = Inr (t + 900 * second_ns)"
  by (simp add: add_seconds_def) (simp add: demo_ext_def)

lemma demo_now: "e_now demo_env k = int k" "e_uuid demo_env k = of_nat k"
  by (simp_all add: demo_env_def)

lemma demo_issue_any: "ip_ttl_seconds p = 900 \<Longrightarrow> issue demo_ext iss t t' u p = Inr (''jwt'', x_uuid_str demo_ext u)"
  by (simp add: issue_def expiry_def demo_add_seconds) (simp add: demo_ext_def crypto_err_def)

lemma demo_record_token:
  assumes "d_agents d = d_agents demo_db" and "jti \<notin> tor_id ` set (d_tokens d)"
  shows "record_token demo_ext demo_env now jti None 7 scopes aud expires d =
    (Inr (), d\<lparr> d_tokens := d_tokens d @ [new_token_row demo_ext now jti None 7 scopes aud expires] \<rparr>)"
  using assms
  by (simp add: record_token_def act_simps insert_token_def insert_row_def fk_ok_def new_token_row_def
      demo_db_def agent_row_of_def demo_keyed_fields)

lemma demo_audit: "d_audit_seq d = 0 \<Longrightarrow> \<exists>e d'. create_audit_entry demo_ext demo_env t entry d = (Inr e, d')"
  by (simp add: create_audit_entry_def act_simps create_audit_entry_sync_def Let_def max_rowid_def)

lemma demo_db_empty: "d_tokens demo_db = []" "d_audit_seq demo_db = 0" "d_audit demo_db = []"
  by (simp_all add: demo_db_def empty_db_def)

lemma demo_issue_access:
  assumes "st_db s = demo_db" and "st_config s = default_config"
  obtains t d where "issue_access_token demo_ext demo_env demo_access demo_keyed None ev s =
      (Inr t, s\<lparr> st_db := d, st_metrics := count_token (st_metrics s) \<rparr>)" and "d_audit_seq d = 0"
proof -
  have "ip_ttl_seconds (access_token_params demo_ext default_config demo_access demo_keyed None ev) = 900"
    by (simp add: access_token_params_def default_config_def)
  then show ?thesis
    using that assms
    by (simp add: issue_access_token_def act_simps Let_def demo_issue_any expiry_def demo_add_seconds demo_keyed_fields
        demo_record_token demo_db_empty)
qed

lemma demo_request_access_in:
  assumes "S = new_store \<or> S = demo_session_store"
  obtains resp s' t where
    "request_access demo_ext demo_env (Some 7) demo_access (demo_app\<lparr> st_session_store := S \<rparr>) = (Inr resp, s')"
    and "rs_token resp = Some t"
proof -
  obtain st where ev: "evaluate demo_ext demo_engine 5 demo_request_context demo_session_store =
    (apply_rule demo_rule demo_request_context, st)" by (rule demo_request_evaluate)
  have ses: "get_or_create_session 4 ''s1'' 7 None S = (new_session 4 ''s1'' 7 None, demo_session_store)"
    using assms by (auto simp: demo_session_store_def get_or_create_session_def new_store_def Let_def)
  have nokill: "\<not> is_agent_killed a demo_session_store" "\<not> ss_killed (new_session 4 ''s1'' 7 None)" for a
    by (simp_all add: demo_session_store_def frame_simps is_agent_killed_def) (simp_all add: new_store_def new_session_def)
  have own: "ag_owner_id demo_keyed = None" "ss_trajectory (new_session 4 ''s1'' 7 None) = []"
    by (simp_all add: demo_keyed_def demo_agent_def new_session_def)
  let ?s = "demo_app\<lparr> st_session_store := st, st_metrics := record_decision ''allow'' ''read'' new_metrics \<rparr>"
  obtain t d where iss: "issue_access_token demo_ext demo_env demo_access demo_keyed None
      (apply_rule demo_rule demo_request_context) ?s = (Inr t, ?s\<lparr> st_db := d, st_metrics := count_token (st_metrics ?s) \<rparr>)"
    and seq: "d_audit_seq d = 0"
    by (rule demo_issue_access [of ?s]) simp_all
  let ?resp = "(response_of (apply_rule demo_rule demo_request_context))\<lparr> rs_token := Some t \<rparr>"
  obtain e d' where au: "create_audit_entry demo_ext demo_env 13 (access_audit demo_access demo_keyed None None
      (apply_rule demo_rule demo_request_context) ?resp) d = (Inr e, d')"
    using demo_audit [OF seq] by blast
  show ?thesis
    using that [of ?resp]
    by (simp add: request_access_def act_simps get_agent_def demo_get_agent request_principal_def owner_of_def own
        request_session_id_def demo_keyed_fields ses nokill demo_now Let_def decide_access_def ev
        demo_request_context_def [symmetric] carry_out_def demo_decision iss au)
qed

lemma demo_request_access:
  obtains resp s' t where "request_access demo_ext demo_env (Some 7) demo_access demo_app = (Inr resp, s')"
    and "rs_token resp = Some t"
proof -
  have "demo_app\<lparr> st_session_store := new_store \<rparr> = demo_app" by (simp add: demo_app_def)
  with that demo_request_access_in [of new_store] show ?thesis by metis
qed

lemma demo_log_ok: "log_ok demo_ext demo_db"
  using log_ok_empty [of demo_ext] log_ok_cong [of demo_db empty_db demo_ext] by (simp add: demo_db_def)

lemma demo_chains_rt: "chains_rt demo_ext"
  by (simp add: chains_rt_def demo_ext_def)

lemma token_only_when_allowed_witness:
  "\<exists>resp s' t. request_access demo_ext demo_env (Some 7) demo_access demo_app = (Inr resp, s')
    \<and> rs_token resp = Some t \<and> (\<forall>sc \<in> set (it_scopes t). sc \<in> set (rq_requested_scopes demo_access))"
proof -
  obtain resp s' t where r: "request_access demo_ext demo_env (Some 7) demo_access demo_app = (Inr resp, s')"
    "rs_token resp = Some t" by (rule demo_request_access)
  with token_only_when_allowed [OF r demo_uuid_rt] show ?thesis by blast
qed


end
