(* ===== verification/Agent_Delegation.thy ===== *)
theory Agent_Delegation
  imports Agent_Access
begin

text \<open>
  Delegation between agents only narrows: scopes, depth, lifetime, subject and chain of the child token
  against the parent's; which requests are refused, and that a refusal changes nothing. Also the
  dry-run route, which answers as the real one would, and the ownership of approvals.
\<close>

section \<open>Inversion of delegation\<close>

lemma check_scopes_Inr: "check_scopes parents p scopes = Inr u \<longleftrightarrow> set scopes \<subseteq> set parents"
  by (induction scopes) auto

lemma check_scopes_find:
  "check_scopes parents p scopes =
     (case find (\<lambda>sc. sc \<notin> set parents) scopes of
        Some sc \<Rightarrow> Inl (Err (ScopeEscalation sc p))
      | None \<Rightarrow> Inr ())"
  by (induction scopes) auto

lemma check_depth_Inr [simp]: "check_depth m n = Inr u \<longleftrightarrow> n \<le> m"
  by (auto simp: check_depth_def)

lemma issue_delegated_InrE:
  assumes "issue_delegated X E req c cfg expires s = (Inr resp, s')"
  obtains jti d entry d' where
    "issue X (st_token_issuer s) (e_now E 5) (e_now E 6) (e_uuid E 0)
       (delegated_params X cfg req c (effective_ttl (e_now E 4) expires)) = Inr (dr_delegated_token resp, jti)"
    and "dr_expires_at resp = expires" and "dr_scopes resp = dq_scopes req"
    and "record_token X E (e_now E 7) jti None (dq_sub_agent_id req) (dq_scopes req)
       (agent_urn X (dq_sub_agent_id req)) expires (st_db s) = (Inr (), d)"
    and "create_audit_entry_sync X (e_now E 8)
       (delegate_audit X req c (cp_max_delegation_depth (cf_policy cfg)) jti) d = (Inr entry, d')"
    and "s' = s\<lparr> st_db := d', st_metrics := count_token (st_metrics s) \<rparr>"
  using assms
  by (auto simp: issue_delegated_def Let_def act_simps create_audit_entry_def
      split: sum.splits prod.splits option.splits)

lemma delegate_InrE:
  assumes "delegate X E auth req s = (Inr resp, s')"
  obtains who c requested where "auth = Some who"
    and "verify X (st_token_verifier s) (e_now E 0) (e_now E 1) (dq_parent_grant_token req) (Some (agent_urn X who)) = Inr c"
    and "set (dq_scopes req) \<subseteq> set (split_whitespace (cl_scope c))"
    and "act_delegation_depth (cl_act c) + 1 \<le> cp_max_delegation_depth (cf_policy (st_config s))"
    and "add_seconds X (e_now E 3) (dq_expires_in_seconds req) = Inr requested"
    and "issue_delegated X E req c (st_config s) (min (parent_expiry X (e_now E 2) c) requested) s = (Inr resp, s')"
  using assms
  by (auto simp: delegate_def authenticated_agent_def act_simps check_scopes_Inr
      split: sum.splits prod.splits option.splits)

section \<open>Narrowing\<close>

text \<open>The claims of the child token.\<close>

definition child_claims :: "ext \<Rightarrow> env \<Rightarrow> app_state \<Rightarrow> delegate_request \<Rightarrow> agent_claims \<Rightarrow> time \<Rightarrow> string \<Rightarrow> agent_claims" where
  "child_claims X E s req c expires jti =
     (let p = delegated_params X (st_config s) req c (effective_ttl (e_now E 4) expires) in
      token_claims (st_token_issuer s) (e_now E 5) (e_now E 6 + sint (ip_ttl_seconds p) * second_ns) jti p)"

lemma child_claims_simps [simp]:
  "cl_sub (child_claims X E s req c expires jti) = cl_sub c"
  "cl_aud (child_claims X E s req c expires jti) = agent_urn X (dq_sub_agent_id req)"
  "cl_scope (child_claims X E s req c expires jti) = join blank (dq_scopes req)"
  "cl_constraints (child_claims X E s req c expires jti) = cl_constraints c"
  "act_delegation_depth (cl_act (child_claims X E s req c expires jti)) = act_delegation_depth (cl_act c) + 1"
  "act_delegation_chain (cl_act (child_claims X E s req c expires jti)) = Some (delegation_chain c)"
  by (simp_all add: child_claims_def delegated_params_def token_claims_def Let_def)

lemma sint_of_int_le: "0 \<le> n \<Longrightarrow> sint (of_int n :: u64) \<le> n"
  by (simp add: sint_sbintrunc' signed_take_bit_int_less_eq_self_iff)

lemma num_seconds_le: "max (num_seconds d) 0 * second_ns \<le> max d 0"
proof (cases "0 \<le> d")
  case True
  have "d div second_ns * second_ns \<le> d" by (simp add: second_ns_def)
  with True show ?thesis
    by (cases "d = 0") (simp_all add: num_seconds_def signed_divide_int_def second_ns_def)
next
  case False
  then have "num_seconds d \<le> 0"
    by (simp add: num_seconds_def signed_divide_int_def second_ns_def sgn_if)
  with False show ?thesis by simp
qed

lemma effective_ttl_le: "sint (effective_ttl now expires) * second_ns \<le> max (expires - now) 0"
proof -
  have "sint (effective_ttl now expires) \<le> max (num_seconds (expires - now)) 0"
    unfolding effective_ttl_def by (rule sint_of_int_le) simp
  then have "sint (effective_ttl now expires) * second_ns \<le> max (num_seconds (expires - now)) 0 * second_ns"
    by (simp add: second_ns_def)
  with num_seconds_le [of "expires - now"] show ?thesis by linarith
qed

lemma child_expiry_bound:
  assumes "timestamp (e_now E 1) \<le> cl_exp c" and "mono (e_now E)" and "expires \<le> parent_expiry X (e_now E 2) c"
  shows "cl_exp (child_claims X E s req c expires jti) * second_ns < (cl_exp c + 1) * second_ns + (e_now E 6 - e_now E 1)"
proof -
  have order: "e_now E 1 \<le> e_now E 2" "e_now E 2 \<le> e_now E 4" "e_now E 4 \<le> e_now E 6"
    using assms(2) by (auto elim!: monoD)
  have now1: "e_now E 1 < (cl_exp c + 1) * second_ns"
    using assms(1) by (simp add: timestamp_def second_ns_def)
  have parent: "parent_expiry X (e_now E 2) c \<le> max (cl_exp c * second_ns) (e_now E 2)"
    by (simp add: parent_expiry_def from_timestamp_def)
  let ?t = "e_now E 6 + sint (effective_ttl (e_now E 4) expires) * second_ns"
  have "cl_exp (child_claims X E s req c expires jti) * second_ns = timestamp ?t * second_ns"
    by (simp add: child_claims_def Let_def delegated_params_def)
  also have "\<dots> \<le> ?t" by (simp add: timestamp_def second_ns_def)
  also have "\<dots> \<le> e_now E 6 + max (expires - e_now E 4) 0"
    using effective_ttl_le [of "e_now E 4" expires] by (rule add_left_mono)
  also have "\<dots> < (cl_exp c + 1) * second_ns + (e_now E 6 - e_now E 1)"
    using order now1 parent assms(3) by (auto simp: max_def second_ns_def algebra_simps split: if_splits)
  finally show ?thesis .
qed

text \<open>What the child token says, against its parent.\<close>

definition narrower :: "ext \<Rightarrow> u64 \<Rightarrow> agent_claims \<Rightarrow> agent_claims \<Rightarrow> bool" where
  "narrower X max_depth parent child \<longleftrightarrow>
     set (split_whitespace (cl_scope child)) \<subseteq> set (split_whitespace (cl_scope parent))
     \<and> act_delegation_depth (cl_act child) = act_delegation_depth (cl_act parent) + 1
     \<and> act_delegation_depth (cl_act child) \<le> max_depth
     \<and> act_delegation_chain (cl_act child) =
         Some (or_else (act_delegation_chain (cl_act parent)) [] @
           [\<lparr> hop_sub = cl_sub parent, hop_act = act_sub (cl_act parent) \<rparr>])
     \<and> cl_sub child = cl_sub parent \<and> cl_constraints child = cl_constraints parent"

lemma child_narrower:
  assumes "set (dq_scopes req) \<subseteq> set (split_whitespace (cl_scope c))"
    and "act_delegation_depth (cl_act c) + 1 \<le> max_depth"
  shows "narrower X max_depth c (child_claims X E s req c expires jti)"
proof -
  have "split_whitespace (cl_scope (child_claims X E s req c expires jti)) = dq_scopes req"
    using assms(1) split_whitespace_words by (auto simp: blank_def intro!: split_join_words)
  with assms show ?thesis by (simp add: narrower_def delegation_chain_def)
qed

text \<open>
  C6: delegation only narrows. A delegated token is signed over claims whose scopes are among the
  words of the parent's scope claim, one level deeper within the configured depth, with the chain
  grown by one hop and the same subject and constraints; the parent was addressed to the delegating
  agent and is not revoked; the child is for the sub-agent alone, outlives its parent by less than a
  second and the duration of the call, and is in the token table under the sub-agent.
\<close>

theorem delegation_attenuates:
  assumes "delegate X E auth req s = (Inr resp, s')" and "jwt_sound X (tv_decoding_key (st_token_verifier s))"
    and "mono (e_now E)"
  shows "\<exists>who parent child. auth = Some who
    \<and> verify X (st_token_verifier s) (e_now E 0) (e_now E 1) (dq_parent_grant_token req) (Some (agent_urn X who)) = Inr parent
    \<and> cl_aud parent = agent_urn X who \<and> \<not> is_revoked (cl_jti parent) (st_token_verifier s)
    \<and> x_jwt_encode X (ti_encoding_key (st_token_issuer s)) (ti_key_id (st_token_issuer s)) child
        = Inr (dr_delegated_token resp)
    \<and> narrower X (cp_max_delegation_depth (cf_policy (st_config s))) parent child
    \<and> cl_aud child = agent_urn X (dq_sub_agent_id req)
    \<and> cl_exp child * second_ns < (cl_exp parent + 1) * second_ns + (e_now E 6 - e_now E 1)
    \<and> (\<exists>row \<in> set (d_tokens (st_db s')). tor_id row = cl_jti child
         \<and> tor_agent_id row = x_uuid_str X (dq_sub_agent_id req) \<and> tor_revoked row = 0)"
proof -
  from assms(1) obtain who c requested where
      v: "auth = Some who"
        "verify X (st_token_verifier s) (e_now E 0) (e_now E 1) (dq_parent_grant_token req) (Some (agent_urn X who)) = Inr c"
    and sc: "set (dq_scopes req) \<subseteq> set (split_whitespace (cl_scope c))"
        "act_delegation_depth (cl_act c) + 1 \<le> cp_max_delegation_depth (cf_policy (st_config s))"
    and run: "issue_delegated X E req c (st_config s) (min (parent_expiry X (e_now E 2) c) requested) s = (Inr resp, s')"
    by (rule delegate_InrE)
  let ?expires = "min (parent_expiry X (e_now E 2) c) requested"
  from run obtain jti d entry d' where
      iss: "issue X (st_token_issuer s) (e_now E 5) (e_now E 6) (e_uuid E 0)
       (delegated_params X (st_config s) req c (effective_ttl (e_now E 4) ?expires)) = Inr (dr_delegated_token resp, jti)"
    and rec: "record_token X E (e_now E 7) jti None (dq_sub_agent_id req) (dq_scopes req)
       (agent_urn X (dq_sub_agent_id req)) ?expires (st_db s) = (Inr (), d)"
    and au: "create_audit_entry_sync X (e_now E 8)
       (delegate_audit X req c (cp_max_delegation_depth (cf_policy (st_config s))) jti) d = (Inr entry, d')"
    and s': "s' = s\<lparr> st_db := d', st_metrics := count_token (st_metrics s) \<rparr>"
    by (rule issue_delegated_InrE)
  let ?child = "child_claims X E s req c ?expires jti"
  from iss have "x_jwt_encode X (ti_encoding_key (st_token_issuer s)) (ti_key_id (st_token_issuer s)) ?child
      = Inr (dr_delegated_token resp)"
    by (rule issue_InrE) (auto simp: child_claims_def Let_def dest!: expiry_InrD)
  moreover have "cl_exp ?child * second_ns < (cl_exp c + 1) * second_ns + (e_now E 6 - e_now E 1)"
    using verify_InrD(2) [OF v(2)] assms(3) by (intro child_expiry_bound) auto
  moreover have "d_tokens d' = d_tokens d"
    using au by (auto simp: create_audit_entry_sync_def Let_def split: if_splits)
  then have "\<exists>row \<in> set (d_tokens (st_db s')). tor_id row = cl_jti ?child
      \<and> tor_agent_id row = x_uuid_str X (dq_sub_agent_id req) \<and> tor_revoked row = 0"
    using record_token_InrD [OF rec] by (simp add: s' child_claims_def Let_def new_token_row_def)
  ultimately show ?thesis
    using v child_narrower [OF sc] verify_sound(2) [OF v(2) assms(2)] verify_InrD(3) [OF v(2)]
    by (intro exI [of _ who] exI [of _ c] exI [of _ ?child]) simp
qed

section \<open>Refusals\<close>

lemma and_then_InlE:
  assumes "and_then m f s = (Inl e, s')"
  obtains "m s = (Inl e, s')" | x s1 where "m s = (Inr x, s1)" and "f x s1 = (Inl e, s')"
  using assms by (auto simp: and_then_def split: prod.splits sum.splits)

text \<open>Errors that only the checks of \<open>delegate\<close> raise.\<close>

definition delegation_error :: "fail \<Rightarrow> bool" where
  "delegation_error e \<longleftrightarrow> (\<exists>sc p. e = Err (ScopeEscalation sc p)) \<or> (\<exists>m n. e = Err (DelegationDepthExceeded m n))"

lemma delegation_error_simps [simp]:
  "\<not> delegation_error (Err (DatabaseError x))" "\<not> delegation_error (Err (CryptoError x))"
  "\<not> delegation_error (Panic x)" "\<not> delegation_error (sql_error X f)" "\<not> delegation_error (Err (Forbidden x))"
  by (simp_all add: delegation_error_def sql_error_def)

lemma issue_delegated_no_delegation_error:
  "issue_delegated X E req c cfg expires s = (Inl e, s') \<Longrightarrow> \<not> delegation_error e"
  by (auto simp: issue_delegated_def Let_def act_simps issue_def expiry_def add_seconds_def crypto_err_def
      record_token_def insert_token_def insert_row_def create_audit_entry_def create_audit_entry_sync_def
      split: sum.splits prod.splits option.splits if_splits)

lemma verify_no_delegation_error: "verify X v t t' tok aud = Inl e \<Longrightarrow> \<not> delegation_error e"
  using verify_errors [of X v t t' tok aud e] by (auto simp: delegation_error_def)

lemma add_seconds_no_delegation_error: "add_seconds X t n = Inl e \<Longrightarrow> \<not> delegation_error e"
  by (auto simp: add_seconds_def split: if_splits)

text \<open>
  C24: exactly the escalating delegations are refused as such, without any effect: with a verified
  parent token, the first requested scope that is not a word of the parent's scope claim is reported,
  and only if there is none, a depth beyond the configured maximum.
\<close>

theorem delegate_refusals:
  "delegate X E auth req s = (Inl e, s') \<and> delegation_error e \<longleftrightarrow>
     s' = s \<and> (\<exists>who c. auth = Some who
       \<and> verify X (st_token_verifier s) (e_now E 0) (e_now E 1) (dq_parent_grant_token req) (Some (agent_urn X who)) = Inr c
       \<and> (let uncovered = find (\<lambda>sc. sc \<notin> set (split_whitespace (cl_scope c))) (dq_scopes req);
              deepest = cp_max_delegation_depth (cf_policy (st_config s));
              depth = act_delegation_depth (cl_act c) + 1
          in (\<exists>sc. uncovered = Some sc \<and> e = Err (ScopeEscalation sc (cl_scope c)))
           \<or> (uncovered = None \<and> deepest < depth \<and> e = Err (DelegationDepthExceeded deepest depth))))"
    (is "?l \<longleftrightarrow> ?r")
proof
  assume ?l
  then show ?r
    by (auto simp: delegate_def authenticated_agent_def act_simps check_scopes_find check_depth_def Let_def
      delegation_error_def
      dest!: issue_delegated_no_delegation_error verify_no_delegation_error add_seconds_no_delegation_error
      simp: ok_or_def split: sum.splits prod.splits option.splits if_splits)
next
  assume ?r
  then show ?l
    by (auto simp: delegate_def authenticated_agent_def act_simps check_scopes_find check_depth_def Let_def
      delegation_error_def)
qed

section \<open>The dry run\<close>

text \<open>The engine looks neither at the principal nor at the trajectory it is passed.\<close>

lemma evaluate_context:
  "evaluate X eng now (request_policy_context req a p sid tr) st =
     evaluate X eng now (request_policy_context req a p' sid tr') st"
proof -
  have "eval_rules X now eng rs (request_policy_context req a p sid tr) st =
      eval_rules X now eng rs (request_policy_context req a p' sid tr') st" for rs
    by (induction rs)
      (simp_all add: rule_matches_def check_temporal_conditions_def session_of_def rule_rate_limit_def
        rate_key_def apply_rule_def approved_scopes_def request_policy_context_def split: option.split prod.split)
  then show ?thesis by (simp add: evaluate_def)
qed

lemma check_access_cases:
  assumes "check_access X E auth req s = (Inr answer, s')"
  obtains (killed) a where "auth = Some (rq_agent_id req)"
      and "get_agent_sync X (e_now E 0) (rq_agent_id req) (st_db s) = Inr a"
      and "is_agent_killed (ag_id a) (st_session_store s)"
      and "answer = check_json False [] ''deny'' ''Agent has been killed by emergency stop''" and "s' = s"
  | (decided) a p ev st entry d where "auth = Some (rq_agent_id req)"
      and "get_agent_sync X (e_now E 0) (rq_agent_id req) (st_db s) = Inr a"
      and "\<not> is_agent_killed (ag_id a) (st_session_store s)"
      and "evaluate X (st_policy_engine s) (e_now E 2) (request_policy_context req a p (context_session req) [])
            (st_session_store s) = (ev, st)"
      and "create_audit_entry_sync X (e_now E 3) (check_audit req a p ev) (st_db s) = (Inr entry, d)"
      and "answer = check_json (ev_decision ev = Allow) (ev_approved_scopes ev) (decision_str (ev_decision ev))
            (ev_reason ev)"
      and "s' = s\<lparr> st_session_store := st, st_db := d,
            st_metrics := record_decision (decision_str (ev_decision ev)) (rq_action req) (st_metrics s) \<rparr>"
proof -
  from assms have auth: "auth = Some (rq_agent_id req)"
    by (auto simp: check_access_def act_simps split: option.splits if_splits)
  from assms obtain a where a: "get_agent_sync X (e_now E 0) (rq_agent_id req) (st_db s) = Inr a"
    by (auto simp: check_access_def auth get_agent_def act_simps split: option.splits sum.splits)
  obtain p where p: "owner_of X E (e_now E 1) a s = (Inr p, s)"
    using owner_of_state [of X E "e_now E 1" a s] owner_of_no_error [of X E "e_now E 1" a s]
    by (cases "owner_of X E (e_now E 1) a s"; cases "fst (owner_of X E (e_now E 1) a s)") auto
  obtain ev st where ev: "evaluate X (st_policy_engine s) (e_now E 2)
      (request_policy_context req a p (context_session req) []) (st_session_store s) = (ev, st)" by fastforce
  show ?thesis
  proof (cases "is_agent_killed (ag_id a) (st_session_store s)")
    case True
    with assms auth a p show ?thesis
      by (intro killed [of a]) (auto simp: check_access_def get_agent_def act_simps split: option.splits)
  next
    case False
    with assms auth a p ev show ?thesis
      by (auto simp: check_access_def get_agent_def create_audit_entry_def act_simps
        intro: decided [of a p ev st] split: option.splits sum.splits prod.splits)
  qed
qed

definition dry_run_agrees :: "json \<Rightarrow> access_response \<Rightarrow> bool" where
  "dry_run_agrees answer resp \<longleftrightarrow>
     json_get_str ''decision'' answer = Some (rs_decision resp)
     \<and> json_get_str ''reason'' answer = Some (rs_reason resp)
     \<and> json_get ''approved_scopes'' answer = Some (strings_json (rs_approved_scopes resp))
     \<and> json_get ''allowed'' answer = Some (JBool (rs_decision resp = ''allow''))"

lemma check_json_agrees:
  "dry_run_agrees (check_json al sc dec r) resp \<longleftrightarrow>
     dec = rs_decision resp \<and> r = rs_reason resp \<and> strings_json sc = strings_json (rs_approved_scopes resp)
     \<and> (al \<longleftrightarrow> rs_decision resp = ''allow'')"
  by (auto simp: dry_run_agrees_def check_json_def json_get_str_def json_get_def)

text \<open>
  C26: asking with \<open>check\<close> gives the decision, the reason and the scopes that \<open>request_access\<close> gives in the
  same state, the engine reading the same time, when the request names an existing, live session; and it
  hands out nothing: the token table, the approvals and the vault stay as they are.
\<close>

theorem check_predicts_request:
  assumes "check_access X E auth req s = (Inr answer, s1)" and "request_access X F auth req s = (Inr resp, s2)"
    and "e_now E 0 = e_now F 0" and "e_now E 2 = e_now F 5"
    and "context_session req = Some sid" and "get_session sid (st_session_store s) = Some session"
    and "\<not> ss_killed session"
  shows "dry_run_agrees answer resp \<and> d_tokens (st_db s1) = d_tokens (st_db s)
    \<and> d_approvals (st_db s1) = d_approvals (st_db s) \<and> d_vault (st_db s1) = d_vault (st_db s)"
proof -
  have acc: "access_session X F req a p s = (session, s)" for a p
    using assms(5,6) by (simp add: access_session_def request_session_id_def get_or_create_session_def get_session_def)
  have same: "dry_run_agrees answer resp" if "rs_decision resp = decision_str (ev_decision ev)"
    "rs_reason resp = ev_reason ev" "rs_approved_scopes resp = ev_approved_scopes ev"
    "answer = check_json (ev_decision ev = Allow) (ev_approved_scopes ev) (decision_str (ev_decision ev)) (ev_reason ev)" for ev
    using that by (simp add: check_json_agrees decision_str_allow)
  from assms(1) show ?thesis
  proof (cases rule: check_access_cases)
    case (killed a)
    from assms(2) have "resp = killed_response ''Agent has been killed by emergency stop''"
      by (cases rule: request_access_cases) (use killed assms(3,7) in \<open>auto simp: acc\<close>)
    with killed show ?thesis by (simp add: check_json_agrees) (simp add: killed_response_def)
  next
    case (decided a p ev st entry d)
    have db: "d_tokens d = d_tokens (st_db s)" "d_approvals d = d_approvals (st_db s)" "d_vault d = d_vault (st_db s)"
      using decided(5) by (auto simp: create_audit_entry_sync_def Let_def split: if_splits)
    from assms(2) have "dry_run_agrees answer resp"
    proof (cases rule: request_access_cases)
      case (decided b q chain)
      then have "decide_access X F req a q chain sid (ss_trajectory session) s = (Inr resp, s2)"
        using \<open>get_agent_sync X (e_now E 0) (rq_agent_id req) (st_db s) = Inr a\<close> assms(3,5)
        by (simp add: acc request_session_id_def)
      then obtain ev' st' s3 where "evaluate X (st_policy_engine s) (e_now F 5)
          (request_policy_context req a q (Some sid) (ss_trajectory session)) (st_session_store s) = (ev', st')"
        and co: "carry_out X F req a q ev' (s\<lparr> st_session_store := st',
          st_metrics := record_decision (decision_str (ev_decision ev')) (rq_action req) (st_metrics s) \<rparr>) = (Inr resp, s3)"
        by (rule decide_access_InrE)
      then have "ev' = ev"
        using evaluate_context [of X "st_policy_engine s" "e_now F 5" req a q "Some sid" "ss_trajectory session"
            "st_session_store s" p "[]"] \<open>evaluate _ _ _ _ _ = (ev, st)\<close> assms(4,5)
        by simp
      with carry_out_response [OF co] \<open>answer = _\<close> show ?thesis by (intro same [of ev]) simp_all
    qed (use decided assms(3,7) in \<open>auto simp: acc\<close>)
    with db decided(7) show ?thesis by simp
  qed
qed

section \<open>Acting for another agent\<close>

text \<open>
  C25: an agent acts only for itself. A request in the name of another agent, or one that was not
  authenticated, is forbidden before anything is read or changed, for access and for the dry run; an
  approval is shown only to the agent it belongs to.
\<close>

theorem agents_act_for_themselves:
  assumes "auth \<noteq> Some (rq_agent_id req)"
  shows "(\<exists>why. request_access X E auth req s = (Inl (Err (Forbidden why)), s)
      \<and> check_access X E auth req s = (Inl (Err (Forbidden why)), s)
      \<and> status_of (Forbidden why) = 403)
    \<and> (\<nexists>r s'. approval_status_route X E auth i s = (Inr r, s') \<and> ap_agent_id r = rq_agent_id req)"
  using assms
  by (auto simp: request_access_def check_access_def approval_status_route_def authenticated_agent_def act_simps
      split: option.splits sum.splits prod.splits if_splits)

section \<open>Closed examples\<close>

definition deleg_claims :: agent_claims where
  "deleg_claims = \<lparr> cl_iss = ''iss'', cl_sub = ''user:a'',
     cl_act = \<lparr> act_sub = ''agent:1'', act_delegation_depth = 0, act_delegation_chain = None \<rparr>,
     cl_scope = ''db:read db:list'', cl_aud = agent_urn demo_ext 7, cl_exp = 300, cl_iat = 0, cl_jti = ''p'',
     cl_constraints = None, cl_cnf = None \<rparr>"

definition deleg_ext :: ext where
  "deleg_ext = demo_ext\<lparr> x_jwt_decode := (\<lambda>_ v t tok.
     if tok = ''parent'' \<and> va_issuer v = ''iss'' \<and> va_audience v = Some (agent_urn demo_ext 7)
     then Inr deleg_claims else Inl ExpiredSignature) \<rparr>"

definition deleg_request :: delegate_request where
  "deleg_request = \<lparr> dq_parent_grant_token = ''parent'', dq_sub_agent_id = 7, dq_scopes = [''db:list''],
     dq_expires_in_seconds = 60 \<rparr>"

lemma deleg_ext_simps [simp]:
  "x_uuid_str deleg_ext = x_uuid_str demo_ext" "x_time_add_ok deleg_ext = x_time_add_ok demo_ext"
  "x_jwt_encode deleg_ext = x_jwt_encode demo_ext" "x_rfc3339 deleg_ext = x_rfc3339 demo_ext"
  "x_json_str deleg_ext = x_json_str demo_ext" "agent_urn deleg_ext = agent_urn demo_ext"
  by (simp_all add: deleg_ext_def agent_urn_def fun_eq_iff)

lemma deleg_sound: "jwt_sound deleg_ext dk"
  by (auto simp: jwt_sound_def deleg_ext_def deleg_claims_def split: if_splits)

lemma deleg_verify: "verify deleg_ext demo_verifier t 1 ''parent'' (Some (agent_urn demo_ext 7)) = Inr deleg_claims"
  by (simp add: verify_def demo_verifier_def)
    (simp add: deleg_ext_def deleg_claims_def timestamp_def second_ns_def)

lemma deleg_words: "split_whitespace ''db:read db:list'' = [''db:read'', ''db:list'']"
proof -
  have "split_whitespace (join [CHR 0x20] [''db:read'', ''db:list'']) = [''db:read'', ''db:list'']"
    by (rule split_join_words) (simp add: is_word_iff no_ws_Cons ws_at_0 white_space_def starts_with_def)
  then show ?thesis by simp
qed

lemma demo_seconds: "0 \<le> sint n \<Longrightarrow> add_seconds deleg_ext t n = Inr (t + sint n * second_ns)"
  by (simp add: add_seconds_def) (simp add: demo_ext_def)

lemma deleg_ttl: "effective_ttl 4 (min (parent_expiry deleg_ext 2 deleg_claims) (3 + 60 * second_ns)) = 59"
  by (simp add: effective_ttl_def parent_expiry_def from_timestamp_def)
    (simp add: demo_ext_def deleg_claims_def num_seconds_def second_ns_def signed_divide_int_def)

lemma demo_delegate:
  obtains resp s' where "delegate deleg_ext demo_env (Some 7) deleg_request demo_app = (Inr resp, s')"
proof -
  let ?p = "delegated_params deleg_ext default_config deleg_request deleg_claims 59"
  have ver: "verify deleg_ext demo_verifier 0 1 ''parent'' (Some (agent_urn demo_ext 7)) = Inr deleg_claims"
    by (rule deleg_verify)
  have sc: "check_scopes (split_whitespace (cl_scope deleg_claims)) p (dq_scopes deleg_request) = Inr ()" for p
    by (simp add: deleg_claims_def deleg_words deleg_request_def)
  have dep: "check_depth (cp_max_delegation_depth (cf_policy default_config)) (act_delegation_depth (cl_act deleg_claims) + 1)
      = Inr ()"
    by (simp add: deleg_claims_def default_config_def)
  have "sint (ip_ttl_seconds ?p) = 59" by (simp add: delegated_params_def)
  then have iss: "issue deleg_ext demo_issuer 5 6 0 ?p = Inr (''jwt'', x_uuid_str demo_ext 0)"
    by (simp add: issue_def expiry_def demo_seconds) (simp add: demo_ext_def crypto_err_def)
  have rec: "record_token deleg_ext demo_env 7 jti None 7 sc aud ex demo_db =
      (Inr (), demo_db\<lparr> d_tokens := [new_token_row deleg_ext 7 jti None 7 sc aud ex] \<rparr>)" for jti sc aud ex
    by (simp add: record_token_def act_simps insert_token_def insert_row_def fk_ok_def new_token_row_def
      demo_db_def agent_row_of_def demo_keyed_fields empty_db_def)
  have au: "\<exists>e d'. create_audit_entry deleg_ext demo_env 8 entry (demo_db\<lparr> d_tokens := rows \<rparr>) = (Inr e, d')" for entry rows
    by (simp add: create_audit_entry_def act_simps create_audit_entry_sync_def Let_def max_rowid_def demo_db_empty)
  have req: "dq_parent_grant_token deleg_request = ''parent''" "dq_sub_agent_id deleg_request = 7"
    "dq_expires_in_seconds deleg_request = 60" by (simp_all add: deleg_request_def)
  from au obtain e d' where au': "create_audit_entry deleg_ext demo_env 8
      (delegate_audit deleg_ext deleg_request deleg_claims (cp_max_delegation_depth (cf_policy default_config)) (x_uuid_str demo_ext 0))
      (demo_db\<lparr> d_tokens := [new_token_row deleg_ext 7 (x_uuid_str demo_ext 0) None 7 (dq_scopes deleg_request)
        (agent_urn demo_ext 7) (min (parent_expiry deleg_ext 2 deleg_claims) (3 + 60 * second_ns))] \<rparr>) = (Inr e, d')" by blast
  show ?thesis
    by (rule that)
      (simp add: delegate_def authenticated_agent_def act_simps req demo_now ver sc dep demo_seconds
        issue_delegated_def Let_def deleg_ttl iss rec au')
qed

theorem delegation_attenuates_witness:
  "\<exists>resp s' parent child. delegate deleg_ext demo_env (Some 7) deleg_request demo_app = (Inr resp, s')
    \<and> narrower deleg_ext (cp_max_delegation_depth (cf_policy (st_config demo_app))) parent child"
proof -
  obtain resp s' where r: "delegate deleg_ext demo_env (Some 7) deleg_request demo_app = (Inr resp, s')"
    by (rule demo_delegate)
  have "mono (e_now demo_env)" by (simp add: demo_env_def mono_def)
  from delegation_attenuates [OF r deleg_sound this] r show ?thesis by blast
qed

definition check_env :: env where
  "check_env = demo_env\<lparr> e_now := \<lambda>k. if k = 2 then 5 else int k \<rparr>"

theorem check_predicts_request_witness:
  "\<exists>answer s1 resp s2.
    check_access demo_ext check_env (Some 7) demo_access (demo_app\<lparr> st_session_store := demo_session_store \<rparr>) = (Inr answer, s1)
    \<and> request_access demo_ext demo_env (Some 7) demo_access (demo_app\<lparr> st_session_store := demo_session_store \<rparr>) = (Inr resp, s2)
    \<and> dry_run_agrees answer resp \<and> rs_token resp \<noteq> None"
proof -
  let ?s = "demo_app\<lparr> st_session_store := demo_session_store \<rparr>"
  let ?E = "check_env"
  obtain resp s2 t where r: "request_access demo_ext demo_env (Some 7) demo_access ?s = (Inr resp, s2)"
    and t: "rs_token resp = Some t" by (rule demo_request_access_in [of demo_session_store]) simp
  obtain st where ev: "evaluate demo_ext demo_engine 5 demo_request_context demo_session_store =
    (apply_rule demo_rule demo_request_context, st)" by (rule demo_request_evaluate)
  have agent: "get_agent_sync demo_ext n 7 demo_db = Inr demo_keyed" for n by (rule demo_get_agent)
  have live: "\<not> is_agent_killed 7 demo_session_store"
    by (simp add: demo_session_store_def frame_simps is_agent_killed_def) (simp add: new_store_def)
  have own: "ag_owner_id demo_keyed = None" by (simp add: demo_keyed_def demo_agent_def)
  obtain answer s1 where c: "check_access demo_ext ?E (Some 7) demo_access ?s = (Inr answer, s1)"
    by (simp add: check_access_def act_simps get_agent_def agent owner_of_def own live demo_keyed_fields ev
      check_env_def demo_env_def demo_request_context_def [symmetric] create_audit_entry_def create_audit_entry_sync_def
      Let_def max_rowid_def demo_db_empty)
  have "\<not> ss_killed (new_session 4 ''s1'' 7 None)" by (simp add: new_session_def)
  from check_predicts_request [OF c r _ _ _ _ this] t demo_request_session
  have "dry_run_agrees answer resp" by (simp add: check_env_def demo_env_def)
  with t c r show ?thesis by blast
qed

theorem agents_act_for_themselves_witness:
  "\<exists>why. request_access demo_ext demo_env (Some 8) demo_access demo_app = (Inl (Err (Forbidden why)), demo_app)"
  using agents_act_for_themselves [of "Some 8" demo_access demo_ext demo_env demo_app 0] by auto

section \<open>A scope with a blank\<close>

text \<open>
  The scopes of a token are joined by blanks in its claims and split at blanks when it is delegated. A
  requested scope with a blank in it passes the pattern of a rule as one scope and comes back as two,
  the second of which the rule does not cover.
\<close>

lemma scope_with_blank_widens:
  "match_pattern ''dev-*'' ''dev-x admin''" "\<not> match_pattern ''dev-*'' ''admin''"
  "check_scopes (split_whitespace (join blank [''dev-x admin''])) p [''admin''] = Inr ()"
proof -
  show "match_pattern ''dev-*'' ''dev-x admin''" "\<not> match_pattern ''dev-*'' ''admin''" by code_simp+
  have "split_whitespace (join blank [''dev-x admin'']) = [''dev-x'', ''admin'']" by code_simp
  then show "check_scopes (split_whitespace (join blank [''dev-x admin''])) p [''admin''] = Inr ()" by simp
qed

end
