(* ===== verification/Operator_Routes.thy ===== *)
theory Operator_Routes
  imports Agent_Delegation
begin

text \<open>
  The handlers behind the admin token and the unauthenticated ones (\<open>src/api/routes.rs\<close>): grants and
  approvals for principals, the administration of agents, principals, resources and policies, the
  audit log, revocation, the credential vault, sessions and the emergency stop, and the probes. The
  clock readings, identifiers and random bytes are numbered per handler. Members of JSON objects are
  in the order of their names.
\<close>

section \<open>Values in answers\<close>

definition uuid_json :: "ext \<Rightarrow> uuid \<Rightarrow> json" where
  "uuid_json X u = JStr (x_uuid_str X u)"

definition time_json :: "ext \<Rightarrow> time \<Rightarrow> json" where
  "time_json X t = JStr (x_time_json X t)"

definition u64_json :: "u64 \<Rightarrow> json" where
  "u64_json n = JInt (uint n)"

text \<open>A float that is not finite becomes null.\<close>

definition f64_json :: "f64 \<Rightarrow> json" where
  "f64_json f = (case f of Fin _ \<Rightarrow> JFloat f | _ \<Rightarrow> JNull)"

definition opt_to_json :: "('a \<Rightarrow> json) \<Rightarrow> 'a option \<Rightarrow> json" where
  "opt_to_json f x = (case x of None \<Rightarrow> JNull | Some a \<Rightarrow> f a)"

text \<open>The error as a value; a panic still unwinds.\<close>

definition catching :: "'a handler \<Rightarrow> (perror + 'a) handler" where
  "catching m = (\<lambda>s. case m s of
     (Inl (Err e), s') \<Rightarrow> (Inr (Inl e), s')
   | (Inl (Panic p), s') \<Rightarrow> (Inl (Panic p), s')
   | (Inr x, s') \<Rightarrow> (Inr (Inr x), s'))"

lemma catching_apply [act_simps]:
  "catching m s = (case m s of
     (Inl (Err e), s') \<Rightarrow> (Inr (Inl e), s')
   | (Inl (Panic p), s') \<Rightarrow> (Inl (Panic p), s')
   | (Inr x, s') \<Rightarrow> (Inr (Inr x), s'))"
  by (simp add: catching_def)

section \<open>Probes\<close>

definition health :: "(nat \<times> json) handler" where
  "health = ret (200, JObj [(''service'', JStr ''patroclus''), (''status'', JStr ''ok'')])"

definition health_ready :: "env \<Rightarrow> (nat \<times> json) handler" where
  "health_ready E =
     and_then (catching (on_db (health_check E))) (\<lambda>r.
       ret (case r of
          Inr _ \<Rightarrow> (200, JObj [(''database'', JStr ''ok''), (''status'', JStr ''ready'')])
        | Inl e \<Rightarrow> (503, JObj [(''database'', JStr (error_text e)), (''status'', JStr ''not-ready'')])))"

definition refresh_gauges :: "nat \<Rightarrow> nat \<Rightarrow> metrics \<Rightarrow> metrics" where
  "refresh_gauges active pending m = m\<lparr> me_active_sessions := int active, me_approval_queue_depth := int pending \<rparr>"

definition prometheus_metrics :: "ext \<Rightarrow> env \<Rightarrow> (metrics \<Rightarrow> string) \<Rightarrow> string handler" where
  "prometheus_metrics X E render =
     and_then (reads (\<lambda>s. length (list_sessions (st_session_store s)))) (\<lambda>active.
     and_then (ok_of (on_db (list_pending_approvals X E (e_now E 0)))) (\<lambda>pending.
     and_then (change_metrics (refresh_gauges active (or_else (map_option length pending) 0))) (\<lambda>_.
       reads (\<lambda>s. gather render (st_metrics s)))))"

definition jwks :: "ext \<Rightarrow> json handler" where
  "jwks X = reads (\<lambda>s. public_jwks X (st_token_issuer s))"

section \<open>Principals\<close>

record principal_delegate_request =
  pq_agent_id :: uuid
  pq_scopes :: "string list"
  pq_constraints :: "json option"
  pq_expires_in_seconds :: u64

definition grant_token_params ::
    "ext \<Rightarrow> config \<Rightarrow> principal_delegate_request \<Rightarrow> agent \<Rightarrow> principal \<Rightarrow> issue_token_params" where
  "grant_token_params X cfg req a p =
     \<lparr> ip_issuer = ct_issuer (cf_token cfg), ip_subject = ''user:'' @ pr_email p,
       ip_agent_id = agent_urn X (ag_id a), ip_scopes = pq_scopes req, ip_audience = agent_urn X (ag_id a),
       ip_ttl_seconds = min (pq_expires_in_seconds req) (ct_max_ttl_seconds (cf_token cfg)),
       ip_delegation_depth = 0, ip_delegation_chain = None, ip_constraints = pq_constraints req \<rparr>"

definition grant_json :: "ext \<Rightarrow> principal_delegate_request \<Rightarrow> uuid \<Rightarrow> string \<Rightarrow> time \<Rightarrow> json" where
  "grant_json X req grant_id jwt expires_at =
     JObj [(''delegation_token'', JStr jwt), (''expires_at'', time_json X expires_at),
       (''grant_id'', uuid_json X grant_id), (''scopes'', strings_json (pq_scopes req))]"

definition grant_and_issue ::
    "ext \<Rightarrow> env \<Rightarrow> principal_delegate_request \<Rightarrow> agent \<Rightarrow> principal \<Rightarrow> uuid \<Rightarrow> json handler" where
  "grant_and_issue X E req a p principal_id =
     and_then (of_result (add_seconds X (e_now E 2) (pq_expires_in_seconds req))) (\<lambda>expires_at.
     and_then (on_db (create_grant X E (e_now E 3) (e_uuid E 0) (ag_id a) principal_id None (pq_scopes req)
         (pq_constraints req) expires_at)) (\<lambda>grant_id.
     and_then (reads_result (\<lambda>s. issue X (st_token_issuer s) (e_now E 4) (e_now E 5) (e_uuid E 1)
         (grant_token_params X (st_config s) req a p))) (\<lambda>(jwt, jti).
     and_then (on_db (record_token X E (e_now E 6) jti (Some grant_id) (ag_id a) (pq_scopes req)
         (agent_urn X (ag_id a)) expires_at)) (\<lambda>_.
     and_then (change_metrics count_token) (\<lambda>_.
       ret (grant_json X req grant_id jwt expires_at))))))"

definition principal_delegate :: "ext \<Rightarrow> env \<Rightarrow> principal_delegate_request \<Rightarrow> json handler" where
  "principal_delegate X E req =
     and_then (on_db (get_agent X E (e_now E 0) (pq_agent_id req))) (\<lambda>a.
       case ag_owner_id a of
         None \<Rightarrow> throw (Err (AgentNotFound ''agent has no owner principal''))
       | Some principal_id \<Rightarrow>
           and_then (on_db (get_principal X E (e_now E 1) principal_id)) (\<lambda>p.
             grant_and_issue X E req a p principal_id))"

definition grant_row_json :: "ext \<Rightarrow> grant \<Rightarrow> json" where
  "grant_row_json X g =
     JObj [(''agent_id'', uuid_json X (gr_agent_id g)), (''constraints'', opt_to_json id (gr_constraints g)),
       (''created_at'', time_json X (gr_created_at g)), (''expires_at'', time_json X (gr_expires_at g)),
       (''id'', uuid_json X (gr_id g)), (''parent_grant_id'', opt_to_json (uuid_json X) (gr_parent_grant_id g)),
       (''principal_id'', uuid_json X (gr_principal_id g)), (''revocable'', JBool (gr_revocable g)),
       (''revoked_at'', opt_to_json (time_json X) (gr_revoked_at g)), (''scopes'', strings_json (gr_scopes g))]"

definition list_principal_grants :: "ext \<Rightarrow> env \<Rightarrow> json handler" where
  "list_principal_grants X E =
     and_then (on_db (list_all_grants X E (e_now E 0))) (\<lambda>grants.
       ret (JObj [(''grants'', JArr (map (grant_row_json X) grants))]))"

text \<open>The body's \<open>cascade\<close> is read and ignored.\<close>

definition revoke_grant_route :: "ext \<Rightarrow> env \<Rightarrow> uuid \<Rightarrow> bool \<Rightarrow> json handler" where
  "revoke_grant_route X E i cascade =
     and_then (on_db (revoke_grant X E (e_grant_clock E) i)) (\<lambda>revoked.
       ret (JObj [(''count'', JInt (int (length revoked))), (''revoked_grants'', JArr (map (uuid_json X) revoked))]))"

definition list_pending_approvals_route :: "ext \<Rightarrow> env \<Rightarrow> approval_request list handler" where
  "list_pending_approvals_route X E = on_db (list_pending_approvals X E (e_now E 0))"

record approve_body =
  ab_approver_id :: uuid
  ab_reason :: "string option"

definition approve_request :: "ext \<Rightarrow> env \<Rightarrow> uuid \<Rightarrow> approve_body \<Rightarrow> approval_request handler" where
  "approve_request X E i body =
     on_db (resolve_approval_request X E (e_now E 0) (e_uuid E 0) i (ab_approver_id body) True (ab_reason body))"

definition deny_request :: "ext \<Rightarrow> env \<Rightarrow> uuid \<Rightarrow> approve_body \<Rightarrow> approval_request handler" where
  "deny_request X E i body =
     on_db (resolve_approval_request X E (e_now E 0) (e_uuid E 0) i (ab_approver_id body) False (ab_reason body))"

section \<open>Administration\<close>

definition client_key_json :: "ext \<Rightarrow> uuid \<Rightarrow> string \<Rightarrow> json" where
  "client_key_json X i raw_key =
     JObj [(''agent_id'', uuid_json X i), (''client_key'', JStr raw_key),
       (''note'', JStr (''Store this key securely '' @ em_dash @ '' it is not retrievable later.''))]"

definition provision_client_key :: "ext \<Rightarrow> env \<Rightarrow> uuid \<Rightarrow> json handler" where
  "provision_client_key X E i =
     and_then (on_db (get_agent X E (e_now E 0) i)) (\<lambda>_.
     case generate_client_key X (e_random E 0) of (raw_key, key_hash) \<Rightarrow>
       and_then (on_db (set_agent_client_key_hash X E (e_now E 1) i key_hash)) (\<lambda>_.
         ret (client_key_json X i raw_key)))"

definition create_agent_route :: "ext \<Rightarrow> env \<Rightarrow> create_agent_request \<Rightarrow> agent handler" where
  "create_agent_route X E req = on_db (create_agent X E (e_now E 0) (e_uuid E 0) req)"

definition list_agents_route :: "ext \<Rightarrow> env \<Rightarrow> agent list handler" where
  "list_agents_route X E = on_db (list_agents X E (e_now E 0))"

definition get_agent_route :: "ext \<Rightarrow> env \<Rightarrow> uuid \<Rightarrow> agent handler" where
  "get_agent_route X E i = on_db (get_agent X E (e_now E 0) i)"

definition create_principal_route :: "ext \<Rightarrow> env \<Rightarrow> create_principal_request \<Rightarrow> principal handler" where
  "create_principal_route X E req = on_db (create_principal X E (e_now E 0) (e_uuid E 0) req)"

definition create_resource_route :: "ext \<Rightarrow> env \<Rightarrow> create_resource_request \<Rightarrow> resource handler" where
  "create_resource_route X E req = on_db (create_resource X E (e_now E 0) (e_uuid E 0) req)"

definition list_resources_route :: "ext \<Rightarrow> env \<Rightarrow> resource list handler" where
  "list_resources_route X E = on_db (list_resources X E (e_now E 0))"

record create_policy_request =
  cpo_name :: string
  cpo_engine :: string
  cpo_definition :: string

definition create_policy_route :: "ext \<Rightarrow> env \<Rightarrow> create_policy_request \<Rightarrow> json handler" where
  "create_policy_route X E req =
     and_then (on_db (create_policy X E (e_now E 0) (e_uuid E 0) (cpo_name req) (cpo_engine req) (cpo_definition req))) (\<lambda>_.
     and_then (as_config_error (reload_policy X E)) (\<lambda>_.
       ret (JObj [(''reloaded'', JBool True), (''status'', JStr ''created'')])))"

definition policy_json :: "ext \<Rightarrow> uuid \<times> string \<times> string \<times> string \<times> string \<Rightarrow> json" where
  "policy_json X = (\<lambda>(i, name, engine, status, text).
     JObj [(''definition'', JStr text), (''engine'', JStr engine), (''id'', uuid_json X i),
       (''name'', JStr name), (''status'', JStr status)])"

definition list_policies_route :: "ext \<Rightarrow> env \<Rightarrow> json handler" where
  "list_policies_route X E =
     and_then (on_db (list_policies X E)) (\<lambda>policies.
       ret (JObj [(''policies'', JArr (map (policy_json X) policies))]))"

definition list_audit :: "ext \<Rightarrow> env \<Rightarrow> audit_entry list handler" where
  "list_audit X E = on_db (list_audit_entries X E (e_now E 0) 100)"

definition revoke_token_route :: "env \<Rightarrow> string \<Rightarrow> json handler" where
  "revoke_token_route E jti =
     and_then (on_db (revoke_token E jti)) (\<lambda>_.
     and_then (modify (\<lambda>s. s\<lparr> st_token_verifier := revoke jti (st_token_verifier s) \<rparr>)) (\<lambda>_.
       ret (JObj [(''revoked'', JStr jti)])))"

section \<open>The vault\<close>

definition vault_of :: "string \<Rightarrow> vault handler" where
  "vault_of missing = reads_result (\<lambda>s. ok_or (st_vault s) (Err (VaultError missing)))"

definition stored_json :: "ext \<Rightarrow> store_credential_request \<Rightarrow> uuid \<Rightarrow> json" where
  "stored_json X req i =
     JObj [(''id'', uuid_json X i), (''principal_id'', uuid_json X (scr_principal_id req)),
       (''provider'', JStr (scr_provider req)), (''scopes'', strings_json (scr_scopes req)), (''stored'', JBool True)]"

definition store_credential :: "ext \<Rightarrow> env \<Rightarrow> store_credential_request \<Rightarrow> json handler" where
  "store_credential X E req =
     and_then (vault_of (''Vault not initialized '' @ em_dash @ '' no encryption key configured'')) (\<lambda>vault.
     and_then (of_result (encrypt X vault (e_random E 0) (scr_refresh_token req))) (\<lambda>(encrypted, nonce).
     and_then (on_db (store_vault_credential X E (e_now E 0) (e_uuid E 0) (scr_principal_id req) (scr_provider req)
         encrypted nonce (vt_key_id vault) (scr_scopes req) (scr_expires_at req))) (\<lambda>i.
       ret (stored_json X req i))))"

definition list_vault_credentials :: "json handler" where
  "list_vault_credentials =
     and_then (vault_of ''Vault not initialized'') (\<lambda>_.
       ret (JObj [(''credentials'', JArr []),
         (''note'', JStr ''Vault credential listing requires admin authentication (not yet implemented)'')]))"

record vend_credential_body =
  vb_principal_id :: uuid
  vb_provider :: string
  vb_requested_scopes :: "string list"
  vb_agent_token_jti :: string
  vb_client_id :: "string option"
  vb_client_secret :: "string option"

definition no_credential :: "ext \<Rightarrow> vend_credential_body \<Rightarrow> string" where
  "no_credential X req =
     ''No stored credential for provider '' @ quote @ vb_provider req @ quote @ '' and principal '' @ quote
       @ x_uuid_str X (vb_principal_id req) @ quote"

definition vended_expiry :: "ext \<Rightarrow> time \<Rightarrow> provider_token_response \<Rightarrow> time option result" where
  "vended_expiry X now t =
     (case pt_expires_in t of
        None \<Rightarrow> Inr None
      | Some secs \<Rightarrow> (case add_seconds X now secs of Inl e \<Rightarrow> Inl e | Inr t' \<Rightarrow> Inr (Some t')))"

definition vend_credential :: "ext \<Rightarrow> env \<Rightarrow> vend_credential_body \<Rightarrow> vend_credential_response handler" where
  "vend_credential X E req =
     and_then (vault_of ''Vault not initialized'') (\<lambda>vault.
     and_then (on_db (get_vault_credential X E (e_now E 0) (vb_principal_id req) (vb_provider req))) (\<lambda>found.
     and_then (of_result (ok_or found (Err (VaultError (no_credential X req))))) (\<lambda>rec.
     and_then (of_result (decrypt X vault (vc_encrypted_token rec) (vc_nonce rec))) (\<lambda>refresh_token.
     and_then (of_result (ok_or (create_provider (vb_provider req) (or_else (vb_client_id req) '''')
         (or_else (vb_client_secret req) '''')) (Err (VaultError (''Unknown provider: '' @ vb_provider req))))) (\<lambda>provider.
     and_then (of_result (exchange_refresh E provider refresh_token (vb_requested_scopes req))) (\<lambda>t.
     and_then (of_result (vended_expiry X (e_now E 1) t)) (\<lambda>expires_at.
       ret \<lparr> vr_provider = vb_provider req, vr_access_token = pt_access_token t,
         vr_scopes = vb_requested_scopes req, vr_expires_at = expires_at,
         vr_vended_for_jti = vb_agent_token_jti req \<rparr>)))))))"

definition generate_vault_key_route :: "env \<Rightarrow> json handler" where
  "generate_vault_key_route E =
     and_then (reads (\<lambda>s. cv_encryption_key_path (cf_vault (st_config s)))) (\<lambda>path.
     and_then (on_files (generate_vault_key E path (e_random E 0))) (\<lambda>_.
       ret (JObj [(''generated'', JBool True), (''path'', JStr path)])))"

section \<open>Sessions and the emergency stop\<close>

definition session_json :: "ext \<Rightarrow> session_state \<Rightarrow> json" where
  "session_json X s =
     JObj [(''actions_count'', u64_json (ss_actions_count s)), (''agent_id'', uuid_json X (ss_agent_id s)),
       (''created_at'', time_json X (ss_created_at s)), (''killed'', JBool (ss_killed s)),
       (''last_activity'', time_json X (ss_last_activity s)),
       (''principal_id'', opt_to_json (uuid_json X) (ss_principal_id s)), (''session_id'', JStr (ss_session_id s)),
       (''spend_total'', f64_json (ss_spend_total s)), (''tokens_used'', u64_json (ss_tokens_used s)),
       (''trajectory_length'', JInt (int (length (ss_trajectory s)))), (''trust_level'', f64_json (ss_trust_level s))]"

definition list_sessions_route :: "ext \<Rightarrow> json handler" where
  "list_sessions_route X =
     reads (\<lambda>s. JObj [(''sessions'', JArr (map (session_json X) (list_sessions (st_session_store s))))])"

definition kill_session_route :: "string \<Rightarrow> json handler" where
  "kill_session_route sid =
     and_then (on_sessions (kill_session sid)) (\<lambda>killed.
       ret (JObj [(''killed'', JBool killed), (''session_id'', JStr sid)]))"

definition stopped_sessions :: "uuid \<Rightarrow> session_store \<Rightarrow> nat" where
  "stopped_sessions i st = length (filter (\<lambda>s. ss_agent_id s = i \<and> ss_killed s) (list_sessions st))"

definition kill_agent_route :: "ext \<Rightarrow> env \<Rightarrow> uuid \<Rightarrow> json handler" where
  "kill_agent_route X E i =
     and_then (change_sessions (kill_agent i)) (\<lambda>_.
     and_then (reads (\<lambda>s. stopped_sessions i (st_session_store s))) (\<lambda>killed.
     and_then (on_db (revoke_agent_tokens X E i)) (\<lambda>_.
       ret (JObj [(''agent_id'', uuid_json X i), (''killed'', JBool True), (''sessions_killed'', JInt (int killed))]))))"

record record_spend_request =
  sq_amount :: f64
  sq_session_id :: "string option"

definition spend_session :: "ext \<Rightarrow> uuid \<Rightarrow> record_spend_request \<Rightarrow> string" where
  "spend_session X i req = or_else (sq_session_id req) (''agent-'' @ x_uuid_str X i @ ''-default'')"

definition record_spend_route :: "ext \<Rightarrow> uuid \<Rightarrow> record_spend_request \<Rightarrow> json handler" where
  "record_spend_route X i req =
     (let sid = spend_session X i req in
      and_then (change_sessions (store_record_spend sid (sq_amount req))) (\<lambda>_.
      and_then (reads (\<lambda>s. get_session sid (st_session_store s))) (\<lambda>session.
        ret (JObj [(''agent_id'', uuid_json X i),
          (''cumulative_spend'', f64_json (or_else (map_option cumulative_spend session) (sq_amount req))),
          (''session_id'', JStr sid), (''spend_recorded'', f64_json (sq_amount req))]))))"

definition restore_agent_route :: "ext \<Rightarrow> uuid \<Rightarrow> json handler" where
  "restore_agent_route X i =
     and_then (change_sessions (restore_agent i)) (\<lambda>_.
       ret (JObj [(''agent_id'', uuid_json X i), (''restored'', JBool True)]))"

section \<open>Federation\<close>

definition provider_named :: "config \<Rightarrow> string \<Rightarrow> string \<Rightarrow> idp_provider result" where
  "provider_named cfg name missing =
     ok_or (find_provider cfg name)
       (Err (ConfigError (''IdP provider '' @ quote @ name @ quote @ missing)))"

definition callback_uri :: "config \<Rightarrow> string" where
  "callback_uri cfg = ct_issuer (cf_token cfg) @ ''/v1/idp/callback''"

definition authorize_json :: "string \<Rightarrow> string \<Rightarrow> string \<Rightarrow> json" where
  "authorize_json auth_url state provider_name =
     JObj [(''authorization_url'', JStr auth_url), (''code_challenge_method'', JStr ''S256''),
       (''provider'', JStr provider_name), (''state'', JStr state)]"

definition idp_authorize :: "ext \<Rightarrow> env \<Rightarrow> string \<Rightarrow> json handler" where
  "idp_authorize X E provider_name =
     and_then (reads st_config) (\<lambda>cfg.
     and_then (of_result (provider_named cfg provider_name '' not configured'')) (\<lambda>provider.
     let state = generate_state X (e_random E 0);
         code_verifier = generate_code_verifier X (e_random E 1);
         code_challenge = pkce_s256_challenge X code_verifier in
     and_then (on_pkce (\<lambda>p. ((), pkce_insert (e_now E 0) state (id_name provider) code_verifier p))) (\<lambda>_.
       ret (authorize_json (authorization_url X provider (callback_uri cfg) state code_challenge) state provider_name))))"

record idp_callback_query =
  cb_code :: string
  cb_state :: string

definition ensure_principal :: "ext \<Rightarrow> env \<Rightarrow> idp_provider \<Rightarrow> idp_user_info \<Rightarrow> uuid handler" where
  "ensure_principal X E provider user =
     and_then (reads (\<lambda>s. get_principal_by_email X E (e_now E 1) (ui_email user) (st_db s))) (\<lambda>known.
       case known of
         Some p \<Rightarrow> ret (pr_id p)
       | None \<Rightarrow>
           and_then (on_db (create_principal X E (e_now E 2) (e_uuid E 0)
             \<lparr> cpr_external_id = ui_subject user, cpr_idp_provider = id_name provider,
               cpr_email = ui_email user, cpr_display_name = or_else (ui_name user) (ui_email user) \<rparr>)) (\<lambda>p.
             ret (pr_id p)))"

definition apply_group_policy :: "ext \<Rightarrow> env \<Rightarrow> uuid \<Rightarrow> string option \<Rightarrow> unit handler" where
  "apply_group_policy X E principal_id policy_yaml =
     (case policy_yaml of
        None \<Rightarrow> ret ()
      | Some yaml \<Rightarrow>
          if yaml = [] then ret ()
          else
            and_then (on_db (create_policy X E (e_now E 3) (e_uuid E 1) (''idp-'' @ x_uuid_str X principal_id)
                ''yaml'' yaml)) (\<lambda>_.
              as_config_error (reload_policy X E)))"

definition login_json :: "ext \<Rightarrow> uuid \<Rightarrow> idp_user_info \<Rightarrow> (string \<times> string list) option \<Rightarrow> json" where
  "login_json X principal_id user mapped =
     JObj [(''authenticated'', JBool True), (''email'', JStr (ui_email user)), (''groups'', strings_json (ui_groups user)),
       (''issuer'', JStr (ui_issuer user)), (''mapped_scopes'', strings_json (or_else (map_option snd mapped) [])),
       (''policy_applied'', JBool (mapped \<noteq> None)), (''principal_id'', uuid_json X principal_id)]"

definition complete_login :: "ext \<Rightarrow> env \<Rightarrow> config \<Rightarrow> pkce_transaction \<Rightarrow> string \<Rightarrow> json handler" where
  "complete_login X E cfg txn code =
     and_then (of_result (provider_named cfg (px_provider_name txn) '' not configured'')) (\<lambda>provider.
     and_then (of_result (exchange_oidc_token E provider code (callback_uri cfg) (px_code_verifier txn))) (\<lambda>access_token.
     and_then (of_result (fetch_userinfo E provider access_token)) (\<lambda>user.
     and_then (ensure_principal X E provider user) (\<lambda>principal_id.
     let mapped = build_policy_from_groups user (id_group_policy_mappings provider) in
     and_then (apply_group_policy X E principal_id (map_option fst mapped)) (\<lambda>_.
       ret (login_json X principal_id user mapped))))))"

definition idp_callback :: "ext \<Rightarrow> env \<Rightarrow> idp_callback_query \<Rightarrow> json handler" where
  "idp_callback X E q =
     and_then (reads st_config) (\<lambda>cfg.
       if \<not> ci_enabled (cf_idp cfg) \<or> ci_providers (cf_idp cfg) = [] then
         throw (Err (ConfigError ''IdP federation not enabled''))
       else
         and_then (on_pkce (pkce_consume (e_now E 0) (cb_state q))) (\<lambda>found.
         and_then (of_result (ok_or found (Err (Forbidden ''invalid, expired or reused OAuth state parameter'')))) (\<lambda>txn.
           complete_login X E cfg txn (cb_code q))))"

record idp_userinfo_request =
  uq_provider :: string
  uq_access_token :: string

definition idp_userinfo :: "env \<Rightarrow> idp_userinfo_request \<Rightarrow> idp_user_info handler" where
  "idp_userinfo E req =
     and_then (reads st_config) (\<lambda>cfg.
     and_then (of_result (provider_named cfg (uq_provider req) '' not found'')) (\<lambda>provider.
       of_result (fetch_userinfo E provider (uq_access_token req))))"

definition provider_json :: "idp_provider \<Rightarrow> json" where
  "provider_json p =
     JObj [(''client_id'', JStr (id_client_id p)), (''group_claim'', JStr (id_group_claim p)),
       (''issuer'', JStr (id_issuer p)), (''name'', JStr (id_name p)), (''scopes'', strings_json (id_scopes p))]"

definition list_idp_providers :: "json handler" where
  "list_idp_providers = reads (\<lambda>s. let idp = cf_idp (st_config s) in
     JObj [(''enabled'', JBool (ci_enabled idp)), (''providers'', JArr (map provider_json (ci_providers idp)))])"

end
