(* ===== verification/Server.thy ===== *)
theory Server
  imports Operator_Routes
begin

text \<open>
  The server (\<open>src/api/server.rs\<close> and the route table of \<open>src/api/routes.rs\<close>): which handler answers
  which method and path, how its arguments are extracted and its result becomes a response, and the
  layers around it: authentication, the latency histogram and CORS. The web framework matches paths,
  extracts arguments and answers preflight requests; those are the fields of \<open>web\<close>.
\<close>

section \<open>The route table\<close>

datatype handler_name =
    Dashboard | Health | HealthReady | PrometheusMetrics | Jwks
  | RequestAccess | CheckAccess | Delegate | ApprovalStatus
  | PrincipalDelegate | ListPrincipalGrants | RevokeGrant | ListPendingApprovals | ApproveRequest | DenyRequest
  | CreateAgent | ListAgents | GetAgent | CreatePrincipal | CreateResource | ListResources
  | CreatePolicy | ListPolicies | ListAudit | RevokeTokenById
  | StoreCredential | ListVaultCredentials | VendCredential | GenerateVaultKey
  | ListSessions | KillSessionById | KillAgentById | RestoreAgentById | RecordSpendOf | ProvisionClientKey
  | IdpAuthorize | IdpCallback | IdpUserinfo | ListIdpProviders

type_synonym route_table = "(string \<times> (string \<times> handler_name) list) list"

definition all_routes :: route_table where
  "all_routes =
     [(''/'', [(''GET'', Dashboard)]),
      (''/health'', [(''GET'', Health)]),
      (''/health/ready'', [(''GET'', HealthReady)]),
      (''/metrics'', [(''GET'', PrometheusMetrics)]),
      (''/.well-known/jwks.json'', [(''GET'', Jwks)]),
      (''/v1/agent/request-access'', [(''POST'', RequestAccess)]),
      (''/v1/agent/check'', [(''POST'', CheckAccess)]),
      (''/v1/agent/delegate'', [(''POST'', Delegate)]),
      (''/v1/agent/approval-status/{id}'', [(''GET'', ApprovalStatus)]),
      (''/v1/principal/delegate'', [(''POST'', PrincipalDelegate)]),
      (''/v1/principal/grants'', [(''GET'', ListPrincipalGrants)]),
      (''/v1/principal/grants/{id}/revoke'', [(''POST'', RevokeGrant)]),
      (''/v1/principal/approvals'', [(''GET'', ListPendingApprovals)]),
      (''/v1/principal/approvals/{id}/approve'', [(''POST'', ApproveRequest)]),
      (''/v1/principal/approvals/{id}/deny'', [(''POST'', DenyRequest)]),
      (''/v1/admin/agents'', [(''POST'', CreateAgent), (''GET'', ListAgents)]),
      (''/v1/admin/agents/{id}'', [(''GET'', GetAgent)]),
      (''/v1/admin/principals'', [(''POST'', CreatePrincipal)]),
      (''/v1/admin/resources'', [(''POST'', CreateResource), (''GET'', ListResources)]),
      (''/v1/admin/policies'', [(''POST'', CreatePolicy), (''GET'', ListPolicies)]),
      (''/v1/admin/audit'', [(''GET'', ListAudit)]),
      (''/v1/admin/tokens/{jti}/revoke'', [(''POST'', RevokeTokenById)]),
      (''/v1/vault/credentials'', [(''POST'', StoreCredential), (''GET'', ListVaultCredentials)]),
      (''/v1/vault/vend'', [(''POST'', VendCredential)]),
      (''/v1/vault/generate-key'', [(''POST'', GenerateVaultKey)]),
      (''/v1/sessions'', [(''GET'', ListSessions)]),
      (''/v1/sessions/{id}/kill'', [(''POST'', KillSessionById)]),
      (''/v1/admin/agents/{id}/kill'', [(''POST'', KillAgentById)]),
      (''/v1/admin/agents/{id}/restore'', [(''POST'', RestoreAgentById)]),
      (''/v1/admin/agents/{id}/spend'', [(''POST'', RecordSpendOf)]),
      (''/v1/admin/agents/{id}/client-key'', [(''POST'', ProvisionClientKey)]),
      (''/v1/idp/authorize/{provider}'', [(''GET'', IdpAuthorize)]),
      (''/v1/idp/callback'', [(''GET'', IdpCallback)]),
      (''/v1/idp/userinfo'', [(''POST'', IdpUserinfo)]),
      (''/v1/idp/providers'', [(''GET'', ListIdpProviders)])]"

section \<open>Requests and responses\<close>

record web_request =
  wr_method :: string
  wr_head :: http_request
  wr_query :: string
  wr_content_type :: "string option"
  wr_body :: string

text \<open>The body of a response before it is printed; \<open>Rejected\<close> is the framework's own answer.\<close>

datatype reply =
    Page
  | JsonBody json
  | TextBody string
  | AccessBody access_response
  | DelegateBody delegate_response
  | ApprovalBody approval_request
  | ApprovalsBody "approval_request list"
  | AgentBody agent
  | AgentsBody "agent list"
  | PrincipalBody principal
  | ResourceBody resource
  | ResourcesBody "resource list"
  | AuditBody "audit_entry list"
  | VendedBody vend_credential_response
  | UserInfoBody idp_user_info
  | ErrorBody string
  | Rejected string

type_synonym response = "nat \<times> reply"

type_synonym 'a extractor = "web_request \<Rightarrow> (nat \<times> string) + 'a"

datatype routed = NoRoute | WrongMethod string | Routed string handler_name "string list"

record web =
  w_route :: "route_table \<Rightarrow> string \<Rightarrow> string \<Rightarrow> routed"
  w_path_uuid :: "string list \<Rightarrow> (nat \<times> string) + uuid"
  w_path_text :: "string list \<Rightarrow> (nat \<times> string) + string"
  w_callback_query :: "idp_callback_query extractor"
  w_access :: "access_request extractor"
  w_delegate :: "delegate_request extractor"
  w_principal_delegate :: "principal_delegate_request extractor"
  w_cascade :: "bool extractor"
  w_approve :: "approve_body extractor"
  w_agent :: "create_agent_request extractor"
  w_principal :: "create_principal_request extractor"
  w_resource :: "create_resource_request extractor"
  w_policy :: "create_policy_request extractor"
  w_store :: "store_credential_request extractor"
  w_vend :: "vend_credential_body extractor"
  w_spend :: "record_spend_request extractor"
  w_userinfo :: "idp_userinfo_request extractor"
  w_origin_ok :: "string \<Rightarrow> bool"
  w_cors :: "string list option \<Rightarrow> web_request \<Rightarrow> response option"
  w_render :: "metrics \<Rightarrow> string"

text \<open>
  A path that reaches a handler belongs to a template of the table, under a method that leads to the
  handler: it is the template, or shares its text up to the first parameter.
\<close>

definition fits :: "string \<Rightarrow> string \<Rightarrow> bool" where
  "fits template path \<longleftrightarrow>
     (if CHR ''{'' \<in> set template then starts_with path (takeWhile (\<lambda>c. c \<noteq> CHR ''{'') template)
      else path = template)"

definition router_ok :: "web \<Rightarrow> bool" where
  "router_ok W \<longleftrightarrow> (\<forall>table verb path t h ps. w_route W table verb path = Routed t h ps \<longrightarrow>
     (\<exists>ms verb'. (t, ms) \<in> set table \<and> (verb', h) \<in> set ms \<and> fits t path))"

section \<open>Running a handler\<close>

type_synonym responder = "(app_state, string, response) act"

text \<open>A result is turned into a response; only a panic leaves the request without one.\<close>

definition respond :: "('a \<Rightarrow> response) \<Rightarrow> 'a handler \<Rightarrow> responder" where
  "respond f m = (\<lambda>s. case m s of
     (Inr x, s') \<Rightarrow> (Inr (f x), s')
   | (Inl (Err e), s') \<Rightarrow> (Inr (case into_response e of (status, msg) \<Rightarrow> (status, ErrorBody msg)), s')
   | (Inl (Panic p), s') \<Rightarrow> (Inl p, s'))"

definition ok_with :: "('a \<Rightarrow> reply) \<Rightarrow> 'a handler \<Rightarrow> responder" where
  "ok_with f m = respond (\<lambda>x. (200, f x)) m"

definition extracting :: "(nat \<times> string) + 'a \<Rightarrow> ('a \<Rightarrow> responder) \<Rightarrow> responder" where
  "extracting r k = (case r of Inl (status, msg) \<Rightarrow> ret (status, Rejected msg) | Inr x \<Rightarrow> k x)"

primrec dispatch ::
    "web \<Rightarrow> ext \<Rightarrow> env \<Rightarrow> uuid option \<Rightarrow> web_request \<Rightarrow> string list \<Rightarrow> handler_name \<Rightarrow> responder" where
  "dispatch W X E who req ps Dashboard = ret (200, Page)"
| "dispatch W X E who req ps Health = respond (\<lambda>(status, j). (status, JsonBody j)) health"
| "dispatch W X E who req ps HealthReady = respond (\<lambda>(status, j). (status, JsonBody j)) (health_ready E)"
| "dispatch W X E who req ps PrometheusMetrics = ok_with TextBody (prometheus_metrics X E (w_render W))"
| "dispatch W X E who req ps Jwks = ok_with JsonBody (jwks X)"
| "dispatch W X E who req ps RequestAccess =
     extracting (w_access W req) (\<lambda>body. ok_with AccessBody (request_access X E who body))"
| "dispatch W X E who req ps CheckAccess =
     extracting (w_access W req) (\<lambda>body. ok_with JsonBody (check_access X E who body))"
| "dispatch W X E who req ps Delegate =
     extracting (w_delegate W req) (\<lambda>body. ok_with DelegateBody (delegate X E who body))"
| "dispatch W X E who req ps ApprovalStatus =
     extracting (w_path_uuid W ps) (\<lambda>i. ok_with ApprovalBody (approval_status_route X E who i))"
| "dispatch W X E who req ps PrincipalDelegate =
     extracting (w_principal_delegate W req) (\<lambda>body. ok_with JsonBody (principal_delegate X E body))"
| "dispatch W X E who req ps ListPrincipalGrants = ok_with JsonBody (list_principal_grants X E)"
| "dispatch W X E who req ps RevokeGrant =
     extracting (w_path_uuid W ps) (\<lambda>i. extracting (w_cascade W req) (\<lambda>cascade.
       ok_with JsonBody (revoke_grant_route X E i cascade)))"
| "dispatch W X E who req ps ListPendingApprovals = ok_with ApprovalsBody (list_pending_approvals_route X E)"
| "dispatch W X E who req ps ApproveRequest =
     extracting (w_path_uuid W ps) (\<lambda>i. extracting (w_approve W req) (\<lambda>body.
       ok_with ApprovalBody (approve_request X E i body)))"
| "dispatch W X E who req ps DenyRequest =
     extracting (w_path_uuid W ps) (\<lambda>i. extracting (w_approve W req) (\<lambda>body.
       ok_with ApprovalBody (deny_request X E i body)))"
| "dispatch W X E who req ps CreateAgent =
     extracting (w_agent W req) (\<lambda>body. ok_with AgentBody (create_agent_route X E body))"
| "dispatch W X E who req ps ListAgents = ok_with AgentsBody (list_agents_route X E)"
| "dispatch W X E who req ps GetAgent =
     extracting (w_path_uuid W ps) (\<lambda>i. ok_with AgentBody (get_agent_route X E i))"
| "dispatch W X E who req ps CreatePrincipal =
     extracting (w_principal W req) (\<lambda>body. ok_with PrincipalBody (create_principal_route X E body))"
| "dispatch W X E who req ps CreateResource =
     extracting (w_resource W req) (\<lambda>body. ok_with ResourceBody (create_resource_route X E body))"
| "dispatch W X E who req ps ListResources = ok_with ResourcesBody (list_resources_route X E)"
| "dispatch W X E who req ps CreatePolicy =
     extracting (w_policy W req) (\<lambda>body. ok_with JsonBody (create_policy_route X E body))"
| "dispatch W X E who req ps ListPolicies = ok_with JsonBody (list_policies_route X E)"
| "dispatch W X E who req ps ListAudit = ok_with AuditBody (list_audit X E)"
| "dispatch W X E who req ps RevokeTokenById =
     extracting (w_path_text W ps) (\<lambda>jti. ok_with JsonBody (revoke_token_route E jti))"
| "dispatch W X E who req ps StoreCredential =
     extracting (w_store W req) (\<lambda>body. ok_with JsonBody (store_credential X E body))"
| "dispatch W X E who req ps ListVaultCredentials = ok_with JsonBody list_vault_credentials"
| "dispatch W X E who req ps VendCredential =
     extracting (w_vend W req) (\<lambda>body. ok_with VendedBody (vend_credential X E body))"
| "dispatch W X E who req ps GenerateVaultKey = ok_with JsonBody (generate_vault_key_route E)"
| "dispatch W X E who req ps ListSessions = ok_with JsonBody (list_sessions_route X)"
| "dispatch W X E who req ps KillSessionById =
     extracting (w_path_text W ps) (\<lambda>sid. ok_with JsonBody (kill_session_route sid))"
| "dispatch W X E who req ps KillAgentById =
     extracting (w_path_uuid W ps) (\<lambda>i. ok_with JsonBody (kill_agent_route X E i))"
| "dispatch W X E who req ps RestoreAgentById =
     extracting (w_path_uuid W ps) (\<lambda>i. ok_with JsonBody (restore_agent_route X i))"
| "dispatch W X E who req ps RecordSpendOf =
     extracting (w_path_uuid W ps) (\<lambda>i. extracting (w_spend W req) (\<lambda>body.
       ok_with JsonBody (record_spend_route X i body)))"
| "dispatch W X E who req ps ProvisionClientKey =
     extracting (w_path_uuid W ps) (\<lambda>i. ok_with JsonBody (provision_client_key X E i))"
| "dispatch W X E who req ps IdpAuthorize =
     extracting (w_path_text W ps) (\<lambda>name. ok_with JsonBody (idp_authorize X E name))"
| "dispatch W X E who req ps IdpCallback =
     extracting (w_callback_query W req) (\<lambda>q. ok_with JsonBody (idp_callback X E q))"
| "dispatch W X E who req ps IdpUserinfo =
     extracting (w_userinfo W req) (\<lambda>body. ok_with UserInfoBody (idp_userinfo E body))"
| "dispatch W X E who req ps ListIdpProviders = ok_with JsonBody list_idp_providers"

section \<open>The layers\<close>

definition route :: "web \<Rightarrow> web_request \<Rightarrow> routed" where
  "route W req = w_route W all_routes (wr_method req) (hr_path (wr_head req))"

definition run_route :: "web \<Rightarrow> ext \<Rightarrow> env \<Rightarrow> uuid option \<Rightarrow> web_request \<Rightarrow> responder" where
  "run_route W X E who req =
     (case route W req of
        NoRoute \<Rightarrow> ret (404, Rejected [])
      | WrongMethod _ \<Rightarrow> ret (405, Rejected [])
      | Routed _ h ps \<Rightarrow> dispatch W X E who req ps h)"

text \<open>\<open>now\<close> is the clock when the middleware looks the agent up.\<close>

definition with_auth :: "web \<Rightarrow> ext \<Rightarrow> env \<Rightarrow> time \<Rightarrow> web_request \<Rightarrow> responder" where
  "with_auth W X E now req = (\<lambda>s.
     case auth_middleware X E now (st_auth s) (wr_head req) (st_db s) of
       Inl msg \<Rightarrow> (Inr (401, ErrorBody msg), s)
     | Inr who \<Rightarrow> run_route W X E who req s)"

definition path_label :: "web \<Rightarrow> web_request \<Rightarrow> string" where
  "path_label W req =
     (case route W req of
        NoRoute \<Rightarrow> hr_path (wr_head req)
      | WrongMethod t \<Rightarrow> t
      | Routed t _ _ \<Rightarrow> t)"

text \<open>\<open>elapsed\<close> is the measured time; a panic passes through unmeasured.\<close>

definition metrics_latency_middleware :: "web \<Rightarrow> f64 \<Rightarrow> web_request \<Rightarrow> responder \<Rightarrow> responder" where
  "metrics_latency_middleware W elapsed req inner =
     and_then inner (\<lambda>r.
     and_then (modify (\<lambda>s. s\<lparr> st_metrics :=
         observe_duration (wr_method req) (path_label W req) elapsed (st_metrics s) \<rparr>)) (\<lambda>_.
       ret r))"

definition cors_origins :: "web \<Rightarrow> config \<Rightarrow> string list option" where
  "cors_origins W cfg =
     (case cs_cors_allowed_origins (cf_server cfg) of
        [] \<Rightarrow> None
      | origins \<Rightarrow> Some (filter (w_origin_ok W) origins))"

text \<open>The router with its layers, the outermost first: what the server does with a request.\<close>

definition serve :: "web \<Rightarrow> ext \<Rightarrow> env \<Rightarrow> time \<Rightarrow> f64 \<Rightarrow> web_request \<Rightarrow> responder" where
  "serve W X E now elapsed req = (\<lambda>s.
     case w_cors W (cors_origins W (st_config s)) req of
       Some answer \<Rightarrow> (Inr answer, s)
     | None \<Rightarrow> metrics_latency_middleware W elapsed req (with_auth W X E now req) s)"

section \<open>Start-up\<close>

definition run ::
    "ext \<Rightarrow> env \<Rightarrow> bool \<Rightarrow> string option \<Rightarrow> string option \<Rightarrow> config \<Rightarrow> db option \<Rightarrow> files \<Rightarrow> string + app_state" where
  "run X E debug_build dev_var admin_var cfg file fs =
     (case ensure_startable (auth_from_env admin_var) dev_var (\<not> debug_build) of
        Inl msg \<Rightarrow> Inl msg
      | Inr _ \<Rightarrow>
          (case new_app X E debug_build dev_var admin_var cfg file fs of
             Inl f \<Rightarrow> Inl (fail_text f)
           | Inr s \<Rightarrow> Inr s))"

end
