(* ===== verification/App_Steps.thy ===== *)
theory App_Steps
  imports Server
begin

text \<open>
  The shared state as an abstract machine. Its steps are the operations of the components: of the
  session store, of the tables, of the verifier and of the remaining parts. Every request, whatever
  handler it reaches and however it ends, acts on the state as a sequence of these steps; what the
  steps keep or never undo, no request can break.
\<close>

section \<open>The steps\<close>

datatype db_op =
    TokenOp token_op
  | PolicyOp policy_op
  | ApprovalOp approval_op
  | AuditOp env time create_audit_entry
  | CreateGrantOp env time uuid uuid uuid "uuid option" "string list" "json option" time
  | RevokeGrantOp env "string \<Rightarrow> time" uuid
  | CreateAgentOp env time uuid create_agent_request
  | SetKeyOp env time uuid string
  | CreatePrincipalOp env time uuid create_principal_request
  | CreateResourceOp env time uuid create_resource_request
  | StoreCredentialOp env time uuid uuid string string string string "string list" "time option"

primrec db_step :: "ext \<Rightarrow> db_op \<Rightarrow> db \<Rightarrow> db" where
  "db_step X (TokenOp op) d = token_step X op d"
| "db_step X (PolicyOp op) d = policy_step X op d"
| "db_step X (ApprovalOp op) d = approval_step X op d"
| "db_step X (AuditOp E now entry) d = audit_step X (E, now, entry) d"
| "db_step X (CreateGrantOp E now u agent pid parent scopes constraints expires) d =
     snd (create_grant X E now u agent pid parent scopes constraints expires d)"
| "db_step X (RevokeGrantOp E clock i) d = snd (revoke_grant X E clock i d)"
| "db_step X (CreateAgentOp E now u req) d = snd (create_agent X E now u req d)"
| "db_step X (SetKeyOp E now i h) d = snd (set_agent_client_key_hash X E now i h d)"
| "db_step X (CreatePrincipalOp E now u req) d = snd (create_principal X E now u req d)"
| "db_step X (CreateResourceOp E now u req) d = snd (create_resource X E now u req d)"
| "db_step X (StoreCredentialOp E now u pid provider enc nonce kid scopes expires) d =
     snd (store_vault_credential X E now u pid provider enc nonce kid scopes expires d)"

datatype app_op =
    SessionOp store_op
  | DbOp db_op
  | RevokeJti string
  | SetMetrics metrics
  | SetEngine yaml_engine
  | LoginOp pkce_op
  | SetFiles files

primrec app_step :: "ext \<Rightarrow> app_op \<Rightarrow> app_state \<Rightarrow> app_state" where
  "app_step X (SessionOp op) s = s\<lparr> st_session_store := store_step op (st_session_store s) \<rparr>"
| "app_step X (DbOp op) s = s\<lparr> st_db := db_step X op (st_db s) \<rparr>"
| "app_step X (RevokeJti jti) s = s\<lparr> st_token_verifier := revoke jti (st_token_verifier s) \<rparr>"
| "app_step X (SetMetrics m) s = s\<lparr> st_metrics := m \<rparr>"
| "app_step X (SetEngine eng) s = s\<lparr> st_policy_engine := eng \<rparr>"
| "app_step X (LoginOp op) s = s\<lparr> st_pkce_store := pkce_step op (st_pkce_store s) \<rparr>"
| "app_step X (SetFiles fs) s = s\<lparr> st_files := fs \<rparr>"

text \<open>
  What a request may do: lift the stop of no agent but the one it restores, append only audit entries
  whose delegation chain can be stored, with a time it read, begin a login only under the state value it
  generated, and install only an engine that reads the session store.
\<close>

fun permitted :: "ext \<Rightarrow> env \<Rightarrow> uuid option \<Rightarrow> app_op \<Rightarrow> bool" where
  "permitted X E restored (SessionOp (LiftStop a)) \<longleftrightarrow> restored = Some a"
| "permitted X E restored (DbOp (AuditOp E' now entry)) \<longleftrightarrow>
     E' = E \<and> (\<exists>k. now = e_now E k) \<and> (chains_rt X \<longrightarrow> pred_option (json_rt X) (cae_delegation_chain entry))"
| "permitted X E restored (SetEngine eng) \<longleftrightarrow> ye_session_store eng"
| "permitted X E restored (LoginOp (PkceInsert now state name v)) \<longleftrightarrow> state = generate_state X (e_random E 0)"
| "permitted X E restored op \<longleftrightarrow> True"

section \<open>Transformers as sequences of steps\<close>

definition via :: "ext \<Rightarrow> (app_op \<Rightarrow> bool) \<Rightarrow> (app_state, 'e, 'a) act \<Rightarrow> bool" where
  "via X ok m \<longleftrightarrow> (\<forall>s. \<exists>ops. list_all ok ops \<and> snd (m s) = fold (app_step X) ops s)"

lemma viaI_none: "(\<And>s. snd (m s) = s) \<Longrightarrow> via X ok m"
  unfolding via_def by (intro allI exI [of _ "[]"]) simp

lemma viaI_one: "(\<And>s. \<exists>op. ok op \<and> snd (m s) = app_step X op s) \<Longrightarrow> via X ok m"
  unfolding via_def
proof
  fix s
  assume "\<And>s. \<exists>op. ok op \<and> snd (m s) = app_step X op s"
  then obtain op where "ok op" "snd (m s) = app_step X op s" by blast
  then show "\<exists>ops. list_all ok ops \<and> snd (m s) = fold (app_step X) ops s"
    by (intro exI [of _ "[op]"]) simp
qed

lemma via_of_step: "(\<And>s. ok (op s) \<and> snd (m s) = app_step X (op s) s) \<Longrightarrow> via X ok m"
  by (rule viaI_one) blast

lemma via_ret [intro]: "via X ok (ret x)"
  by (rule viaI_none) (simp add: act_simps)

lemma via_throw [intro]: "via X ok (throw e)"
  by (rule viaI_none) (simp add: act_simps)

lemma via_of_result [intro]: "via X ok (of_result r)"
  by (rule viaI_none) (simp add: act_simps)

lemma via_reads [intro]: "via X ok (reads f)" "via X ok (reads_result g)"
  by (rule viaI_none, simp add: act_simps)+

lemma via_and_then_result:
  assumes "via X ok m" and "\<And>x s s'. m s = (Inr x, s') \<Longrightarrow> via X ok (f x)"
  shows "via X ok (and_then m f)"
  unfolding via_def
proof
  fix s
  from assms(1) obtain ops where ops: "list_all ok ops" "snd (m s) = fold (app_step X) ops s"
    unfolding via_def by blast
  obtain r s1 where m: "m s = (r, s1)" by (cases "m s")
  show "\<exists>ops. list_all ok ops \<and> snd (and_then m f s) = fold (app_step X) ops s"
  proof (cases r)
    case (Inl e)
    with m ops show ?thesis by (auto simp: act_simps)
  next
    case (Inr x)
    with assms(2) m obtain ops' where "list_all ok ops'" "snd (f x s1) = fold (app_step X) ops' s1"
      unfolding via_def by blast
    with ops m Inr show ?thesis
      by (intro exI [of _ "ops @ ops'"]) (simp add: act_simps)
  qed
qed

lemma via_and_then [intro]: "via X ok m \<Longrightarrow> (\<And>x. via X ok (f x)) \<Longrightarrow> via X ok (and_then m f)"
  by (rule via_and_then_result)

lemma via_same_state: "via X ok m \<Longrightarrow> (\<And>s. snd (m' s) = snd (m s)) \<Longrightarrow> via X ok m'"
  by (simp add: via_def)

lemma via_ok_of [intro]: "via X ok m \<Longrightarrow> via X ok (ok_of m)"
  by (erule via_same_state) (simp add: ok_of_def split: prod.split sum.split)

lemma via_catching [intro]: "via X ok m \<Longrightarrow> via X ok (catching m)"
  by (erule via_same_state) (simp add: catching_def split: prod.split sum.split fail.split)

lemma via_as_config_error [intro]: "via X ok m \<Longrightarrow> via X ok (as_config_error m)"
  by (erule via_same_state) (simp add: as_config_error_def split: prod.split sum.split fail.split)

lemma via_respond [intro]: "via X ok m \<Longrightarrow> via X ok (respond f m)"
  by (erule via_same_state) (simp add: respond_def split: prod.split sum.split fail.split)

lemma via_ok_with [intro]: "via X ok m \<Longrightarrow> via X ok (ok_with f m)"
  by (simp add: ok_with_def via_respond)

lemma via_extracting [intro]: "(\<And>x. r = Inr x \<Longrightarrow> via X ok (k x)) \<Longrightarrow> via X ok (extracting r k)"
  by (auto simp: extracting_def split: sum.split)

lemma via_if [intro]: "(b \<Longrightarrow> via X ok m) \<Longrightarrow> (\<not> b \<Longrightarrow> via X ok m') \<Longrightarrow> via X ok (if b then m else m')"
  by simp

lemma via_db:
  assumes "\<And>d. snd (f d) = db_step X op d" and "ok (DbOp op)"
  shows "via X ok (on_db f)"
  using assms by (intro viaI_one exI [of _ "DbOp op"]) simp

lemma via_db_read [intro]: "via X ok (on_db (spawn_read E call f))"
  by (rule viaI_none) simp

lemma via_sessions:
  assumes "\<And>st. snd (f st) = store_step op st" and "ok (SessionOp op)"
  shows "via X ok (on_sessions f)"
  using assms by (intro viaI_one exI [of _ "SessionOp op"]) (simp add: act_simps split: prod.split, metis snd_conv)

lemma via_change_sessions:
  assumes "\<And>st. f st = store_step op st" and "ok (SessionOp op)"
  shows "via X ok (change_sessions f)"
  using assms by (intro viaI_one exI [of _ "SessionOp op"]) (simp add: act_simps)

lemma via_parts [intro]:
  assumes "\<And>m. ok (SetMetrics m)" and "\<And>fs. ok (SetFiles fs)"
  shows "via X ok (change_metrics g)" and "via X ok (on_files k)"
  by (rule via_of_step [where op = "\<lambda>s. SetMetrics (g (st_metrics s))"],
      simp add: assms act_simps)
    (rule via_of_step [where op = "\<lambda>s. SetFiles (snd (k (st_files s)))"],
      simp add: assms act_simps split_beta)

lemma via_pkce:
  assumes "\<And>p. snd (h p) = pkce_step op p" and "ok (LoginOp op)"
  shows "via X ok (on_pkce h)"
  using assms by (intro viaI_one exI [of _ "LoginOp op"]) (simp add: act_simps split_beta)

section \<open>The database operations of the handlers\<close>

lemma permitted_simps [simp]:
  "permitted X E r (SessionOp op) \<longleftrightarrow> (case op of LiftStop a \<Rightarrow> r = Some a | _ \<Rightarrow> True)"
  "permitted X E r (RevokeJti jti)" "permitted X E r (SetMetrics m)" "permitted X E r (SetFiles fs)"
  "permitted X E r (LoginOp (PkceConsume now state))"
  by (cases op; simp)+

lemma permitted_db [simp]: "(\<And>E' now entry. op \<noteq> AuditOp E' now entry) \<Longrightarrow> permitted X E r (DbOp op)"
  by (cases op) auto

lemmas db_ops_via =
  via_db [where op = "TokenOp (RecordToken E now jti grant agent scopes audience expires)"
    for E now jti grant agent scopes audience expires]
  via_db [where op = "TokenOp (RevokeToken E jti)" for E jti]
  via_db [where op = "TokenOp (RevokeAgentTokens E agent)" for E agent]
  via_db [where op = "PolicyOp (policy_op.CreatePolicy E now u name engine yaml)" for E now u name engine yaml]
  via_db [where op = "ApprovalOp (CreateApproval E now u agent pid resource action scopes ttl)"
    for E now u agent pid resource action scopes ttl]
  via_db [where op = "ApprovalOp (ResolveApproval E now u i approver approved reason)"
    for E now u i approver approved reason]
  via_db [where op = "CreateGrantOp E now u agent pid parent scopes constraints expires"
    for E now u agent pid parent scopes constraints expires]
  via_db [where op = "RevokeGrantOp E clock i" for E clock i]
  via_db [where op = "CreateAgentOp E now u req" for E now u req]
  via_db [where op = "SetKeyOp E now i h" for E now i h]
  via_db [where op = "CreatePrincipalOp E now u req" for E now u req]
  via_db [where op = "CreateResourceOp E now u req" for E now u req]
  via_db [where op = "StoreCredentialOp E now u pid provider enc nonce kid scopes expires"
    for E now u pid provider enc nonce kid scopes expires]

lemma via_writes [intro]:
  "via X (permitted X E r) (on_db (record_token X E' now jti grant agent scopes audience expires))"
  "via X (permitted X E r) (on_db (revoke_token E' jti))"
  "via X (permitted X E r) (on_db (revoke_agent_tokens X E' agent))"
  "via X (permitted X E r) (on_db (create_policy X E' now u name engine yaml))"
  "via X (permitted X E r) (on_db (create_approval_request X E' now u agent pid resource action scopes ttl))"
  "via X (permitted X E r) (on_db (resolve_approval_request X E' now u i approver approved reason))"
  "via X (permitted X E r) (on_db (create_grant X E' now u agent owner parent scopes constraints expires))"
  "via X (permitted X E r) (on_db (revoke_grant X E' clock i))"
  "via X (permitted X E r) (on_db (create_agent X E' now u car))"
  "via X (permitted X E r) (on_db (set_agent_client_key_hash X E' now i h))"
  "via X (permitted X E r) (on_db (create_principal X E' now u cpr))"
  "via X (permitted X E r) (on_db (create_resource X E' now u crr))"
  "via X (permitted X E r) (on_db (store_vault_credential X E' now u owner provider enc nonce kid scopes vexpires))"
  by (rule db_ops_via; simp)+

lemma via_reads_db [intro]:
  "via X ok (on_db (get_agent X E now i))" "via X ok (on_db (get_principal X E now i))"
  "via X ok (on_db (find_resource_by_uri X E uri))" "via X ok (on_db (get_approval_request X E now i))"
  "via X ok (on_db (list_all_grants X E now))" "via X ok (on_db (list_pending_approvals X E now))"
  "via X ok (on_db (list_agents X E now))" "via X ok (on_db (list_resources X E now))"
  "via X ok (on_db (list_policies X E))" "via X ok (on_db (list_audit_entries X E now limit))"
  "via X ok (on_db (get_vault_credential X E now pid provider))" "via X ok (on_db (load_active_policy_yaml E))"
  "via X ok (on_db (health_check E))"
  unfolding get_agent_def get_principal_def find_resource_by_uri_def get_approval_request_def list_all_grants_def
    list_pending_approvals_def list_agents_def list_resources_def list_policies_def list_audit_entries_def
    get_vault_credential_def load_active_policy_yaml_def health_check_def
  by (rule via_db_read)+

lemma via_audit:
  "(chains_rt X \<Longrightarrow> pred_option (json_rt X) (cae_delegation_chain entry)) \<Longrightarrow>
     via X (permitted X E r) (on_db (create_audit_entry X E (e_now E k) entry))"
  by (rule via_db [where op = "AuditOp E (e_now E k) entry"]) (auto simp: audit_step_def)

section \<open>The handlers\<close>

lemma evaluate_store:
  "snd (evaluate X eng now ctx st) = st \<or> (\<exists>key limit. snd (evaluate X eng now ctx st) = snd (check_rate_limit now key limit st))"
  by (auto simp: evaluate_find rule_rate_limit_def split: option.splits prod.splits bool.splits sum.splits)
    (metis snd_conv)+

lemma via_eval_engine [intro]: "via X (permitted X E r) (eval_engine X now ctx)"
  unfolding via_def
proof
  fix s
  have step: "snd (eval_engine X now ctx s) =
      s\<lparr> st_session_store := snd (evaluate X (st_policy_engine s) now ctx (st_session_store s)) \<rparr>"
    by (simp add: act_simps split: prod.split)
  show "\<exists>ops. list_all (permitted X E r) ops \<and> snd (eval_engine X now ctx s) = fold (app_step X) ops s"
    using evaluate_store [of X "st_policy_engine s" now ctx "st_session_store s"]
  proof
    assume "snd (evaluate X (st_policy_engine s) now ctx (st_session_store s)) = st_session_store s"
    with step show ?thesis by (intro exI [of _ "[]"]) simp
  next
    assume "\<exists>key limit. snd (evaluate X (st_policy_engine s) now ctx (st_session_store s)) =
      snd (check_rate_limit now key limit (st_session_store s))"
    then obtain key limit where "snd (evaluate X (st_policy_engine s) now ctx (st_session_store s)) =
      store_step (CheckRateLimit now key limit) (st_session_store s)" by auto
    with step show ?thesis by (intro exI [of _ "[SessionOp (CheckRateLimit now key limit)]"]) simp
  qed
qed

lemma via_session_ops [intro]:
  "via X (permitted X E r) (on_sessions (get_or_create_session now sid a p))"
  "via X (permitted X E r) (on_sessions (kill_session sid))"
  "via X (permitted X E r) (change_sessions (store_record_action now sid ev))"
  "via X (permitted X E r) (change_sessions (store_record_spend sid amount))"
  "via X (permitted X E r) (change_sessions (kill_agent a))"
  by (rule via_sessions [where op = "GetOrCreate now sid a p"] via_sessions [where op = "KillSession sid"]
      via_change_sessions [where op = "RecordAction now sid ev"] via_change_sessions [where op = "RecordSpend sid amount"]
      via_change_sessions [where op = "KillAgent a"]; simp)+

lemma via_restore: "via X (permitted X E (Some a)) (change_sessions (restore_agent a))"
  unfolding via_def
proof
  fix s
  show "\<exists>ops. list_all (permitted X E (Some a)) ops \<and> snd (change_sessions (restore_agent a) s) = fold (app_step X) ops s"
    by (intro exI [of _ "[SessionOp (LiftStop a), SessionOp (UnmarkSessions a)]"]) (simp add: act_simps restore_agent_def)
qed

lemma via_revoke_jti [intro]:
  "via X (permitted X E r) (modify (\<lambda>s. s\<lparr> st_token_verifier := revoke jti (st_token_verifier s) \<rparr>))"
  by (rule via_of_step [where op = "\<lambda>_. RevokeJti jti"]) (simp add: act_simps)

lemma build_engine_sessions: "build_engine X E cfg d = (Inr eng, d') \<Longrightarrow> ye_session_store eng"
  by (auto simp: build_engine_def act_simps create_engine_with_sessions_def with_session_store_def
      split: sum.splits prod.splits if_splits)

lemma via_reload_policy [intro]: "via X (permitted X E r) (reload_policy X E')"
  unfolding reload_policy_def
proof (rule via_and_then [OF via_reads(1)], rule via_and_then_result)
  fix cfg
  show "via X (permitted X E r) (on_db (build_engine X E' cfg))"
    by (rule viaI_none) (simp add: build_engine_def act_simps load_active_policy_yaml_def split: option.split sum.split)
  fix eng :: yaml_engine and s s'
  assume "on_db (build_engine X E' cfg) s = (Inr eng, s')"
  then have "ye_session_store eng" by (auto simp: act_simps dest: build_engine_sessions split: prod.splits)
  then show "via X (permitted X E r) (modify (\<lambda>s. s\<lparr> st_policy_engine := eng \<rparr>))"
    by (intro via_of_step [where op = "\<lambda>_. SetEngine eng"]) (simp add: act_simps)
qed

lemma via_owner_of [intro]: "via X ok (owner_of X E now a)"
  by (rule viaI_none) simp

lemma via_request_principal [intro]: "via X ok (request_principal X E req a)"
  by (rule viaI_none) simp

lemma via_check_own_agent [intro]: "via X ok (check_own_agent auth agent)"
  by (rule viaI_none) (simp add: act_simps split: option.split)

lemma via_case_decision [intro]:
  "via X ok m1 \<Longrightarrow> via X ok m2 \<Longrightarrow> (\<And>a b. via X ok (m3 a b)) \<Longrightarrow>
     via X ok (case d of Allow \<Rightarrow> m1 | Deny \<Rightarrow> m2 | RequireApproval a b \<Rightarrow> m3 a b)"
  by (simp split: decision.split)

lemma via_case_option [intro]:
  "via X ok m \<Longrightarrow> (\<And>a. via X ok (k a)) \<Longrightarrow> via X ok (case x of None \<Rightarrow> m | Some a \<Rightarrow> k a)"
  by (simp split: option.split)

lemma via_case_prod [intro]: "(\<And>a b. via X ok (k a b)) \<Longrightarrow> via X ok (case x of (a, b) \<Rightarrow> k a b)"
  by (simp split: prod.split)

lemma via_metrics [intro]: "via X (permitted X E r) (change_metrics g)"
  and via_files [intro]: "via X (permitted X E r) (on_files k)"
  by (rule via_parts; simp)+

lemma via_logins [intro]:
  "via X (permitted X E r) (on_pkce (\<lambda>p. ((), pkce_insert now (generate_state X (e_random E 0)) name v p)))"
  "via X (permitted X E r) (on_pkce (pkce_consume now state))"
  by (rule via_pkce [where op = "PkceInsert now (generate_state X (e_random E 0)) name v"]
      via_pkce [where op = "PkceConsume now state"]; simp)+

lemma via_carry_out [intro]: "via X (permitted X E r) (carry_out X E req a p ev)"
  unfolding carry_out_def issue_access_token_def open_approval_def Let_def by fast

lemma via_decide_access:
  assumes "chains_rt X \<Longrightarrow> pred_option (json_rt X) (map_option chain_json chain)"
  shows "via X (permitted X E r) (decide_access X E req a p chain sid tr)"
  using assms unfolding decide_access_def
  by (intro via_and_then via_eval_engine via_metrics via_carry_out via_session_ops via_audit via_ret)
    (simp add: access_audit_def)

lemma via_request_access: "via X (permitted X E r) (request_access X E auth req)"
  unfolding request_access_def Let_def
proof (rule via_and_then [OF via_check_own_agent], rule via_and_then [OF via_reads_db(1)],
    rule via_and_then_result [OF via_request_principal])
  fix a pc s s'
  assume "request_principal X E req a s = (Inr pc, s')"
  then show "via X (permitted X E r) ((\<lambda>(p, chain).
      and_then (on_sessions (get_or_create_session (e_now E 4) (request_session_id X req a) (ag_id a) (map_option pr_id p)))
       (\<lambda>session. if ss_killed session then ret (killed_response ''Agent session has been killed by emergency stop'')
         else and_then (reads (\<lambda>s. is_agent_killed (ag_id a) (st_session_store s)))
          (\<lambda>killed. if killed then ret (killed_response ''Agent has been killed by emergency stop'')
            else decide_access X E req a p chain (request_session_id X req a) (ss_trajectory session)))) pc)"
    by (cases pc) (auto intro!: via_and_then via_decide_access via_if dest: request_chain_rt)
qed

lemma via_check_access: "via X (permitted X E r) (check_access X E auth req)"
  unfolding check_access_def
  by (intro via_and_then via_check_own_agent via_reads_db via_owner_of via_reads via_if via_ret via_eval_engine
      via_metrics via_audit) (simp add: check_audit_def)

lemma via_delegate: "via X (permitted X E r) (delegate X E auth req)"
  unfolding delegate_def
proof (rule via_and_then [OF via_of_result], rule via_and_then_result [OF via_reads(2)])
  fix who c s s'
  assume "reads_result (\<lambda>s. verify X (st_token_verifier s) (e_now E 0) (e_now E 1) (dq_parent_grant_token req)
      (Some (agent_urn X who))) s = (Inr c, s')"
  then have "verify X (st_token_verifier s) (e_now E 0) (e_now E 1) (dq_parent_grant_token req) (Some (agent_urn X who)) = Inr c"
    by (auto simp: act_simps)
  then have "chains_rt X \<Longrightarrow> json_rt X (chain_json (delegation_chain c))"
    by (auto simp: chains_rt_def dest: verify_InrD(1))
  then show "via X (permitted X E r) (and_then (of_result (check_scopes (split_whitespace (cl_scope c)) (cl_scope c) (dq_scopes req))) (\<lambda>_.
     and_then (reads st_config) (\<lambda>cfg.
     and_then (of_result (check_depth (cp_max_delegation_depth (cf_policy cfg)) (act_delegation_depth (cl_act c) + 1))) (\<lambda>_.
     and_then (of_result (add_seconds X (e_now E 3) (dq_expires_in_seconds req))) (\<lambda>requested_expiry.
       issue_delegated X E req c cfg (min (parent_expiry X (e_now E 2) c) requested_expiry))))))"
    unfolding issue_delegated_def Let_def
    by (intro via_and_then via_of_result via_reads via_case_prod via_writes via_metrics via_audit via_ret)
      (simp add: delegate_audit_def)
qed

lemma via_principal_delegate: "via X (permitted X E r) (principal_delegate X E req)"
  unfolding principal_delegate_def grant_and_issue_def by fast

lemma via_complete_login: "via X (permitted X E r) (complete_login X E cfg txn code)"
  unfolding complete_login_def Let_def ensure_principal_def apply_group_policy_def
  by (intro via_and_then via_of_result via_reads via_case_option via_writes via_ret via_if via_as_config_error
      via_reload_policy)

lemma via_idp_callback: "via X (permitted X E r) (idp_callback X E q)"
  unfolding idp_callback_def
  by (intro via_and_then via_of_result via_reads via_if via_throw via_logins via_complete_login)

lemma via_vend: "via X (permitted X E r) (vend_credential X E body)"
  unfolding vend_credential_def vault_of_def
  by (intro via_and_then via_of_result via_reads via_reads_db via_ret)

section \<open>Every request is a sequence of steps\<close>

text \<open>The agent whose stop a request lifts: the one its path names, on the restore route.\<close>

definition restored :: "web \<Rightarrow> web_request \<Rightarrow> uuid option" where
  "restored W req =
     (case route W req of
        Routed _ RestoreAgentById ps \<Rightarrow> (case w_path_uuid W ps of Inr a \<Rightarrow> Some a | Inl _ \<Rightarrow> None)
      | _ \<Rightarrow> None)"

lemmas route_defs = health_def health_ready_def prometheus_metrics_def jwks_def approval_status_route_def
  list_principal_grants_def revoke_grant_route_def list_pending_approvals_route_def approve_request_def
  deny_request_def provision_client_key_def create_agent_route_def list_agents_route_def get_agent_route_def
  create_principal_route_def create_resource_route_def list_resources_route_def create_policy_route_def
  list_policies_route_def list_audit_def revoke_token_route_def store_credential_def list_vault_credentials_def
  vault_of_def generate_vault_key_route_def list_sessions_route_def kill_session_route_def kill_agent_route_def
  record_spend_route_def idp_authorize_def idp_userinfo_def list_idp_providers_def

lemmas via_rules = via_extracting via_ok_with via_respond via_and_then via_ret via_throw via_of_result via_reads
  via_ok_of via_catching via_as_config_error via_if via_case_option via_case_prod via_writes via_reads_db
  via_session_ops via_metrics via_logins via_files via_reload_policy via_revoke_jti

lemma via_dispatch_plain:
  assumes "h \<noteq> RestoreAgentById"
  shows "via X (permitted X E r) (dispatch W X E who req ps h)"
proof (cases h)
  case RequestAccess then show ?thesis by (simp add: via_extracting via_ok_with via_request_access) next
  case CheckAccess then show ?thesis by (simp add: via_extracting via_ok_with via_check_access) next
  case Delegate then show ?thesis by (simp add: via_extracting via_ok_with via_delegate) next
  case PrincipalDelegate then show ?thesis by (simp add: via_extracting via_ok_with via_principal_delegate) next
  case IdpCallback then show ?thesis by (simp add: via_extracting via_ok_with via_idp_callback) next
  case VendCredential then show ?thesis by (simp add: via_extracting via_ok_with via_vend) next
  case RestoreAgentById with assms show ?thesis by simp
qed (simp_all only: dispatch.simps route_defs Let_def, (intro via_rules)+)

lemma via_dispatch_restore:
  "w_path_uuid W ps = Inr a \<Longrightarrow> via X (permitted X E (Some a)) (dispatch W X E who req ps RestoreAgentById)"
  by (simp add: extracting_def restore_agent_route_def via_ok_with via_and_then via_restore via_ret)

lemma via_run_route: "via X (permitted X E (restored W req)) (run_route W X E who req)"
proof (cases "route W req")
  case (Routed t h ps)
  show ?thesis
  proof (cases "h = RestoreAgentById")
    case True
    with Routed via_dispatch_restore [of W ps] show ?thesis
      by (cases "w_path_uuid W ps") (auto simp: run_route_def restored_def extracting_def)
  next
    case False
    with Routed via_dispatch_plain [of h] show ?thesis by (simp add: run_route_def)
  qed
qed (auto simp: run_route_def)

lemma via_serve: "via X (permitted X E (restored W req)) (serve W X E now elapsed req)"
proof -
  have auth: "via X (permitted X E (restored W req)) (with_auth W X E now req)"
    unfolding via_def
  proof
    fix s
    show "\<exists>ops. list_all (permitted X E (restored W req)) ops \<and> snd (with_auth W X E now req s) = fold (app_step X) ops s"
    proof (cases "auth_middleware X E now (st_auth s) (wr_head req) (st_db s)")
      case (Inl msg)
      then show ?thesis by (intro exI [of _ "[]"]) (simp add: with_auth_def)
    next
      case (Inr who)
      with via_run_route [of X E W req who] show ?thesis by (simp add: with_auth_def via_def)
    qed
  qed
  have measured: "via X (permitted X E (restored W req)) (metrics_latency_middleware W elapsed req (with_auth W X E now req))"
    unfolding metrics_latency_middleware_def
    by (intro via_and_then auth via_ret via_of_step [where op = "\<lambda>s. SetMetrics (observe_duration (wr_method req)
      (path_label W req) elapsed (st_metrics s))"]) (simp add: act_simps)
  show ?thesis
    unfolding via_def
  proof
    fix s
    show "\<exists>ops. list_all (permitted X E (restored W req)) ops \<and> snd (serve W X E now elapsed req s) = fold (app_step X) ops s"
      using measured unfolding via_def
      by (cases "w_cors W (cors_origins W (st_config s)) req") (simp_all add: serve_def exI [of _ "[]"])
  qed
qed

text \<open>One request as the server sees it.\<close>

record arrival =
  ar_env :: env
  ar_now :: time
  ar_elapsed :: f64
  ar_request :: web_request

definition serve_step :: "web \<Rightarrow> ext \<Rightarrow> arrival \<Rightarrow> app_state \<Rightarrow> app_state" where
  "serve_step W X a s = snd (serve W X (ar_env a) (ar_now a) (ar_elapsed a) (ar_request a) s)"

lemma run_via:
  obtains ops where "fold (serve_step W X) as s = fold (app_step X) ops s"
    and "list_all (\<lambda>op. list_ex (\<lambda>a. permitted X (ar_env a) (restored W (ar_request a)) op) as) ops"
proof -
  have "\<exists>ops. fold (serve_step W X) as s = fold (app_step X) ops s
    \<and> (\<forall>op \<in> set ops. \<exists>a \<in> set as. permitted X (ar_env a) (restored W (ar_request a)) op)"
  proof (induction as arbitrary: s)
    case Nil
    show ?case by (intro exI [of _ "[]"]) simp
  next
    case (Cons a as)
    from via_serve [of X "ar_env a" W "ar_request a" "ar_now a" "ar_elapsed a"] obtain ops where
      ops: "list_all (permitted X (ar_env a) (restored W (ar_request a))) ops"
        "serve_step W X a s = fold (app_step X) ops s"
      unfolding via_def serve_step_def by blast
    from Cons.IH [of "serve_step W X a s"] obtain ops' where
      "fold (serve_step W X) as (serve_step W X a s) = fold (app_step X) ops' (serve_step W X a s)"
      "\<forall>op \<in> set ops'. \<exists>a \<in> set as. permitted X (ar_env a) (restored W (ar_request a)) op" by blast
    with ops show ?case
      by (intro exI [of _ "ops @ ops'"]) (auto simp: list_all_iff)
  qed
  with that show ?thesis unfolding list_all_iff list_ex_iff by blast
qed

text \<open>
  C11: the handlers implement the abstract machine: whatever requests arrive, and however they are
  answered, the state changes by a sequence of operations of its components, among them no lifting of
  an emergency stop unless one of the requests restores that agent, no audit entry whose delegation
  chain cannot be stored, no login under a state value that none of them generated, and no engine that does
  not see the sessions.
\<close>

theorem requests_refine_steps:
  "\<exists>ops. fold (serve_step W X) as s = fold (app_step X) ops s
    \<and> list_all (\<lambda>op. list_ex (\<lambda>a. permitted X (ar_env a) (restored W (ar_request a)) op) as) ops"
  using run_via [of W X as s] by blast

end
