(* ===== verification/Server_Safety.thy ===== *)
theory Server_Safety
  imports App_Steps
begin

text \<open>
  What the whole server guarantees over any sequence of requests: the state stays well formed, nothing
  that was recorded, revoked, resolved or stopped is unmade, and a protected route does nothing without
  its credential.
\<close>

section \<open>Which table an operation touches\<close>

lemma token_step_frame: "token_step X op d = d\<lparr> d_tokens := d_tokens (token_step X op d) \<rparr>"
  by (cases op) (auto simp: record_token_def insert_token_def revoke_token_def revoke_agent_tokens_def act_simps
      Let_def mark_token_def split: option.split sum.split)

lemma insert_policy_frame: "snd (insert_policy X r d) = d\<lparr> d_policies := d_policies (snd (insert_policy X r d)) \<rparr>"
  by (auto simp: insert_policy_def split: sum.split)

lemma policy_step_frame: "policy_step X op d = d\<lparr> d_policies := d_policies (policy_step X op d) \<rparr>"
  by (cases op) (auto simp: create_default_policy_def create_default_policy_sync_def create_policy_def act_simps
      deprecate_active_def insert_policy_def split: option.split sum.split)

lemma approval_step_frame: "approval_step X op d = d\<lparr> d_approvals := d_approvals (approval_step X op d) \<rparr>"
proof (cases op)
  case (CreateApproval E now u agent pid resource action scopes ttl)
  then show ?thesis using create_approval_frame by simp
next
  case (ResolveApproval E now u i approver approved reason)
  then show ?thesis by (simp add: resolve_approval_request_def act_simps Let_def split: option.split)
qed

lemma create_grant_frame:
  "snd (create_grant X E now u agent owner parent scopes constraints expires d) =
     d\<lparr> d_grants := d_grants (snd (create_grant X E now u agent owner parent scopes constraints expires d)) \<rparr>"
  by (auto simp: create_grant_def insert_grant_def act_simps split: option.split sum.split)

lemma create_agent_frame:
  "snd (create_agent X E now u req d) = d\<lparr> d_agents := d_agents (snd (create_agent X E now u req d)) \<rparr>"
  by (auto simp: create_agent_def create_agent_sync_def act_simps Let_def split: option.split sum.split)

lemma set_key_frame:
  "snd (set_agent_client_key_hash X E now i h d) =
     d\<lparr> d_agents := d_agents (snd (set_agent_client_key_hash X E now i h d)) \<rparr>"
  by (auto simp: set_agent_client_key_hash_def set_agent_client_key_hash_sync_def act_simps Let_def split: option.split)

lemma create_principal_frame:
  "snd (create_principal X E now u req d) = d\<lparr> d_principals := d_principals (snd (create_principal X E now u req d)) \<rparr>"
  by (auto simp: create_principal_def create_principal_sync_def act_simps Let_def split: option.split sum.split)

lemma create_resource_frame:
  "snd (create_resource X E now u req d) = d\<lparr> d_resources := d_resources (snd (create_resource X E now u req d)) \<rparr>"
  by (auto simp: create_resource_def create_resource_sync_def act_simps Let_def split: option.split sum.split)

lemma store_credential_frame:
  "snd (store_vault_credential X E now u pid provider enc nonce kid scopes expires d) =
     d\<lparr> d_vault := d_vault (snd (store_vault_credential X E now u pid provider enc nonce kid scopes expires d)) \<rparr>"
  by (auto simp: store_vault_credential_def act_simps split: option.split)

lemma audit_step_frame:
  "audit_step X op d = d\<lparr> d_audit := d_audit (audit_step X op d), d_audit_seq := d_audit_seq (audit_step X op d) \<rparr>"
  by (auto simp: audit_step_def create_audit_entry_def create_audit_entry_sync_def act_simps Let_def
      split: prod.split option.split)

section \<open>Well-formed states\<close>

definition db_ok :: "ext \<Rightarrow> db \<Rightarrow> bool" where
  "db_ok X d \<longleftrightarrow> log_ok X d \<and> one_active d \<and> agent_ids_ok X d \<and> grant_ids_ok X d
     \<and> distinct (map tor_id (d_tokens d)) \<and> distinct (map apr_id (d_approvals d))"

lemma db_ok_frames [simp]:
  "log_ok X (d\<lparr> d_tokens := t \<rparr>) = log_ok X d" "log_ok X (d\<lparr> d_policies := p \<rparr>) = log_ok X d"
  "log_ok X (d\<lparr> d_approvals := a \<rparr>) = log_ok X d" "log_ok X (d\<lparr> d_grants := g \<rparr>) = log_ok X d"
  "log_ok X (d\<lparr> d_agents := b \<rparr>) = log_ok X d" "log_ok X (d\<lparr> d_principals := c \<rparr>) = log_ok X d"
  "log_ok X (d\<lparr> d_resources := r \<rparr>) = log_ok X d" "log_ok X (d\<lparr> d_vault := v \<rparr>) = log_ok X d"
  by (rule log_ok_cong; simp)+

lemma grant_ids_ok_cong: "d_grants d = d_grants d' \<Longrightarrow> grant_ids_ok X d = grant_ids_ok X d'"
  by (simp add: grant_ids_ok_def)

lemma agent_ids_ok_cong: "d_agents d = d_agents d' \<Longrightarrow> agent_ids_ok X d = agent_ids_ok X d'"
  by (simp add: agent_ids_ok_def)

lemma one_active_cong: "d_policies d = d_policies d' \<Longrightarrow> one_active d = one_active d'"
  by (simp add: one_active_def)

lemma distinct_token_step:
  "distinct (map tor_id (d_tokens d)) \<Longrightarrow> distinct (map tor_id (d_tokens (token_step X op d)))"
  by (cases op) (auto simp: record_token_def insert_token_def insert_row_def revoke_token_def revoke_agent_tokens_def
      act_simps Let_def mark_token_def map_update_where split: option.split simp del: map_map)

lemma grant_ids_create: "grant_ids_ok X d \<Longrightarrow>
    grant_ids_ok X (snd (create_grant X E now u agent owner parent scopes constraints expires d))"
proof (cases "create_grant X E now u agent owner parent scopes constraints expires d")
  case (Pair r d')
  assume ok: "grant_ids_ok X d"
  show ?thesis
  proof (cases r)
    case (Inl e)
    with Pair have "d' = d"
      by (auto simp: create_grant_def insert_grant_def act_simps split: option.splits sum.splits if_splits)
    with Pair ok show ?thesis by simp
  next
    case (Inr u')
    with Pair ok grant_ids_ok_create show ?thesis by simp
  qed
qed

lemma agent_ids_create: "agent_ids_ok X d \<Longrightarrow> agent_ids_ok X (snd (create_agent X E now u req d))"
  by (auto simp: agent_ids_ok_def create_agent_def create_agent_sync_def insert_row_def new_agent_row_def act_simps
      Let_def split: option.split)

lemma agent_ids_set_key: "agent_ids_ok X d \<Longrightarrow> agent_ids_ok X (snd (set_agent_client_key_hash X E now i h d))"
proof (cases "set_agent_client_key_hash_sync X now i h d")
  case (Pair r d')
  assume ok: "agent_ids_ok X d"
  have "agent_ids_ok X d'"
  proof (cases r)
    case (Inl e)
    with Pair ok show ?thesis
      by (auto simp: set_agent_client_key_hash_sync_def Let_def split: if_splits)
  next
    case (Inr x)
    with Pair ok agent_ids_ok_set_key_hash show ?thesis by simp
  qed
  with Pair ok show ?thesis by (simp add: set_agent_client_key_hash_def act_simps split: option.split)
qed

text \<open>The steps that keep a database well formed: an audit entry must be storable.\<close>

primrec storable :: "ext \<Rightarrow> db_op \<Rightarrow> bool" where
  "storable X (TokenOp _) \<longleftrightarrow> True"
| "storable X (PolicyOp _) \<longleftrightarrow> True"
| "storable X (ApprovalOp _) \<longleftrightarrow> True"
| "storable X (AuditOp E now entry) \<longleftrightarrow> good_append X (E, now, entry)"
| "storable X (CreateGrantOp _ _ _ _ _ _ _ _ _) \<longleftrightarrow> True"
| "storable X (RevokeGrantOp _ _ _) \<longleftrightarrow> True"
| "storable X (CreateAgentOp _ _ _ _) \<longleftrightarrow> True"
| "storable X (SetKeyOp _ _ _ _) \<longleftrightarrow> True"
| "storable X (CreatePrincipalOp _ _ _ _) \<longleftrightarrow> True"
| "storable X (CreateResourceOp _ _ _ _) \<longleftrightarrow> True"
| "storable X (StoreCredentialOp _ _ _ _ _ _ _ _ _ _) \<longleftrightarrow> True"

lemma revoke_grant_state:
  assumes "uuid_rt X" and "grant_ids_ok X d"
  shows "snd (revoke_grant X E clock i d) = d \<or> (\<exists>V. snd (revoke_grant X E clock i d) = revoke_set X clock V d)"
proof (cases "e_fault E CallRevokeGrant")
  case None
  then have sync: "revoke_grant X E clock i d = revoke_grant_sync X clock i d"
    by (simp add: revoke_grant_def act_simps)
  from revoke_fuel_enough [OF assms, of clock i] show ?thesis
    by (auto simp: sync revoke_grant_sync_def simp del: revoke_fuel.simps)
qed (simp add: revoke_grant_def act_simps)

lemma db_ok_tables:
  assumes "db_ok X d"
  shows "distinct (map tor_id t) \<Longrightarrow> db_ok X (d\<lparr> d_tokens := t \<rparr>)"
    and "one_active (d\<lparr> d_policies := p \<rparr>) \<Longrightarrow> db_ok X (d\<lparr> d_policies := p \<rparr>)"
    and "distinct (map apr_id a) \<Longrightarrow> db_ok X (d\<lparr> d_approvals := a \<rparr>)"
    and "log_ok X (d\<lparr> d_audit := l, d_audit_seq := n \<rparr>) \<Longrightarrow> db_ok X (d\<lparr> d_audit := l, d_audit_seq := n \<rparr>)"
    and "grant_ids_ok X (d\<lparr> d_grants := g \<rparr>) \<Longrightarrow> db_ok X (d\<lparr> d_grants := g \<rparr>)"
    and "agent_ids_ok X (d\<lparr> d_agents := b \<rparr>) \<Longrightarrow> db_ok X (d\<lparr> d_agents := b \<rparr>)"
    and "db_ok X (d\<lparr> d_principals := q \<rparr>)" and "db_ok X (d\<lparr> d_resources := r \<rparr>)" and "db_ok X (d\<lparr> d_vault := v \<rparr>)"
  using assms by (simp_all add: db_ok_def one_active_def agent_ids_ok_def grant_ids_ok_def)

lemma db_ok_log: "db_ok X d \<Longrightarrow> good_append X (E, now, entry) \<Longrightarrow> db_ok X (audit_step X (E, now, entry) d)"
  by (subst audit_step_frame, rule db_ok_tables(4), assumption)
    (simp add: audit_step_frame [symmetric] log_ok_audit_step db_ok_def)

lemma db_ok_policy: "db_ok X d \<Longrightarrow> db_ok X (policy_step X op d)"
  by (subst policy_step_frame, rule db_ok_tables(2), assumption)
    (simp add: policy_step_frame [symmetric] policy_run.step_inv db_ok_def)

lemma db_ok_grants: "db_ok X d \<Longrightarrow> db_ok X (snd (create_grant X E now u agent owner parent scopes constraints expires d))"
  by (subst create_grant_frame, rule db_ok_tables(5), assumption)
    (simp add: create_grant_frame [symmetric] grant_ids_create db_ok_def)

lemma db_ok_revoked: "db_ok X d \<Longrightarrow> db_ok X (revoke_set X clock V d)"
  using grant_ids_ok_revoke_set [of X clock V d] unfolding revoke_set_def
  by (intro db_ok_tables(5)) (simp_all add: db_ok_def)

lemma db_ok_new_agent: "db_ok X d \<Longrightarrow> db_ok X (snd (create_agent X E now u req d))"
  by (subst create_agent_frame, rule db_ok_tables(6), assumption)
    (simp add: create_agent_frame [symmetric] agent_ids_create db_ok_def)

lemma db_ok_key: "db_ok X d \<Longrightarrow> db_ok X (snd (set_agent_client_key_hash X E now i h d))"
  by (subst set_key_frame, rule db_ok_tables(6), assumption)
    (simp add: set_key_frame [symmetric] agent_ids_set_key db_ok_def)

lemma db_ok_step:
  assumes "db_ok X d" and "storable X op" and "uuid_rt X"
  shows "db_ok X (db_step X op d)"
proof (cases op)
  case (TokenOp t)
  have "db_ok X (token_step X t d)"
    using assms(1) by (subst token_step_frame, intro db_ok_tables(1) distinct_token_step) (simp_all add: db_ok_def)
  with TokenOp show ?thesis by simp
next
  case (ApprovalOp a)
  have "distinct (map apr_id (d_approvals (approval_step X a d)))"
    by (rule approval_ids.step_inv) (use assms(1) in \<open>auto simp: db_ok_def\<close>)
  then have "db_ok X (approval_step X a d)"
    by (subst approval_step_frame, intro db_ok_tables(3) assms(1))
  with ApprovalOp show ?thesis by simp
next
  case (RevokeGrantOp E clock i)
  with revoke_grant_state [OF assms(3), of d E clock i] db_ok_revoked [OF assms(1)] assms(1)
  show ?thesis by (auto simp: db_ok_def)
next
  case (CreatePrincipalOp E now u req)
  then show ?thesis by (simp, subst create_principal_frame) (rule db_ok_tables(7) [OF assms(1)])
next
  case (CreateResourceOp E now u req)
  then show ?thesis by (simp, subst create_resource_frame) (rule db_ok_tables(8) [OF assms(1)])
next
  case (StoreCredentialOp E now u pid provider enc nonce kid scopes expires)
  then show ?thesis by (simp, subst store_credential_frame) (rule db_ok_tables(9) [OF assms(1)])
qed (use assms(1,2) in \<open>simp_all add: db_ok_log db_ok_policy db_ok_grants db_ok_new_agent db_ok_key\<close>)

definition app_ok :: "ext \<Rightarrow> app_state \<Rightarrow> bool" where
  "app_ok X s \<longleftrightarrow> db_ok X (st_db s) \<and> store_ok (st_session_store s) \<and> ye_session_store (st_policy_engine s)"

definition safe_op :: "ext \<Rightarrow> app_op \<Rightarrow> bool" where
  "safe_op X op \<longleftrightarrow> uuid_rt X \<and>
     (case op of DbOp o' \<Rightarrow> storable X o' | SetEngine eng \<Rightarrow> ye_session_store eng | _ \<Rightarrow> True)"

lemma app_ok_step: "safe_op X op \<Longrightarrow> app_ok X s \<Longrightarrow> app_ok X (app_step X op s)"
  by (cases op) (simp_all add: safe_op_def app_ok_def db_ok_step store_ok_step)

interpretation app_run: stepper "app_step X" "safe_op X" "app_ok X" for X
  by unfold_locales (rule app_ok_step)

lemma permitted_safe:
  assumes "permitted X E r op" and "uuid_rt X" and "chains_rt X" and "\<forall>k. time_rt X (e_now E k)"
  shows "safe_op X op"
proof (cases op)
  case (DbOp o')
  with assms show ?thesis by (cases o') (auto simp: safe_op_def good_append_def)
qed (use assms in \<open>auto simp: safe_op_def\<close>)

text \<open>A fresh database with the default policy in it, read by a fresh session store, is well formed.\<close>

lemma started_app_ok:
  assumes "open_database E None = Inr d0" and "create_default_policy X E now u d0 = (Inr (), d)"
    and "fst (build_engine X E cfg d) = Inr eng"
    and "st_db s = d" and "st_session_store s = new_store" and "st_policy_engine s = eng"
  shows "app_ok X s"
proof -
  from assms(3) have "ye_session_store eng"
    by (cases "build_engine X E cfg d") (auto dest: build_engine_sessions)
  have empty: "db_ok X empty_db"
    by (simp add: db_ok_def log_ok_empty agent_ids_ok_empty) (simp add: empty_db_def one_active_def grant_ids_ok_def)
  from assms(1,2) have d': "d = policy_step X (DefaultPolicy E now u) empty_db"
    by (simp add: open_database_def migrate_def split: option.splits)
  have "one_active d" unfolding d' by (rule policy_run.step_inv) (simp_all add: one_active_def empty_db_def)
  then have "db_ok X d"
    unfolding d' by (subst policy_step_frame, intro db_ok_tables(2) [OF empty]) (simp add: one_active_def)
  with assms(4-6) \<open>ye_session_store eng\<close> show ?thesis by (simp add: app_ok_def store_ok_new)
qed

lemma new_app_ok: "new_app X E debug_build dev_var admin_var cfg None fs = Inr s \<Longrightarrow> app_ok X s"
  by (auto simp: new_app_def intro: started_app_ok split: prod.splits sum.splits)

lemma new_test_app_ok: "new_test_app X E cfg = Inr s \<Longrightarrow> app_ok X s"
  by (auto simp: new_test_app_def intro: started_app_ok split: prod.splits sum.splits)

lemma app_ok_ops:
  assumes "app_ok X s" and "uuid_rt X" and "chains_rt X" and "\<forall>a \<in> set as. \<forall>k. time_rt X (e_now (ar_env a) k)"
    and "list_all (\<lambda>op. list_ex (\<lambda>a. permitted X (ar_env a) (restored W (ar_request a)) op) as) ops"
  shows "app_ok X (fold (app_step X) ops s)"
proof -
  have "\<forall>op \<in> set ops. safe_op X op"
    using assms(2-5) permitted_safe unfolding list_all_iff list_ex_iff by blast
  with assms(1) show ?thesis by (simp add: app_run.fold_inv)
qed

lemma app_ok_run:
  assumes "app_ok X s" and "uuid_rt X" and "chains_rt X" and "\<forall>a \<in> set as. \<forall>k. time_rt X (e_now (ar_env a) k)"
  shows "app_ok X (fold (serve_step W X) as s)"
proof -
  from run_via [of W X as s] obtain ops where run: "fold (serve_step W X) as s = fold (app_step X) ops s"
    and ok: "list_all (\<lambda>op. list_ex (\<lambda>a. permitted X (ar_env a) (restored W (ar_request a)) op) as) ops" .
  show ?thesis unfolding run by (rule app_ok_ops [OF assms ok])
qed

text \<open>
  From a start on a fresh database, whatever requests arrive in whatever order and however their
  statements fail, the state stays well formed: the audit log is a valid hash chain of storable
  entries, at most one policy is active, the ids of agents, grants, tokens and approvals are unique,
  every session is stored under its own id with a bounded trajectory, and the engine in force reads
  the session store.
\<close>

lemma server_stays_well_formed:
  assumes "run X E debug_build dev_var admin_var cfg None fs = Inr s"
    and "uuid_rt X" and "chains_rt X" and "\<forall>a \<in> set as. \<forall>k. time_rt X (e_now (ar_env a) k)"
  shows "app_ok X (fold (serve_step W X) as s)"
proof -
  from assms(1) have "new_app X E debug_build dev_var admin_var cfg None fs = Inr s"
    by (auto simp: run_def split: sum.splits)
  from app_ok_run [OF new_app_ok [OF this] assms(2-4)] show ?thesis .
qed

section \<open>What no request unmakes\<close>

text \<open>Audit rows, revocations in both places, and resolved approvals of \<open>s\<close> are still there in \<open>t\<close>.\<close>

definition remembers :: "app_state \<Rightarrow> app_state \<Rightarrow> bool" where
  "remembers s t \<longleftrightarrow>
     (\<exists>rows. d_audit (st_db t) = d_audit (st_db s) @ rows)
     \<and> (\<forall>jti. token_revoked jti (st_db s) \<longrightarrow> token_revoked jti (st_db t))
     \<and> (\<forall>jti. is_revoked jti (st_token_verifier s) \<longrightarrow> is_revoked jti (st_token_verifier t))
     \<and> (\<forall>r. resolved_as r (st_db s) \<longrightarrow> resolved_as r (st_db t))"

lemma remembers_refl: "remembers s s"
  by (simp add: remembers_def)

lemma remembers_trans: "remembers s t \<Longrightarrow> remembers t u \<Longrightarrow> remembers s u"
  by (auto simp: remembers_def)

lemma token_revoked_cong: "d_tokens d = d_tokens d' \<Longrightarrow> token_revoked jti d = token_revoked jti d'"
  by (simp add: token_revoked_def)

lemma resolved_as_cong: "d_approvals d = d_approvals d' \<Longrightarrow> resolved_as r d = resolved_as r d'"
  by (simp add: resolved_as_def)

text \<open>An operation on one table leaves the facts about the others.\<close>

definition db_remembers :: "db \<Rightarrow> db \<Rightarrow> bool" where
  "db_remembers d d' \<longleftrightarrow> (\<exists>rows. d_audit d' = d_audit d @ rows)
     \<and> (\<forall>jti. token_revoked jti d \<longrightarrow> token_revoked jti d') \<and> (\<forall>r. resolved_as r d \<longrightarrow> resolved_as r d')"

lemma db_remembers_same:
  "d_audit d' = d_audit d \<Longrightarrow> d_tokens d' = d_tokens d \<Longrightarrow> d_approvals d' = d_approvals d \<Longrightarrow> db_remembers d d'"
  using token_revoked_cong [of d' d] resolved_as_cong [of d' d] by (simp add: db_remembers_def)

lemma mark_revoked_frame:
  "d_audit (mark_revoked X clock k d) = d_audit d" "d_tokens (mark_revoked X clock k d) = d_tokens d"
  "d_approvals (mark_revoked X clock k d) = d_approvals d"
  by (simp_all add: mark_revoked_def)

lemma revoke_fuel_frame:
  "revoke_fuel X clock n i d = Some (rs, d') \<Longrightarrow>
     d_audit d' = d_audit d \<and> d_tokens d' = d_tokens d \<and> d_approvals d' = d_approvals d"
  "revoke_children X clock n ss d = Some (rs, d') \<Longrightarrow>
     d_audit d' = d_audit d \<and> d_tokens d' = d_tokens d \<and> d_approvals d' = d_approvals d"
proof (induction X clock n i d and X clock n ss d arbitrary: rs d' and rs d' rule: revoke_fuel_revoke_children.induct)
  case (2 X clock n i d)
  let ?d = "mark_revoked X clock (x_uuid_str X i) d"
  from "2.prems" obtain rs1 where "revoke_children X clock n (live_children (x_uuid_str X i) ?d) ?d = Some (rs1, d')"
    by (auto simp only: revoke_fuel.simps Let_def split: option.splits prod.splits)
  with "2.IH" [OF refl] show ?case by (simp only: mark_revoked_frame)
next
  case (4 X clock n s ss d)
  show ?case
  proof (cases "x_uuid_parse X s")
    case None
    with "4.prems" have "revoke_children X clock n ss d = Some (rs, d')"
      by (simp only: revoke_children.simps option.case)
    then show ?thesis by (rule "4.IH"(1) [OF None])
  next
    case (Some child)
    with "4.prems" obtain rs1 d1 rs2 where "revoke_fuel X clock n child d = Some (rs1, d1)"
      and "revoke_children X clock n ss d1 = Some (rs2, d')"
      by (auto simp only: revoke_children.simps option.case split: option.splits prod.splits)
    with "4.IH"(2) [OF Some this(1)] "4.IH"(3) [OF Some this(1) refl this(2)] show ?thesis by simp
  qed
qed auto

lemma revoke_grant_frame:
  "d_audit (snd (revoke_grant X E clock i d)) = d_audit d"
  "d_tokens (snd (revoke_grant X E clock i d)) = d_tokens d"
  "d_approvals (snd (revoke_grant X E clock i d)) = d_approvals d"
  by (auto simp: revoke_grant_def revoke_grant_sync_def act_simps simp del: revoke_fuel.simps
      dest: revoke_fuel_frame(1) split: option.split)

lemma db_remembers_frames:
  "db_remembers d (d\<lparr> d_policies := p \<rparr>)" "db_remembers d (d\<lparr> d_agents := a \<rparr>)" "db_remembers d (d\<lparr> d_grants := g \<rparr>)"
  "db_remembers d (d\<lparr> d_principals := q \<rparr>)" "db_remembers d (d\<lparr> d_resources := r \<rparr>)" "db_remembers d (d\<lparr> d_vault := v \<rparr>)"
  by (rule db_remembers_same; simp)+

lemma db_remembers_step: "db_remembers d (db_step X op d)"
proof (cases op)
  case (TokenOp t)
  have "d_audit (token_step X t d) = d_audit d" "d_approvals (token_step X t d) = d_approvals d"
    by (subst token_step_frame, simp)+
  then show ?thesis
    using revoked_tokens.step_keeps [where s = d and x = t and X = X] resolved_as_cong [of "token_step X t d" d]
    by (simp add: TokenOp db_remembers_def)
next
  case (ApprovalOp a)
  have "d_audit (approval_step X a d) = d_audit d" "d_tokens (approval_step X a d) = d_tokens d"
    by (subst approval_step_frame, simp)+
  then show ?thesis
    using resolved.step_keeps [where s = d and x = a and X = X] token_revoked_cong [of "approval_step X a d" d]
    by (simp add: ApprovalOp db_remembers_def)
next
  case (AuditOp E now entry)
  have "d_tokens (audit_step X (E, now, entry) d) = d_tokens d" "d_approvals (audit_step X (E, now, entry) d) = d_approvals d"
    by (subst audit_step_frame, simp)+
  moreover have "\<exists>rows. d_audit (audit_step X (E, now, entry) d) = d_audit d @ rows"
    by (auto simp: audit_step_def create_audit_entry_def create_audit_entry_sync_def act_simps Let_def split: option.split)
  ultimately show ?thesis
    using token_revoked_cong [of "audit_step X (E, now, entry) d" d] resolved_as_cong [of "audit_step X (E, now, entry) d" d]
    by (simp add: AuditOp db_remembers_def)
next
  case (RevokeGrantOp E clock i)
  then show ?thesis by (intro db_remembers_same) (simp_all add: revoke_grant_frame)
qed (simp, (subst policy_step_frame | subst create_grant_frame | subst create_agent_frame | subst set_key_frame
    | subst create_principal_frame | subst create_resource_frame | subst store_credential_frame), rule db_remembers_frames)+

lemma remembers_step: "remembers s (app_step X op s)"
proof (cases op)
  case (DbOp o')
  then show ?thesis using db_remembers_step [of "st_db s" X o'] by (simp add: remembers_def db_remembers_def)
next
  case (RevokeJti jti)
  then show ?thesis by (auto simp: remembers_def intro: token_stop.step_keeps)
qed (simp_all add: remembers_def)

lemma remembers_fold: "remembers s (fold (app_step X) ops s)"
  by (induction ops arbitrary: s) (auto intro: remembers_refl remembers_trans remembers_step)

lemma run_remembers: "remembers s (fold (serve_step W X) as s)"
proof -
  from run_via [of W X as s] obtain ops where "fold (serve_step W X) as s = fold (app_step X) ops s" .
  then show ?thesis by (simp add: remembers_fold)
qed

text \<open>
  No sequence of requests unmakes what was recorded: every audit row stays, unchanged and in its
  place, a token revoked in the table or in the verifier stays revoked, and an approval stays resolved
  as it was.
\<close>

lemma requests_remember: "remembers s (fold (serve_step W X) as s)"
  by (rule run_remembers)

text \<open>
  Requests that run at the same time interleave between the locked operations of the components. In
  whatever order the operations that some set of requests permits are executed, on a server that
  started on a fresh database, the state stays well formed and nothing recorded is unmade.
\<close>

lemma interleavings_stay_well_formed:
  assumes "run X E debug_build dev_var admin_var cfg None fs = Inr s"
    and "uuid_rt X" and "chains_rt X" and "\<forall>a \<in> set as. \<forall>k. time_rt X (e_now (ar_env a) k)"
    and "list_all (\<lambda>op. list_ex (\<lambda>a. permitted X (ar_env a) (restored W (ar_request a)) op) as) (ops @ ops')"
  shows "app_ok X (fold (app_step X) ops s) \<and> app_ok X (fold (app_step X) (ops @ ops') s)
    \<and> remembers (fold (app_step X) ops s) (fold (app_step X) (ops @ ops') s)"
proof -
  from assms(1) have "new_app X E debug_build dev_var admin_var cfg None fs = Inr s"
    by (auto simp: run_def split: sum.splits)
  then have ok: "app_ok X s" by (rule new_app_ok)
  from assms(5) have "list_all (\<lambda>op. list_ex (\<lambda>a. permitted X (ar_env a) (restored W (ar_request a)) op) as) ops"
    by simp
  from app_ok_ops [OF ok assms(2-4) this] app_ok_ops [OF ok assms(2-5)] show ?thesis
    by (simp add: remembers_fold)
qed

section \<open>The emergency stop, end to end\<close>

definition agent_stopped :: "uuid \<Rightarrow> app_state \<Rightarrow> bool" where
  "agent_stopped a s \<longleftrightarrow> is_agent_killed a (st_session_store s)"

definition stop_agent :: "uuid \<Rightarrow> app_state \<Rightarrow> app_state" where
  "stop_agent a s = s\<lparr> st_session_store := kill_agent a (st_session_store s) \<rparr>"

lemma stopped_app_step:
  "agent_stopped a s \<Longrightarrow> op \<noteq> SessionOp (LiftStop a) \<Longrightarrow> agent_stopped a (app_step X op s)"
  by (cases op) (auto simp: agent_stopped_def intro: agent_stop.step_keeps)

lemma stopped_fold:
  "agent_stopped a s \<Longrightarrow> SessionOp (LiftStop a) \<notin> set ops \<Longrightarrow> agent_stopped a (fold (app_step X) ops s)"
proof (induction ops arbitrary: s)
  case (Cons op ops)
  then show ?case using stopped_app_step [of a s op X] by auto
qed simp

interpretation server_stop: emergency_stop "serve_step W X" agent_stopped
  "\<lambda>a x. restored W (ar_request x) = Some a" stop_agent for W X
proof unfold_locales
  show "agent_stopped k (stop_agent k s)" for k s
    by (simp add: agent_stopped_def stop_agent_def agent_stop.stop_stops)
  fix k s and x :: arrival
  assume "agent_stopped k s" and keep: "restored W (ar_request x) \<noteq> Some k"
  moreover obtain ops where "fold (serve_step W X) [x] s = fold (app_step X) ops s"
    and "list_all (\<lambda>op. list_ex (\<lambda>a. permitted X (ar_env a) (restored W (ar_request a)) op) [x]) ops"
    by (rule run_via)
  moreover from this(2) keep have "SessionOp (LiftStop k) \<notin> set ops"
    by (fastforce simp: list_all_iff)
  ultimately show "agent_stopped k (serve_step W X x s)"
    by (simp add: stopped_fold)
qed

lemma kill_agent_route_stops: "agent_stopped a (snd (kill_agent_route X E a s))"
  using agent_stop.stop_stops [of a "st_session_store s"]
  by (auto simp: kill_agent_route_def act_simps agent_stopped_def split: prod.split sum.split)

text \<open>
  The emergency stop does not reach the verifier: what it accepted before, it accepts afterwards, so a
  token that the stopped agent still holds can be presented and delegated further.
\<close>

lemma kill_agent_keeps_verifier: "st_token_verifier (snd (kill_agent_route X E a s)) = st_token_verifier s"
  by (auto simp: kill_agent_route_def act_simps split: prod.split sum.split)

lemma stopped_request_access:
  assumes "agent_stopped (rq_agent_id req) s" and "request_access X E auth req s = (Inr resp, s')" and "uuid_rt X"
  shows "resp = killed_response (rs_reason resp) \<and> st_db s' = st_db s"
  using assms(2)
proof (cases rule: request_access_cases)
  case (refused a p)
  then show ?thesis by (simp add: frame_simps) (simp add: killed_response_def)
next
  case (decided a p chain)
  with get_agent_id [OF decided(2) assms(3)] assms(1) show ?thesis by (simp add: agent_stopped_def)
qed

text \<open>
  The emergency stop works end to end: once an agent has been stopped through its route, whether or not the
  revocation of its tokens succeeded, every later access request of it is denied with no token, no
  approval and nothing written to the database, whatever session it names and whatever other requests
  come in between, until a request restores this very agent.
\<close>

lemma stopped_agent_gets_nothing:
  assumes "\<forall>x \<in> set as. restored W (ar_request x) \<noteq> Some (rq_agent_id req)" and "uuid_rt X"
    and "request_access X E auth req (fold (serve_step W X) as (snd (kill_agent_route X E0 (rq_agent_id req) s)))
      = (Inr resp, s')"
  shows "rs_decision resp = ''deny'' \<and> rs_token resp = None \<and> rs_approval resp = None
    \<and> st_db s' = st_db (fold (serve_step W X) as (snd (kill_agent_route X E0 (rq_agent_id req) s)))"
proof -
  have "agent_stopped (rq_agent_id req) (fold (serve_step W X) as (snd (kill_agent_route X E0 (rq_agent_id req) s)))"
    by (rule server_stop.stays_stopped [OF kill_agent_route_stops assms(1)])
  from stopped_request_access [OF this assms(3,2)] show ?thesis by (metis killed_response_simps)
qed

text \<open>
  C27: a token id revoked through its route is refused from then on: after any further requests no token
  with that id verifies, so neither delegation nor an access request accepts it.
\<close>

theorem revoked_token_is_refused:
  assumes "revoke_token_route E0 jti s = (Inr answer, s0)"
    and "verify X (st_token_verifier (fold (serve_step W X) as s0)) now now' tok aud = Inr c"
  shows "cl_jti c \<noteq> jti"
proof -
  from assms(1) have "is_revoked jti (st_token_verifier s0)"
    by (auto simp: revoke_token_route_def act_simps token_stop.stop_stops split: sum.splits prod.splits)
  with run_remembers [of s0 W X as] have "is_revoked jti (st_token_verifier (fold (serve_step W X) as s0))"
    by (simp add: remembers_def)
  with verify_InrD(3) [OF assms(2)] show ?thesis by auto
qed

section \<open>Protected routes\<close>

definition public_handlers :: "handler_name list" where
  "public_handlers = [Dashboard, Health, HealthReady, PrometheusMetrics, Jwks, IdpAuthorize, IdpCallback,
     IdpUserinfo, ListIdpProviders]"

definition agent_handlers :: "handler_name list" where
  "agent_handlers = [RequestAccess, CheckAccess, Delegate, ApprovalStatus]"

text \<open>What every path of a template begins with decides under which credential it is served.\<close>

definition template_stem :: "string \<Rightarrow> string" where
  "template_stem t = takeWhile (\<lambda>c. c \<noteq> CHR ''{'') t"

definition stem_of :: "string list \<Rightarrow> string \<Rightarrow> bool" where
  "stem_of prefixes t \<longleftrightarrow>
     (if CHR ''{'' \<in> set t then (\<exists>p \<in> set prefixes. starts_with (template_stem t) (p @ ''/''))
      else paths_start_with t prefixes)"

lemma starts_with_trans: "starts_with s p \<Longrightarrow> starts_with p q \<Longrightarrow> starts_with s q"
  by (auto simp: starts_with_iff)

lemma fits_stem: "fits t path \<Longrightarrow> stem_of prefixes t \<Longrightarrow> paths_start_with path prefixes"
  by (auto simp: fits_def stem_of_def template_stem_def paths_start_with_def split: if_splits
      intro: starts_with_trans)

definition admin_prefixes :: "string list" where
  "admin_prefixes = [''/v1/admin'', ''/v1/vault'', ''/v1/sessions'', ''/v1/principal'']"

lemma routes_classified:
  "list_all (\<lambda>(t, ms). list_all (\<lambda>(verb, h). h \<in> set public_handlers \<or>
      (if h \<in> set agent_handlers then stem_of [''/v1/agent''] t else stem_of admin_prefixes t)) ms) all_routes"
  by (simp add: all_routes_def public_handlers_def agent_handlers_def admin_prefixes_def stem_of_def
      template_stem_def paths_start_with_def starts_with_def)

lemma agent_prefix_not_admin: "paths_start_with path [''/v1/agent''] \<Longrightarrow> \<not> paths_start_with path admin_prefixes"
  by (auto simp: paths_start_with_def admin_prefixes_def starts_with_iff)

lemma route_class:
  assumes "router_ok W" and "route W req = Routed t h ps" and "h \<notin> set public_handlers"
  shows "if h \<in> set agent_handlers then is_agent_path (hr_path (wr_head req)) \<and> \<not> is_admin_path (hr_path (wr_head req))
    else is_admin_path (hr_path (wr_head req))"
proof -
  let ?path = "hr_path (wr_head req)"
  from assms(1,2) obtain ms verb where mem: "(t, ms) \<in> set all_routes" "(verb, h) \<in> set ms" and "fits t ?path"
    unfolding router_ok_def route_def by blast
  then have stem: "stem_of prefixes t \<Longrightarrow> paths_start_with ?path prefixes" for prefixes by (rule_tac fits_stem)
  have admin: "is_admin_path ?path \<longleftrightarrow> paths_start_with ?path admin_prefixes"
    by (simp add: is_admin_path_def admin_prefixes_def)
  from routes_classified mem assms(3)
  have "if h \<in> set agent_handlers then stem_of [''/v1/agent''] t else stem_of admin_prefixes t"
    unfolding list_all_iff by fast
  then show ?thesis
    using stem [of "[''/v1/agent'']"] stem [of admin_prefixes] agent_prefix_not_admin [of ?path]
    by (simp add: admin is_agent_path_def split: if_splits)
qed

text \<open>
  The credential of the route is missing: for an operator's route the admin token is configured and not
  the one presented, for an agent's route no active agent has the presented client key.
\<close>

definition lacks_credential :: "ext \<Rightarrow> handler_name \<Rightarrow> web_request \<Rightarrow> app_state \<Rightarrow> bool" where
  "lacks_credential X h req s \<longleftrightarrow>
     (if h \<in> set agent_handlers then
        list_all (\<lambda>r. agr_status r \<noteq> ''active''
          \<or> agr_client_key_hash r \<noteq> Some (hash_client_key X (presented_key (wr_head req)))) (d_agents (st_db s))
      else (case ac_admin_token (st_auth s) of None \<Rightarrow> False | Some k \<Rightarrow> presented_token (wr_head req) \<noteq> k))"

lemma no_agent_for_key:
  assumes "list_all (\<lambda>r. agr_status r \<noteq> ''active'' \<or> agr_client_key_hash r \<noteq> Some k) (d_agents d)"
  shows "fst (get_agent_by_client_key_hash X E now k d) \<noteq> Inr (Some a)"
proof -
  have "find (\<lambda>r. agr_client_key_hash r = Some k \<and> agr_status r = ''active'') (d_agents d) = None"
    using assms by (auto simp: find_None_iff list_all_iff)
  then show ?thesis
    by (simp add: get_agent_by_client_key_hash_def get_agent_by_client_key_hash_sync_def act_simps split: option.split)
qed

text \<open>
  C7: a request without the credential of its route does nothing: every route outside the fixed public
  list is answered 401 before its handler runs, and of the state only the latency histogram changes.
\<close>

theorem protected_routes_need_credentials:
  assumes "router_ok W" and "route W req = Routed t h ps" and "h \<notin> set public_handlers"
    and "lacks_credential X h req s" and "w_cors W (cors_origins W (st_config s)) req = None"
  shows "\<exists>msg. serve W X E now elapsed req s =
    (Inr (401, ErrorBody msg), s\<lparr> st_metrics := observe_duration (wr_method req) t elapsed (st_metrics s) \<rparr>)"
proof -
  note kind = route_class [OF assms(1-3)]
  have "\<exists>msg. auth_middleware X E now (st_auth s) (wr_head req) (st_db s) = Inl msg"
  proof (cases "h \<in> set agent_handlers")
    case True
    with kind assms(4) no_agent_for_key [of "hash_client_key X (presented_key (wr_head req))" "st_db s" X E now]
    show ?thesis
      by (auto simp: auth_middleware_def lacks_credential_def split: sum.split option.split)
  next
    case False
    with kind assms(4) show ?thesis
      by (auto simp: auth_middleware_def lacks_credential_def constant_time_iff str_bytes_eq split: option.splits)
  qed
  with assms(2,5) show ?thesis
    by (auto simp: serve_def metrics_latency_middleware_def with_auth_def act_simps path_label_def)
qed

section \<open>Closed examples\<close>

text \<open>A router that knows the routes without parameters, and a framework that rejects every body.\<close>

definition demo_route :: "route_table \<Rightarrow> string \<Rightarrow> string \<Rightarrow> routed" where
  "demo_route table verb path =
     (if CHR ''{'' \<in> set path then NoRoute
      else (case map_of table path of
              None \<Rightarrow> NoRoute
            | Some ms \<Rightarrow> (case map_of ms verb of None \<Rightarrow> WrongMethod path | Some h \<Rightarrow> Routed path h [])))"

definition demo_web :: web where
  "demo_web = \<lparr> w_route = demo_route, w_path_uuid = (\<lambda>_. Inl (400, '''')), w_path_text = (\<lambda>_. Inl (400, '''')),
     w_callback_query = (\<lambda>_. Inl (400, '''')), w_access = (\<lambda>_. Inl (400, '''')), w_delegate = (\<lambda>_. Inl (400, '''')),
     w_principal_delegate = (\<lambda>_. Inl (400, '''')), w_cascade = (\<lambda>_. Inl (400, '''')), w_approve = (\<lambda>_. Inl (400, '''')),
     w_agent = (\<lambda>_. Inl (400, '''')), w_principal = (\<lambda>_. Inl (400, '''')), w_resource = (\<lambda>_. Inl (400, '''')),
     w_policy = (\<lambda>_. Inl (400, '''')), w_store = (\<lambda>_. Inl (400, '''')), w_vend = (\<lambda>_. Inl (400, '''')),
     w_spend = (\<lambda>_. Inl (400, '''')), w_userinfo = (\<lambda>_. Inl (400, '''')), w_origin_ok = (\<lambda>_. False),
     w_cors = (\<lambda>_ _. None), w_render = (\<lambda>_. '''') \<rparr>"

definition demo_arrival :: "string \<Rightarrow> string \<Rightarrow> string option \<Rightarrow> arrival" where
  "demo_arrival verb path token =
     \<lparr> ar_env = demo_env, ar_now = 0, ar_elapsed = Fin 0,
       ar_request = \<lparr> wr_method = verb,
         wr_head = \<lparr> hr_path = path, hr_authorization = token, hr_client_key = None \<rparr>,
         wr_query = '''', wr_content_type = None, wr_body = '''' \<rparr> \<rparr>"

lemma demo_router_ok: "router_ok demo_web"
  by (auto simp: router_ok_def demo_web_def demo_route_def fits_def split: if_splits option.splits dest!: map_of_SomeD)

lemma demo_arrival_simps [simp]:
  "ar_env (demo_arrival verb path token) = demo_env" "ar_now (demo_arrival verb path token) = 0"
  "ar_elapsed (demo_arrival verb path token) = Fin 0"
  "wr_method (ar_request (demo_arrival verb path token)) = verb"
  "hr_path (wr_head (ar_request (demo_arrival verb path token))) = path"
  "hr_authorization (wr_head (ar_request (demo_arrival verb path token))) = token"
  by (simp_all add: demo_arrival_def)

lemma demo_restored: "restored demo_web (ar_request (demo_arrival verb path token)) = None"
  by (auto simp: restored_def demo_web_def split: routed.split handler_name.split)

lemma demo_times: "time_rt demo_ext (e_now demo_env k)"
  by (simp add: demo_now demo_time_rt)

lemma demo_policy_once:
  obtains d where "create_default_policy demo_ext demo_env 0 0 empty_db = (Inr (), d)"
    and "create_default_policy demo_ext demo_env 0 0 d = (Inr (), d)" and "d_tokens d = []"
  by (simp add: create_default_policy_def create_default_policy_sync_def act_simps insert_policy_def insert_row_def
      changes_def empty_db_def new_policy_row_def is_active_def)

lemma demo_start:
  assumes "create_default_policy demo_ext demo_env 0 0 (migrate file) = (Inr (), d)"
  shows "\<exists>s. run (demo_ext\<lparr> x_jwt_decode := f \<rparr>) demo_env True (Some ''1'') (Some ''admin'') default_config file (\<lambda>_. None) = Inr s
    \<and> st_db s = d \<and> st_token_verifier s = \<lparr> tv_decoding_key = ''key'', tv_issuer = ''http://localhost:8484'', tv_jti_store = {} \<rparr>"
proof -
  let ?X = "demo_ext\<lparr> x_jwt_decode := f \<rparr>"
  have "insert_policy ?X r = insert_policy demo_ext r" "new_policy_row ?X = new_policy_row demo_ext" for r
    by (simp_all add: fun_eq_iff insert_policy_def insert_row_def sql_error_def new_policy_row_def)
  with assms have pol: "create_default_policy ?X demo_env 0 0 (migrate file) = (Inr (), d)"
    by (simp add: create_default_policy_def create_default_policy_sync_def cong: if_cong)
  obtain y where "load_active_policy_yaml demo_env d = (Inr y, d)"
    by (simp add: load_active_policy_yaml_def act_simps)
  moreover have "from_yaml ?X x = Inr (new_engine\<lparr> ye_rules := [] \<rparr>)" for x
    by (simp add: from_yaml_def load_from_str_def) (simp add: demo_ext_def)
  ultimately obtain eng where eng: "fst (build_engine ?X demo_env default_config d) = Inr eng"
    by (cases "y = []") (simp_all add: build_engine_def act_simps create_engine_with_sessions_def default_config_def)
  have "e_read_fault demo_env p = None" "e_rsa_key demo_env = Inr ''key''" for p by (simp_all add: demo_env_def)
  moreover have "x_rsa_private_pem demo_ext = Inr" "x_rsa_public_pem demo_ext = Inr" "x_rsa_decoding_key demo_ext = Inr"
    by (simp_all add: demo_ext_def)
  ultimately have keys: "load_or_generate ?X demo_env True (Some ''1'') a b (key_files demo_env (\<lambda>_. None) default_config) =
      Inr \<lparr> kp_private_pem = ''key'', kp_public_pem = ''key'' \<rparr>"
    and ver: "verifier_from_pem ?X ''key'' iss = Inr \<lparr> tv_decoding_key = ''key'', tv_issuer = iss, tv_jti_store = {} \<rparr>" for a b iss
    by (simp_all add: load_or_generate_def key_files_def read_file_def generate_key_pair_def crypto_err_def verifier_from_pem_def)
  obtain i where iss: "issuer_from_pem ?X ''key'' (ct_issuer (cf_token default_config)) ''key-1'' = Inr i"
    by (simp add: issuer_from_pem_def crypto_err_def) (simp add: demo_ext_def crypto_err_def)
  have "e_now demo_env 0 = 0" "e_uuid demo_env 0 = 0" "ct_issuer (cf_token default_config) = ''http://localhost:8484''"
    by (simp_all add: demo_env_def default_config_def)
  with pol eng keys iss ver show ?thesis
    by (simp add: run_def ensure_startable_def auth_from_env_def new_app_def open_database_def)
qed

lemma demo_run: "\<exists>s. run demo_ext demo_env True (Some ''1'') (Some ''admin'') default_config None (\<lambda>_. None) = Inr s"
  using demo_policy_once demo_start [of None _ "x_jwt_decode demo_ext"] by (auto simp: migrate_def)

lemma server_stays_well_formed_witness:
  "\<exists>s. run demo_ext demo_env True (Some ''1'') (Some ''admin'') default_config None (\<lambda>_. None) = Inr s
    \<and> app_ok demo_ext (fold (serve_step demo_web demo_ext)
        [demo_arrival ''GET'' ''/v1/sessions'' None, demo_arrival ''GET'' ''/metrics'' None] s)"
proof -
  let ?as = "[demo_arrival ''GET'' ''/v1/sessions'' None, demo_arrival ''GET'' ''/metrics'' None]"
  from demo_run obtain s where s: "run demo_ext demo_env True (Some ''1'') (Some ''admin'') default_config None (\<lambda>_. None) = Inr s"
    by blast
  have "\<forall>a \<in> set ?as. \<forall>k. time_rt demo_ext (e_now (ar_env a) k)" by (simp add: demo_times)
  from server_stays_well_formed [OF s demo_uuid_rt demo_chains_rt this] s show ?thesis by blast
qed

lemma demo_kill: "snd (kill_agent_route demo_ext demo_env 7 demo_app) = demo_app\<lparr> st_session_store := kill_agent 7 new_store \<rparr>"
proof -
  have "demo_db\<lparr> d_tokens := [] \<rparr> = demo_db" by (simp add: demo_db_def empty_db_def)
  moreover have "demo_app\<lparr> st_session_store := st, st_db := demo_db \<rparr> = demo_app\<lparr> st_session_store := st \<rparr>" for st
    by (simp add: demo_app_def)
  ultimately show ?thesis
    by (simp add: kill_agent_route_def act_simps revoke_agent_tokens_def Let_def mark_token_def demo_db_empty)
qed

lemma demo_health:
  "serve_step demo_web demo_ext (demo_arrival ''GET'' ''/health'' None) s =
     s\<lparr> st_metrics := observe_duration ''GET'' ''/health'' (Fin 0) (st_metrics s) \<rparr>"
proof -
  have r: "route demo_web (ar_request (demo_arrival ''GET'' ''/health'' None)) = Routed ''/health'' Health []"
    by (simp add: route_def demo_web_def demo_route_def all_routes_def)
  have c: "w_cors demo_web o' req = None" for o' req by (simp add: demo_web_def)
  show ?thesis
    by (simp add: serve_step_def serve_def c metrics_latency_middleware_def with_auth_def auth_middleware_def
      is_admin_path_def is_agent_path_def paths_start_with_def starts_with_def run_route_def r path_label_def
      respond_def health_def act_simps)
qed

lemma stopped_agent_gets_nothing_witness:
  "\<exists>resp s'. request_access demo_ext demo_env (Some 7) demo_access
      (fold (serve_step demo_web demo_ext) [demo_arrival ''GET'' ''/health'' None]
        (snd (kill_agent_route demo_ext demo_env 7 demo_app))) = (Inr resp, s')
    \<and> rs_decision resp = ''deny'' \<and> rs_token resp = None"
proof -
  let ?s = "fold (serve_step demo_web demo_ext) [demo_arrival ''GET'' ''/health'' None]
        (snd (kill_agent_route demo_ext demo_env 7 demo_app))"
  have "ag_owner_id demo_keyed = None" "\<not> ss_killed (new_session n sid a p)" for n sid a p
    by (simp_all add: demo_keyed_def demo_agent_def new_session_def)
  then obtain resp s' where r: "request_access demo_ext demo_env (Some 7) demo_access ?s = (Inr resp, s')"
    by (simp add: demo_kill demo_health request_access_def act_simps get_agent_def demo_get_agent request_principal_def
        owner_of_def demo_keyed_fields Let_def is_agent_killed_def kill_agent_def new_store_def get_or_create_session_def
        map_values_def request_session_id_def)
  have "\<forall>x \<in> set [demo_arrival ''GET'' ''/health'' None].
      restored demo_web (ar_request x) \<noteq> Some (rq_agent_id demo_access)"
    by (simp add: demo_restored)
  from stopped_agent_gets_nothing [OF this demo_uuid_rt, of demo_env "Some 7" demo_env demo_app resp s'] r
  show ?thesis by auto
qed

theorem revoked_token_is_refused_witness:
  "cl_jti deleg_claims \<noteq> ''other''"
proof -
  let ?s = "demo_app\<lparr> st_token_verifier := revoke ''other'' demo_verifier \<rparr>"
  have s: "revoke_token_route demo_env ''other'' demo_app = (Inr (JObj [(''revoked'', JStr ''other'')]), ?s)"
  proof -
    have "demo_db\<lparr> d_tokens := [] \<rparr> = demo_db" by (simp add: demo_db_def empty_db_def)
    moreover have "demo_app\<lparr> st_db := demo_db, st_token_verifier := v \<rparr> = demo_app\<lparr> st_token_verifier := v \<rparr>" for v
      by (simp add: demo_app_def)
    ultimately show ?thesis
      by (simp add: revoke_token_route_def act_simps revoke_token_def mark_token_def demo_db_empty)
  qed
  have "verify deleg_ext (st_token_verifier (fold (serve_step demo_web deleg_ext) [] ?s)) 0 1 ''parent''
      (Some (agent_urn demo_ext 7)) = Inr deleg_claims"
    by (simp add: verify_def revoke_def demo_verifier_def)
      (simp add: deleg_ext_def deleg_claims_def timestamp_def second_ns_def)
  from revoked_token_is_refused [OF s this] show ?thesis .
qed

theorem protected_routes_need_credentials_witness:
  "\<exists>msg. serve demo_web demo_ext demo_env 0 (Fin 0) (ar_request (demo_arrival ''GET'' ''/v1/sessions'' (Some ''Bearer guess''))) demo_app
    = (Inr (401, ErrorBody msg), demo_app\<lparr> st_metrics := observe_duration ''GET'' ''/v1/sessions'' (Fin 0) new_metrics \<rparr>)"
proof -
  let ?req = "ar_request (demo_arrival ''GET'' ''/v1/sessions'' (Some ''Bearer guess''))"
  have r: "route demo_web ?req = Routed ''/v1/sessions'' ListSessions []"
    by (simp add: route_def demo_web_def demo_route_def all_routes_def)
  have h: "ListSessions \<notin> set public_handlers" by (simp add: public_handlers_def)
  have "presented_token (wr_head ?req) = ''guess''"
    by (simp add: presented_token_def header_to_str_def strip_prefix_def starts_with_def)
  then have l: "lacks_credential demo_ext ListSessions ?req demo_app"
    by (simp add: lacks_credential_def agent_handlers_def) (simp add: demo_app_def)
  have c: "w_cors demo_web (cors_origins demo_web (st_config demo_app)) ?req = None" by (simp add: demo_web_def)
  from protected_routes_need_credentials [OF demo_router_ok r h l c, of demo_env 0 "Fin 0"] show ?thesis by simp
qed

text \<open>Two stops and a revocation, interleaved with the audit entry of a third request.\<close>

lemma interleavings_stay_well_formed_witness:
  "\<exists>s. run demo_ext demo_env True (Some ''1'') (Some ''admin'') default_config None (\<lambda>_. None) = Inr s
    \<and> app_ok demo_ext (fold (app_step demo_ext)
        [SessionOp (KillAgent 7), DbOp (AuditOp demo_env (e_now demo_env 13) demo_create_audit), RevokeJti ''jti''] s)"
proof -
  let ?ops = "[SessionOp (KillAgent 7), DbOp (AuditOp demo_env (e_now demo_env 13) demo_create_audit)]"
  let ?as = "[demo_arrival ''GET'' ''/v1/sessions'' None]"
  from demo_run obtain s where s: "run demo_ext demo_env True (Some ''1'') (Some ''admin'') default_config None (\<lambda>_. None) = Inr s"
    by blast
  have times: "\<forall>a \<in> set ?as. \<forall>k. time_rt demo_ext (e_now (ar_env a) k)" by (simp add: demo_times)
  have "list_all (\<lambda>op. list_ex (\<lambda>a. permitted demo_ext (ar_env a) (restored demo_web (ar_request a)) op) ?as) (?ops @ [RevokeJti ''jti''])"
    by (simp add: demo_create_audit_def) blast
  from interleavings_stay_well_formed [OF s demo_uuid_rt demo_chains_rt times this] s show ?thesis by auto
qed

end
