(* ===== verification/Config_Layers.thy ===== *)
theory Config_Layers
  imports Configuration
begin

text \<open>
  Layering the environment over the configuration file (\<open>Config::load\<close> and \<open>layer_with_env\<close> of
  \<open>src/config/mod.rs\<close>): every variable \<open>PATROCLUS_<SECTION>__<FIELD>\<close> overrides a field. A section is
  turned into a TOML table, patched, and read back. Errors are the texts of \<open>anyhow\<close>.

  The TOML parser is not part of the repository: \<open>tx_value\<close> and \<open>tx_config\<close> parse a text to a value and
  to a configuration, \<open>tx_invalid\<close> is the message for a value that a field cannot hold.
\<close>

datatype toml =
    TStr string | TInt int | TFloat f64 | TBool bool | TDate string
  | TArr "toml list" | TTable "(string \<times> toml) list"

record toml_ext =
  tx_value :: "string \<Rightarrow> string + toml"
  tx_config :: "string \<Rightarrow> string + config"
  tx_invalid :: "string \<Rightarrow> toml \<Rightarrow> string"

type_synonym toml_table = "(string \<times> toml) list"

section \<open>Reading a value of the environment\<close>

text \<open>\<open>str::split_once\<close>, \<open>str::trim\<close> and \<open>to_ascii_lowercase\<close> of the standard library.\<close>

fun split_once :: "string \<Rightarrow> string \<Rightarrow> (string \<times> string) option" where
  "split_once pat [] = (if pat = [] then Some ([], []) else None)"
| "split_once pat (c # cs) =
     (if starts_with (c # cs) pat then Some ([], drop (length pat) (c # cs))
      else map_option (\<lambda>(a, b). (c # a, b)) (split_once pat cs))"

definition trim :: "string \<Rightarrow> string" where
  "trim s = concat (rev (dropWhile (\<lambda>w. w \<in> set white_space)
     (rev (dropWhile (\<lambda>w. w \<in> set white_space) (str_chars s)))))"

definition lower_char :: "char \<Rightarrow> char" where
  "lower_char c = (let n = of_char c :: nat in if 65 \<le> n \<and> n \<le> 90 then char_of (n + 32) else c)"

definition to_ascii_lowercase :: "string \<Rightarrow> string" where
  "to_ascii_lowercase s = map lower_char s"

text \<open>The parsers \<open>i64::from_str\<close>, \<open>f64::from_str\<close> and \<open>bool::from_str\<close>.\<close>

definition is_digit :: "char \<Rightarrow> bool" where
  "is_digit c \<longleftrightarrow> (48::nat) \<le> of_char c \<and> (of_char c :: nat) \<le> 57"

definition decimal :: "string \<Rightarrow> int" where
  "decimal ds = fold (\<lambda>c n. 10 * n + (of_char c - 48)) ds 0"

fun signed :: "string \<Rightarrow> bool \<times> string" where
  "signed (c # cs) = (if c = CHR ''-'' then (True, cs) else if c = CHR ''+'' then (False, cs) else (False, c # cs))"
| "signed [] = (False, [])"

definition parse_i64 :: "string \<Rightarrow> int option" where
  "parse_i64 s = (case signed s of (neg, ds) \<Rightarrow>
     if ds = [] \<or> \<not> list_all is_digit ds then None
     else let n = (if neg then - decimal ds else decimal ds)
          in if - (2 ^ 63) \<le> n \<and> n < 2 ^ 63 then Some n else None)"

definition parse_exponent :: "string \<Rightarrow> int option" where
  "parse_exponent s =
     (case s of
        [] \<Rightarrow> Some 0
      | c # cs \<Rightarrow>
          if c \<noteq> CHR ''e'' \<and> c \<noteq> CHR ''E'' then None
          else (case signed cs of (neg, ds) \<Rightarrow>
            if ds = [] \<or> \<not> list_all is_digit ds then None
            else Some (if neg then - decimal ds else decimal ds)))"

definition parse_number :: "string \<Rightarrow> rat option" where
  "parse_number s =
     (let whole = takeWhile is_digit s; s' = dropWhile is_digit s;
          frac = (case s' of c # cs \<Rightarrow> if c = CHR ''.'' then takeWhile is_digit cs else [] | [] \<Rightarrow> []);
          s'' = (case s' of c # cs \<Rightarrow> if c = CHR ''.'' then dropWhile is_digit cs else s' | [] \<Rightarrow> [])
      in if whole = [] \<and> frac = [] then None
         else map_option (\<lambda>e. of_int (decimal (whole @ frac)) * 10 powi (e - int (length frac)))
           (parse_exponent s''))"

definition parse_f64 :: "string \<Rightarrow> f64 option" where
  "parse_f64 s = (case signed s of (neg, t) \<Rightarrow>
     (case parse_number t of
        Some x \<Rightarrow> Some (round_f64 (if neg then - x else x))
      | None \<Rightarrow>
          if to_ascii_lowercase t = ''nan'' then Some NaN
          else if to_ascii_lowercase t \<in> {''inf'', ''infinity''} then Some (if neg then MinusInf else PlusInf)
          else None))"

definition parse_bool :: "string \<Rightarrow> bool option" where
  "parse_bool s = (if s = ''true'' then Some True else if s = ''false'' then Some False else None)"

definition toml_get :: "string \<Rightarrow> toml \<Rightarrow> toml option" where
  "toml_get k v = (case v of TTable t \<Rightarrow> map_of t k | _ \<Rightarrow> None)"

definition parse_env_scalar :: "toml_ext \<Rightarrow> string \<Rightarrow> string + toml" where
  "parse_env_scalar T raw =
     (let trimmed = trim raw in
      if starts_with trimmed ''['' \<and> ends_with trimmed '']'' then
        (case tx_value T (''value = '' @ trimmed) of
           Inl e \<Rightarrow> Inl e
         | Inr v \<Rightarrow> Inr (or_else (toml_get ''value'' v) (TStr raw)))
      else (case parse_i64 trimmed of Some n \<Rightarrow> Inr (TInt n) | None \<Rightarrow>
           (case parse_f64 trimmed of Some x \<Rightarrow> Inr (TFloat x) | None \<Rightarrow>
           (case parse_bool trimmed of Some b \<Rightarrow> Inr (TBool b) | None \<Rightarrow> Inr (TStr raw)))))"

section \<open>Sections as tables\<close>

text \<open>
  What the derived \<open>Serialize\<close> and \<open>Deserialize\<close> of the five section structs do: one entry per field, in
  the order of the names (the table is a \<open>BTreeMap\<close>). A TOML integer is an \<open>i64\<close>; reading back checks the
  kind of each value and the range of the field's type.
\<close>

definition u64_toml :: "u64 \<Rightarrow> string + toml" where
  "u64_toml n = (if uint n < 2 ^ 63 then Inr (TInt (uint n)) else Inl ''u64 value was too large'')"

definition strings_toml :: "string list \<Rightarrow> toml" where
  "strings_toml ss = TArr (map TStr ss)"

fun toml_string :: "toml \<Rightarrow> string option" where
  "toml_string (TStr s) = Some s"
| "toml_string _ = None"

fun toml_strings :: "toml \<Rightarrow> string list option" where
  "toml_strings (TArr vs) = those (map toml_string vs)"
| "toml_strings _ = None"

definition toml_u64 :: "toml \<Rightarrow> u64 option" where
  "toml_u64 v = (case v of TInt n \<Rightarrow> if 0 \<le> n \<and> n < 2 ^ 63 then Some (of_int n) else None | _ \<Rightarrow> None)"

definition toml_u16 :: "toml \<Rightarrow> 16 word option" where
  "toml_u16 v = (case v of TInt n \<Rightarrow> if 0 \<le> n \<and> n < 2 ^ 16 then Some (of_int n) else None | _ \<Rightarrow> None)"

definition field :: "toml_ext \<Rightarrow> (toml \<Rightarrow> 'a option) \<Rightarrow> string \<Rightarrow> toml_table \<Rightarrow> string + 'a" where
  "field T decode k t =
     (case map_of t k of
        None \<Rightarrow> Inl (''missing field `'' @ k @ ''`'')
      | Some v \<Rightarrow> ok_or (decode v) (tx_invalid T k v))"

text \<open>A field with \<open>#[serde(default)]\<close> may be missing.\<close>

definition field_or :: "'a \<Rightarrow> toml_ext \<Rightarrow> (toml \<Rightarrow> 'a option) \<Rightarrow> string \<Rightarrow> toml_table \<Rightarrow> string + 'a" where
  "field_or d T decode k t = (if map_of t k = None then Inr d else field T decode k t)"

definition server_table :: "server_config \<Rightarrow> string + toml_table" where
  "server_table c = Inr
     [(''cors_allowed_origins'', strings_toml (cs_cors_allowed_origins c)),
      (''host'', TStr (cs_host c)), (''port'', TInt (uint (cs_port c)))]"

definition server_of_table :: "toml_ext \<Rightarrow> toml_table \<Rightarrow> string + server_config" where
  "server_of_table T t =
     (case field_or [] T toml_strings ''cors_allowed_origins'' t of Inl e \<Rightarrow> Inl e | Inr origins \<Rightarrow>
     (case field T toml_string ''host'' t of Inl e \<Rightarrow> Inl e | Inr host \<Rightarrow>
     (case field T toml_u16 ''port'' t of Inl e \<Rightarrow> Inl e | Inr port \<Rightarrow>
       Inr \<lparr> cs_host = host, cs_port = port, cs_cors_allowed_origins = origins \<rparr>)))"

definition database_table :: "database_config \<Rightarrow> string + toml_table" where
  "database_table c =
     (case u64_toml (cd_read_pool_size c) of Inl e \<Rightarrow> Inl e | Inr pool \<Rightarrow>
       Inr [(''path'', TStr (cd_path c)), (''read_pool_size'', pool)])"

definition database_of_table :: "toml_ext \<Rightarrow> toml_table \<Rightarrow> string + database_config" where
  "database_of_table T t =
     (case field T toml_string ''path'' t of Inl e \<Rightarrow> Inl e | Inr path \<Rightarrow>
     (case field_or 0 T toml_u64 ''read_pool_size'' t of Inl e \<Rightarrow> Inl e | Inr pool \<Rightarrow>
       Inr \<lparr> cd_path = path, cd_read_pool_size = pool \<rparr>))"

definition token_table :: "token_config \<Rightarrow> string + toml_table" where
  "token_table c =
     (case u64_toml (ct_default_ttl_seconds c) of Inl e \<Rightarrow> Inl e | Inr ttl \<Rightarrow>
     (case u64_toml (ct_max_ttl_seconds c) of Inl e \<Rightarrow> Inl e | Inr max_ttl \<Rightarrow>
       Inr [(''default_ttl_seconds'', ttl), (''issuer'', TStr (ct_issuer c)),
            (''max_ttl_seconds'', max_ttl), (''private_key_path'', TStr (ct_private_key_path c)),
            (''public_key_path'', TStr (ct_public_key_path c))]))"

definition token_of_table :: "toml_ext \<Rightarrow> toml_table \<Rightarrow> string + token_config" where
  "token_of_table T t =
     (case field T toml_u64 ''default_ttl_seconds'' t of Inl e \<Rightarrow> Inl e | Inr ttl \<Rightarrow>
     (case field T toml_string ''issuer'' t of Inl e \<Rightarrow> Inl e | Inr iss \<Rightarrow>
     (case field T toml_u64 ''max_ttl_seconds'' t of Inl e \<Rightarrow> Inl e | Inr max_ttl \<Rightarrow>
     (case field T toml_string ''private_key_path'' t of Inl e \<Rightarrow> Inl e | Inr private \<Rightarrow>
     (case field T toml_string ''public_key_path'' t of Inl e \<Rightarrow> Inl e | Inr public \<Rightarrow>
       Inr \<lparr> ct_issuer = iss, ct_private_key_path = private, ct_public_key_path = public,
             ct_default_ttl_seconds = ttl, ct_max_ttl_seconds = max_ttl \<rparr>)))))"

definition policy_table :: "policy_config \<Rightarrow> string + toml_table" where
  "policy_table c =
     (case u64_toml (cp_max_delegation_depth c) of Inl e \<Rightarrow> Inl e | Inr depth \<Rightarrow>
       Inr [(''default_decision'', TStr (cp_default_decision c)), (''engine'', TStr (cp_engine c)),
            (''max_delegation_depth'', depth)])"

definition policy_of_table :: "toml_ext \<Rightarrow> toml_table \<Rightarrow> string + policy_config" where
  "policy_of_table T t =
     (case field T toml_string ''default_decision'' t of Inl e \<Rightarrow> Inl e | Inr decision \<Rightarrow>
     (case field T toml_string ''engine'' t of Inl e \<Rightarrow> Inl e | Inr engine \<Rightarrow>
     (case field T toml_u64 ''max_delegation_depth'' t of Inl e \<Rightarrow> Inl e | Inr depth \<Rightarrow>
       Inr \<lparr> cp_engine = engine, cp_default_decision = decision, cp_max_delegation_depth = depth \<rparr>)))"

definition vault_table :: "vault_config \<Rightarrow> string + toml_table" where
  "vault_table c = Inr [(''encryption_key_path'', TStr (cv_encryption_key_path c))]"

definition vault_of_table :: "toml_ext \<Rightarrow> toml_table \<Rightarrow> string + vault_config" where
  "vault_of_table T t =
     (case field T toml_string ''encryption_key_path'' t of Inl e \<Rightarrow> Inl e | Inr path \<Rightarrow>
       Inr \<lparr> cv_encryption_key_path = path \<rparr>)"

section \<open>Layering\<close>

text \<open>\<open>patch_section\<close>: the overrides in the order of the field names; a field the section lacks is skipped.\<close>

fun patch_fields :: "toml_ext \<Rightarrow> (string \<times> string) list \<Rightarrow> toml_table \<Rightarrow> string + toml_table" where
  "patch_fields T [] t = Inr t"
| "patch_fields T ((f, raw) # fs) t =
     (case parse_env_scalar T raw of
        Inl e \<Rightarrow> Inl e
      | Inr v \<Rightarrow> patch_fields T fs (case map_of t f of Some _ \<Rightarrow> AList.update f v t | None \<Rightarrow> t))"

definition patch_section ::
    "toml_ext \<Rightarrow> ('c \<Rightarrow> string + toml_table) \<Rightarrow> (toml_ext \<Rightarrow> toml_table \<Rightarrow> string + 'c) \<Rightarrow> (string \<times> string) list \<Rightarrow>
     'c \<Rightarrow> string + 'c" where
  "patch_section T to_table of_table overrides current =
     (case to_table current of Inl e \<Rightarrow> Inl e | Inr t \<Rightarrow>
     (case patch_fields T overrides t of Inl e \<Rightarrow> Inl e | Inr t' \<Rightarrow> of_table T t'))"

text \<open>\<open>BTreeMap::insert\<close>: the keys are kept in order.\<close>

fun btree_insert :: "string \<Rightarrow> 'v \<Rightarrow> (string \<times> 'v) list \<Rightarrow> (string \<times> 'v) list" where
  "btree_insert k v [] = [(k, v)]"
| "btree_insert k v ((k', v') # m) =
     (if k < k' then (k, v) # (k', v') # m
      else if k = k' then (k, v) # m
      else (k', v') # btree_insert k v m)"

definition env_prefix :: string where
  "env_prefix = ''PATROCLUS_''"

text \<open>Section and field a variable names, if it is one of the layered configuration.\<close>

definition env_key :: "string \<Rightarrow> (string \<times> string) option" where
  "env_key name =
     (if \<not> starts_with name env_prefix \<or> length name \<le> length env_prefix then None
      else map_option (\<lambda>(section, key). (to_ascii_lowercase section, to_ascii_lowercase key))
        (split_once ''__'' (drop (length env_prefix) name)))"

definition add_variable ::
    "string \<times> string \<Rightarrow> (string \<times> (string \<times> string) list) list \<Rightarrow> (string \<times> (string \<times> string) list) list" where
  "add_variable var m =
     (case env_key (fst var) of
        None \<Rightarrow> m
      | Some (section, f) \<Rightarrow>
          btree_insert section (btree_insert f (snd var) (or_else (map_of m section) [])) m)"

definition by_section :: "(string \<times> string) list \<Rightarrow> (string \<times> (string \<times> string) list) list" where
  "by_section vars = fold add_variable vars []"

definition layer_section :: "toml_ext \<Rightarrow> string \<Rightarrow> (string \<times> string) list \<Rightarrow> config \<Rightarrow> string + config" where
  "layer_section T section fs cfg =
     (if section = ''server'' then
        map_sum id (\<lambda>c. cfg\<lparr> cf_server := c \<rparr>) (patch_section T server_table server_of_table fs (cf_server cfg))
      else if section = ''database'' then
        map_sum id (\<lambda>c. cfg\<lparr> cf_database := c \<rparr>) (patch_section T database_table database_of_table fs (cf_database cfg))
      else if section = ''token'' then
        map_sum id (\<lambda>c. cfg\<lparr> cf_token := c \<rparr>) (patch_section T token_table token_of_table fs (cf_token cfg))
      else if section = ''policy'' then
        map_sum id (\<lambda>c. cfg\<lparr> cf_policy := c \<rparr>) (patch_section T policy_table policy_of_table fs (cf_policy cfg))
      else if section = ''vault'' then
        map_sum id (\<lambda>c. cfg\<lparr> cf_vault := c \<rparr>) (patch_section T vault_table vault_of_table fs (cf_vault cfg))
      else Inr cfg)"

primrec layer_sections :: "toml_ext \<Rightarrow> (string \<times> (string \<times> string) list) list \<Rightarrow> config \<Rightarrow> string + config" where
  "layer_sections T [] cfg = Inr cfg"
| "layer_sections T (s # ss) cfg =
     (case layer_section T (fst s) (snd s) cfg of Inl e \<Rightarrow> Inl e | Inr cfg' \<Rightarrow> layer_sections T ss cfg')"

definition layer_with_env :: "toml_ext \<Rightarrow> (string \<times> string) list \<Rightarrow> config \<Rightarrow> string + config" where
  "layer_with_env T vars cfg = layer_sections T (by_section vars) cfg"

text \<open>\<open>Config::load\<close>: \<open>content\<close> is what reading the file gave.\<close>

definition load_config :: "toml_ext \<Rightarrow> (string \<times> string) list \<Rightarrow> string + string \<Rightarrow> string + config" where
  "load_config T vars content =
     (case content of Inl e \<Rightarrow> Inl e | Inr text \<Rightarrow>
     (case tx_config T text of Inl e \<Rightarrow> Inl e | Inr cfg \<Rightarrow> layer_with_env T vars cfg))"

section \<open>What layering changes\<close>

lemma map_of_btree_insert: "map_of (btree_insert k v m) = (map_of m)(k \<mapsto> v)"
  by (induction k v m rule: btree_insert.induct) (auto simp: fun_eq_iff)

lemma keys_btree_insert: "fst ` set (btree_insert k v m) = insert k (fst ` set m)"
  by (induction k v m rule: btree_insert.induct) auto

lemma sorted_btree_insert:
  "sorted_wrt (<) (map fst m) \<Longrightarrow> sorted_wrt (<) (map fst (btree_insert k v m))"
proof (induction k v m rule: btree_insert.induct)
  case (2 k v k' v' m)
  then show ?case using keys_btree_insert [of k v m]
    by (auto simp: image_iff dest: less_trans)
qed simp

text \<open>The value the environment holds for a field: the last variable that names it.\<close>

definition env_value :: "(string \<times> string) list \<Rightarrow> string \<Rightarrow> string \<Rightarrow> string option" where
  "env_value vars s f = map_option snd (find (\<lambda>var. env_key (fst var) = Some (s, f)) (rev vars))"

definition grouped :: "(string \<times> (string \<times> string) list) list \<Rightarrow> string \<Rightarrow> string \<Rightarrow> string option" where
  "grouped m s f = Option.bind (map_of m s) (\<lambda>fs. map_of fs f)"

lemma grouped_add_variable:
  "grouped (add_variable var m) s f = (if env_key (fst var) = Some (s, f) then Some (snd var) else grouped m s f)"
  by (cases "map_of m s") (auto simp: add_variable_def grouped_def map_of_btree_insert split: option.split)

lemma grouped_by_section: "grouped (by_section vars) s f = env_value vars s f"
proof (induction vars rule: rev_induct)
  case Nil
  then show ?case by (simp add: by_section_def grouped_def env_value_def)
next
  case (snoc var vars)
  then show ?case by (simp add: by_section_def grouped_add_variable env_value_def)
qed

definition ordered :: "(string \<times> (string \<times> string) list) list \<Rightarrow> bool" where
  "ordered m \<longleftrightarrow> sorted_wrt (<) (map fst m) \<and> (\<forall>fs \<in> snd ` set m. sorted_wrt (<) (map fst fs))"

lemma values_btree_insert: "snd ` set (btree_insert k v m) \<subseteq> insert v (snd ` set m)"
  by (induction k v m rule: btree_insert.induct) auto

lemma ordered_by_section: "ordered (by_section vars)"
proof (induction vars rule: rev_induct)
  case (snoc var vars)
  have "ordered (add_variable var m)" if m: "ordered m" for m
  proof (cases "env_key (fst var)")
    case (Some k)
    obtain s f where k: "k = (s, f)" by (cases k)
    let ?fs = "btree_insert f (snd var) (or_else (map_of m s) [])"
    have "sorted_wrt (<) (map fst (or_else (map_of m s) []))"
      using m map_of_SomeD [of m s] by (cases "map_of m s") (auto simp: ordered_def)
    then have fs: "sorted_wrt (<) (map fst ?fs)" by (rule sorted_btree_insert)
    have "sorted_wrt (<) (map fst gs)" if "gs \<in> snd ` set (btree_insert s ?fs m)" for gs
    proof -
      from that values_btree_insert [of s ?fs m] have "gs = ?fs \<or> gs \<in> snd ` set m" by (rule_tac insertE) auto
      with fs m show ?thesis unfolding ordered_def by blast
    qed
    with m show ?thesis
      by (simp add: add_variable_def Some k ordered_def sorted_btree_insert)
  qed (simp add: add_variable_def m)
  with snoc show ?case by (simp add: by_section_def)
qed (simp add: by_section_def ordered_def)

definition overridden :: "toml_ext \<Rightarrow> string option \<Rightarrow> toml option \<Rightarrow> toml option" where
  "overridden T new old =
     (case (new, old) of
        (Some raw, Some _) \<Rightarrow> (case parse_env_scalar T raw of Inr v \<Rightarrow> Some v | Inl _ \<Rightarrow> None)
      | _ \<Rightarrow> old)"

lemma patch_fields_names: "patch_fields T fs t = Inr t' \<Longrightarrow> map fst t' = map fst t"
  by (induction T fs t rule: patch_fields.induct)
    (auto simp: update_keys dom_map_of_conv_image_fst [symmetric] split: sum.splits option.splits)

lemma patch_fields_map_of:
  "patch_fields T fs t = Inr t' \<Longrightarrow> distinct (map fst fs) \<Longrightarrow>
   map_of t' f = overridden T (map_of fs f) (map_of t f)"
proof (induction T fs t rule: patch_fields.induct)
  case (1 T t)
  then show ?case by (simp add: overridden_def)
next
  case (2 T g raw fs t)
  then obtain v where v: "parse_env_scalar T raw = Inr v" by (auto split: sum.splits)
  have g: "map_of fs g = None" using 2 by (auto simp: map_of_eq_None_iff)
  from 2 v g show ?case
    by (cases "map_of t g") (auto simp: update_conv overridden_def split: option.splits)
qed

text \<open>
  \<open>patch_section\<close> is generic in the section: it needs of the type only that writing it gives a table with
  the field names, and that reading a table with these names gives a section that is written as it.
\<close>

locale config_section =
  fixes to_table :: "'c \<Rightarrow> string + toml_table"
    and of_table :: "toml_ext \<Rightarrow> toml_table \<Rightarrow> string + 'c"
    and names :: "string list"
  assumes to_table_names: "to_table c = Inr t \<Longrightarrow> map fst t = names"
    and to_of_table: "of_table T t = Inr c \<Longrightarrow> map fst t = names \<Longrightarrow> to_table c = Inr t"
    and of_to_table: "to_table c = Inr t \<Longrightarrow> of_table T t = Inr c"
begin

lemma patch_section_InrD:
  assumes "patch_section T to_table of_table fs c = Inr c'"
  obtains t t' where "to_table c = Inr t" "to_table c' = Inr t'" "patch_fields T fs t = Inr t'"
proof -
  from assms obtain t t' where t: "to_table c = Inr t" "patch_fields T fs t = Inr t'" "of_table T t' = Inr c'"
    by (auto simp: patch_section_def split: sum.splits)
  with to_table_names patch_fields_names have "map fst t' = names" by metis
  with t(3) have "to_table c' = Inr t'" by (rule to_of_table)
  with t that show thesis by blast
qed

lemma patch_section_field:
  assumes "patch_section T to_table of_table fs c = Inr c'" and "distinct (map fst fs)"
  shows "(case to_table c' of Inl _ \<Rightarrow> None | Inr t \<Rightarrow> map_of t f)
       = overridden T (map_of fs f) (case to_table c of Inl _ \<Rightarrow> None | Inr t \<Rightarrow> map_of t f)"
  using assms(1)
proof (rule patch_section_InrD)
  fix t t'
  assume "to_table c = Inr t" "to_table c' = Inr t'" "patch_fields T fs t = Inr t'"
  with patch_fields_map_of [OF _ assms(2)] show ?thesis by simp
qed

lemma patch_section_nothing: "to_table c = Inr t \<Longrightarrow> patch_section T to_table of_table [] c = Inr c"
  by (simp add: patch_section_def of_to_table)

end

lemmas table_defs = server_table_def database_table_def token_table_def policy_table_def vault_table_def
  server_of_table_def database_of_table_def token_of_table_def policy_of_table_def vault_of_table_def

lemma those_toml_strings: "those (map toml_string vs) = Some ss \<longleftrightarrow> vs = map TStr ss"
proof (induction vs arbitrary: ss)
  case (Cons v vs)
  then show ?case by (cases v) (auto split: option.splits)
qed auto

lemma toml_strings_Some: "toml_strings v = Some ss \<longleftrightarrow> v = strings_toml ss"
  by (cases v) (auto simp: those_toml_strings strings_toml_def)

lemma toml_string_Some: "toml_string v = Some s \<longleftrightarrow> v = TStr s"
  by (cases v) auto

lemma toml_u64_Some: "toml_u64 v = Some n \<longleftrightarrow> u64_toml n = Inr v"
proof
  assume "toml_u64 v = Some n"
  then obtain i where i: "v = TInt i" "0 \<le> i" "i < 2 ^ 63" "n = of_int i"
    by (auto simp: toml_u64_def split: toml.splits if_splits)
  then have "uint n = i" by (simp add: uint_word_of_int take_bit_int_eq_self)
  with i show "u64_toml n = Inr v" by (simp add: u64_toml_def)
qed (auto simp: u64_toml_def toml_u64_def split: if_splits)

lemma u64_toml_unique: "u64_toml m = Inr v \<Longrightarrow> u64_toml n = Inr v \<Longrightarrow> m = n"
  using toml_u64_Some [of v] by (metis option.inject)

lemma u64_toml_readable: "u64_toml n = Inr v \<Longrightarrow> toml_u64 v \<noteq> None"
  by (simp add: toml_u64_Some [symmetric])

lemma toml_u16_Some: "toml_u16 v = Some n \<longleftrightarrow> v = TInt (uint n)"
proof
  assume "toml_u16 v = Some n"
  then obtain i where i: "v = TInt i" "0 \<le> i" "i < 2 ^ 16" "n = of_int i"
    by (auto simp: toml_u16_def split: toml.splits if_splits)
  then show "v = TInt (uint n)" by (simp add: uint_word_of_int take_bit_int_eq_self)
next
  assume "v = TInt (uint n)"
  with uint_lt2p [of n] show "toml_u16 v = Some n" by (simp add: toml_u16_def)
qed

lemma strings_toml_inj [simp]: "strings_toml as = strings_toml bs \<longleftrightarrow> as = bs"
  by (simp add: strings_toml_def inj_map_eq_map inj_def)

lemma uint_inj: "uint m = uint n \<longleftrightarrow> m = n" for m n :: "'w::len word"
  by (simp add: word_uint_eq_iff)

lemma read_written [simp]:
  "toml_strings (strings_toml ss) = Some ss" "toml_u16 (TInt (uint n)) = Some n"
  by (simp_all add: toml_strings_Some toml_u16_Some)

lemma ok_or_eq_Inl: "ok_or x e = Inl e' \<longleftrightarrow> x = None \<and> e = e'"
  by (cases x) auto

lemmas reading = field_def field_or_def ok_or_eq_Inl toml_strings_Some toml_string_Some toml_u64_Some toml_u16_Some uint_inj

interpretation server_section: config_section server_table server_of_table
    "[''cors_allowed_origins'', ''host'', ''port'']"
  by unfold_locales (auto simp: table_defs reading dest: u64_toml_unique u64_toml_readable
    split: sum.splits option.splits if_splits)

interpretation database_section: config_section database_table database_of_table "[''path'', ''read_pool_size'']"
  by unfold_locales (auto simp: table_defs reading dest: u64_toml_unique u64_toml_readable
    split: sum.splits option.splits if_splits)

interpretation token_section: config_section token_table token_of_table
    "[''default_ttl_seconds'', ''issuer'', ''max_ttl_seconds'', ''private_key_path'', ''public_key_path'']"
  by unfold_locales (auto simp: table_defs reading intro!: token_config.equality
    dest: u64_toml_unique u64_toml_readable
    split: sum.splits option.splits if_splits)

interpretation policy_section: config_section policy_table policy_of_table
    "[''default_decision'', ''engine'', ''max_delegation_depth'']"
  by unfold_locales (auto simp: table_defs reading dest: u64_toml_unique u64_toml_readable
    split: sum.splits option.splits if_splits)

interpretation vault_section: config_section vault_table vault_of_table "[''encryption_key_path'']"
  by unfold_locales (auto simp: table_defs reading dest: u64_toml_unique u64_toml_readable
    split: sum.splits option.splits if_splits)

section \<open>The environment overrides the file\<close>

text \<open>A setting of a configuration, by section and field, as the TOML value it is written as.\<close>

definition section_table :: "string \<Rightarrow> config \<Rightarrow> string + toml_table" where
  "section_table s cfg =
     (if s = ''server'' then server_table (cf_server cfg)
      else if s = ''database'' then database_table (cf_database cfg)
      else if s = ''token'' then token_table (cf_token cfg)
      else if s = ''policy'' then policy_table (cf_policy cfg)
      else if s = ''vault'' then vault_table (cf_vault cfg)
      else Inr [])"

definition setting :: "config \<Rightarrow> string \<Rightarrow> string \<Rightarrow> toml option" where
  "setting cfg s f = (case section_table s cfg of Inl _ \<Rightarrow> None | Inr t \<Rightarrow> map_of t f)"

lemma overridden_None [simp]: "overridden T None old = old" "overridden T new None = None"
  by (simp_all add: overridden_def split: option.split)

lemma map_sum_InrE: "map_sum id g r = Inr y \<Longrightarrow> (\<And>x. r = Inr x \<Longrightarrow> y = g x \<Longrightarrow> P) \<Longrightarrow> P"
  by (cases r) auto

lemma layer_section_InrE:
  assumes "layer_section T section fs cfg = Inr cfg'"
  obtains (server) c where "section = ''server''" "cfg' = cfg\<lparr> cf_server := c \<rparr>"
      "patch_section T server_table server_of_table fs (cf_server cfg) = Inr c"
  | (database) c where "section = ''database''" "cfg' = cfg\<lparr> cf_database := c \<rparr>"
      "patch_section T database_table database_of_table fs (cf_database cfg) = Inr c"
  | (token) c where "section = ''token''" "cfg' = cfg\<lparr> cf_token := c \<rparr>"
      "patch_section T token_table token_of_table fs (cf_token cfg) = Inr c"
  | (policy) c where "section = ''policy''" "cfg' = cfg\<lparr> cf_policy := c \<rparr>"
      "patch_section T policy_table policy_of_table fs (cf_policy cfg) = Inr c"
  | (vault) c where "section = ''vault''" "cfg' = cfg\<lparr> cf_vault := c \<rparr>"
      "patch_section T vault_table vault_of_table fs (cf_vault cfg) = Inr c"
  | (unknown) "cfg' = cfg" "section_table section cfg = Inr []"
  using assms unfolding layer_section_def section_table_def
  by (simp split: if_splits) (auto elim!: map_sum_InrE)

lemma layer_section_setting:
  assumes "layer_section T section fs cfg = Inr cfg'" and "distinct (map fst fs)"
  shows "setting cfg' s f = (if s = section then overridden T (map_of fs f) (setting cfg s f) else setting cfg s f)"
    and "cf_idp cfg' = cf_idp cfg"
proof -
  from assms(1) have "setting cfg' s f = (if s = section then overridden T (map_of fs f) (setting cfg s f)
      else setting cfg s f) \<and> cf_idp cfg' = cf_idp cfg"
  proof (cases rule: layer_section_InrE)
    case (server c)
    with server_section.patch_section_field [OF server(3) assms(2), of f] show ?thesis
      by (simp add: setting_def section_table_def)
  next
    case (database c)
    with database_section.patch_section_field [OF database(3) assms(2), of f] show ?thesis
      by (simp add: setting_def section_table_def)
  next
    case (token c)
    with token_section.patch_section_field [OF token(3) assms(2), of f] show ?thesis
      by (simp add: setting_def section_table_def)
  next
    case (policy c)
    with policy_section.patch_section_field [OF policy(3) assms(2), of f] show ?thesis
      by (simp add: setting_def section_table_def)
  next
    case (vault c)
    with vault_section.patch_section_field [OF vault(3) assms(2), of f] show ?thesis
      by (simp add: setting_def section_table_def)
  qed (simp add: setting_def)
  then show "setting cfg' s f = (if s = section then overridden T (map_of fs f) (setting cfg s f) else setting cfg s f)"
    and "cf_idp cfg' = cf_idp cfg" by simp_all
qed

lemma layer_sections_setting:
  assumes "layer_sections T ss cfg = Inr cfg'" and "distinct (map fst ss)"
    and "\<forall>fs \<in> snd ` set ss. distinct (map fst fs)"
  shows "setting cfg' s f = overridden T (grouped ss s f) (setting cfg s f) \<and> cf_idp cfg' = cf_idp cfg"
  using assms
proof (induction ss arbitrary: cfg)
  case Nil
  then show ?case by (simp add: grouped_def)
next
  case (Cons x ss)
  obtain sec fs where x: "x = (sec, fs)" by (cases x)
  with Cons.prems obtain mid where mid: "layer_section T sec fs cfg = Inr mid" "layer_sections T ss mid = Inr cfg'"
    by (auto split: sum.splits)
  have "map_of ss sec = None" using Cons.prems x by (simp add: map_of_eq_None_iff)
  with mid Cons.prems Cons.IH [OF mid(2)] x show ?case
    by (simp add: layer_section_setting grouped_def)
qed

text \<open>
  C35: The environment overrides the file: after layering, a setting is what the last variable that names it
  holds, read as a TOML scalar, if the section has such a field, and the setting of the file otherwise;
  and no variable changes the identity providers.
\<close>

theorem environment_overrides_file:
  assumes "layer_with_env T vars cfg = Inr cfg'"
  shows "setting cfg' s f =
      (case (env_value vars s f, setting cfg s f) of
         (Some raw, Some _) \<Rightarrow> (case parse_env_scalar T raw of Inr v \<Rightarrow> Some v | Inl _ \<Rightarrow> None)
       | (_, old) \<Rightarrow> old)
    \<and> cf_idp cfg' = cf_idp cfg"
proof -
  have "distinct (map fst (by_section vars)) \<and> (\<forall>fs \<in> snd ` set (by_section vars). distinct (map fst fs))"
    using ordered_by_section [of vars] strict_sorted_iff unfolding ordered_def by blast
  with layer_sections_setting [OF assms [unfolded layer_with_env_def], of s f] show ?thesis
    by (simp add: grouped_by_section overridden_def split: option.splits)
qed

definition demo_toml :: toml_ext where
  "demo_toml = \<lparr> tx_value = (\<lambda>_. Inl ''syntax''), tx_config = (\<lambda>_. Inr default_config), tx_invalid = (\<lambda>f _. f) \<rparr>"

definition demo_vars :: "(string \<times> string) list" where
  "demo_vars = [(''PATROCLUS_SERVER__PORT'', ''9999''), (''PATROCLUS_LOG_FORMAT'', ''json''),
     (''PATH'', ''/bin''), (''PATROCLUS_SERVER__NO_SUCH_FIELD'', ''y''),
     (''PATROCLUS_DATABASE__PATH'', ''env.db'')]"

lemma demo_trim: "trim ''9999'' = ''9999''" "trim ''y'' = ''y''" "trim ''env.db'' = ''env.db''" "trim ''12345'' = ''12345''"
  by code_simp+

lemma demo_by_section:
  "by_section demo_vars = [(''database'', [(''path'', ''env.db'')]), (''server'', [(''no_such_field'', ''y''), (''port'', ''9999'')])]"
  by code_simp

lemma demo_scalars:
  "parse_env_scalar demo_toml ''9999'' = Inr (TInt 9999)" "parse_env_scalar demo_toml ''y'' = Inr (TStr ''y'')"
  "parse_env_scalar demo_toml ''env.db'' = Inr (TStr ''env.db'')" "parse_env_scalar demo_toml ''12345'' = Inr (TInt 12345)"
  by code_simp+

definition demo_layered :: config where
  "demo_layered = default_config\<lparr> cf_database := (cf_database default_config)\<lparr> cd_path := ''env.db'' \<rparr>,
     cf_server := (cf_server default_config)\<lparr> cs_port := 9999 \<rparr> \<rparr>"

lemma demo_layering: "layer_with_env demo_toml demo_vars default_config = Inr demo_layered"
  by (simp add: layer_with_env_def demo_by_section layer_section_def patch_section_def demo_scalars table_defs
      demo_layered_def default_config_def u64_toml_def field_def field_or_def toml_u64_def toml_u16_def)

lemma demo_settings:
  "env_value demo_vars ''server'' ''port'' = Some ''9999''"
  "setting default_config ''server'' ''port'' = Some (TInt 8484)"
  by code_simp+

theorem environment_overrides_file_witness:
  "layer_with_env demo_toml demo_vars default_config = Inr demo_layered
   \<and> setting demo_layered ''server'' ''port'' = Some (TInt 9999) \<and> cf_idp demo_layered = cf_idp default_config"
  using environment_overrides_file [OF demo_layering, of "''server''" "''port''"]
  by (simp add: demo_layering demo_scalars demo_settings)

text \<open>A text that reads as a number cannot override a text setting.\<close>

lemma numeric_scalar: "parse_env_scalar T ''12345'' = Inr (TInt 12345)"
  by (simp add: parse_env_scalar_def demo_trim starts_with_def parse_i64_def is_digit_def decimal_def Let_def)

lemma numeric_vars: "by_section [(''PATROCLUS_TOKEN__ISSUER'', ''12345'')] = [(''token'', [(''issuer'', ''12345'')])]"
  by code_simp

lemma numeric_text_rejected:
  "layer_with_env T [(''PATROCLUS_TOKEN__ISSUER'', ''12345'')] default_config = Inl (tx_invalid T ''issuer'' (TInt 12345))"
  by (simp add: layer_with_env_def numeric_vars layer_section_def patch_section_def numeric_scalar table_defs
      default_config_def u64_toml_def field_def toml_u64_def)

end
