(* ===== verification/Command_Line.thy ===== *)
theory Command_Line
  imports Server_Safety Config_Layers
begin

text \<open>
  The executable (\<open>src/bin/patroclus.rs\<close>, and \<open>generate_keypair\<close> of \<open>src/token/issuer.rs\<close>): the four
  commands, what they print, what they write, and the exit code of the process. Parsing the command
  line is the library's; \<open>command\<close> is its result.

  The parameters: the TOML and JSON printers, the databases on disk (\<open>co_file\<close> for the server,
  \<open>co_open\<close> for the read-only connection of the verifier, with the error of opening or querying it), the
  environment variables, the build profile.
\<close>

section \<open>Commands\<close>

datatype command = Init | Serve string | GenerateKeys string | VerifyChain string bool

record cli =
  co_toml :: toml_ext
  co_toml_pretty :: "config \<Rightarrow> string + string"
  co_json_pretty :: "json \<Rightarrow> string + string"
  co_create_dir :: "string \<Rightarrow> string option"
  co_file :: "string \<Rightarrow> db option"
  co_open :: "string \<Rightarrow> string + db"
  co_vars :: "(string \<times> string) list"
  co_debug_build :: bool

text \<open>
  How \<open>main\<close> ends: with an exit code and the lines on both outputs, or with the server running in a
  state. An \<open>anyhow\<close> error that leaves \<open>main\<close> is printed by the runtime, which exits with 1.
\<close>

datatype outcome = Exit nat "string list" "string list" | Serving app_state

type_synonym 'a cli_act = "(files, string, 'a) act"

definition exit_code :: "string + outcome \<Rightarrow> nat option" where
  "exit_code r = (case r of Inl _ \<Rightarrow> Some 1 | Inr (Exit n _ _) \<Rightarrow> Some n | Inr (Serving _) \<Rightarrow> None)"

text \<open>\<open>generate_keypair\<close>: the private half is on disk even if writing the public one fails.\<close>

definition generate_keypair :: "ext \<Rightarrow> env \<Rightarrow> string \<Rightarrow> (files, fail, unit) act" where
  "generate_keypair X E dir =
     and_then (of_result (crypto_err ''key generation failed: '' (e_rsa_key E))) (\<lambda>key.
     and_then (of_result (crypto_err ''private key encoding failed: '' (x_rsa_private_pem X key))) (\<lambda>priv.
     and_then (of_result (crypto_err ''public key encoding failed: '' (x_rsa_public_pem X key))) (\<lambda>pub.
     and_then (\<lambda>fs. case write_file E (dir @ ''/private.pem'') priv fs of (r, fs') \<Rightarrow>
         (map_sum (\<lambda>e. Err (ConfigError e)) id r, fs')) (\<lambda>_.
      \<lambda>fs. case write_file E (dir @ ''/public.pem'') pub fs of (r, fs') \<Rightarrow>
         (map_sum (\<lambda>e. Err (ConfigError e)) id r, fs')))))"

definition init_command :: "cli \<Rightarrow> env \<Rightarrow> outcome cli_act" where
  "init_command C E =
     and_then (of_result (co_toml_pretty C default_config)) (\<lambda>text.
     and_then (write_file E ''config.toml'' text) (\<lambda>_.
       ret (Exit 0 [''Created config.toml''] [])))"

definition generate_keys_command :: "cli \<Rightarrow> ext \<Rightarrow> env \<Rightarrow> string \<Rightarrow> outcome cli_act" where
  "generate_keys_command C X E dir =
     (case co_create_dir C dir of
        Some e \<Rightarrow> throw e
      | None \<Rightarrow>
          (\<lambda>fs. case generate_keypair X E dir fs of
             (Inl f, fs') \<Rightarrow> (Inl (fail_text f), fs')
           | (Inr _, fs') \<Rightarrow> (Inr (Exit 0 [''Generated RSA keypair in '' @ dir] []), fs')))"

definition serve_command :: "cli \<Rightarrow> ext \<Rightarrow> env \<Rightarrow> string \<Rightarrow> outcome cli_act" where
  "serve_command C X E path = (\<lambda>fs.
     (case load_config (co_toml C) (co_vars C) (read_file E fs path) of
        Inl e \<Rightarrow> Inl e
      | Inr cfg \<Rightarrow>
          map_sum id Serving (run X E (co_debug_build C) (map_of (co_vars C) ''PATROCLUS_INSECURE_DEV'')
            (map_of (co_vars C) ''PATROCLUS_ADMIN_TOKEN'') cfg (co_file C (cd_path (cf_database cfg))) fs), fs))"

text \<open>The derived JSON of a verification result, its members in the order of the structs.\<close>

definition reason_json :: "broken_link_reason \<Rightarrow> json" where
  "reason_json r = JStr (case r of RowHashMismatch \<Rightarrow> ''row_hash_mismatch'' | PrevHashMismatch \<Rightarrow> ''prev_hash_mismatch'')"

definition verification_json :: "chain_verification \<Rightarrow> json" where
  "verification_json cv =
     JObj [(''entries_checked'', JInt (int (cv_entries_checked cv))),
       (''first_broken_link'', case cv_first_broken_link cv of None \<Rightarrow> JNull
          | Some l \<Rightarrow> JObj [(''row_id'', JInt (bl_row_id l)), (''reason'', reason_json (bl_reason l))])]"

definition show_int :: "int \<Rightarrow> string" where
  "show_int n = (if n < 0 then ''-'' @ show_nat (nat (- n)) else show_nat (nat n))"

definition reason_text :: "broken_link_reason \<Rightarrow> string" where
  "reason_text r =
     (case r of
        RowHashMismatch \<Rightarrow> ''stored row_hash does not match recomputed row payload (row was modified)''
      | PrevHashMismatch \<Rightarrow>
          ''prev_hash does not chain to the previous row_hash (rows were deleted, inserted or reordered)'')"

definition verification_report :: "nat \<Rightarrow> chain_verification \<Rightarrow> outcome" where
  "verification_report n cv =
     (case cv_first_broken_link cv of
        None \<Rightarrow> Exit 0 [''OK: audit chain verified over '' @ show_nat (cv_entries_checked cv) @ '' entries''] []
      | Some l \<Rightarrow> Exit 1 [] [''FAILED: audit chain broken at row '' @ show_int (bl_row_id l) @ '' (''
          @ show_nat (cv_entries_checked cv) @ '' of '' @ show_nat n @ '' checked): '' @ reason_text (bl_reason l)])"

text \<open>\<open>now\<close> is the clock where a stored date does not parse.\<close>

definition verify_chain_command :: "cli \<Rightarrow> ext \<Rightarrow> time \<Rightarrow> string \<Rightarrow> bool \<Rightarrow> outcome cli_act" where
  "verify_chain_command C X now path as_json =
     and_then (of_result (co_open C path)) (\<lambda>d.
     and_then (of_result (map_sum fail_text id (read_audit_entries_for_verification X now d))) (\<lambda>es.
     let cv = verify_chain X es in
       if as_json then
         and_then (of_result (co_json_pretty C (verification_json cv))) (\<lambda>text.
           ret (Exit (if is_valid cv then 0 else 1) [text] []))
       else ret (verification_report (length es) cv)))"

definition run_command :: "cli \<Rightarrow> ext \<Rightarrow> env \<Rightarrow> time \<Rightarrow> command \<Rightarrow> outcome cli_act" where
  "run_command C X E now cmd =
     (case cmd of
        Init \<Rightarrow> init_command C E
      | Serve path \<Rightarrow> serve_command C X E path
      | GenerateKeys dir \<Rightarrow> generate_keys_command C X E dir
      | VerifyChain path as_json \<Rightarrow> verify_chain_command C X now path as_json)"

section \<open>The verifier as a command\<close>

lemma verify_chain_command_apply:
  "verify_chain_command C X now path as_json fs =
     ((case co_open C path of
         Inl e \<Rightarrow> Inl e
       | Inr d \<Rightarrow>
           (let es = map (audit_entry_from_row X now) (sort_key aur_id (d_audit d)); cv = verify_chain X es
            in if as_json then (case co_json_pretty C (verification_json cv) of
                 Inl e \<Rightarrow> Inl e | Inr text \<Rightarrow> Inr (Exit (if is_valid cv then 0 else 1) [text] []))
               else Inr (verification_report (length es) cv))), fs)"
  by (auto simp: verify_chain_command_def read_audit_entries_for_verification_def act_simps Let_def
      split: sum.split)

text \<open>
  The exit code of \<open>verify-chain\<close> tells a shell script whether the log is intact: it is 0 exactly if the
  database could be read, the result printed, and the hash chain of the stored rows is valid; the
  database and the files are never changed.
\<close>

lemma verify_command_exit:
  "(exit_code (fst (run_command C X E now (VerifyChain path as_json) fs)) = Some 0 \<longleftrightarrow>
     (case co_open C path of
        Inl _ \<Rightarrow> False
      | Inr d \<Rightarrow>
          is_valid (verify_chain X (map (audit_entry_from_row X now) (sort_key aur_id (d_audit d))))
          \<and> (if as_json then \<exists>text. co_json_pretty C (verification_json (verify_chain X
               (map (audit_entry_from_row X now) (sort_key aur_id (d_audit d))))) = Inr text else True)))
   \<and> snd (run_command C X E now (VerifyChain path as_json) fs) = fs"
  by (auto simp: run_command_def verify_chain_command_apply Let_def exit_code_def verification_report_def is_valid_def
      split: sum.split option.split)

section \<open>From the server to the verifier\<close>

lemma read_log:
  assumes "log_ok X d"
  shows "map (audit_entry_from_row X now) (sort_key aur_id (d_audit d)) = log_entries X d"
  using log_okE(1) [OF assms, of now] by (simp add: all_audit_entries_sync_def)


text \<open>
  C29: And when a row of a well-formed log is then edited, its id and both hashes kept, the command fails and
  names the row, as soon as the digest of what the row says differs.
\<close>

theorem tampering_fails_verification:
  assumes "log_ok X d" and "i < length (d_audit d)"
    and "aur_id r = aur_id (d_audit d ! i)" and "aur_prev_hash r = aur_prev_hash (d_audit d ! i)"
    and "aur_row_hash r = aur_row_hash (d_audit d ! i)"
    and "x_sha256 X (hash_input X (audit_entry_from_row X now r))
      \<noteq> x_sha256 X (hash_input X (audit_entry_from_row X now (d_audit d ! i)))"
    and "co_open C path = Inr (d\<lparr> d_audit := (d_audit d)[i := r] \<rparr>)"
  shows "run_command C X E now (VerifyChain path False) fs =
    (Inr (Exit 1 [] [''FAILED: audit chain broken at row '' @ show_int (aur_id r) @ '' ('' @ show_nat (i + 1)
       @ '' of '' @ show_nat (length (d_audit d)) @ '' checked): '' @ reason_text RowHashMismatch]), fs)"
proof -
  let ?read = "audit_entry_from_row X now" and ?rows = "(d_audit d)[i := r]"
  have es: "map ?read (d_audit d) = log_entries X d"
    using read_log [OF assms(1), of now] assms(1) by (simp add: log_ok_def sort_key_increasing)
  have "map aur_id ?rows = map aur_id (d_audit d)"
    using assms(2,3) by (metis list_update_id map_update nth_map)
  with assms(1) have sorted: "sort_key aur_id ?rows = ?rows" by (simp add: log_ok_def sort_key_increasing)
  have at: "log_entries X d ! i = ?read (d_audit d ! i)" unfolding es [symmetric] using assms(2) by simp
  have "verify_chain X ((log_entries X d)[i := ?read r]) = \<lparr> cv_entries_checked = i + 1,
      cv_first_broken_link = Some \<lparr> bl_row_id = au_id (?read r), bl_reason = RowHashMismatch \<rparr> \<rparr>"
    by (rule edit_is_located [OF log_okE(2) [OF assms(1)]])
      (use assms(2,4-6) in \<open>simp_all add: at, simp_all add: log_entries_def audit_entry_from_row_def\<close>)
  moreover have "length (log_entries X d) = length (d_audit d)" by (simp add: log_entries_def)
  ultimately show ?thesis
    by (simp add: run_command_def verify_chain_command_apply assms(7) sorted map_update es Let_def
        verification_report_def) (simp add: audit_entry_from_row_def)
qed

section \<open>Keys from the command line\<close>

text \<open>
  The key pair that \<open>generate-keys\<close> wrote is the one a server loads whose configuration names the two
  files: the freshly drawn key, in its two PEM forms.
\<close>

lemma generated_keys_are_loaded:
  assumes "run_command C X E now (GenerateKeys dir) fs = (Inr out, fs')"
    and "ct_private_key_path (cf_token cfg) = dir @ ''/private.pem''"
    and "ct_public_key_path (cf_token cfg) = dir @ ''/public.pem''"
    and "e_read_fault E' (dir @ ''/private.pem'') = None" and "e_read_fault E' (dir @ ''/public.pem'') = None"
    and "\<forall>pem. x_rsa_private_pem X key = Inr pem \<or> x_rsa_public_pem X key = Inr pem \<longrightarrow> utf8_error 0 pem = None"
    and "e_rsa_key E = Inr key"
  shows "\<exists>kp. x_rsa_private_pem X key = Inr (kp_private_pem kp) \<and> x_rsa_public_pem X key = Inr (kp_public_pem kp)
    \<and> key_files E' fs' cfg = Inr kp
    \<and> load_or_generate X E' debug_build dev_var a b (key_files E' fs' cfg) = Inr kp"
proof -
  from assms(1) have "generate_keypair X E dir fs = (Inr (), fs')"
    by (auto simp: run_command_def generate_keys_command_def act_simps split: option.splits prod.splits sum.splits)
  then obtain priv pub where pem: "x_rsa_private_pem X key = Inr priv" "x_rsa_public_pem X key = Inr pub"
    and fs': "fs' = fs(dir @ ''/private.pem'' \<mapsto> priv, dir @ ''/public.pem'' \<mapsto> pub)"
    using assms(7) by (auto simp: generate_keypair_def crypto_err_def write_file_def act_simps
      split: sum.splits option.splits prod.splits)
  with assms(2-6) have "key_files E' fs' cfg = Inr \<lparr> kp_private_pem = priv, kp_public_pem = pub \<rparr>"
    by (simp add: key_files_def read_file_def)
  with pem show ?thesis by (simp add: load_or_generate_def)
qed

section \<open>Closed examples\<close>

definition demo_cli :: "db \<Rightarrow> cli" where
  "demo_cli d = \<lparr> co_toml = demo_toml, co_toml_pretty = (\<lambda>_. Inr ''''), co_json_pretty = (\<lambda>_. Inr ''''),
     co_create_dir = (\<lambda>_. None), co_file = (\<lambda>_. None), co_open = (\<lambda>_. Inr d), co_vars = [], co_debug_build = True \<rparr>"


text \<open>A log of one row, whose recorded action is changed afterwards.\<close>

definition demo_logged :: db where
  "demo_logged = snd (create_audit_entry_sync demo_ext 4 demo_create_audit empty_db)"

definition demo_forged :: audit_row where
  "demo_forged = (d_audit demo_logged ! 0)\<lparr> aur_action := ''something else'' \<rparr>"

lemma demo_logged_ok: "log_ok demo_ext demo_logged" "length (d_audit demo_logged) = 1"
proof -
  obtain audit where c: "create_audit_entry_sync demo_ext 4 demo_create_audit empty_db = (Inr audit, demo_logged)"
    by (simp add: demo_logged_def create_audit_entry_sync_def empty_db_def max_rowid_def Let_def)
  from create_audit_log_ok [OF log_ok_empty demo_uuid_rt _ _ c] demo_time_rt [of 4]
  show "log_ok demo_ext demo_logged" by (simp add: demo_create_audit_def)
  show "length (d_audit demo_logged) = 1"
    by (simp add: demo_logged_def create_audit_entry_sync_def empty_db_def max_rowid_def Let_def)
qed

lemma demo_forged_digest:
  "x_sha256 demo_ext (hash_input demo_ext (audit_entry_from_row demo_ext 0 demo_forged))
    \<noteq> x_sha256 demo_ext (hash_input demo_ext (audit_entry_from_row demo_ext 0 (d_audit demo_logged ! 0)))"
proof -
  have sha: "x_sha256 demo_ext s = s" for s by (simp add: demo_ext_def)
  have "aur_action (d_audit demo_logged ! 0) \<noteq> ''something else'' \<and>
    length (aur_action (d_audit demo_logged ! 0)) < 10"
    by (simp add: demo_logged_def create_audit_entry_sync_def empty_db_def max_rowid_def Let_def audit_row_of_def
        new_audit_entry_def demo_create_audit_def)
  then show ?thesis
    by (simp add: sha demo_forged_def audit_entry_from_row_def hash_input_def)
      (auto dest: arg_cong [where f = length])
qed

theorem tampering_fails_verification_witness:
  "run_command (demo_cli (demo_logged\<lparr> d_audit := (d_audit demo_logged)[0 := demo_forged] \<rparr>)) demo_ext demo_env 0
      (VerifyChain ''patroclus.db'' False) (\<lambda>_. None)
    = (Inr (Exit 1 [] [''FAILED: audit chain broken at row '' @ show_int (aur_id demo_forged) @ '' ('' @ show_nat (0 + 1)
         @ '' of '' @ show_nat (length (d_audit demo_logged)) @ '' checked): '' @ reason_text RowHashMismatch]), (\<lambda>_. None))"
  by (rule tampering_fails_verification [OF demo_logged_ok(1) _ _ _ _ demo_forged_digest])
    (simp_all add: demo_logged_ok demo_cli_def, simp_all add: demo_forged_def)

lemma generated_keys_are_loaded_witness:
  "\<exists>out fs' kp. run_command (demo_cli empty_db) demo_ext demo_env 0 (GenerateKeys ''keys'') (\<lambda>_. None) = (Inr out, fs')
     \<and> key_files demo_env fs' default_config = Inr kp \<and> kp_private_pem kp = ''key''"
proof -
  have pem: "x_rsa_private_pem demo_ext = Inr" "x_rsa_public_pem demo_ext = Inr" "e_rsa_key demo_env = Inr ''key''"
    "e_read_fault demo_env p = None" "e_write_fault demo_env p = None" for p
    by (simp_all add: demo_ext_def demo_env_def)
  obtain out fs' where r: "run_command (demo_cli empty_db) demo_ext demo_env 0 (GenerateKeys ''keys'') (\<lambda>_. None) = (Inr out, fs')"
    by (simp add: run_command_def generate_keys_command_def generate_keypair_def demo_cli_def write_file_def
        crypto_err_def pem act_simps)
  have "\<exists>kp. x_rsa_private_pem demo_ext ''key'' = Inr (kp_private_pem kp) \<and> x_rsa_public_pem demo_ext ''key'' = Inr (kp_public_pem kp)
    \<and> key_files demo_env fs' default_config = Inr kp
    \<and> load_or_generate demo_ext demo_env True None '''' '''' (key_files demo_env fs' default_config) = Inr kp"
    by (rule generated_keys_are_loaded [OF r]) (simp_all add: pem default_config_def ascii_utf8_error del: utf8_error.simps)
  then obtain kp where "x_rsa_private_pem demo_ext ''key'' = Inr (kp_private_pem kp)"
    and "key_files demo_env fs' default_config = Inr kp" by blast
  with r show ?thesis by (simp add: pem)
qed

end
