(* ===== verification/Agent_Liveness.thy ===== *)
theory Agent_Liveness
  imports Agent_Access
begin

text \<open>
  Progress of \<open>request_access\<close> (\<open>src/api/routes.rs\<close>): when nothing outside the program fails, the request
  of an agent that exists is answered, with the decision of the policy engine, and with a token exactly
  when that decision is allow.
\<close>

section \<open>When nothing outside fails\<close>

text \<open>
  No database call fails, the lifetimes of a token and of an approval can be added to the current date,
  the claims can be signed, the drawn identifiers are fresh, and the row counter of the log is not
  exhausted.
\<close>

definition outside_works :: "ext \<Rightarrow> env \<Rightarrow> app_state \<Rightarrow> bool" where
  "outside_works X E s \<longleftrightarrow>
     (\<forall>call. e_fault E call = None)
     \<and> (\<forall>t. x_time_add_ok X t (sint (ct_default_ttl_seconds (cf_token (st_config s)))) \<and> x_time_add_ok X t 300)
     \<and> (\<forall>c. \<exists>tok. x_jwt_encode X (ti_encoding_key (st_token_issuer s)) (ti_key_id (st_token_issuer s)) c = Inr tok)
     \<and> x_uuid_str X (e_uuid E 0) \<notin> tor_id ` set (d_tokens (st_db s))
     \<and> x_uuid_str X (e_uuid E 1) \<notin> apr_id ` set (d_approvals (st_db s))
     \<and> d_audit_seq (st_db s) \<noteq> max_rowid"

text \<open>The facts do not depend on sessions and metrics.\<close>

lemma outside_works_frame [simp]:
  "outside_works X E (s\<lparr> st_session_store := st \<rparr>) = outside_works X E s"
  "outside_works X E (s\<lparr> st_metrics := m \<rparr>) = outside_works X E s"
  by (simp_all add: outside_works_def)

lemma agent_row_found: "get_agent_sync X now i d = Inr a \<Longrightarrow> uuid_rt X \<Longrightarrow>
    ag_id a = i \<and> x_uuid_str X i \<in> agr_id ` set (d_agents d)"
  using get_agent_id [of X now i d a]
  by (auto simp: get_agent_sync_def split: option.splits dest!: find_key_SomeD intro: rev_image_eqI)

lemma record_token_works:
  assumes "\<forall>call. e_fault E call = None" and "x_uuid_str X agent \<in> agr_id ` set (d_agents d)"
    and "jti \<notin> tor_id ` set (d_tokens d)"
  shows "record_token X E now jti None agent scopes audience expires d =
    (Inr (), d\<lparr> d_tokens := d_tokens d @ [new_token_row X now jti None agent scopes audience expires] \<rparr>)"
  using assms by (simp add: record_token_def act_simps insert_token_def insert_row_def fk_ok_def new_token_row_def)

lemma issue_access_token_works:
  assumes "outside_works X E s" and "x_uuid_str X (ag_id a) \<in> agr_id ` set (d_agents (st_db s))"
  obtains t s' where "issue_access_token X E req a p ev s = (Inr t, s')"
proof -
  let ?ps = "access_token_params X (st_config s) req a p ev"
  have exp: "expiry X now ?ps = Inr (now + sint (ct_default_ttl_seconds (cf_token (st_config s))) * second_ns)" for now
    using assms(1) by (simp add: expiry_def add_seconds_def access_token_params_def outside_works_def)
  have "\<exists>tok. issue X (st_token_issuer s) t t' (e_uuid E 0) ?ps = Inr (tok, x_uuid_str X (e_uuid E 0))" for t t'
    using assms(1) unfolding issue_def exp outside_works_def by (auto simp: Let_def crypto_err_def split: sum.split) (metis Inl_not_Inr)
  then obtain tok where "issue X (st_token_issuer s) (e_now E 6) (e_now E 7) (e_uuid E 0) ?ps = Inr (tok, x_uuid_str X (e_uuid E 0))"
    by blast
  with assms show ?thesis
    by (intro that) (simp add: issue_access_token_def act_simps Let_def exp outside_works_def record_token_works)
qed

lemma open_approval_works:
  assumes "outside_works X E s" and "x_uuid_str X (ag_id a) \<in> agr_id ` set (d_agents (st_db s))"
  obtains i s' where "open_approval X E req a p s = (Inr i, s')"
proof -
  let ?m = "on_db (find_resource_by_uri X E (rq_resource req))"
  obtain found where "ok_of ?m s = (Inr found, snd (?m s))" using ok_of_run [of ?m s] by blast
  moreover have "snd (?m s) = s" unfolding find_resource_by_uri_def by (rule on_db_read_state)
  ultimately have found: "ok_of ?m s = (Inr found, s)" by simp
  have "find (\<lambda>r. apr_id r = x_uuid_str X (e_uuid E 1)) (d_approvals (st_db s)) = None"
    using assms(1) by (fastforce simp: outside_works_def find_None_iff image_iff)
  then have "\<exists>r d. create_approval_request X E (e_now E 10) (e_uuid E 1) (ag_id a) pid resource action scopes 300 (st_db s) = (Inr r, d)"
    for pid resource action scopes
    using assms by (simp add: create_approval_request_def act_simps outside_works_def add_seconds_def insert_approval_def
        new_approval_row_def fk_ok_def insert_row_def get_approval_request_sync_def find_append)
  then obtain r d where "create_approval_request X E (e_now E 10) (e_uuid E 1) (ag_id a) (map_option pr_id p)
      (Option.bind found id) (rq_action req) (rq_requested_scopes req) 300 (st_db s) = (Inr r, d)" by blast
  then show ?thesis
    by (intro that) (simp add: open_approval_def and_then_apply [of "ok_of ?m"] found, simp add: act_simps)
qed

lemma carry_out_works:
  assumes "outside_works X E s" and "x_uuid_str X (ag_id a) \<in> agr_id ` set (d_agents (st_db s))"
  obtains resp s' where "carry_out X E req a p ev s = (Inr resp, s')"
    and "rs_token resp \<noteq> None \<longleftrightarrow> ev_decision ev = Allow"
    and "rs_approval resp \<noteq> None \<longleftrightarrow> (\<exists>by_whom reason. ev_decision ev = RequireApproval by_whom reason)"
proof (cases "ev_decision ev")
  case Allow
  from assms obtain t s' where "issue_access_token X E req a p ev s = (Inr t, s')" by (rule issue_access_token_works)
  with Allow show ?thesis by (intro that) (auto simp: carry_out_def act_simps)
next
  case Deny
  then show ?thesis by (intro that) (auto simp: carry_out_def act_simps)
next
  case (RequireApproval by_whom reason)
  from assms obtain i s' where "open_approval X E req a p s = (Inr i, s')" by (rule open_approval_works)
  with RequireApproval show ?thesis by (intro that) (auto simp: carry_out_def act_simps)
qed

section \<open>Every request of an agent is answered\<close>

definition request_owner :: "ext \<Rightarrow> env \<Rightarrow> agent \<Rightarrow> app_state \<Rightarrow> principal option" where
  "request_owner X E a s = (case fst (owner_of X E (e_now E 3) a s) of Inr p \<Rightarrow> p | Inl _ \<Rightarrow> None)"

text \<open>What the policy engine says of the request, in the session it runs in.\<close>

definition engine_decision :: "ext \<Rightarrow> env \<Rightarrow> access_request \<Rightarrow> agent \<Rightarrow> app_state \<Rightarrow> decision" where
  "engine_decision X E req a s =
     (let (session, s1) = access_session X E req a (request_owner X E a s) s in
      ev_decision (fst (evaluate X (st_policy_engine s) (e_now E 5)
        (request_policy_context req a (request_owner X E a s) (Some (request_session_id X req a)) (ss_trajectory session))
        (st_session_store s1))))"

definition is_stopped :: "ext \<Rightarrow> env \<Rightarrow> access_request \<Rightarrow> agent \<Rightarrow> app_state \<Rightarrow> bool" where
  "is_stopped X E req a s \<longleftrightarrow> ss_killed (fst (access_session X E req a (request_owner X E a s) s))
     \<or> is_agent_killed (ag_id a) (st_session_store s)"

lemma owner_of_apply: "owner_of X E (e_now E 3) a s = (Inr (request_owner X E a s), s)"
  using owner_of_no_error [of X E "e_now E 3" a s] owner_of_state [of X E "e_now E 3" a s]
  by (cases "owner_of X E (e_now E 3) a s") (auto simp: request_owner_def split: sum.split)

lemma decide_access_works:
  assumes "outside_works X E s" and "x_uuid_str X (ag_id a) \<in> agr_id ` set (d_agents (st_db s))"
    and "evaluate X (st_policy_engine s) (e_now E 5) (request_policy_context req a p (Some sid) tr) (st_session_store s) = (ev, st)"
  obtains resp s' where "decide_access X E req a p chain sid tr s = (Inr resp, s')"
    and "rs_decision resp = decision_str (ev_decision ev)"
    and "rs_token resp \<noteq> None \<longleftrightarrow> ev_decision ev = Allow"
    and "rs_approval resp \<noteq> None \<longleftrightarrow> (\<exists>by_whom reason. ev_decision ev = RequireApproval by_whom reason)"
proof -
  let ?s = "s\<lparr> st_session_store := st,
    st_metrics := record_decision (decision_str (ev_decision ev)) (rq_action req) (st_metrics s) \<rparr>"
  obtain resp s2 where co: "carry_out X E req a p ev ?s = (Inr resp, s2)"
    and token: "rs_token resp \<noteq> None \<longleftrightarrow> ev_decision ev = Allow"
    and approval: "rs_approval resp \<noteq> None \<longleftrightarrow> (\<exists>by_whom reason. ev_decision ev = RequireApproval by_whom reason)"
    by (rule carry_out_works [of X E ?s a req p ev]) (use assms(1,2) in simp_all)
  have "d_audit_seq (st_db s2) \<noteq> max_rowid"
    using carry_out_frame(3) [OF co] assms(1) by (simp add: outside_works_def)
  with assms(1,3) co have "\<exists>s'. decide_access X E req a p chain sid tr s = (Inr resp, s')"
    by (simp add: decide_access_def act_simps create_audit_entry_def create_audit_entry_sync_def outside_works_def Let_def)
  with carry_out_response(1) [OF co] token approval that show ?thesis by blast
qed


lemma demo_outside_works: "outside_works demo_ext demo_env demo_app"
proof -
  have "x_jwt_encode demo_ext k kid c = Inr ''jwt''" "0 \<le> d \<Longrightarrow> x_time_add_ok demo_ext t d" for k kid c d t
    by (simp_all add: demo_ext_def)
  moreover have "d_tokens demo_db = []" "d_approvals demo_db = []" "d_audit_seq demo_db = 0"
    by (simp_all add: demo_db_def empty_db_def)
  ultimately show ?thesis
    by (simp add: outside_works_def) (simp add: default_config_def max_rowid_def)
qed


end
