(* ===== verification/Programs.thy ===== *)
theory Programs
  imports Prelude
begin

text \<open>
  Programs that several requests run at once. A request is handled by a task that takes one lock
  after the other (the database connection, a lock of the session store, the engine, the set of revoked
  tokens, the pending logins) and holds none in between; what it does under one lock is one atomic
  step, and other tasks may run between two steps. A program is the tree of its steps; a schedule
  says whose turn it is. Executed alone, a program is a failing state transformer.
\<close>

section \<open>Programs\<close>

named_theorems prog_simps \<open>execution of programs\<close>

text \<open>\<open>Atomic u k\<close> changes the shared state by \<open>u\<close> and continues with \<open>k\<close> of the state it found.\<close>

datatype ('s, 'e, 'a) prog = Done "'e + 'a" | Atomic "'s \<Rightarrow> 's" "'s \<Rightarrow> ('s, 'e, 'a) prog"

definition atomically :: "('s, 'e, 'a) act \<Rightarrow> ('s, 'e, 'a) prog" where
  "atomically m = Atomic (\<lambda>s. snd (m s)) (\<lambda>s. Done (fst (m s)))"

primrec prog_then :: "('s, 'e, 'a) prog \<Rightarrow> ('a \<Rightarrow> ('s, 'e, 'b) prog) \<Rightarrow> ('s, 'e, 'b) prog" where
  "prog_then (Done r) f = (case r of Inl e \<Rightarrow> Done (Inl e) | Inr x \<Rightarrow> f x)"
| "prog_then (Atomic u k) f = Atomic u (\<lambda>s. prog_then (k s) f)"

primrec with_result :: "('e + 'a \<Rightarrow> 'f + 'b) \<Rightarrow> ('s, 'e, 'a) prog \<Rightarrow> ('s, 'f, 'b) prog" where
  "with_result g (Done r) = Done (g r)"
| "with_result g (Atomic u k) = Atomic u (\<lambda>s. with_result g (k s))"

definition finish :: "'a \<Rightarrow> ('s, 'e, 'a) prog" where
  "finish x = Done (Inr x)"

text \<open>The program when no other task runs.\<close>

primrec execute :: "('s, 'e, 'a) prog \<Rightarrow> ('s, 'e, 'a) act" where
  "execute (Done r) = of_result r"
| "execute (Atomic u k) = (\<lambda>s. execute (k s) (u s))"

lemma execute_atomically [prog_simps]: "execute (atomically m) = m"
  by (rule ext) (simp add: atomically_def act_simps)

lemma execute_then_apply: "execute (prog_then p f) s = and_then (execute p) (\<lambda>x. execute (f x)) s"
  by (induction p arbitrary: s) (auto simp: act_simps split: sum.split)

lemma execute_then [prog_simps]: "execute (prog_then p f) = and_then (execute p) (\<lambda>x. execute (f x))"
  by (rule ext) (rule execute_then_apply)

lemma execute_finish [prog_simps]: "execute (finish x) = ret x"
  by (rule ext) (simp add: finish_def act_simps)

lemma execute_Done [prog_simps]: "execute (Done r) = of_result r"
  by simp

lemma execute_with_result: "execute (with_result g p) s = (case execute p s of (r, s') \<Rightarrow> (g r, s'))"
  by (induction p arbitrary: s) (auto simp: act_simps)

lemma execute_if [prog_simps]: "execute (if b then p else q) = (if b then execute p else execute q)"
  by simp

lemma execute_case_option [prog_simps]:
  "execute (case x of None \<Rightarrow> p | Some a \<Rightarrow> f a) = (case x of None \<Rightarrow> execute p | Some a \<Rightarrow> execute (f a))"
  by (simp split: option.split)

lemma execute_case_prod [prog_simps]:
  "execute (case x of (a, b) \<Rightarrow> f a b) = (case x of (a, b) \<Rightarrow> execute (f a b))"
  by (simp split: prod.split)

lemma execute_case_sum [prog_simps]:
  "execute (case x of Inl a \<Rightarrow> f a | Inr b \<Rightarrow> g b) = (case x of Inl a \<Rightarrow> execute (f a) | Inr b \<Rightarrow> execute (g b))"
  by (simp split: sum.split)

declare prog_then.simps [simp del] with_result.simps [simp del]

section \<open>Pools and schedules\<close>

text \<open>
  The tasks of a server and the state they share. A turn of a task that has finished, or that does not
  exist, does nothing; a task whose turn never comes again was abandoned.
\<close>

type_synonym ('s, 'e, 'a) pool = "'s \<times> ('s, 'e, 'a) prog list"

fun turn :: "nat \<Rightarrow> ('s, 'e, 'a) pool \<Rightarrow> ('s, 'e, 'a) pool" where
  "turn i (s, ps) =
     (if i < length ps then
        (case ps ! i of Done r \<Rightarrow> (s, ps) | Atomic u k \<Rightarrow> (u s, ps[i := k s]))
      else (s, ps))"

definition pool_run :: "nat list \<Rightarrow> ('s, 'e, 'a) pool \<Rightarrow> ('s, 'e, 'a) pool" where
  "pool_run sched c = fold turn sched c"

text \<open>The shared state after the first \<open>j\<close> turns.\<close>

definition moment :: "('s, 'e, 'a) pool \<Rightarrow> nat list \<Rightarrow> nat \<Rightarrow> 's" where
  "moment c sched j = fst (pool_run (take j sched) c)"

definition result_at :: "('s, 'e, 'a) pool \<Rightarrow> nat \<Rightarrow> ('e + 'a) option" where
  "result_at c i = (case snd c ! i of Done r \<Rightarrow> Some r | Atomic _ _ \<Rightarrow> None)"

lemma pool_run_simps [simp]:
  "pool_run [] c = c" "pool_run (i # sched) c = pool_run sched (turn i c)"
  "pool_run (sched @ sched') c = pool_run sched' (pool_run sched c)"
  by (simp_all add: pool_run_def)

lemma length_turn [simp]: "length (snd (turn i c)) = length (snd c)"
  by (cases c) (auto split: prog.split)

lemma length_pool_run [simp]: "length (snd (pool_run sched c)) = length (snd c)"
  by (induction sched arbitrary: c) auto

lemma moment_0 [simp]: "moment c sched 0 = fst c"
  by (simp add: moment_def)

lemma moment_Cons [simp]: "moment c (i # sched) (Suc j) = moment (turn i c) sched j"
  by (simp add: moment_def)

lemma moment_end: "fst (pool_run sched c) = moment c sched (length sched)"
  by (simp add: moment_def)

lemma moment_append: "j \<le> length l \<Longrightarrow> moment c (l @ l') j = moment c l j"
  by (simp add: moment_def)

lemma result_at_Some: "result_at c i = Some r \<longleftrightarrow> snd c ! i = Done r"
  by (cases "snd c ! i") (simp_all add: result_at_def)

section \<open>One task among the others\<close>

text \<open>
  \<open>performs w h p n r m\<close>: in the history \<open>h\<close> of the shared state the program \<open>p\<close>, started not before
  moment \<open>n\<close>, takes its steps at some of the moments at which it is its turn (those that satisfy \<open>w\<close>)
  and has the result \<open>r\<close> by moment \<open>m\<close>.
\<close>

inductive performs :: "(nat \<Rightarrow> bool) \<Rightarrow> (nat \<Rightarrow> 's) \<Rightarrow> ('s, 'e, 'a) prog \<Rightarrow> nat \<Rightarrow> 'e + 'a \<Rightarrow> nat \<Rightarrow> bool" for w h where
  performs_Done: "n \<le> m \<Longrightarrow> performs w h (Done r) n r m"
| performs_Atomic: "n \<le> t \<Longrightarrow> w t \<Longrightarrow> h (Suc t) = u (h t) \<Longrightarrow> performs w h (k (h t)) (Suc t) r m \<Longrightarrow>
     performs w h (Atomic u k) n r m"

inductive_simps performs_Done_iff [simp]: "performs w h (Done r') n r m"
inductive_simps performs_Atomic_iff: "performs w h (Atomic u k) n r m"

lemma performs_le: "performs w h p n r m \<Longrightarrow> n \<le> m"
  by (induction rule: performs.induct) auto

lemma performs_earlier: "performs w h p n r m \<Longrightarrow> n' \<le> n \<Longrightarrow> performs w h p n' r m"
  by (cases p) (auto simp: performs_Atomic_iff intro: le_trans)

lemma performs_later: "performs w h p n r m \<Longrightarrow> m \<le> m' \<Longrightarrow> performs w h p n r m'"
proof (induction rule: performs.induct)
  case (performs_Atomic n t u k r m)
  then show ?case by (intro performs.performs_Atomic [of n t]) auto
qed simp

text \<open>A program that had no turn before moment \<open>n'\<close> has started after it.\<close>

lemma performs_not_before:
  "performs w h p n r m \<Longrightarrow> \<forall>t. w t \<longrightarrow> n' \<le> t \<Longrightarrow> n' \<le> m \<Longrightarrow> performs w h p n' r m"
  by (cases p) (auto simp: performs_Atomic_iff)

lemma performs_shift: "performs (\<lambda>j. w (Suc j)) (\<lambda>j. h (Suc j)) p n r m \<Longrightarrow> performs w h p (Suc n) r (Suc m)"
proof (induction rule: performs.induct)
  case (performs_Atomic n t u k r m)
  then show ?case by (intro performs.performs_Atomic [of "Suc n" "Suc t"]) auto
qed simp

lemma performs_atomically:
  "performs w h (atomically f) n r m \<longleftrightarrow> (\<exists>t. n \<le> t \<and> t < m \<and> w t \<and> f (h t) = (r, h (Suc t)))"
  by (auto simp: atomically_def performs_Atomic_iff Suc_le_eq prod_eq_iff)

lemma performs_then:
  "performs w h (prog_then p f) n r m \<longleftrightarrow>
     (\<exists>e. r = Inl e \<and> performs w h p n (Inl e) m) \<or>
     (\<exists>x l. performs w h p n (Inr x) l \<and> performs w h (f x) l r m)"
proof (induction p arbitrary: n)
  case (Done r')
  show ?case
    by (cases r') (auto simp: prog_then.simps intro: performs_earlier performs_le)
next
  case (Atomic u k)
  have step: "performs w h (prog_then (k s) f) n r m \<longleftrightarrow>
     (\<exists>e. r = Inl e \<and> performs w h (k s) n (Inl e) m) \<or>
     (\<exists>x l. performs w h (k s) n (Inr x) l \<and> performs w h (f x) l r m)" for s n
    by (rule Atomic.IH) simp
  show ?case
    by (simp add: prog_then.simps performs_Atomic_iff step) blast
qed

lemma performs_then_Inr:
  "performs w h (prog_then p f) n (Inr y) m \<longleftrightarrow>
     (\<exists>x l. performs w h p n (Inr x) l \<and> performs w h (f x) l (Inr y) m)"
  by (simp add: performs_then)

lemma performs_with_result:
  "performs w h (with_result g p) n r m \<longleftrightarrow> (\<exists>r'. performs w h p n r' m \<and> r = g r')"
proof (induction p arbitrary: n)
  case (Atomic u k)
  have "performs w h (with_result g (k s)) n r m \<longleftrightarrow> (\<exists>r'. performs w h (k s) n r' m \<and> r = g r')" for s n
    by (rule Atomic.IH) simp
  then show ?case by (simp add: with_result.simps performs_Atomic_iff) blast
qed (auto simp: with_result.simps)

lemma performs_finish: "performs w h (finish x) n r m \<longleftrightarrow> r = Inr x \<and> n \<le> m"
  by (auto simp: finish_def)

lemma turn_other: "j \<noteq> i \<Longrightarrow> snd (turn j c) ! i = snd c ! i"
  by (cases c) (auto split: prog.split)

lemma turn_changes:
  assumes "i < length (snd c)" and "snd (turn j c) ! i \<noteq> snd c ! i"
  shows "\<exists>u k. snd c ! i = Atomic u k \<and> turn j c = (u (fst c), (snd c)[i := k (fst c)])"
  using assms
  by (cases c; cases "snd c ! j"; cases "i = j") (simp_all split: if_splits)

text \<open>A task that has a result performed its program in the history of the shared state.\<close>

definition turns_of :: "nat \<Rightarrow> nat list \<Rightarrow> nat \<Rightarrow> bool" where
  "turns_of i sched t \<longleftrightarrow> t < length sched \<and> sched ! t = i"

lemma turns_of_Cons [simp]: "turns_of i (j # sched) (Suc t) = turns_of i sched t" "turns_of i (j # sched) 0 \<longleftrightarrow> j = i"
  by (simp_all add: turns_of_def)

lemma turns_of_append:
  assumes "i \<notin> set l" and "turns_of i (l @ l') t"
  shows "length l \<le> t"
proof (rule ccontr)
  assume "\<not> length l \<le> t"
  with assms(2) have "t < length l" "l ! t = i" by (auto simp: turns_of_def nth_append)
  with assms(1) show False by auto
qed

lemma pool_performs:
  assumes "i < length ps" and "result_at (pool_run sched (s, ps)) i = Some r"
  shows "performs (turns_of i sched) (moment (s, ps) sched) (ps ! i) 0 r (length sched)"
  using assms
proof (induction sched arbitrary: s ps)
  case Nil
  then show ?case by (simp add: result_at_Some)
next
  case (Cons j sched)
  obtain s1 ps1 where turn: "turn j (s, ps) = (s1, ps1)" by fastforce
  then have len: "length ps1 = length ps" using length_turn [of j "(s, ps)"] by simp
  have "performs (turns_of i sched) (moment (s1, ps1) sched) (ps1 ! i) 0 r (length sched)"
    using Cons turn len by simp
  moreover have "(\<lambda>l. moment (s, ps) (j # sched) (Suc l)) = moment (s1, ps1) sched"
    by (rule ext) (simp only: moment_Cons turn)
  ultimately have rest: "performs (turns_of i (j # sched)) (moment (s, ps) (j # sched)) (ps1 ! i) (Suc 0) r (Suc (length sched))"
    using performs_shift [of "turns_of i (j # sched)" "moment (s, ps) (j # sched)" "ps1 ! i" 0 r "length sched"] by simp
  show ?case
  proof (cases "ps1 ! i = ps ! i")
    case True
    with rest show ?thesis using performs_earlier [OF rest, of 0] by simp
  next
    case False
    with turn Cons.prems(1) turn_changes [of i "(s, ps)" j] obtain u k where
      p: "ps ! i = Atomic u k" "s1 = u s" "ps1 = ps[i := k s]" by auto
    have "j = i" using turn_other [of j i "(s, ps)"] turn False by auto
    have h0: "moment (s, ps) (j # sched) 0 = s" by simp
    have h1: "moment (s, ps) (j # sched) (Suc 0) = s1"
      by (simp only: moment_Cons turn moment_0 fst_conv)
    have "performs (turns_of i (j # sched)) (moment (s, ps) (j # sched)) (Atomic u k) 0 r (Suc (length sched))"
      by (rule performs_Atomic [where t = 0]) (use rest p \<open>j = i\<close> Cons.prems(1) h0 h1 in simp_all)
    with p show ?thesis by simp
  qed
qed

section \<open>What the steps of a program guarantee\<close>

primrec guarantees :: "('s \<Rightarrow> 's \<Rightarrow> bool) \<Rightarrow> ('s, 'e, 'a) prog \<Rightarrow> bool" where
  "guarantees G (Done r) \<longleftrightarrow> True"
| "guarantees G (Atomic u k) \<longleftrightarrow> (\<forall>s. G s (u s) \<and> guarantees G (k s))"

text \<open>The results a program may have, whatever happens between its steps.\<close>

primrec may_end :: "('s, 'e, 'a) prog \<Rightarrow> 'e + 'a \<Rightarrow> bool" where
  "may_end (Done r') r \<longleftrightarrow> r = r'"
| "may_end (Atomic u k) r \<longleftrightarrow> (\<exists>s. may_end (k s) r)"

abbreviation may_return :: "('s, 'e, 'a) prog \<Rightarrow> 'a \<Rightarrow> bool" where
  "may_return p x \<equiv> may_end p (Inr x)"

lemma may_end_atomically: "may_end (atomically m) r \<longleftrightarrow> (\<exists>s s'. m s = (r, s'))"
  by (auto simp: atomically_def) (metis fst_conv prod.collapse)+

lemma may_end_then:
  "may_end (prog_then p f) r \<longleftrightarrow> (\<exists>e. r = Inl e \<and> may_end p (Inl e)) \<or> (\<exists>x. may_return p x \<and> may_end (f x) r)"
proof (induction p)
  case (Done r')
  then show ?case by (cases r') (auto simp: prog_then.simps)
qed (auto simp: prog_then.simps)

lemma may_end_with_result: "may_end (with_result g p) r \<longleftrightarrow> (\<exists>r'. may_end p r' \<and> r = g r')"
  by (induction p) (auto simp: with_result.simps)

lemma may_end_finish: "may_end (finish x) r \<longleftrightarrow> r = Inr x"
  by (auto simp: finish_def)

lemma may_return_then:
  "may_return (prog_then p f) y \<longleftrightarrow> (\<exists>x. may_return p x \<and> may_return (f x) y)"
  by (simp add: may_end_then)

lemma performs_may_end: "performs w h p n r m \<Longrightarrow> may_end p r"
  by (induction rule: performs.induct) auto

lemma execute_may_end: "may_end p (fst (execute p s))"
proof (induction p arbitrary: s)
  case (Atomic u k)
  have "may_end (k s) (fst (execute (k s) (u s)))" by (rule Atomic.IH) simp
  then show ?case by auto
qed (simp add: act_simps)

lemma guarantees_Done [intro]: "guarantees G (Done r)" "guarantees G (finish x)"
  by (simp_all add: finish_def)

lemma guarantees_atomically: "(\<And>s. G s (snd (m s))) \<Longrightarrow> guarantees G (atomically m)"
  by (simp add: atomically_def)

lemma guarantees_then_result:
  "guarantees G p \<Longrightarrow> (\<And>x. may_return p x \<Longrightarrow> guarantees G (f x)) \<Longrightarrow> guarantees G (prog_then p f)"
proof (induction p)
  case (Atomic u k)
  have "guarantees G (prog_then (k s) f)" for s
  proof (rule Atomic.IH)
    show "k s \<in> range k" by simp
    show "guarantees G (k s)" using Atomic.prems(1) by simp
    show "guarantees G (f x)" if "may_return (k s) x" for x using Atomic.prems(2) that by auto
  qed
  with Atomic.prems(1) show ?case by (simp add: prog_then.simps)
qed (auto simp: prog_then.simps split: sum.split)

lemma guarantees_then: "guarantees G p \<Longrightarrow> (\<And>x. guarantees G (f x)) \<Longrightarrow> guarantees G (prog_then p f)"
  by (rule guarantees_then_result)

lemma guarantees_with_result: "guarantees G p \<Longrightarrow> guarantees G (with_result g p)"
  by (induction p) (auto simp: with_result.simps)

lemma guarantees_mono: "guarantees G p \<Longrightarrow> (\<And>s s'. G s s' \<Longrightarrow> G' s s') \<Longrightarrow> guarantees G' p"
  by (induction p) auto

text \<open>
  What every step of every task guarantees holds between any two moments of a run, provided that it
  composes.
\<close>

locale guarantee =
  fixes G :: "'s \<Rightarrow> 's \<Rightarrow> bool"
  assumes refl_step: "G s s"
    and trans_step: "G s s' \<Longrightarrow> G s' s'' \<Longrightarrow> G s s''"
begin

lemma turn_guarantees:
  assumes "\<forall>p \<in> set (snd c). guarantees G p"
  shows "G (fst c) (fst (turn i c)) \<and> (\<forall>p \<in> set (snd (turn i c)). guarantees G p)"
proof (cases c)
  case (Pair s ps)
  show ?thesis
  proof (cases "i < length ps \<and> (\<exists>u k. ps ! i = Atomic u k)")
    case True
    then obtain u k where p: "i < length ps" "ps ! i = Atomic u k" by blast
    then have "Atomic u k \<in> set ps" by (metis nth_mem)
    with assms Pair have "G s (u s)" "guarantees G (k s)" by auto
    with p assms Pair show ?thesis by (auto dest!: subsetD [OF set_update_subset_insert])
  next
    case False
    with assms Pair show ?thesis by (auto simp: refl_step split: prog.split)
  qed
qed

lemma pool_guarantees:
  "\<forall>p \<in> set (snd c). guarantees G p \<Longrightarrow>
     G (fst c) (fst (pool_run sched c)) \<and> (\<forall>p \<in> set (snd (pool_run sched c)). guarantees G p)"
proof (induction sched arbitrary: c)
  case (Cons i sched)
  from turn_guarantees [OF Cons.prems] Cons.IH [of "turn i c"] show ?case
    by (auto intro: trans_step)
qed (simp add: refl_step)

lemma moments_guarantee:
  assumes "\<forall>p \<in> set (snd c). guarantees G p" and "i \<le> j"
  shows "G (moment c sched i) (moment c sched j)"
proof -
  from assms(2) have "take j sched = take i sched @ take (j - i) (drop i sched)"
    by (metis le_add_diff_inverse take_add)
  then have "moment c sched j = fst (pool_run (take (j - i) (drop i sched)) (pool_run (take i sched) c))"
    by (simp add: moment_def)
  with pool_guarantees [OF assms(1)] pool_guarantees [of "pool_run (take i sched) c"] show ?thesis
    by (simp add: moment_def)
qed

lemma run_guarantees: "\<forall>p \<in> set ps. guarantees G p \<Longrightarrow> G s (fst (pool_run sched (s, ps)))"
  using pool_guarantees [of "(s, ps)"] by simp

end

section \<open>Running one task after the other\<close>

text \<open>The number of steps a program takes when it is alone.\<close>

primrec steps_alone :: "('s, 'e, 'a) prog \<Rightarrow> 's \<Rightarrow> nat" where
  "steps_alone (Done r) s = 0"
| "steps_alone (Atomic u k) s = Suc (steps_alone (k s) (u s))"

lemma run_alone:
  "i < length ps \<Longrightarrow> ps ! i = p \<Longrightarrow>
     pool_run (replicate (steps_alone p s) i) (s, ps) = (snd (execute p s), ps[i := Done (fst (execute p s))])"
proof (induction p arbitrary: s ps)
  case (Done r)
  then show ?case by (metis execute.simps(1) fst_conv list_update_id of_result_apply pool_run_simps(1)
      replicate_0 snd_conv steps_alone.simps(1))
next
  case (Atomic u k)
  have "pool_run (replicate (steps_alone (k s) (u s)) i) (u s, ps[i := k s]) =
       (snd (execute (k s) (u s)), ps[i := k s, i := Done (fst (execute (k s) (u s)))])"
    by (rule Atomic.IH) (use Atomic.prems in simp_all)
  with Atomic.prems show ?case by simp
qed

text \<open>One after the other in the order of the pool: the state each finds is the one the last left.\<close>

fun serially :: "('s, 'e, 'a) prog list \<Rightarrow> 's \<Rightarrow> ('e + 'a) list \<times> 's" where
  "serially [] s = ([], s)"
| "serially (p # ps) s =
     (case execute p s of (r, s1) \<Rightarrow> case serially ps s1 of (rs, s2) \<Rightarrow> (r # rs, s2))"

lemma snd_serially: "snd (serially ps s) = fold (\<lambda>p s. snd (execute p s)) ps s"
proof (induction ps arbitrary: s)
  case (Cons p ps)
  from Cons.IH [of "snd (execute p s)"] show ?case by (simp add: case_prod_unfold)
qed simp

lemma serial_schedule_from:
  "\<exists>sched. pool_run sched (s, ds @ ps) = (snd (serially ps s), ds @ map Done (fst (serially ps s)))"
proof (induction ps arbitrary: s ds)
  case Nil
  show ?case by (intro exI [of _ "[]"]) simp
next
  case (Cons p ps)
  obtain r s1 where p: "execute p s = (r, s1)" by fastforce
  have first: "pool_run (replicate (steps_alone p s) (length ds)) (s, ds @ p # ps) = (s1, (ds @ [Done r]) @ ps)"
    using run_alone [of "length ds" "ds @ p # ps" p s] p by (simp add: list_update_append)
  from Cons.IH [of s1 "ds @ [Done r]"] obtain sched where
    "pool_run sched (s1, (ds @ [Done r]) @ ps) =
       (snd (serially ps s1), (ds @ [Done r]) @ map Done (fst (serially ps s1)))" by blast
  with first p show ?case
    by (intro exI [of _ "replicate (steps_alone p s) (length ds) @ sched"]) (simp split: prod.split)
qed

lemma serial_schedule:
  "\<exists>sched. pool_run sched (s, ps) = (snd (serially ps s), map Done (fst (serially ps s)))"
  using serial_schedule_from [of s "[]" ps] by simp

section \<open>Stretches of one task\<close>

text \<open>\<open>alone p s p' s'\<close>: some steps of the program \<open>p\<close> in a row lead from \<open>s\<close> to \<open>s'\<close>, and \<open>p'\<close> is left.\<close>

inductive alone :: "('s, 'e, 'a) prog \<Rightarrow> 's \<Rightarrow> ('s, 'e, 'a) prog \<Rightarrow> 's \<Rightarrow> bool" where
  alone_refl [intro]: "alone p s p s"
| alone_step: "alone (k s) (u s) p' s' \<Longrightarrow> alone (Atomic u k) s p' s'"

lemma alone_trans: "alone p s p' s' \<Longrightarrow> alone p' s' p'' s'' \<Longrightarrow> alone p s p'' s''"
  by (induction rule: alone.induct) (auto intro: alone_step)

lemma alone_then: "execute p s = (Inr x, s') \<Longrightarrow> alone (prog_then p f) s (f x) s'"
  by (induction p arbitrary: s) (auto simp: prog_then.simps act_simps intro: alone_step)

lemma alone_next: "execute p s = (Inr x, s1) \<Longrightarrow> alone (f x) s1 q s' \<Longrightarrow> alone (prog_then p f) s q s'"
  by (rule alone_trans [OF alone_then])

lemma alone_execute: "alone p s (Done (fst (execute p s))) (snd (execute p s))"
  by (induction p arbitrary: s) (auto simp: act_simps intro: alone_step)

lemma alone_with_result: "alone p s p' s' \<Longrightarrow> alone (with_result g p) s (with_result g p') s'"
  by (induction rule: alone.induct) (auto simp: with_result.simps intro: alone_step)

lemma alone_left: "alone p s p' s' \<Longrightarrow> alone (prog_then p f) s (prog_then p' f) s'"
  by (induction rule: alone.induct) (auto simp: prog_then.simps intro: alone_step)

lemma alone_schedule:
  "alone p s p' s' \<Longrightarrow> i < length ps \<Longrightarrow> ps ! i = p \<Longrightarrow> 
     \<exists>sched. set sched \<subseteq> {i} \<and> pool_run sched (s, ps) = (s', ps[i := p'])"
proof (induction arbitrary: ps rule: alone.induct)
  case (alone_refl p s)
  then show ?case by (intro exI [of _ "[]"]) (simp add: list_update_id, metis list_update_id)
next
  case (alone_step k s u p' s')
  from alone_step.prems alone_step.IH [of "ps[i := k s]"] obtain sched where
    "set sched \<subseteq> {i}" "pool_run sched (u s, ps[i := k s]) = (s', ps[i := p'])" by auto
  with alone_step.prems show ?case by (intro exI [of _ "i # sched"]) simp
qed

section \<open>Fair schedules\<close>

text \<open>The pool after the first \<open>n\<close> turns of an endless schedule.\<close>

primrec pool_after :: "(nat \<Rightarrow> nat) \<Rightarrow> ('s, 'e, 'a) pool \<Rightarrow> nat \<Rightarrow> ('s, 'e, 'a) pool" where
  "pool_after sched c 0 = c"
| "pool_after sched c (Suc n) = turn (sched n) (pool_after sched c n)"

lemma length_pool_after [simp]: "length (snd (pool_after sched c n)) = length (snd c)"
  by (induction n) simp_all

lemma unscheduled:
  "n \<le> m \<Longrightarrow> \<forall>l. n \<le> l \<and> l < m \<longrightarrow> sched l \<noteq> i \<Longrightarrow> snd (pool_after sched c m) ! i = snd (pool_after sched c n) ! i"
proof (induction m)
  case (Suc m)
  show ?case
  proof (cases "n = Suc m")
    case False
    with Suc show ?thesis by (simp add: turn_other)
  qed simp
qed simp

text \<open>A task whose turn always comes again finishes: no task waits for another.\<close>

lemma fair_finishes_from:
  assumes fair: "\<forall>n. \<exists>m \<ge> n. sched m = i" and i: "i < length (snd c)"
  shows "snd (pool_after sched c n) ! i = p \<Longrightarrow> \<exists>m \<ge> n. \<exists>r. result_at (pool_after sched c m) i = Some r"
proof (induction p arbitrary: n)
  case (Done r)
  then show ?case by (auto simp: result_at_Some)
next
  case (Atomic u k)
  define m where "m = (LEAST m. n \<le> m \<and> sched m = i)"
  have m: "n \<le> m \<and> sched m = i" unfolding m_def using fair by (metis (mono_tags, lifting) LeastI_ex)
  have "\<forall>l. n \<le> l \<and> l < m \<longrightarrow> sched l \<noteq> i" unfolding m_def using not_less_Least by blast
  then have "snd (pool_after sched c m) ! i = Atomic u k"
    using unscheduled [of n m sched i c] m Atomic.prems by simp
  then have "snd (pool_after sched c (Suc m)) ! i = k (fst (pool_after sched c m))"
    using m i by (cases "pool_after sched c m") (use length_pool_after [of sched c m] in auto)
  then obtain m' where "m' \<ge> Suc m" "\<exists>r. result_at (pool_after sched c m') i = Some r"
    using Atomic.IH by blast
  with m show ?case by (intro exI [of _ m']) simp
qed

lemma fair_finishes:
  assumes "\<forall>n. \<exists>m \<ge> n. sched m = i" and "i < length ps"
  shows "\<exists>n r. result_at (pool_after sched (s, ps) n) i = Some r"
  using fair_finishes_from [of sched i "(s, ps)" 0] assms by auto

end
