(* ===== verification/Handler_Programs.thy ===== *)
theory Handler_Programs
  imports Server Programs
begin

text \<open>
  The handlers as programs: the steps of \<open>src/api/routes.rs\<close> and \<open>src/api/state.rs\<close> that take a lock,
  each on its own. A database closure runs under the connection's mutex, a session-store method under
  the store's lock, the swap of the engine under the engine's lock, and the revoked tokens under
  theirs; between two of them the handler holds nothing (\<open>kill_agent\<close> is the one method that holds two
  locks, and it holds both from start to end). \<open>eval_engine\<close> keeps the engine it started with, and takes
  the session locks one by one. A handler that takes one lock only is one step. The configuration, the
  keys and the vault never change. Executed alone, each program is the handler of \<open>Agent_Routes\<close> or
  \<open>Operator_Routes\<close>.
\<close>

section \<open>Reading and answering\<close>

definition reading :: "('s \<Rightarrow> 'a) \<Rightarrow> ('s, 'e, 'a) act" where
  "reading f = (\<lambda>s. (Inr (f s), s))"

definition look :: "('s \<Rightarrow> 'a) \<Rightarrow> ('s, 'e, 'a) prog" where
  "look f = atomically (reading f)"

lemma reading_apply [act_simps]: "reading f s = (Inr (f s), s)"
  by (simp add: reading_def)

lemma execute_look [prog_simps]: "execute (look f) = reading f"
  by (simp add: look_def execute_atomically)

lemma look_reads: "reading f = reads f"
  by (rule ext) (simp add: reads_def reading_def)

type_synonym 'a program = "(app_state, fail, 'a) prog"

type_synonym responder_program = "(app_state, string, response) prog"

definition answer_of :: "('a \<Rightarrow> response) \<Rightarrow> fail + 'a \<Rightarrow> string + response" where
  "answer_of f r =
     (case r of
        Inr x \<Rightarrow> Inr (f x)
      | Inl (Err e) \<Rightarrow> Inr (case into_response e of (status, msg) \<Rightarrow> (status, ErrorBody msg))
      | Inl (Panic p) \<Rightarrow> Inl p)"

definition respond_prog :: "('a \<Rightarrow> response) \<Rightarrow> 'a program \<Rightarrow> responder_program" where
  "respond_prog f p = with_result (answer_of f) p"

definition ok_prog :: "('a \<Rightarrow> reply) \<Rightarrow> 'a program \<Rightarrow> responder_program" where
  "ok_prog f p = respond_prog (\<lambda>x. (200, f x)) p"

definition extracting_prog :: "(nat \<times> string) + 'a \<Rightarrow> ('a \<Rightarrow> responder_program) \<Rightarrow> responder_program" where
  "extracting_prog r k = (case r of Inl (status, msg) \<Rightarrow> finish (status, Rejected msg) | Inr x \<Rightarrow> k x)"

text \<open>\<open>map_err(|e| PatroclusError::Config(e.to_string()))\<close>.\<close>

definition config_error_of :: "fail + 'a \<Rightarrow> fail + 'a" where
  "config_error_of r = (case r of Inl (Err e) \<Rightarrow> Inl (Err (ConfigError (error_text e))) | _ \<Rightarrow> r)"

lemma execute_respond [prog_simps]: "execute (respond_prog f p) = respond f (execute p)"
  by (rule ext) (auto simp: respond_prog_def respond_def execute_with_result answer_of_def
      split: prod.split sum.split fail.split)

lemma execute_ok [prog_simps]: "execute (ok_prog f p) = ok_with f (execute p)"
  by (simp add: ok_prog_def ok_with_def execute_respond)

lemma execute_extracting [prog_simps]: "execute (extracting_prog r k) = extracting r (\<lambda>x. execute (k x))"
  by (auto simp: extracting_prog_def extracting_def prog_simps split: sum.split)

lemma execute_config_error: "execute (with_result config_error_of p) = as_config_error (execute p)"
  by (rule ext) (auto simp: as_config_error_def execute_with_result config_error_of_def
      split: prod.split sum.split fail.split)

lemma execute_case_decision [prog_simps]:
  "execute (case d of Allow \<Rightarrow> p | Deny \<Rightarrow> q | RequireApproval a b \<Rightarrow> f a b) =
     (case d of Allow \<Rightarrow> execute p | Deny \<Rightarrow> execute q | RequireApproval a b \<Rightarrow> execute (f a b))"
  by (simp split: decision.split)

section \<open>The policy engine\<close>

text \<open>
  One lock for the session of the first matching rule's conditions, another for its rate limit. The
  session may change between the two.
\<close>

fun eval_rules_prog ::
    "ext \<Rightarrow> time \<Rightarrow> yaml_engine \<Rightarrow> rule list \<Rightarrow> policy_context \<Rightarrow> policy_evaluation program" where
  "eval_rules_prog X now eng [] ctx = finish (deny_with ''No matching policy found (default deny)'')"
| "eval_rules_prog X now eng (r # rs) ctx =
     (if rule_matches r ctx then
        prog_then (look (\<lambda>s. check_temporal_conditions X eng r ctx (st_session_store s))) (\<lambda>failed.
          case failed of
            Some reason \<Rightarrow> finish (deny_with reason)
          | None \<Rightarrow>
              prog_then (atomically (on_sessions (rule_rate_limit now eng r ctx))) (\<lambda>limited.
                case limited of
                  Some reason \<Rightarrow> finish (deny_with reason)
                | None \<Rightarrow> finish (apply_rule r ctx)))
      else eval_rules_prog X now eng rs ctx)"

definition eval_engine_prog :: "ext \<Rightarrow> time \<Rightarrow> policy_context \<Rightarrow> policy_evaluation program" where
  "eval_engine_prog X now ctx =
     prog_then (look st_policy_engine) (\<lambda>eng. eval_rules_prog X now eng (ye_rules eng) ctx)"

definition reload_policy_prog :: "ext \<Rightarrow> env \<Rightarrow> unit program" where
  "reload_policy_prog X E =
     prog_then (look st_config) (\<lambda>cfg.
     prog_then (atomically (on_db (build_engine X E cfg))) (\<lambda>engine.
       atomically (modify (\<lambda>s. s\<lparr> st_policy_engine := engine \<rparr>))))"

lemma execute_eval_rules:
  "execute (eval_rules_prog X now eng rs ctx) s =
     (case eval_rules X now eng rs ctx (st_session_store s) of (ev, st) \<Rightarrow> (Inr ev, s\<lparr> st_session_store := st \<rparr>))"
  by (induction rs) (auto simp: prog_simps act_simps split: option.split prod.split)

lemma execute_eval_engine [prog_simps]: "execute (eval_engine_prog X now ctx) = eval_engine X now ctx"
  by (rule ext) (simp add: eval_engine_prog_def prog_simps act_simps execute_eval_rules evaluate_def
      cong: if_cong option.case_cong)

lemma execute_reload_policy [prog_simps]: "execute (reload_policy_prog X E) = reload_policy X E"
  by (simp add: reload_policy_prog_def reload_policy_def prog_simps look_reads
      cong: if_cong option.case_cong)

section \<open>Requesting access\<close>

definition present_token_prog ::
    "ext \<Rightarrow> env \<Rightarrow> uuid \<Rightarrow> string \<Rightarrow> (principal option \<times> delegation_hop list option) program" where
  "present_token_prog X E agent token =
     prog_then (atomically (reads_result (\<lambda>s. verify X (st_token_verifier s) (e_now E 1) (e_now E 2) token
         (Some (agent_urn X agent))))) (\<lambda>claims.
       look (\<lambda>s. (get_principal_by_email X E (e_now E 3) (replace_all ''user:'' '''' (cl_sub claims)) (st_db s),
         act_delegation_chain (cl_act claims))))"

definition request_principal_prog ::
    "ext \<Rightarrow> env \<Rightarrow> access_request \<Rightarrow> agent \<Rightarrow> (principal option \<times> delegation_hop list option) program" where
  "request_principal_prog X E req a =
     (case rq_delegation_token req of
        Some token \<Rightarrow> present_token_prog X E (rq_agent_id req) token
      | None \<Rightarrow> prog_then (atomically (owner_of X E (e_now E 3) a)) (\<lambda>p. finish (p, None)))"

definition issue_access_token_prog ::
    "ext \<Rightarrow> env \<Rightarrow> access_request \<Rightarrow> agent \<Rightarrow> principal option \<Rightarrow> policy_evaluation \<Rightarrow> issued_token_info program" where
  "issue_access_token_prog X E req a p ev =
     prog_then (look st_config) (\<lambda>cfg.
     let params = access_token_params X cfg req a p ev in
     prog_then (atomically (reads_result (\<lambda>s. issue X (st_token_issuer s) (e_now E 6) (e_now E 7) (e_uuid E 0) params))) (\<lambda>(jwt, jti).
     prog_then (Done (expiry X (e_now E 8) params)) (\<lambda>expires_at.
     prog_then (atomically (on_db (record_token X E (e_now E 9) jti None (ag_id a) (ev_approved_scopes ev)
         (rq_resource req) expires_at))) (\<lambda>_.
     prog_then (atomically (change_metrics count_token)) (\<lambda>_.
       finish \<lparr> it_jwt = jwt, it_expires_at = expires_at, it_scopes = ev_approved_scopes ev, it_jti = jti \<rparr>)))))"

definition open_approval_prog ::
    "ext \<Rightarrow> env \<Rightarrow> access_request \<Rightarrow> agent \<Rightarrow> principal option \<Rightarrow> approval_info program" where
  "open_approval_prog X E req a p =
     prog_then (atomically (ok_of (on_db (find_resource_by_uri X E (rq_resource req))))) (\<lambda>found.
     prog_then (atomically (on_db (create_approval_request X E (e_now E 10) (e_uuid E 1) (ag_id a) (map_option pr_id p)
         (Option.bind found id) (rq_action req) (rq_requested_scopes req) 300))) (\<lambda>approval.
       finish \<lparr> ai_request_id = ap_id approval, ai_status = ''pending'' \<rparr>))"

definition carry_out_prog ::
    "ext \<Rightarrow> env \<Rightarrow> access_request \<Rightarrow> agent \<Rightarrow> principal option \<Rightarrow> policy_evaluation \<Rightarrow> access_response program" where
  "carry_out_prog X E req a p ev =
     (case ev_decision ev of
        Allow \<Rightarrow> prog_then (issue_access_token_prog X E req a p ev) (\<lambda>t. finish ((response_of ev)\<lparr> rs_token := Some t \<rparr>))
      | RequireApproval _ _ \<Rightarrow>
          prog_then (open_approval_prog X E req a p) (\<lambda>i. finish ((response_of ev)\<lparr> rs_approval := Some i \<rparr>))
      | Deny \<Rightarrow> finish (response_of ev))"

definition decide_access_prog ::
    "ext \<Rightarrow> env \<Rightarrow> access_request \<Rightarrow> agent \<Rightarrow> principal option \<Rightarrow> delegation_hop list option \<Rightarrow> string \<Rightarrow>
     trajectory_event list \<Rightarrow> access_response program" where
  "decide_access_prog X E req a p chain sid trajectory =
     prog_then (eval_engine_prog X (e_now E 5) (request_policy_context req a p (Some sid) trajectory)) (\<lambda>ev.
     prog_then (atomically (change_metrics (record_decision (decision_str (ev_decision ev)) (rq_action req)))) (\<lambda>_.
     prog_then (carry_out_prog X E req a p ev) (\<lambda>resp.
     prog_then (atomically (change_sessions (store_record_action (e_now E 12) sid
        \<lparr> te_action = rq_action req, te_resource = rq_resource req, te_decision = ev_decision ev,
          te_timestamp = e_now E 11 \<rparr>))) (\<lambda>_.
     prog_then (atomically (on_db (create_audit_entry X E (e_now E 13) (access_audit req a p chain ev resp)))) (\<lambda>_.
       finish resp)))))"

text \<open>From the session on.\<close>

definition access_in_session_prog ::
    "ext \<Rightarrow> env \<Rightarrow> access_request \<Rightarrow> agent \<Rightarrow> principal option \<Rightarrow> delegation_hop list option \<Rightarrow> access_response program" where
  "access_in_session_prog X E req a p chain =
     (let sid = request_session_id X req a in
      prog_then (atomically (on_sessions (get_or_create_session (e_now E 4) sid (ag_id a) (map_option pr_id p)))) (\<lambda>session.
        if ss_killed session then finish (killed_response ''Agent session has been killed by emergency stop'')
        else
          prog_then (look (\<lambda>s. is_agent_killed (ag_id a) (st_session_store s))) (\<lambda>killed.
            if killed then finish (killed_response ''Agent has been killed by emergency stop'')
            else decide_access_prog X E req a p chain sid (ss_trajectory session))))"

definition request_access_prog :: "ext \<Rightarrow> env \<Rightarrow> uuid option \<Rightarrow> access_request \<Rightarrow> access_response program" where
  "request_access_prog X E auth req =
     prog_then (atomically (check_own_agent auth (rq_agent_id req))) (\<lambda>_.
     prog_then (atomically (on_db (get_agent X E (e_now E 0) (rq_agent_id req)))) (\<lambda>a.
     prog_then (request_principal_prog X E req a) (\<lambda>(p, chain).
       access_in_session_prog X E req a p chain)))"

lemma execute_request_principal [prog_simps]: "execute (request_principal_prog X E req a) = request_principal X E req a"
  by (simp add: request_principal_prog_def request_principal_def present_token_prog_def present_token_def prog_simps
      look_reads split: option.split)

lemma execute_carry_out [prog_simps]: "execute (carry_out_prog X E req a p ev) = carry_out X E req a p ev"
  by (simp add: carry_out_prog_def carry_out_def issue_access_token_prog_def issue_access_token_def
      open_approval_prog_def open_approval_def Let_def prog_simps look_reads split: decision.split)

lemma execute_decide_access [prog_simps]:
  "execute (decide_access_prog X E req a p chain sid tr) = decide_access X E req a p chain sid tr"
  by (simp add: decide_access_prog_def decide_access_def prog_simps
      cong: if_cong option.case_cong)

lemma execute_request_access [prog_simps]: "execute (request_access_prog X E auth req) = request_access X E auth req"
  by (simp add: request_access_prog_def access_in_session_prog_def request_access_def Let_def prog_simps look_reads
      cong: if_cong option.case_cong)

section \<open>Asking and delegating\<close>

definition check_access_prog :: "ext \<Rightarrow> env \<Rightarrow> uuid option \<Rightarrow> access_request \<Rightarrow> json program" where
  "check_access_prog X E auth req =
     prog_then (atomically (check_own_agent auth (rq_agent_id req))) (\<lambda>_.
     prog_then (atomically (on_db (get_agent X E (e_now E 0) (rq_agent_id req)))) (\<lambda>a.
     prog_then (atomically (owner_of X E (e_now E 1) a)) (\<lambda>p.
     prog_then (look (\<lambda>s. is_agent_killed (ag_id a) (st_session_store s))) (\<lambda>killed.
       if killed then finish (check_json False [] ''deny'' ''Agent has been killed by emergency stop'')
       else
         prog_then (eval_engine_prog X (e_now E 2) (request_policy_context req a p (context_session req) [])) (\<lambda>ev.
         prog_then (atomically (change_metrics (record_decision (decision_str (ev_decision ev)) (rq_action req)))) (\<lambda>_.
         prog_then (atomically (on_db (create_audit_entry X E (e_now E 3) (check_audit req a p ev)))) (\<lambda>_.
           finish (check_json (ev_decision ev = Allow) (ev_approved_scopes ev)
             (decision_str (ev_decision ev)) (ev_reason ev)))))))))"

definition issue_delegated_prog ::
    "ext \<Rightarrow> env \<Rightarrow> delegate_request \<Rightarrow> agent_claims \<Rightarrow> config \<Rightarrow> time \<Rightarrow> delegate_response program" where
  "issue_delegated_prog X E req c cfg expires =
     (let params = delegated_params X cfg req c (effective_ttl (e_now E 4) expires) in
      prog_then (atomically (reads_result (\<lambda>s. issue X (st_token_issuer s) (e_now E 5) (e_now E 6) (e_uuid E 0) params))) (\<lambda>(jwt, jti).
      prog_then (atomically (on_db (record_token X E (e_now E 7) jti None (dq_sub_agent_id req) (dq_scopes req)
          (agent_urn X (dq_sub_agent_id req)) expires))) (\<lambda>_.
      prog_then (atomically (change_metrics count_token)) (\<lambda>_.
      prog_then (atomically (on_db (create_audit_entry X E (e_now E 8)
          (delegate_audit X req c (cp_max_delegation_depth (cf_policy cfg)) jti)))) (\<lambda>_.
        finish \<lparr> dr_delegated_token = jwt, dr_expires_at = expires, dr_scopes = dq_scopes req \<rparr>)))))"

definition delegate_prog :: "ext \<Rightarrow> env \<Rightarrow> uuid option \<Rightarrow> delegate_request \<Rightarrow> delegate_response program" where
  "delegate_prog X E auth req =
     prog_then (Done (authenticated_agent auth)) (\<lambda>who.
     prog_then (atomically (reads_result (\<lambda>s. verify X (st_token_verifier s) (e_now E 0) (e_now E 1)
         (dq_parent_grant_token req) (Some (agent_urn X who))))) (\<lambda>c.
     prog_then (Done (check_scopes (split_whitespace (cl_scope c)) (cl_scope c) (dq_scopes req))) (\<lambda>_.
     prog_then (look st_config) (\<lambda>cfg.
     prog_then (Done (check_depth (cp_max_delegation_depth (cf_policy cfg)) (act_delegation_depth (cl_act c) + 1))) (\<lambda>_.
     prog_then (Done (add_seconds X (e_now E 3) (dq_expires_in_seconds req))) (\<lambda>requested_expiry.
       issue_delegated_prog X E req c cfg (min (parent_expiry X (e_now E 2) c) requested_expiry)))))))"

lemma execute_check_access [prog_simps]: "execute (check_access_prog X E auth req) = check_access X E auth req"
  by (simp add: check_access_prog_def check_access_def prog_simps look_reads
      cong: if_cong option.case_cong)

lemma execute_delegate [prog_simps]: "execute (delegate_prog X E auth req) = delegate X E auth req"
  by (simp add: delegate_prog_def delegate_def issue_delegated_prog_def issue_delegated_def Let_def prog_simps look_reads
      cong: if_cong option.case_cong)

section \<open>Operators\<close>

definition grant_and_issue_prog ::
    "ext \<Rightarrow> env \<Rightarrow> principal_delegate_request \<Rightarrow> agent \<Rightarrow> principal \<Rightarrow> uuid \<Rightarrow> json program" where
  "grant_and_issue_prog X E req a p principal_id =
     prog_then (Done (add_seconds X (e_now E 2) (pq_expires_in_seconds req))) (\<lambda>expires_at.
     prog_then (atomically (on_db (create_grant X E (e_now E 3) (e_uuid E 0) (ag_id a) principal_id None (pq_scopes req)
         (pq_constraints req) expires_at))) (\<lambda>grant_id.
     prog_then (atomically (reads_result (\<lambda>s. issue X (st_token_issuer s) (e_now E 4) (e_now E 5) (e_uuid E 1)
         (grant_token_params X (st_config s) req a p)))) (\<lambda>(jwt, jti).
     prog_then (atomically (on_db (record_token X E (e_now E 6) jti (Some grant_id) (ag_id a) (pq_scopes req)
         (agent_urn X (ag_id a)) expires_at))) (\<lambda>_.
     prog_then (atomically (change_metrics count_token)) (\<lambda>_.
       finish (grant_json X req grant_id jwt expires_at))))))"

definition principal_delegate_prog :: "ext \<Rightarrow> env \<Rightarrow> principal_delegate_request \<Rightarrow> json program" where
  "principal_delegate_prog X E req =
     prog_then (atomically (on_db (get_agent X E (e_now E 0) (pq_agent_id req)))) (\<lambda>a.
       case ag_owner_id a of
         None \<Rightarrow> Done (Inl (Err (AgentNotFound ''agent has no owner principal'')))
       | Some principal_id \<Rightarrow>
           prog_then (atomically (on_db (get_principal X E (e_now E 1) principal_id))) (\<lambda>p.
             grant_and_issue_prog X E req a p principal_id))"

definition provision_client_key_prog :: "ext \<Rightarrow> env \<Rightarrow> uuid \<Rightarrow> json program" where
  "provision_client_key_prog X E i =
     prog_then (atomically (on_db (get_agent X E (e_now E 0) i))) (\<lambda>_.
     case generate_client_key X (e_random E 0) of (raw_key, key_hash) \<Rightarrow>
       prog_then (atomically (on_db (set_agent_client_key_hash X E (e_now E 1) i key_hash))) (\<lambda>_.
         finish (client_key_json X i raw_key)))"

definition create_policy_prog :: "ext \<Rightarrow> env \<Rightarrow> create_policy_request \<Rightarrow> json program" where
  "create_policy_prog X E req =
     prog_then (atomically (on_db (create_policy X E (e_now E 0) (e_uuid E 0) (cpo_name req) (cpo_engine req)
         (cpo_definition req)))) (\<lambda>_.
     prog_then (with_result config_error_of (reload_policy_prog X E)) (\<lambda>_.
       finish (JObj [(''reloaded'', JBool True), (''status'', JStr ''created'')])))"

definition revoke_token_prog :: "env \<Rightarrow> string \<Rightarrow> json program" where
  "revoke_token_prog E jti =
     prog_then (atomically (on_db (revoke_token E jti))) (\<lambda>_.
     prog_then (atomically (modify (\<lambda>s. s\<lparr> st_token_verifier := revoke jti (st_token_verifier s) \<rparr>))) (\<lambda>_.
       finish (JObj [(''revoked'', JStr jti)])))"

definition kill_agent_prog :: "ext \<Rightarrow> env \<Rightarrow> uuid \<Rightarrow> json program" where
  "kill_agent_prog X E i =
     prog_then (atomically (change_sessions (kill_agent i))) (\<lambda>_.
     prog_then (look (\<lambda>s. stopped_sessions i (st_session_store s))) (\<lambda>killed.
     prog_then (atomically (on_db (revoke_agent_tokens X E i))) (\<lambda>_.
       finish (JObj [(''agent_id'', uuid_json X i), (''killed'', JBool True), (''sessions_killed'', JInt (int killed))]))))"

definition restore_agent_prog :: "ext \<Rightarrow> uuid \<Rightarrow> json program" where
  "restore_agent_prog X i =
     prog_then (atomically (change_sessions (lift_stop i))) (\<lambda>_.
     prog_then (atomically (change_sessions (unmark_sessions i))) (\<lambda>_.
       finish (JObj [(''agent_id'', uuid_json X i), (''restored'', JBool True)])))"

definition record_spend_prog :: "ext \<Rightarrow> uuid \<Rightarrow> record_spend_request \<Rightarrow> json program" where
  "record_spend_prog X i req =
     (let sid = spend_session X i req in
      prog_then (atomically (change_sessions (store_record_spend sid (sq_amount req)))) (\<lambda>_.
      prog_then (look (\<lambda>s. get_session sid (st_session_store s))) (\<lambda>session.
        finish (JObj [(''agent_id'', uuid_json X i),
          (''cumulative_spend'', f64_json (or_else (map_option cumulative_spend session) (sq_amount req))),
          (''session_id'', JStr sid), (''spend_recorded'', f64_json (sq_amount req))]))))"

text \<open>The two gauges are set one after the other.\<close>

definition prometheus_prog :: "ext \<Rightarrow> env \<Rightarrow> (metrics \<Rightarrow> string) \<Rightarrow> string program" where
  "prometheus_prog X E render =
     prog_then (look (\<lambda>s. length (list_sessions (st_session_store s)))) (\<lambda>active.
     prog_then (atomically (change_metrics (\<lambda>m. m\<lparr> me_active_sessions := int active \<rparr>))) (\<lambda>_.
     prog_then (atomically (ok_of (on_db (list_pending_approvals X E (e_now E 0))))) (\<lambda>pending.
     prog_then (atomically (change_metrics (\<lambda>m. m\<lparr> me_approval_queue_depth := int (or_else (map_option length pending) 0) \<rparr>))) (\<lambda>_.
       look (\<lambda>s. gather render (st_metrics s))))))"

lemma execute_principal_delegate [prog_simps]: "execute (principal_delegate_prog X E req) = principal_delegate X E req"
  by (simp add: principal_delegate_prog_def principal_delegate_def grant_and_issue_prog_def grant_and_issue_def prog_simps
      throw_def of_result_def
      cong: if_cong option.case_cong)

lemma execute_provision_client_key [prog_simps]: "execute (provision_client_key_prog X E i) = provision_client_key X E i"
  by (simp add: provision_client_key_prog_def provision_client_key_def prog_simps
      cong: if_cong option.case_cong)

lemma execute_create_policy [prog_simps]: "execute (create_policy_prog X E req) = create_policy_route X E req"
  by (simp add: create_policy_prog_def create_policy_route_def prog_simps execute_config_error
      cong: if_cong option.case_cong)

lemma execute_revoke_token [prog_simps]: "execute (revoke_token_prog E jti) = revoke_token_route E jti"
  by (simp add: revoke_token_prog_def revoke_token_route_def prog_simps
      cong: if_cong option.case_cong)

lemma execute_kill_agent [prog_simps]: "execute (kill_agent_prog X E i) = kill_agent_route X E i"
  by (simp add: kill_agent_prog_def kill_agent_route_def prog_simps look_reads
      cong: if_cong option.case_cong)

lemma execute_restore_agent [prog_simps]: "execute (restore_agent_prog X i) = restore_agent_route X i"
  by (rule ext) (simp add: restore_agent_prog_def restore_agent_route_def prog_simps act_simps restore_agent_def
      cong: if_cong option.case_cong)

lemma execute_record_spend [prog_simps]: "execute (record_spend_prog X i req) = record_spend_route X i req"
  by (simp add: record_spend_prog_def record_spend_route_def Let_def prog_simps look_reads
      cong: if_cong option.case_cong)

lemma execute_prometheus [prog_simps]: "execute (prometheus_prog X E render) = prometheus_metrics X E render"
  by (rule ext) (auto simp: prometheus_prog_def prometheus_metrics_def prog_simps act_simps refresh_gauges_def ok_of_def
      list_pending_approvals_def split: option.split sum.split)

section \<open>Federation\<close>

definition ensure_principal_prog :: "ext \<Rightarrow> env \<Rightarrow> idp_provider \<Rightarrow> idp_user_info \<Rightarrow> uuid program" where
  "ensure_principal_prog X E provider user =
     prog_then (look (\<lambda>s. get_principal_by_email X E (e_now E 1) (ui_email user) (st_db s))) (\<lambda>known.
       case known of
         Some p \<Rightarrow> finish (pr_id p)
       | None \<Rightarrow>
           prog_then (atomically (on_db (create_principal X E (e_now E 2) (e_uuid E 0)
             \<lparr> cpr_external_id = ui_subject user, cpr_idp_provider = id_name provider,
               cpr_email = ui_email user, cpr_display_name = or_else (ui_name user) (ui_email user) \<rparr>))) (\<lambda>p.
             finish (pr_id p)))"

definition apply_group_policy_prog :: "ext \<Rightarrow> env \<Rightarrow> uuid \<Rightarrow> string option \<Rightarrow> unit program" where
  "apply_group_policy_prog X E principal_id policy_yaml =
     (case policy_yaml of
        None \<Rightarrow> finish ()
      | Some yaml \<Rightarrow>
          if yaml = [] then finish ()
          else
            prog_then (atomically (on_db (create_policy X E (e_now E 3) (e_uuid E 1) (''idp-'' @ x_uuid_str X principal_id)
                ''yaml'' yaml))) (\<lambda>_.
              with_result config_error_of (reload_policy_prog X E)))"

definition complete_login_prog :: "ext \<Rightarrow> env \<Rightarrow> config \<Rightarrow> pkce_transaction \<Rightarrow> string \<Rightarrow> json program" where
  "complete_login_prog X E cfg txn code =
     prog_then (Done (provider_named cfg (px_provider_name txn) '' not configured'')) (\<lambda>provider.
     prog_then (Done (exchange_oidc_token E provider code (callback_uri cfg) (px_code_verifier txn))) (\<lambda>access_token.
     prog_then (Done (fetch_userinfo E provider access_token)) (\<lambda>user.
     prog_then (ensure_principal_prog X E provider user) (\<lambda>principal_id.
     let mapped = build_policy_from_groups user (id_group_policy_mappings provider) in
     prog_then (apply_group_policy_prog X E principal_id (map_option fst mapped)) (\<lambda>_.
       finish (login_json X principal_id user mapped))))))"

definition idp_callback_prog :: "ext \<Rightarrow> env \<Rightarrow> idp_callback_query \<Rightarrow> json program" where
  "idp_callback_prog X E q =
     prog_then (look st_config) (\<lambda>cfg.
       if \<not> ci_enabled (cf_idp cfg) \<or> ci_providers (cf_idp cfg) = [] then
         Done (Inl (Err (ConfigError ''IdP federation not enabled'')))
       else
         prog_then (atomically (on_pkce (pkce_consume (e_now E 0) (cb_state q)))) (\<lambda>found.
         prog_then (Done (ok_or found (Err (Forbidden ''invalid, expired or reused OAuth state parameter'')))) (\<lambda>txn.
           complete_login_prog X E cfg txn (cb_code q))))"

lemma execute_idp_callback [prog_simps]: "execute (idp_callback_prog X E q) = idp_callback X E q"
  by (simp add: idp_callback_prog_def idp_callback_def complete_login_prog_def complete_login_def ensure_principal_prog_def
      ensure_principal_def apply_group_policy_prog_def apply_group_policy_def Let_def prog_simps execute_config_error
      look_reads throw_def of_result_def
      cong: if_cong option.case_cong)

section \<open>The server\<close>

text \<open>A handler that takes one lock at most is one step.\<close>

definition dispatch_prog ::
    "web \<Rightarrow> ext \<Rightarrow> env \<Rightarrow> uuid option \<Rightarrow> web_request \<Rightarrow> string list \<Rightarrow> handler_name \<Rightarrow> responder_program" where
  "dispatch_prog W X E who req ps h =
     (case h of
        PrometheusMetrics \<Rightarrow> ok_prog TextBody (prometheus_prog X E (w_render W))
      | RequestAccess \<Rightarrow> extracting_prog (w_access W req) (\<lambda>body. ok_prog AccessBody (request_access_prog X E who body))
      | CheckAccess \<Rightarrow> extracting_prog (w_access W req) (\<lambda>body. ok_prog JsonBody (check_access_prog X E who body))
      | Delegate \<Rightarrow> extracting_prog (w_delegate W req) (\<lambda>body. ok_prog DelegateBody (delegate_prog X E who body))
      | PrincipalDelegate \<Rightarrow>
          extracting_prog (w_principal_delegate W req) (\<lambda>body. ok_prog JsonBody (principal_delegate_prog X E body))
      | CreatePolicy \<Rightarrow> extracting_prog (w_policy W req) (\<lambda>body. ok_prog JsonBody (create_policy_prog X E body))
      | RevokeTokenById \<Rightarrow> extracting_prog (w_path_text W ps) (\<lambda>jti. ok_prog JsonBody (revoke_token_prog E jti))
      | KillAgentById \<Rightarrow> extracting_prog (w_path_uuid W ps) (\<lambda>i. ok_prog JsonBody (kill_agent_prog X E i))
      | RestoreAgentById \<Rightarrow> extracting_prog (w_path_uuid W ps) (\<lambda>i. ok_prog JsonBody (restore_agent_prog X i))
      | RecordSpendOf \<Rightarrow>
          extracting_prog (w_path_uuid W ps) (\<lambda>i. extracting_prog (w_spend W req) (\<lambda>body.
            ok_prog JsonBody (record_spend_prog X i body)))
      | ProvisionClientKey \<Rightarrow> extracting_prog (w_path_uuid W ps) (\<lambda>i. ok_prog JsonBody (provision_client_key_prog X E i))
      | IdpCallback \<Rightarrow> extracting_prog (w_callback_query W req) (\<lambda>q. ok_prog JsonBody (idp_callback_prog X E q))
      | _ \<Rightarrow> atomically (dispatch W X E who req ps h))"

definition run_route_prog :: "web \<Rightarrow> ext \<Rightarrow> env \<Rightarrow> uuid option \<Rightarrow> web_request \<Rightarrow> responder_program" where
  "run_route_prog W X E who req =
     (case route W req of
        NoRoute \<Rightarrow> finish (404, Rejected [])
      | WrongMethod _ \<Rightarrow> finish (405, Rejected [])
      | Routed _ h ps \<Rightarrow> dispatch_prog W X E who req ps h)"

definition with_auth_prog :: "web \<Rightarrow> ext \<Rightarrow> env \<Rightarrow> time \<Rightarrow> web_request \<Rightarrow> responder_program" where
  "with_auth_prog W X E now req =
     prog_then (look (\<lambda>s. auth_middleware X E now (st_auth s) (wr_head req) (st_db s))) (\<lambda>auth.
       case auth of
         Inl msg \<Rightarrow> finish (401, ErrorBody msg)
       | Inr who \<Rightarrow> run_route_prog W X E who req)"

definition serve_prog :: "web \<Rightarrow> ext \<Rightarrow> env \<Rightarrow> time \<Rightarrow> f64 \<Rightarrow> web_request \<Rightarrow> responder_program" where
  "serve_prog W X E now elapsed req =
     prog_then (look (\<lambda>s. w_cors W (cors_origins W (st_config s)) req)) (\<lambda>preflight.
       case preflight of
         Some answer \<Rightarrow> finish answer
       | None \<Rightarrow>
           prog_then (with_auth_prog W X E now req) (\<lambda>r.
           prog_then (atomically (modify (\<lambda>s. s\<lparr> st_metrics :=
               observe_duration (wr_method req) (path_label W req) elapsed (st_metrics s) \<rparr>))) (\<lambda>_.
             finish r)))"

lemma execute_dispatch [prog_simps]: "execute (dispatch_prog W X E who req ps h) = dispatch W X E who req ps h"
  by (cases h) (simp_all add: dispatch_prog_def prog_simps
      cong: if_cong option.case_cong)

lemma execute_run_route [prog_simps]: "execute (run_route_prog W X E who req) = run_route W X E who req"
  by (simp add: run_route_prog_def run_route_def prog_simps split: routed.split)

lemma execute_with_auth [prog_simps]: "execute (with_auth_prog W X E now req) = with_auth W X E now req"
  by (rule ext) (simp add: with_auth_prog_def with_auth_def prog_simps act_simps split: sum.split)

text \<open>
  The server that runs a request step by step, taking one lock after the other, does exactly what the
  sequential server does when no other request runs: the same answer and the same state.
\<close>

lemma execute_serve_prog: "execute (serve_prog W X E now elapsed req) = serve W X E now elapsed req"
  by (rule ext) (simp add: serve_prog_def serve_def metrics_latency_middleware_def prog_simps act_simps split: option.split)

end
