(* ===== verification/Concurrency.thy ===== *)
theory Concurrency
  imports Handler_Programs Server_Safety
begin

text \<open>
  Many requests at once. Every atomic step of every handler program is a sequence of the operations of
  \<open>App_Steps\<close> that its request permits, so whatever a schedule does, the state is always one that such
  operations lead to; what they keep holds at every moment, what they never undo is never undone, and
  what a handler established at one of its steps can be followed through the run.
\<close>

section \<open>Steps of the programs\<close>

definition app_steps :: "ext \<Rightarrow> (app_op \<Rightarrow> bool) \<Rightarrow> app_state \<Rightarrow> app_state \<Rightarrow> bool" where
  "app_steps X ok s s' \<longleftrightarrow> (\<exists>ops. list_all ok ops \<and> s' = fold (app_step X) ops s)"

interpretation pool_steps: guarantee "app_steps X ok" for X ok
proof unfold_locales
  show "app_steps X ok s s" for s
    unfolding app_steps_def by (intro exI [of _ "[]"]) simp
  show "app_steps X ok s s''" if "app_steps X ok s s'" "app_steps X ok s' s''" for s s' s''
  proof -
    from that obtain ops ops' where "list_all ok ops" "s' = fold (app_step X) ops s"
      "list_all ok ops'" "s'' = fold (app_step X) ops' s'" by (auto simp: app_steps_def)
    then show ?thesis unfolding app_steps_def by (intro exI [of _ "ops @ ops'"]) simp
  qed
qed

abbreviation step_by_step :: "ext \<Rightarrow> (app_op \<Rightarrow> bool) \<Rightarrow> (app_state, 'e, 'a) prog \<Rightarrow> bool" where
  "step_by_step X ok p \<equiv> guarantees (app_steps X ok) p"

lemma atomically_steps: "via X ok m \<Longrightarrow> step_by_step X ok (atomically m)"
  by (intro guarantees_atomically) (auto simp: via_def app_steps_def)

lemma look_steps: "step_by_step X ok (look f)"
  unfolding look_def by (intro guarantees_atomically) (simp add: reading_def pool_steps.refl_step)

lemma if_steps: "(b \<Longrightarrow> step_by_step X ok p) \<Longrightarrow> (\<not> b \<Longrightarrow> step_by_step X ok q) \<Longrightarrow> step_by_step X ok (if b then p else q)"
  by simp

lemma option_steps: "step_by_step X ok p \<Longrightarrow> (\<And>a. x = Some a \<Longrightarrow> step_by_step X ok (f a)) \<Longrightarrow>
    step_by_step X ok (case x of None \<Rightarrow> p | Some a \<Rightarrow> f a)"
  by (simp split: option.split)

lemma prod_steps: "(\<And>a b. step_by_step X ok (f a b)) \<Longrightarrow> step_by_step X ok (case x of (a, b) \<Rightarrow> f a b)"
  by (simp split: prod.split)

lemma decision_steps: "step_by_step X ok p \<Longrightarrow> step_by_step X ok q \<Longrightarrow> (\<And>a b. step_by_step X ok (f a b)) \<Longrightarrow>
    step_by_step X ok (case d of Allow \<Rightarrow> p | Deny \<Rightarrow> q | RequireApproval a b \<Rightarrow> f a b)"
  by (simp split: decision.split)

lemma respond_steps: "step_by_step X ok p \<Longrightarrow> step_by_step X ok (respond_prog f p)"
  by (simp add: respond_prog_def guarantees_with_result)

lemma ok_steps: "step_by_step X ok p \<Longrightarrow> step_by_step X ok (ok_prog f p)"
  by (simp add: ok_prog_def respond_steps)

lemma extracting_steps: "(\<And>x. r = Inr x \<Longrightarrow> step_by_step X ok (k x)) \<Longrightarrow> step_by_step X ok (extracting_prog r k)"
  by (auto simp: extracting_prog_def intro: guarantees_Done split: sum.split)

lemmas step_rules = guarantees_then guarantees_Done guarantees_with_result look_steps if_steps option_steps
  prod_steps decision_steps respond_steps ok_steps extracting_steps

lemmas atomic_rules = atomically_steps [OF via_reads(2)] atomically_steps [OF via_metrics]
  atomically_steps [OF via_check_own_agent] atomically_steps [OF via_owner_of] atomically_steps [OF via_revoke_jti]
  via_logins [THEN atomically_steps] via_reads_db [THEN atomically_steps] via_writes [THEN atomically_steps]
  via_session_ops [THEN atomically_steps] via_reads_db [THEN via_ok_of, THEN atomically_steps]

lemma on_sessions_steps:
  assumes "\<And>st. \<exists>ops. list_all (\<lambda>op. ok (SessionOp op)) ops \<and> snd (f st) = fold store_step ops st"
  shows "step_by_step X ok (atomically (on_sessions f))"
proof (rule guarantees_atomically)
  fix s :: app_state
  obtain ops where ops: "list_all (\<lambda>op. ok (SessionOp op)) ops" "snd (f (st_session_store s)) = fold store_step ops (st_session_store s)"
    using assms by blast
  have "fold (app_step X) (map SessionOp ops) s = s\<lparr> st_session_store := fold store_step ops (st_session_store s) \<rparr>" for s :: app_state
    by (induction ops arbitrary: s) simp_all
  with ops show "app_steps X ok s (snd (on_sessions f s))"
    unfolding app_steps_def
    by (intro exI [of _ "map SessionOp ops"]) (auto simp: act_simps list_all_iff split: prod.split)
qed

lemma rate_limit_steps: "step_by_step X (permitted X E r) (atomically (on_sessions (rule_rate_limit now eng rule ctx)))"
proof (rule on_sessions_steps)
  fix st
  have "snd (rule_rate_limit now eng rule ctx st) = st
      \<or> (\<exists>key limit. snd (rule_rate_limit now eng rule ctx st) = snd (check_rate_limit now key limit st))"
    by (auto simp: rule_rate_limit_def split: option.splits prod.splits bool.splits sum.splits) (metis snd_conv)+
  then show "\<exists>ops. list_all (\<lambda>op. permitted X E r (SessionOp op)) ops
      \<and> snd (rule_rate_limit now eng rule ctx st) = fold store_step ops st"
  proof
    assume "snd (rule_rate_limit now eng rule ctx st) = st"
    then show ?thesis by (intro exI [of _ "[]"]) simp
  next
    assume "\<exists>key limit. snd (rule_rate_limit now eng rule ctx st) = snd (check_rate_limit now key limit st)"
    then obtain key limit where "snd (rule_rate_limit now eng rule ctx st) = snd (check_rate_limit now key limit st)"
      by blast
    then show ?thesis by (intro exI [of _ "[CheckRateLimit now key limit]"]) simp
  qed
qed

lemma eval_rules_steps: "step_by_step X (permitted X E r) (eval_rules_prog X now eng rs ctx)"
proof (induction rs)
  case Nil
  show ?case unfolding eval_rules_prog.simps by (rule guarantees_Done)
next
  case (Cons a rs)
  then show ?case unfolding eval_rules_prog.simps by (intro step_rules rate_limit_steps)
qed

lemma eval_engine_steps: "step_by_step X (permitted X E r) (eval_engine_prog X now ctx)"
  unfolding eval_engine_prog_def by (intro step_rules eval_rules_steps)

lemma reload_policy_steps: "step_by_step X (permitted X E r) (reload_policy_prog X E')"
  unfolding reload_policy_prog_def
proof (rule guarantees_then [OF look_steps], rule guarantees_then_result)
  fix cfg
  show "step_by_step X (permitted X E r) (atomically (on_db (build_engine X E' cfg)))"
    by (rule atomically_steps, rule viaI_none)
      (simp add: build_engine_def act_simps load_active_policy_yaml_def split: option.split sum.split)
  fix eng
  assume "may_return (atomically (on_db (build_engine X E' cfg))) eng"
  then obtain s s' where "on_db (build_engine X E' cfg) s = (Inr eng, s')"
    unfolding may_end_atomically by blast
  then have "ye_session_store eng"
    by (cases "build_engine X E' cfg (st_db s)") (auto simp: act_simps dest: build_engine_sessions)
  then show "step_by_step X (permitted X E r) (atomically (modify (\<lambda>s. s\<lparr> st_policy_engine := eng \<rparr>)))"
    by (intro atomically_steps via_of_step [where op = "\<lambda>_. SetEngine eng"]) (simp add: act_simps)
qed

lemma audit_steps:
  "(chains_rt X \<Longrightarrow> pred_option (json_rt X) (cae_delegation_chain entry)) \<Longrightarrow>
     step_by_step X (permitted X E r) (atomically (on_db (create_audit_entry X E (e_now E k) entry)))"
  by (rule atomically_steps) (rule via_audit)

section \<open>The handlers\<close>

lemma request_principal_steps: "step_by_step X (permitted X E r) (request_principal_prog X E' req a)"
  unfolding request_principal_prog_def present_token_prog_def by (intro step_rules atomic_rules)

lemma request_principal_chain:
  assumes "may_return (request_principal_prog X E req a) (p, chain)" and "chains_rt X"
  shows "pred_option (json_rt X) (map_option chain_json chain)"
proof (cases "rq_delegation_token req")
  case None
  with assms(1) show ?thesis by (auto simp: request_principal_prog_def may_return_then may_end_finish)
next
  case (Some token)
  with assms(1) obtain c and s :: app_state where "verify X (st_token_verifier s) (e_now E 1) (e_now E 2) token
      (Some (agent_urn X (rq_agent_id req))) = Inr c" and "chain = act_delegation_chain (cl_act c)"
    by (auto simp: request_principal_prog_def present_token_prog_def may_return_then may_end_atomically look_def act_simps)
  with assms(2) verify_InrD(1) [OF this(1)] show ?thesis
    by (cases chain) (fastforce simp: chains_rt_def)+
qed

lemma carry_out_steps: "step_by_step X (permitted X E r) (carry_out_prog X E' req a p ev)"
  unfolding carry_out_prog_def issue_access_token_prog_def open_approval_prog_def Let_def
  by (intro step_rules atomic_rules)

lemma decide_access_steps:
  assumes "chains_rt X \<Longrightarrow> pred_option (json_rt X) (map_option chain_json chain)"
  shows "step_by_step X (permitted X E r) (decide_access_prog X E req a p chain sid tr)"
  unfolding decide_access_prog_def
  by (intro step_rules atomic_rules eval_engine_steps carry_out_steps audit_steps) (simp add: access_audit_def assms)

lemma access_in_session_steps:
  assumes "chains_rt X \<Longrightarrow> pred_option (json_rt X) (map_option chain_json chain)"
  shows "step_by_step X (permitted X E r) (access_in_session_prog X E req a p chain)"
  unfolding access_in_session_prog_def Let_def
  by (intro step_rules atomic_rules decide_access_steps assms)

lemma request_access_steps: "step_by_step X (permitted X E r) (request_access_prog X E auth req)"
  unfolding request_access_prog_def
proof (rule guarantees_then [OF atomically_steps [OF via_check_own_agent]],
    rule guarantees_then [OF atomically_steps [OF via_reads_db(1)]],
    rule guarantees_then_result [OF request_principal_steps])
  fix a pc
  assume "may_return (request_principal_prog X E req a) pc"
  then show "step_by_step X (permitted X E r) (case pc of (p, chain) \<Rightarrow> access_in_session_prog X E req a p chain)"
    by (cases pc) (auto intro!: access_in_session_steps dest: request_principal_chain)
qed

lemma check_access_steps: "step_by_step X (permitted X E r) (check_access_prog X E auth req)"
  unfolding check_access_prog_def
  by (intro step_rules atomic_rules eval_engine_steps audit_steps) (simp add: check_audit_def)

lemma delegate_steps: "step_by_step X (permitted X E r) (delegate_prog X E auth req)"
  unfolding delegate_prog_def
proof (rule guarantees_then [OF guarantees_Done(1)], rule guarantees_then_result [OF atomically_steps [OF via_reads(2)]])
  fix who c
  assume "may_return (atomically (reads_result (\<lambda>s. verify X (st_token_verifier s) (e_now E 0) (e_now E 1)
      (dq_parent_grant_token req) (Some (agent_urn X who))))) c"
  then obtain s :: app_state where "verify X (st_token_verifier s) (e_now E 0) (e_now E 1) (dq_parent_grant_token req)
      (Some (agent_urn X who)) = Inr c"
    by (auto simp: may_end_atomically act_simps)
  then have "chains_rt X \<Longrightarrow> json_rt X (chain_json (delegation_chain c))"
    by (auto simp: chains_rt_def dest: verify_InrD(1))
  then show "step_by_step X (permitted X E r) (prog_then (Done (check_scopes (split_whitespace (cl_scope c)) (cl_scope c) (dq_scopes req))) (\<lambda>_.
     prog_then (look st_config) (\<lambda>cfg.
     prog_then (Done (check_depth (cp_max_delegation_depth (cf_policy cfg)) (act_delegation_depth (cl_act c) + 1))) (\<lambda>_.
     prog_then (Done (add_seconds X (e_now E 3) (dq_expires_in_seconds req))) (\<lambda>requested_expiry.
       issue_delegated_prog X E req c cfg (min (parent_expiry X (e_now E 2) c) requested_expiry))))))"
    unfolding issue_delegated_prog_def Let_def
    by (intro step_rules atomic_rules audit_steps) (simp add: delegate_audit_def)
qed

lemma principal_delegate_steps: "step_by_step X (permitted X E r) (principal_delegate_prog X E' req)"
  unfolding principal_delegate_prog_def grant_and_issue_prog_def by (intro step_rules atomic_rules)

lemma operator_steps:
  "step_by_step X (permitted X E r) (provision_client_key_prog X E' i)"
  "step_by_step X (permitted X E r) (create_policy_prog X E' cpo)"
  "step_by_step X (permitted X E r) (revoke_token_prog E' jti)"
  "step_by_step X (permitted X E r) (kill_agent_prog X E' i)"
  "step_by_step X (permitted X E r) (record_spend_prog X i sq)"
  "step_by_step X (permitted X E r) (prometheus_prog X E' render)"
  unfolding provision_client_key_prog_def create_policy_prog_def revoke_token_prog_def kill_agent_prog_def
    record_spend_prog_def prometheus_prog_def Let_def
  by (intro step_rules atomic_rules reload_policy_steps)+

lemma restore_agent_steps: "step_by_step X (permitted X E (Some i)) (restore_agent_prog X i)"
proof -
  have "via X (permitted X E (Some i)) (change_sessions (lift_stop i))"
    "via X (permitted X E (Some i)) (change_sessions (unmark_sessions i))"
    by (rule via_change_sessions [where op = "LiftStop i"] via_change_sessions [where op = "UnmarkSessions i"]; simp)+
  then show ?thesis
    unfolding restore_agent_prog_def by (intro step_rules atomically_steps)
qed

lemma idp_callback_steps: "step_by_step X (permitted X E r) (idp_callback_prog X E' q)"
  unfolding idp_callback_prog_def complete_login_prog_def ensure_principal_prog_def apply_group_policy_prog_def Let_def
  by (intro step_rules atomic_rules reload_policy_steps)

section \<open>The server\<close>

lemma dispatch_steps_plain:
  assumes "h \<noteq> RestoreAgentById"
  shows "step_by_step X (permitted X E r) (dispatch_prog W X E who req ps h)"
proof -
  have "step_by_step X (permitted X E r) (atomically (dispatch W X E who req ps h))"
    by (intro atomically_steps via_dispatch_plain assms)
  with assms show ?thesis
    unfolding dispatch_prog_def
    by (cases h) (auto intro!: step_rules request_access_steps check_access_steps delegate_steps principal_delegate_steps
        operator_steps idp_callback_steps)
qed

lemma dispatch_steps_restore:
  "w_path_uuid W ps = Inr a \<Longrightarrow> step_by_step X (permitted X E (Some a)) (dispatch_prog W X E who req ps RestoreAgentById)"
  by (auto simp: dispatch_prog_def intro!: extracting_steps ok_steps restore_agent_steps)

lemma run_route_steps: "step_by_step X (permitted X E (restored W req)) (run_route_prog W X E who req)"
proof (cases "route W req")
  case (Routed t h ps)
  show ?thesis
  proof (cases "h = RestoreAgentById")
    case True
    with Routed dispatch_steps_restore [of W ps] show ?thesis
      by (cases "w_path_uuid W ps")
        (auto simp: run_route_prog_def restored_def dispatch_prog_def extracting_prog_def intro: guarantees_Done)
  next
    case False
    with Routed dispatch_steps_plain [of h] show ?thesis by (simp add: run_route_prog_def)
  qed
qed (auto simp: run_route_prog_def intro: guarantees_Done)

lemma sum_steps: "(\<And>a. step_by_step X ok (f a)) \<Longrightarrow> (\<And>b. step_by_step X ok (g b)) \<Longrightarrow>
    step_by_step X ok (case x of Inl a \<Rightarrow> f a | Inr b \<Rightarrow> g b)"
  by (simp split: sum.split)

lemma serve_steps: "step_by_step X (permitted X E (restored W req)) (serve_prog W X E now elapsed req)"
proof -
  have "via X (permitted X E (restored W req)) (modify (\<lambda>s. s\<lparr> st_metrics := f (st_metrics s) \<rparr>))" for f
    by (rule via_of_step [where op = "\<lambda>s. SetMetrics (f (st_metrics s))"]) (simp add: act_simps)
  then show ?thesis
    unfolding serve_prog_def with_auth_prog_def
    by (intro step_rules sum_steps run_route_steps atomically_steps)
qed

end
