(* ===== verification/Concurrent_Server.thy ===== *)
theory Concurrent_Server
  imports Concurrency Agent_Liveness
begin

text \<open>
  What the server guarantees however its requests interleave. The pool holds the programs of all the
  requests of a run; the schedule decides when each begins, whose step comes next, and which are cut
  off. The properties speak of the states at the moments of the run.
\<close>

section \<open>The pool of a server\<close>

definition request_prog :: "web \<Rightarrow> ext \<Rightarrow> arrival \<Rightarrow> responder_program" where
  "request_prog W X a = serve_prog W X (ar_env a) (ar_now a) (ar_elapsed a) (ar_request a)"

definition server_pool :: "web \<Rightarrow> ext \<Rightarrow> arrival list \<Rightarrow> app_state \<Rightarrow> (app_state, string, response) pool" where
  "server_pool W X as s = (s, map (request_prog W X) as)"

definition permitted_by :: "web \<Rightarrow> ext \<Rightarrow> arrival list \<Rightarrow> app_op \<Rightarrow> bool" where
  "permitted_by W X as op \<longleftrightarrow> list_ex (\<lambda>a. permitted X (ar_env a) (restored W (ar_request a)) op) as"

lemma pool_steps_ok: "\<forall>p \<in> set (snd (server_pool W X as s)). step_by_step X (permitted_by W X as) p"
proof
  fix p
  assume "p \<in> set (snd (server_pool W X as s))"
  then obtain a where a: "a \<in> set as" "p = request_prog W X a" by (auto simp: server_pool_def)
  have "step_by_step X (permitted X (ar_env a) (restored W (ar_request a))) p"
    unfolding a(2) request_prog_def by (rule serve_steps)
  then show "step_by_step X (permitted_by W X as) p"
  proof (rule guarantees_mono)
    fix s s'
    assume "app_steps X (permitted X (ar_env a) (restored W (ar_request a))) s s'"
    then show "app_steps X (permitted_by W X as) s s'"
      using a(1) by (auto simp: app_steps_def permitted_by_def list_all_iff list_ex_iff)
  qed
qed

lemma moments_steps: "i \<le> j \<Longrightarrow>
    app_steps X (permitted_by W X as) (moment (server_pool W X as s) sched i) (moment (server_pool W X as s) sched j)"
  by (rule pool_steps.moments_guarantee [OF pool_steps_ok])

lemma steps_from_start: "app_steps X (permitted_by W X as) s (moment (server_pool W X as s) sched j)"
  using moments_steps [of 0 j X W as s sched] by (simp add: server_pool_def)

lemma app_steps_ok:
  assumes "app_steps X (permitted_by W X as) s s'" and "app_ok X s"
    and "uuid_rt X" and "chains_rt X" and "\<forall>a \<in> set as. \<forall>k. time_rt X (e_now (ar_env a) k)"
  shows "app_ok X s'"
proof -
  from assms(1) obtain ops where "s' = fold (app_step X) ops s"
    "list_all (\<lambda>op. list_ex (\<lambda>a. permitted X (ar_env a) (restored W (ar_request a)) op) as) ops"
    unfolding app_steps_def permitted_by_def by blast
  with app_ok_ops [OF assms(2-5)] show ?thesis by simp
qed

lemma app_steps_remember: "app_steps X ok s s' \<Longrightarrow> remembers s s'"
  by (auto simp: app_steps_def remembers_fold)

lemma app_steps_stopped:
  assumes "app_steps X (permitted_by W X as) s s'" and "agent_stopped a s"
    and "\<forall>x \<in> set as. restored W (ar_request x) \<noteq> Some a"
  shows "agent_stopped a s'"
proof -
  from assms(1) obtain ops where ops: "s' = fold (app_step X) ops s" "list_all (permitted_by W X as) ops"
    unfolding app_steps_def by blast
  from ops(2) assms(3) have "SessionOp (LiftStop a) \<notin> set ops"
    by (fastforce simp: list_all_iff permitted_by_def list_ex_iff)
  with assms(2) ops(1) show ?thesis by (simp add: stopped_fold)
qed


text \<open>
  C10: whatever requests run at the same time, nothing recorded by one moment is gone or changed at a
  later one: audit rows stay in their place, revoked tokens stay revoked in the table and in the
  verifier, and resolved approvals stay resolved as they were.
\<close>

theorem concurrent_requests_remember:
  "remembers (moment (server_pool W X as s) sched i) (moment (server_pool W X as s) sched (i + j))"
  by (rule app_steps_remember [OF moments_steps]) simp

text \<open>The answers of the sequential server, each given on the state the last request left.\<close>

fun answers :: "web \<Rightarrow> ext \<Rightarrow> arrival list \<Rightarrow> app_state \<Rightarrow> (string + response) list" where
  "answers W X [] s = []"
| "answers W X (a # as) s =
     fst (serve W X (ar_env a) (ar_now a) (ar_elapsed a) (ar_request a) s) # answers W X as (serve_step W X a s)"


text \<open>
  No request waits for another: under every endless schedule in which the turn of a request always
  comes again, it is answered, or ends in a panic, whatever the other requests do.
\<close>

lemma fair_schedule_answers:
  assumes "\<forall>n. \<exists>m \<ge> n. sched m = i" and "i < length as"
  shows "\<exists>n r. result_at (pool_after sched (server_pool W X as s) n) i = Some r"
  using fair_finishes [of sched i "map (request_prog W X) as" s] assms by (simp add: server_pool_def)

section \<open>Following a handler through a run\<close>

lemma performs_look:
  "performs w h (look f) n r m \<longleftrightarrow> (\<exists>t. n \<le> t \<and> t < m \<and> w t \<and> h (Suc t) = h t \<and> r = Inr (f (h t)))"
  by (auto simp: look_def performs_atomically reading_def)

lemmas performs_simps = performs_then_Inr performs_atomically performs_look performs_finish

lemma on_db_result: "on_db f s = (r, s') \<longleftrightarrow> (\<exists>d. f (st_db s) = (r, d) \<and> s' = s\<lparr> st_db := d \<rparr>)"
  by (auto simp: on_db_apply split: prod.splits)

lemma performs_turn_thenE:
  assumes "performs w h (prog_then (atomically f) k) n (Inr y) m"
  obtains t x where "n \<le> t" and "w t" and "f (h t) = (Inr x, h (Suc t))" and "performs w h (k x) (Suc t) (Inr y) m"
  using assms by (auto simp: performs_then_Inr performs_atomically intro: performs_earlier Suc_leI)

lemma performs_atomic_thenE:
  assumes "performs w h (prog_then (atomically f) k) n (Inr y) m"
  obtains t x where "n \<le> t" and "f (h t) = (Inr x, h (Suc t))" and "performs w h (k x) (Suc t) (Inr y) m"
  using assms by (rule performs_turn_thenE)

lemma performs_look_thenE:
  assumes "performs w h (prog_then (look f) k) n (Inr y) m"
  obtains t where "n \<le> t" and "performs w h (k (f (h t))) (Suc t) (Inr y) m"
  using assms by (auto simp: performs_then_Inr performs_look intro: performs_earlier Suc_leI)

lemma performs_Done_thenE:
  assumes "performs w h (prog_then (Done r) k) n (Inr y) m"
  obtains x where "r = Inr x" and "performs w h (k x) n (Inr y) m"
  using assms by (auto simp: performs_then_Inr intro: performs_earlier)

lemma answer_of_Inr:
  "answer_of f r = Inr (status, reply) \<longleftrightarrow> (\<exists>x. r = Inr x \<and> f x = (status, reply))
     \<or> (\<exists>e msg. r = Inl (Err e) \<and> into_response e = (status, msg) \<and> reply = ErrorBody msg)"
  by (cases r) (auto simp: answer_of_def split: fail.split prod.split)

lemma performs_ok:
  "performs w h (ok_prog f p) n (Inr (status, reply)) m \<longleftrightarrow>
     (\<exists>x. performs w h p n (Inr x) m \<and> status = 200 \<and> reply = f x)
     \<or> (\<exists>e. performs w h p n (Inl (Err e)) m \<and> (\<exists>msg. into_response e = (status, msg) \<and> reply = ErrorBody msg))"
  unfolding ok_prog_def respond_prog_def performs_with_result
  by (auto simp: answer_of_Inr eq_commute [of "Inr _"])

text \<open>Where the engine was read, and the moments of the two session locks.\<close>

text \<open>The rule that matches: its conditions are read at one moment, its rate limit counts at a later one.\<close>

lemma rule_history:
  assumes "performs w h (prog_then (look (\<lambda>s. check_temporal_conditions X eng r ctx (st_session_store s))) (\<lambda>failed.
      case failed of
        Some reason \<Rightarrow> finish (deny_with reason)
      | None \<Rightarrow> prog_then (atomically (on_sessions (rule_rate_limit now eng r ctx))) (\<lambda>limited.
          case limited of Some reason \<Rightarrow> finish (deny_with reason) | None \<Rightarrow> finish (apply_rule r ctx)))) n (Inr ev) m"
  obtains (denied) reason where "ev = deny_with reason" and "n \<le> m"
  | (applied) t t' where "n \<le> t" and "t < t'" and "t' < m"
      and "check_temporal_conditions X eng r ctx (st_session_store (h t)) = None"
      and "fst (rule_rate_limit now eng r ctx (st_session_store (h t'))) = None" and "ev = apply_rule r ctx"
proof -
  from assms obtain t l where t: "n \<le> t" "t < l" and rest: "performs w h
      (case check_temporal_conditions X eng r ctx (st_session_store (h t)) of
          Some reason \<Rightarrow> finish (deny_with reason)
        | None \<Rightarrow> prog_then (atomically (on_sessions (rule_rate_limit now eng r ctx))) (\<lambda>limited.
              case limited of Some reason \<Rightarrow> finish (deny_with reason) | None \<Rightarrow> finish (apply_rule r ctx)))
      l (Inr ev) m"
    by (auto simp: performs_then_Inr performs_look)
  show ?thesis
  proof (cases "check_temporal_conditions X eng r ctx (st_session_store (h t))")
    case (Some reason)
    with rest t denied show ?thesis by (auto simp: performs_finish)
  next
    case None
    with rest obtain t' l' limited where t': "l \<le> t'" "t' < l'"
      and lim: "on_sessions (rule_rate_limit now eng r ctx) (h t') = (Inr limited, h (Suc t'))"
      and last: "performs w h (case limited of Some reason \<Rightarrow> finish (deny_with reason) :: policy_evaluation program
        | None \<Rightarrow> finish (apply_rule r ctx)) l' (Inr ev) m"
      by (auto simp: performs_then_Inr performs_atomically)
    from lim have limited: "fst (rule_rate_limit now eng r ctx (st_session_store (h t'))) = limited"
      by (simp add: act_simps split: prod.splits)
    show ?thesis
    proof (cases limited)
      case (Some reason)
      with last t t' denied show ?thesis by (auto simp: performs_finish)
    next
      case unlimited: None
      with last limited t t' None applied [of t t'] show ?thesis by (auto simp: performs_finish)
    qed
  qed
qed

lemma eval_rules_history:
  assumes "performs w h (eval_rules_prog X now eng rs ctx) n (Inr ev) m"
  obtains (denied) reason where "ev = deny_with reason" and "n \<le> m"
  | (applied) r t t' where "find (\<lambda>r. rule_matches r ctx) rs = Some r" and "n \<le> t" and "t < t'" and "t' < m"
      and "check_temporal_conditions X eng r ctx (st_session_store (h t)) = None"
      and "fst (rule_rate_limit now eng r ctx (st_session_store (h t'))) = None" and "ev = apply_rule r ctx"
  using assms
proof (induction rs)
  case (Cons a rs)
  show ?case
  proof (cases "rule_matches a ctx")
    case True
    with Cons.prems(3) have "performs w h (eval_rules_prog X now eng [a] ctx) n (Inr ev) m" by simp
    then show ?thesis
      unfolding eval_rules_prog.simps if_P [OF True]
      by (rule rule_history) (use True Cons.prems(1,2) in auto)
  qed (use Cons in simp)
qed (auto simp: performs_finish)

lemma eval_engine_history:
  assumes "performs w h (eval_engine_prog X now ctx) n (Inr ev) m"
  obtains (denied) reason where "ev = deny_with reason" and "n \<le> m"
  | (applied) r t0 t t' where "find (\<lambda>r. rule_matches r ctx) (ye_rules (st_policy_engine (h t0))) = Some r"
      and "n \<le> t0" and "t0 < t" and "t < t'" and "t' < m"
      and "check_temporal_conditions X (st_policy_engine (h t0)) r ctx (st_session_store (h t)) = None"
      and "fst (rule_rate_limit now (st_policy_engine (h t0)) r ctx (st_session_store (h t'))) = None"
      and "ev = apply_rule r ctx"
proof -
  from assms obtain t0 l where t0: "n \<le> t0" "t0 < l"
    and rules: "performs w h (eval_rules_prog X now (st_policy_engine (h t0)) (ye_rules (st_policy_engine (h t0))) ctx) l (Inr ev) m"
    by (auto simp: eval_engine_prog_def performs_then_Inr performs_look)
  from rules show ?thesis
  proof (cases rule: eval_rules_history)
    case (denied reason)
    with t0 that(1) show ?thesis by simp
  next
    case (applied r t t')
    with t0 that(2) [of t0 r t t'] show ?thesis by simp
  qed
qed

lemma issue_history:
  assumes "performs w h (issue_access_token_prog X E req a p ev) n (Inr tok) m"
  obtains t where "n \<le> t" and "t < m" and "it_scopes tok = ev_approved_scopes ev"
    and "on_db (record_token X E (e_now E 9) (it_jti tok) None (ag_id a) (ev_approved_scopes ev) (rq_resource req)
         (it_expires_at tok)) (h t) = (Inr (), h (Suc t))"
proof -
  let ?last = "\<lambda>jwt jti expires_at. prog_then (atomically (on_db (record_token X E (e_now E 9) jti None (ag_id a)
      (ev_approved_scopes ev) (rq_resource req) expires_at))) (\<lambda>_. prog_then (atomically (change_metrics count_token)) (\<lambda>_.
       finish \<lparr> it_jwt = jwt, it_expires_at = expires_at, it_scopes = ev_approved_scopes ev, it_jti = jti \<rparr>))"
  from assms obtain t0 params where "n \<le> t0" and "performs w h
     (prog_then (atomically (reads_result (\<lambda>s. issue X (st_token_issuer s) (e_now E 6) (e_now E 7) (e_uuid E 0) params))) (\<lambda>(jwt, jti).
     prog_then (Done (expiry X (e_now E 8) params)) (?last jwt jti))) (Suc t0) (Inr tok) m"
    unfolding issue_access_token_prog_def Let_def by (rule performs_look_thenE)
  moreover from this(2) obtain t1 jwt jti where "Suc t0 \<le> t1" and
    "performs w h (prog_then (Done (expiry X (e_now E 8) params)) (?last jwt jti)) (Suc t1) (Inr tok) m"
    by (rule performs_atomic_thenE) (auto split: prod.splits)
  moreover from this(2) obtain ex where "performs w h (?last jwt jti ex) (Suc t1) (Inr tok) m"
    by (rule performs_Done_thenE)
  moreover from this obtain t where "Suc t1 \<le> t" and "on_db (record_token X E (e_now E 9) jti None (ag_id a)
      (ev_approved_scopes ev) (rq_resource req) ex) (h t) = (Inr (), h (Suc t))" and
    "performs w h (prog_then (atomically (change_metrics count_token)) (\<lambda>_.
       finish \<lparr> it_jwt = jwt, it_expires_at = ex, it_scopes = ev_approved_scopes ev, it_jti = jti \<rparr>)) (Suc t) (Inr tok) m"
    by (rule performs_atomic_thenE) auto
  moreover from this(3) have "Suc t \<le> m" "tok = \<lparr> it_jwt = jwt, it_expires_at = ex, it_scopes = ev_approved_scopes ev, it_jti = jti \<rparr>"
    by (auto simp: performs_simps)
  ultimately show ?thesis by (intro that [of t]) simp_all
qed

lemma carry_out_history:
  assumes "performs w h (carry_out_prog X E req a p ev) n (Inr resp) m"
  obtains (allow) t tok where "ev_decision ev = Allow" and "n \<le> t" and "t < m"
      and "resp = (response_of ev)\<lparr> rs_token := Some tok \<rparr>" and "it_scopes tok = ev_approved_scopes ev"
      and "on_db (record_token X E (e_now E 9) (it_jti tok) None (ag_id a) (ev_approved_scopes ev) (rq_resource req)
         (it_expires_at tok)) (h t) = (Inr (), h (Suc t))"
  | (approval) i by_whom reason where "ev_decision ev = RequireApproval by_whom reason" and "n \<le> m"
      and "resp = (response_of ev)\<lparr> rs_approval := Some i \<rparr>"
  | (deny) "ev_decision ev = Deny" and "n \<le> m" and "resp = response_of ev"
proof (cases "ev_decision ev")
  case Allow
  with assms obtain tok l where iss: "performs w h (issue_access_token_prog X E req a p ev) n (Inr tok) l"
    and resp: "resp = (response_of ev)\<lparr> rs_token := Some tok \<rparr>" and "l \<le> m"
    by (auto simp: carry_out_prog_def performs_simps)
  from iss obtain t where "n \<le> t" "t < l" "it_scopes tok = ev_approved_scopes ev"
    "on_db (record_token X E (e_now E 9) (it_jti tok) None (ag_id a) (ev_approved_scopes ev) (rq_resource req)
         (it_expires_at tok)) (h t) = (Inr (), h (Suc t))"
    by (rule issue_history)
  with Allow resp \<open>l \<le> m\<close> that(1) [of t tok] show ?thesis by simp
next
  case Deny
  with assms that(3) show ?thesis by (auto simp: carry_out_prog_def performs_simps)
next
  case (RequireApproval by_whom reason)
  with assms obtain i l where "performs w h (open_approval_prog X E req a p) n (Inr i) l" "l \<le> m"
    "resp = (response_of ev)\<lparr> rs_approval := Some i \<rparr>"
    by (auto simp: carry_out_prog_def performs_simps)
  with RequireApproval that(2) performs_le show ?thesis by (metis le_trans)
qed

lemma decide_history:
  assumes "performs w h (decide_access_prog X E req a p chain sid tr) n (Inr resp) m"
  obtains ev l l' l'' t entry where
    "performs w h (eval_engine_prog X (e_now E 5) (request_policy_context req a p (Some sid) tr)) n (Inr ev) l"
    and "l < l'" and "performs w h (carry_out_prog X E req a p ev) l' (Inr resp) l''"
    and "l'' \<le> t" and "t < m"
    and "on_db (create_audit_entry X E (e_now E 13) (access_audit req a p chain ev resp)) (h t) = (Inr entry, h (Suc t))"
proof -
  let ?audit = "\<lambda>ev resp'. prog_then (atomically (on_db (create_audit_entry X E (e_now E 13) (access_audit req a p chain ev resp'))))
      (\<lambda>_. finish resp')"
  from assms obtain ev l where ev: "performs w h (eval_engine_prog X (e_now E 5) (request_policy_context req a p (Some sid) tr)) n (Inr ev) l"
    and "performs w h (prog_then (atomically (change_metrics (record_decision (decision_str (ev_decision ev)) (rq_action req)))) (\<lambda>_.
     prog_then (carry_out_prog X E req a p ev) (\<lambda>resp'.
     prog_then (atomically (change_sessions (store_record_action (e_now E 12) sid
        \<lparr> te_action = rq_action req, te_resource = rq_resource req, te_decision = ev_decision ev,
          te_timestamp = e_now E 11 \<rparr>))) (\<lambda>_. ?audit ev resp')))) l (Inr resp) m"
    unfolding decide_access_prog_def performs_then_Inr [of w h "eval_engine_prog _ _ _"] by blast
  from this(2) obtain t1 where "l \<le> t1" and "performs w h (prog_then (carry_out_prog X E req a p ev) (\<lambda>resp'.
     prog_then (atomically (change_sessions (store_record_action (e_now E 12) sid
        \<lparr> te_action = rq_action req, te_resource = rq_resource req, te_decision = ev_decision ev,
          te_timestamp = e_now E 11 \<rparr>))) (\<lambda>_. ?audit ev resp'))) (Suc t1) (Inr resp) m"
    by (rule performs_atomic_thenE)
  from this(2) obtain resp' l'' where co: "performs w h (carry_out_prog X E req a p ev) (Suc t1) (Inr resp') l''"
    and "performs w h (prog_then (atomically (change_sessions (store_record_action (e_now E 12) sid
        \<lparr> te_action = rq_action req, te_resource = rq_resource req, te_decision = ev_decision ev,
          te_timestamp = e_now E 11 \<rparr>))) (\<lambda>_. ?audit ev resp')) l'' (Inr resp) m"
    unfolding performs_then_Inr [of w h "carry_out_prog _ _ _ _ _ _"] by blast
  from this(2) obtain t2 where "l'' \<le> t2" and "performs w h (?audit ev resp') (Suc t2) (Inr resp) m"
    by (rule performs_atomic_thenE)
  from this(2) obtain t entry where "Suc t2 \<le> t" and
    "on_db (create_audit_entry X E (e_now E 13) (access_audit req a p chain ev resp')) (h t) = (Inr entry, h (Suc t))"
    and "performs w h (finish resp' :: access_response program) (Suc t) (Inr resp) m"
    by (rule performs_atomic_thenE)
  with co ev \<open>l \<le> t1\<close> \<open>l'' \<le> t2\<close> show ?thesis
    by (intro that [of ev l "Suc t1" l'' t entry]) (auto simp: performs_finish)
qed

lemma session_history:
  assumes "performs w h (access_in_session_prog X E req a p chain) n (Inr resp) m"
  obtains (refused) reason where "resp = killed_response reason"
  | (decided) t trajectory where "n \<le> t" and "\<not> is_agent_killed (ag_id a) (st_session_store (h t))"
      and "performs w h (decide_access_prog X E req a p chain (request_session_id X req a) trajectory) (Suc t) (Inr resp) m"
proof -
  let ?check = "\<lambda>tr. prog_then (look (\<lambda>s. is_agent_killed (ag_id a) (st_session_store s)))
          (\<lambda>killed. if killed then finish (killed_response ''Agent has been killed by emergency stop'')
            else decide_access_prog X E req a p chain (request_session_id X req a) tr)"
  from assms obtain t1 and session :: session_state where "n \<le> t1" and body: "performs w h (if ss_killed session
         then finish (killed_response ''Agent session has been killed by emergency stop'')
         else ?check (ss_trajectory session)) (Suc t1) (Inr resp) m"
    unfolding access_in_session_prog_def Let_def by (rule performs_atomic_thenE)
  show ?thesis
  proof (cases "ss_killed session")
    case True
    with body that(1) show ?thesis by (auto simp: performs_finish)
  next
    case False
    with body have "performs w h (?check (ss_trajectory session)) (Suc t1) (Inr resp) m" by simp
    then obtain t where t: "Suc t1 \<le> t" and last: "performs w h (if is_agent_killed (ag_id a) (st_session_store (h t))
          then finish (killed_response ''Agent has been killed by emergency stop'')
          else decide_access_prog X E req a p chain (request_session_id X req a) (ss_trajectory session)) (Suc t) (Inr resp) m"
      by (rule performs_look_thenE)
    show ?thesis
    proof (cases "is_agent_killed (ag_id a) (st_session_store (h t))")
      case True
      with last that(1) show ?thesis by (auto simp: performs_finish)
    next
      case not_killed: False
      with last t \<open>n \<le> t1\<close> that(2) [of t] show ?thesis by simp
    qed
  qed
qed

lemma access_history:
  assumes "performs w h (request_access_prog X E auth req) n (Inr resp) m"
  obtains t a n1 p chain n2 where "auth = Some (rq_agent_id req)" and "n \<le> t" and "t < n1" and "n1 \<le> n2"
      and "on_db (get_agent X E (e_now E 0) (rq_agent_id req)) (h t) = (Inr a, h (Suc t))"
      and "performs w h (request_principal_prog X E req a) n1 (Inr (p, chain)) n2"
      and "performs w h (access_in_session_prog X E req a p chain) n2 (Inr resp) m"
proof -
  from assms obtain t0 where "n \<le> t0" and who: "check_own_agent auth (rq_agent_id req) (h t0) = (Inr (), h (Suc t0))"
    and rest: "performs w h (prog_then (atomically (on_db (get_agent X E (e_now E 0) (rq_agent_id req)))) (\<lambda>a.
     prog_then (request_principal_prog X E req a) (\<lambda>(p, chain). access_in_session_prog X E req a p chain)))
       (Suc t0) (Inr resp) m"
    unfolding request_access_prog_def by (rule performs_atomic_thenE) auto
  from rest obtain t a where "Suc t0 \<le> t" and get: "on_db (get_agent X E (e_now E 0) (rq_agent_id req)) (h t) = (Inr a, h (Suc t))"
    and rest': "performs w h (prog_then (request_principal_prog X E req a)
       (\<lambda>(p, chain). access_in_session_prog X E req a p chain)) (Suc t) (Inr resp) m"
    by (rule performs_atomic_thenE)
  from rest' obtain p chain n2 where "performs w h (request_principal_prog X E req a) (Suc t) (Inr (p, chain)) n2"
    and "performs w h (access_in_session_prog X E req a p chain) n2 (Inr resp) m"
    by (auto simp: performs_then_Inr)
  moreover from who have "auth = Some (rq_agent_id req)"
    by (auto simp: check_own_agent_apply split: option.splits if_splits)
  moreover have "n \<le> t" using \<open>n \<le> t0\<close> \<open>Suc t0 \<le> t\<close> by simp
  ultimately show ?thesis using get that [of t "Suc t" n2 a p chain] performs_le by blast
qed

end
