(* ===== verification/Concurrent_Safety.thy ===== *)
theory Concurrent_Safety
  imports Concurrent_Server
begin

text \<open>
  The guarantees of access requests, of the emergency stop, of the audit log and of logins when requests
  interleave, and where the interleaving weakens what one request at a time guarantees.
\<close>

section \<open>From the answer to the handler\<close>

text \<open>The CORS layer answers a preflight request itself, and never with the body of a handler.\<close>

definition preflight_only :: "web \<Rightarrow> bool" where
  "preflight_only W \<longleftrightarrow> (\<forall>origins req answer. w_cors W origins req = Some answer \<longrightarrow>
     (\<exists>status msg. answer = (status, Rejected msg)))"

lemma performs_extracting:
  "performs w h (extracting_prog x k) n (Inr (status, reply)) m \<longleftrightarrow>
     (\<exists>msg. x = Inl (status, msg) \<and> reply = Rejected msg \<and> n \<le> m)
     \<or> (\<exists>y. x = Inr y \<and> performs w h (k y) n (Inr (status, reply)) m)"
  by (auto simp: extracting_prog_def performs_finish split: sum.split)

lemma extracting_apply:
  "extracting x k s = (Inr (status, reply), s') \<longleftrightarrow>
     (\<exists>msg. x = Inl (status, msg) \<and> reply = Rejected msg \<and> s' = s)
     \<or> (\<exists>y. x = Inr y \<and> k y s = (Inr (status, reply), s'))"
  by (auto simp: extracting_def act_simps split: sum.split)

lemma respond_apply:
  "respond f m s = (Inr (status, reply), s') \<longleftrightarrow>
     (\<exists>x. m s = (Inr x, s') \<and> f x = (status, reply))
     \<or> (\<exists>e msg. m s = (Inl (Err e), s') \<and> into_response e = (status, msg) \<and> reply = ErrorBody msg)"
  by (auto simp: respond_def split: prod.split sum.split fail.split)

lemma dispatch_access_body:
  "dispatch W X E who req ps h s = (Inr (status, AccessBody resp), s') \<Longrightarrow> h = RequestAccess"
  by (cases h) (auto simp: extracting_apply ok_with_def respond_apply act_simps split: prod.splits)

lemma dispatch_prog_access:
  assumes "performs w hs (dispatch_prog W X E who req ps h) n (Inr (status, AccessBody resp)) m"
  shows "\<exists>body. w_access W req = Inr body \<and> performs w hs (request_access_prog X E who body) n (Inr resp) m"
proof (cases "h = RequestAccess")
  case True
  with assms show ?thesis by (auto simp: dispatch_prog_def performs_extracting performs_ok)
next
  case False
  then have none: "\<not> performs w hs (atomically (dispatch W X E who req ps h)) n (Inr (status, AccessBody resp)) m"
    by (auto simp: performs_atomically dest: dispatch_access_body)
  show ?thesis
    using assms False none
    by (cases h) (auto simp: dispatch_prog_def performs_extracting performs_ok)
qed

lemma serve_prog_routed:
  assumes "performs w h (serve_prog W X E now elapsed req) n (Inr (status, reply)) m" and "preflight_only W"
    and "\<And>msg. reply \<noteq> Rejected msg" and "\<And>msg. reply \<noteq> ErrorBody msg"
  obtains t who l where "auth_middleware X E now (st_auth (h t)) (wr_head req) (st_db (h t)) = Inr who"
    and "n \<le> t" and "l \<le> m" and "performs w h (run_route_prog W X E who req) (Suc t) (Inr (status, reply)) l"
proof -
  let ?measure = "\<lambda>r. prog_then (atomically (modify (\<lambda>s. s\<lparr> st_metrics :=
               observe_duration (wr_method req) (path_label W req) elapsed (st_metrics s) \<rparr>))) (\<lambda>_. finish r :: responder_program)"
  from assms(1) obtain t0 where t0: "n \<le> t0" and rest: "performs w h
      (case w_cors W (cors_origins W (st_config (h t0))) req of
         Some answer \<Rightarrow> finish answer
       | None \<Rightarrow> prog_then (with_auth_prog W X E now req) ?measure) (Suc t0) (Inr (status, reply)) m"
    unfolding serve_prog_def by (rule performs_look_thenE)
  have "w_cors W (cors_origins W (st_config (h t0))) req = None"
  proof (rule ccontr)
    assume "w_cors W (cors_origins W (st_config (h t0))) req \<noteq> None"
    then obtain answer where c: "w_cors W (cors_origins W (st_config (h t0))) req = Some answer" by auto
    with assms(2) obtain st msg where "answer = (st, Rejected msg)" unfolding preflight_only_def by blast
    with rest c assms(3) show False by (auto simp: performs_finish)
  qed
  with rest obtain r l where "performs w h (?measure r) l (Inr (status, reply)) m"
    and auth: "performs w h (with_auth_prog W X E now req) (Suc t0) (Inr r) l"
    by (auto simp: performs_then_Inr [of w h "with_auth_prog _ _ _ _ _"])
  then have r: "r = (status, reply)" and "l \<le> m" by (auto simp: performs_simps)
  from auth obtain t where t: "Suc t0 \<le> t" and route: "performs w h
      (case auth_middleware X E now (st_auth (h t)) (wr_head req) (st_db (h t)) of
         Inl msg \<Rightarrow> finish (401, ErrorBody msg)
       | Inr who \<Rightarrow> run_route_prog W X E who req) (Suc t) (Inr (status, reply)) l"
    unfolding r with_auth_prog_def by (rule performs_look_thenE)
  then obtain who where "auth_middleware X E now (st_auth (h t)) (wr_head req) (st_db (h t)) = Inr who"
    and "performs w h (run_route_prog W X E who req) (Suc t) (Inr (status, reply)) l"
    using assms(4)
    by (cases "auth_middleware X E now (st_auth (h t)) (wr_head req) (st_db (h t))") (auto simp: performs_finish)
  with t0 t \<open>l \<le> m\<close> show ?thesis by (intro that [of t who l]) simp_all
qed

lemma route_access:
  assumes "performs w h (run_route_prog W X E who req) n (Inr (status, AccessBody resp)) m"
  shows "\<exists>body. w_access W req = Inr body \<and> performs w h (request_access_prog X E who body) n (Inr resp) m"
  using assms by (auto simp: run_route_prog_def performs_finish split: routed.splits dest: dispatch_prog_access)

lemma performs_request:
  assumes "i < length as" and "result_at (pool_run sched (server_pool W X as s)) i = Some r"
  shows "performs (turns_of i sched) (moment (server_pool W X as s) sched)
      (serve_prog W X (ar_env (as ! i)) (ar_now (as ! i)) (ar_elapsed (as ! i)) (ar_request (as ! i))) 0 r (length sched)"
  using pool_performs [of i "map (request_prog W X) as" sched s] assms by (simp add: server_pool_def request_prog_def)

text \<open>A request whose first turn comes at moment \<open>n\<close> or later.\<close>

lemma access_answer_from:
  assumes "i < length as" and "preflight_only W"
    and "result_at (pool_run sched (server_pool W X as s)) i = Some (Inr (status, AccessBody resp))"
    and "\<forall>t. turns_of i sched t \<longrightarrow> n \<le> t" and "n \<le> length sched"
  obtains t who body m where "n \<le> t"
    and "auth_middleware X (ar_env (as ! i)) (ar_now (as ! i)) (st_auth (moment (server_pool W X as s) sched t))
        (wr_head (ar_request (as ! i))) (st_db (moment (server_pool W X as s) sched t)) = Inr who"
    and "w_access W (ar_request (as ! i)) = Inr body" and "m \<le> length sched"
    and "performs (turns_of i sched) (moment (server_pool W X as s) sched)
      (request_access_prog X (ar_env (as ! i)) who body) (Suc t) (Inr resp) m"
  using performs_not_before [OF performs_request [OF assms(1,3)] assms(4,5)]
proof (rule serve_prog_routed)
  fix t who l
  assume "auth_middleware X (ar_env (as ! i)) (ar_now (as ! i)) (st_auth (moment (server_pool W X as s) sched t))
        (wr_head (ar_request (as ! i))) (st_db (moment (server_pool W X as s) sched t)) = Inr who" and "l \<le> length sched"
    and "n \<le> t" and "performs (turns_of i sched) (moment (server_pool W X as s) sched)
      (run_route_prog W X (ar_env (as ! i)) who (ar_request (as ! i))) (Suc t) (Inr (status, AccessBody resp)) l"
  with route_access [OF this(4)] that show thesis by blast
qed (use assms(2) in auto)

lemmas access_answer = access_answer_from [where n = 0, simplified]

lemma got_agent:
  assumes "on_db (get_agent X E now i) s = (Inr a, s')" and "uuid_rt X"
  shows "ag_id a = i"
proof -
  from assms(1) have "get_agent_sync X now i (st_db s) = Inr a"
    by (simp add: get_agent_def on_db_read_Inr)
  then show ?thesis using assms(2) by (rule get_agent_id)
qed

section \<open>Tokens\<close>

text \<open>The rule allows, and every scope of the token was requested and is covered by the rule.\<close>

definition allowed_by :: "rule \<Rightarrow> access_request \<Rightarrow> issued_token_info \<Rightarrow> bool" where
  "allowed_by r req tok \<longleftrightarrow> rule_decision r = ''allow'' \<and>
     (\<forall>sc \<in> set (it_scopes tok). sc \<in> set (rq_requested_scopes req)
        \<and> (rule_scopes r = [] \<or> (\<exists>pat \<in> set (rule_scopes r). match_pattern pat sc)))"

lemma allowed_by_apply_rule:
  "ev = apply_rule r (request_policy_context req a p sid tr) \<Longrightarrow> ev_decision ev = Allow \<Longrightarrow>
     it_scopes tok = ev_approved_scopes ev \<Longrightarrow> allowed_by r req tok"
  by (auto simp: allowed_by_def approved_scopes_def request_policy_context_def split: if_splits)

text \<open>The moment the token was issued, and the moments it rests on.\<close>

lemma token_history:
  assumes "performs w h (decide_access_prog X E req a p chain sid tr) n (Inr resp) m" and "rs_token resp = Some tok"
  obtains t2 t3 r where "n \<le> t2" and "t2 < t3" and "t3 < m" and "r \<in> set (ye_rules (st_policy_engine (h t2)))"
    and "allowed_by r req tok" and "rs_decision resp = ''allow''"
    and "\<exists>row \<in> set (d_tokens (st_db (h (Suc t3)))). tor_id row = it_jti tok \<and> tor_agent_id row = x_uuid_str X (ag_id a)
      \<and> tor_revoked row = 0"
  using assms(1)
proof (cases rule: decide_history)
  case (1 ev l l' l'' t entry)
  from 1(3) show ?thesis
  proof (cases rule: carry_out_history)
    case (allow t3 tok')
    with assms(2) have tok: "tok' = tok" by simp
    from 1(1) show ?thesis
    proof (cases rule: eval_engine_history)
      case (denied reason)
      with allow show ?thesis by simp
    next
      case (applied r t0 t1 t2)
      have "allowed_by r req tok" using allowed_by_apply_rule [OF applied(8)] allow tok by simp
      moreover have "r \<in> set (ye_rules (st_policy_engine (h t0)))" using applied(1) by (auto simp: find_Some_iff)
      moreover have "\<exists>row \<in> set (d_tokens (st_db (h (Suc t3)))). tor_id row = it_jti tok
          \<and> tor_agent_id row = x_uuid_str X (ag_id a) \<and> tor_revoked row = 0"
        using allow(6) tok by (auto simp: on_db_result new_token_row_def dest!: record_token_InrD)
      moreover have "rs_decision resp = ''allow''" using allow(1,4) by simp
      ultimately show ?thesis using applied(2-5) 1(2,4,5) allow(2,3) by (intro that [of t0 t3 r]) simp_all
    qed
  qed (use assms(2) in auto)
qed


section \<open>The emergency stop\<close>

text \<open>The stop that a kill request was answered with, at one of its turns.\<close>

lemma kill_answer:
  assumes "k < length as" and "preflight_only W"
    and "route W (ar_request (as ! k)) = Routed tpl KillAgentById ps" and "w_path_uuid W ps = Inr a"
    and "result_at (pool_run sched (server_pool W X as s)) k = Some (Inr (status, JsonBody answer))"
  obtains t where "t < length sched" and "agent_stopped a (moment (server_pool W X as s) sched (Suc t))"
  using performs_request [OF assms(1,5)]
proof (rule serve_prog_routed)
  let ?h = "moment (server_pool W X as s) sched" and ?w = "turns_of k sched"
  fix t0 who l
  assume l: "l \<le> length sched"
    and "performs ?w ?h (run_route_prog W X (ar_env (as ! k)) who (ar_request (as ! k))) (Suc t0) (Inr (status, JsonBody answer)) l"
  with assms(3,4) have "performs ?w ?h (kill_agent_prog X (ar_env (as ! k)) a) (Suc t0) (Inr answer) l"
    by (auto simp: run_route_prog_def dispatch_prog_def performs_extracting performs_ok)
  then obtain t x l' where "t < l'" and step: "change_sessions (kill_agent a) (?h t) = (Inr x, ?h (Suc t))" and "l' \<le> l"
    unfolding kill_agent_prog_def
    by (auto simp: performs_then_Inr [of ?w ?h "atomically (change_sessions _)"] performs_atomically dest: performs_le)
  from step have "?h (Suc t) = (?h t)\<lparr> st_session_store := kill_agent a (st_session_store (?h t)) \<rparr>"
    by (simp add: act_simps)
  then have "agent_stopped a (?h (Suc t))"
    by (simp only:) (simp add: agent_stopped_def is_agent_killed_def kill_agent_def)
  with that [of t] \<open>t < l'\<close> \<open>l' \<le> l\<close> l show thesis by simp
qed (use assms(2) in auto)

text \<open>
  C2: once a kill request has been answered, every access request of that agent that has its first turn
  afterwards is denied without a token or an approval, however many other requests were under way at
  the stop or begin later, and in whatever order their steps fall, as long as none of them restores this
  very agent.
\<close>

theorem concurrent_stop_denies:
  assumes "k < length as" and "i < length as" and "preflight_only W" and "uuid_rt X"
    and "route W (ar_request (as ! k)) = Routed tpl KillAgentById ps" and "w_path_uuid W ps = Inr a"
    and "result_at (pool_run before (server_pool W X as s)) k = Some (Inr (status, JsonBody answer))"
    and "w_access W (ar_request (as ! i)) = Inr body" and "rq_agent_id body = a" and "i \<notin> set before"
    and "result_at (pool_run (before @ after) (server_pool W X as s)) i = Some (Inr (status', AccessBody resp))"
    and "\<forall>x \<in> set as. restored W (ar_request x) \<noteq> Some a"
  shows "rs_decision resp = ''deny'' \<and> rs_token resp = None \<and> rs_approval resp = None"
proof -
  let ?h = "moment (server_pool W X as s) (before @ after)" and ?w = "turns_of i (before @ after)"
  obtain t0 where t0: "t0 < length before" and "agent_stopped a (moment (server_pool W X as s) before (Suc t0))"
    by (rule kill_answer [OF assms(1,3,5-7)])
  then have "agent_stopped a (?h (Suc t0))" by (simp add: moment_append)
  then have stopped: "agent_stopped a (?h j)" if "Suc t0 \<le> j" for j
    by (rule app_steps_stopped [OF moments_steps [OF that] _ assms(12)])
  have turns: "\<forall>t. ?w t \<longrightarrow> length before \<le> t" using turns_of_append [OF assms(10)] by blast
  have "length before \<le> length (before @ after)" by simp
  from access_answer_from [OF assms(2,3,11) turns this] show ?thesis
  proof cases
    case (1 t who body' m)
    from 1(3) assms(8) have body: "body' = body" by simp
    from 1(5) obtain t' x n1 p chain n2 where le: "Suc t \<le> t'" "t' < n1" "n1 \<le> n2"
      and get: "on_db (get_agent X (ar_env (as ! i)) (e_now (ar_env (as ! i)) 0) (rq_agent_id body)) (?h t') = (Inr x, ?h (Suc t'))"
      and sess: "performs ?w ?h (access_in_session_prog X (ar_env (as ! i)) body x p chain) n2 (Inr resp) m"
      unfolding body by (rule access_history)
    have x: "ag_id x = a" using got_agent [OF get assms(4)] assms(9) by simp
    from sess show ?thesis
    proof (cases rule: session_history)
      case (refused reason)
      then show ?thesis by simp
    next
      case (decided t1 tr)
      have "Suc t0 \<le> t1" using t0 1(1) le decided(1) by simp
      with stopped decided(2) x show ?thesis by (simp add: agent_stopped_def)
    qed
  qed
qed

section \<open>The audit log\<close>

lemma remembered_entries:
  assumes "remembers s s'" and "entry \<in> set (log_entries X (st_db s))"
  shows "entry \<in> set (log_entries X (st_db s'))"
  using assms by (auto simp: remembers_def log_entries_def)

text \<open>The entry as it was appended, at the moment of the last step of the decision.\<close>

lemma audit_history:
  assumes "performs w h (decide_access_prog X E req a p chain sid tr) n (Inr resp) m"
    and "\<And>j. log_ok X (st_db (h j))" and "uuid_rt X" and "time_rt X (e_now E 13)"
    and "pred_option (json_rt X) (map_option chain_json chain)"
  obtains t entry where "t < m" and "entry \<in> set (log_entries X (st_db (h (Suc t))))"
    and "au_agent_id entry = ag_id a" and "au_action entry = rq_action req" and "au_resource entry = rq_resource req"
    and "au_decision entry = rs_decision resp" and "au_reason entry = rs_reason resp"
    and "au_token_jti entry = map_option it_jti (rs_token resp)" and "\<not> au_dry_run entry"
  using assms(1)
proof (cases rule: decide_history)
  case (1 ev l l' l'' t entry)
  have resp: "rs_decision resp = decision_str (ev_decision ev)" "rs_reason resp = ev_reason ev"
    using 1(3) by (auto elim!: carry_out_history)
  from 1(6) obtain d where au: "create_audit_entry_sync X (e_now E 13) (access_audit req a p chain ev resp) (st_db (h t)) = (Inr entry, d)"
    and d: "st_db (h (Suc t)) = d"
    by (auto simp: create_audit_entry_def on_db_result spawn_write_apply split: option.splits)
  have chain: "pred_option (json_rt X) (cae_delegation_chain (access_audit req a p chain ev resp))"
    using assms(5) by (simp add: access_audit_def)
  from create_audit_log_ok [OF assms(2) assms(3,4) chain au]
  have "entry \<in> set (log_entries X (st_db (h (Suc t))))" by (simp add: d)
  moreover have "entry = (new_audit_entry X (e_now E 13) (access_audit req a p chain ev resp) (st_db (h t)))\<lparr> au_id := d_audit_seq (st_db (h t)) + 1 \<rparr>"
    using au by (auto simp: create_audit_entry_sync_def Let_def split: if_splits)
  ultimately show ?thesis
    using 1(5) resp by (intro that [of t entry]) (simp_all add: new_audit_entry_def Let_def access_audit_def)
qed


section \<open>Logins\<close>

interpretation app_login: latch "app_step X" "\<lambda>state s. pkce_unknown state (st_pkce_store s)"
  "\<lambda>state op. \<exists>now name v. op = LoginOp (PkceInsert now state name v)" for X
proof unfold_locales
  show "pkce_unknown k (st_pkce_store (app_step X op s))"
    if "pkce_unknown k (st_pkce_store s)" and "\<not> (\<exists>now name v. op = LoginOp (PkceInsert now k name v))" for k s op
  proof (cases op)
    case (LoginOp login)
    with that have "\<not> inserts k login" by (cases login) auto
    with that(1) LoginOp show ?thesis by (simp add: used_state.step_keeps)
  qed (use that in simp_all)
qed

lemma app_steps_unknown:
  assumes "app_steps X (permitted_by W X as) s s'" and "pkce_unknown state (st_pkce_store s)"
    and "\<forall>x \<in> set as. generate_state X (e_random (ar_env x) 0) \<noteq> state"
  shows "pkce_unknown state (st_pkce_store s')"
proof -
  from assms(1) obtain ops where ops: "s' = fold (app_step X) ops s" "list_all (permitted_by W X as) ops"
    unfolding app_steps_def by blast
  from ops(2) assms(3) have "\<forall>op \<in> set ops. \<not> (\<exists>now name v. op = LoginOp (PkceInsert now state name v))"
    by (fastforce simp: list_all_iff permitted_by_def list_ex_iff)
  with assms(2) ops(1) show ?thesis using app_login.stays_stopped by blast
qed

text \<open>An answered callback found its state, and took it away, at one of its own turns.\<close>

lemma callback_history:
  assumes "performs w h (idp_callback_prog X E q) n (Inr answer) m"
  obtains t where "w t" and "\<not> pkce_unknown (cb_state q) (st_pkce_store (h t))"
    and "pkce_unknown (cb_state q) (st_pkce_store (h (Suc t)))"
proof -
  let ?enabled = "\<lambda>cfg. ci_enabled (cf_idp cfg) \<and> ci_providers (cf_idp cfg) \<noteq> []"
  from assms obtain t0 where "performs w h (if \<not> ?enabled (st_config (h t0))
        then Done (Inl (Err (ConfigError ''IdP federation not enabled'')))
        else prog_then (atomically (on_pkce (pkce_consume (e_now E 0) (cb_state q)))) (\<lambda>found.
         prog_then (Done (ok_or found (Err (Forbidden ''invalid, expired or reused OAuth state parameter'')))) (\<lambda>txn.
           complete_login_prog X E (st_config (h t0)) txn (cb_code q)))) (Suc t0) (Inr answer) m"
    unfolding idp_callback_prog_def by (rule performs_look_thenE) simp
  then have "performs w h (prog_then (atomically (on_pkce (pkce_consume (e_now E 0) (cb_state q)))) (\<lambda>found.
         prog_then (Done (ok_or found (Err (Forbidden ''invalid, expired or reused OAuth state parameter'')))) (\<lambda>txn.
           complete_login_prog X E (st_config (h t0)) txn (cb_code q)))) (Suc t0) (Inr answer) m"
    by (auto split: if_splits)
  then obtain t found where w: "w t" and step: "on_pkce (pkce_consume (e_now E 0) (cb_state q)) (h t) = (Inr found, h (Suc t))"
    and rest: "performs w h (prog_then (Done (ok_or found (Err (Forbidden ''invalid, expired or reused OAuth state parameter''))))
       (\<lambda>txn. complete_login_prog X E (st_config (h t0)) txn (cb_code q))) (Suc t) (Inr answer) m"
    by (rule performs_turn_thenE)
  from rest obtain txn where found: "found = Some txn" by (rule performs_Done_thenE) simp
  have pair: "pkce_consume (e_now E 0) (cb_state q) (st_pkce_store (h t)) = (Some txn, st_pkce_store (h (Suc t)))"
    using step unfolding found on_pkce_apply
    by (cases "pkce_consume (e_now E 0) (cb_state q) (st_pkce_store (h t))") (auto dest!: arg_cong [of _ "h (Suc t)" st_pkce_store])
  have "\<not> pkce_unknown (cb_state q) (st_pkce_store (h t))"
    using pair pkce_consume_unknown [of "cb_state q" "st_pkce_store (h t)" "e_now E 0"] by auto
  moreover have "pkce_unknown (cb_state q) (st_pkce_store (h (Suc t)))"
    using pkce_consume_keys [of "e_now E 0" "cb_state q" "st_pkce_store (h t)"] pair by (simp add: pkce_unknown_def)
  ultimately show ?thesis using w that by blast
qed

lemma callback_answer:
  assumes "i < length as" and "preflight_only W"
    and "route W (ar_request (as ! i)) = Routed tpl IdpCallback ps" and "w_callback_query W (ar_request (as ! i)) = Inr q"
    and "result_at (pool_run sched (server_pool W X as s)) i = Some (Inr (status, JsonBody answer))"
  obtains t where "turns_of i sched t" and "\<not> pkce_unknown (cb_state q) (st_pkce_store (moment (server_pool W X as s) sched t))"
    and "pkce_unknown (cb_state q) (st_pkce_store (moment (server_pool W X as s) sched (Suc t)))"
  using performs_request [OF assms(1,5)]
proof (rule serve_prog_routed)
  fix t who l
  assume "performs (turns_of i sched) (moment (server_pool W X as s) sched)
      (run_route_prog W X (ar_env (as ! i)) who (ar_request (as ! i))) (Suc t) (Inr (status, JsonBody answer)) l"
  with assms(3,4) have "performs (turns_of i sched) (moment (server_pool W X as s) sched)
      (idp_callback_prog X (ar_env (as ! i)) q) (Suc t) (Inr answer) l"
    by (auto simp: run_route_prog_def dispatch_prog_def performs_extracting performs_ok)
  then show thesis using that by (rule callback_history)
qed (use assms(2) in auto)

text \<open>
  C15: however many callbacks present the same login state at the same time, at most one of them completes
  a login: when one is answered, no other one is, unless the server generates that very state again.
\<close>

theorem concurrent_login_once:
  assumes "i < length as" and "j < length as" and "i \<noteq> j" and "preflight_only W"
    and "route W (ar_request (as ! i)) = Routed tpl IdpCallback ps"
    and "route W (ar_request (as ! j)) = Routed tpl' IdpCallback ps'"
    and "w_callback_query W (ar_request (as ! i)) = Inr q" and "w_callback_query W (ar_request (as ! j)) = Inr q'"
    and "cb_state q' = cb_state q"
    and "result_at (pool_run sched (server_pool W X as s)) i = Some (Inr (status, JsonBody answer))"
    and "\<forall>x \<in> set as. generate_state X (e_random (ar_env x) 0) \<noteq> cb_state q"
  shows "result_at (pool_run sched (server_pool W X as s)) j \<noteq> Some (Inr (status', JsonBody answer'))"
proof
  let ?h = "moment (server_pool W X as s) sched"
  assume answered: "result_at (pool_run sched (server_pool W X as s)) j = Some (Inr (status', JsonBody answer'))"
  from callback_answer [OF assms(1,4,5,7,10)] obtain t where t: "turns_of i sched t"
    "\<not> pkce_unknown (cb_state q) (st_pkce_store (?h t))" "pkce_unknown (cb_state q) (st_pkce_store (?h (Suc t)))" .
  from callback_answer [OF assms(2,4,6,8) answered] obtain t' where t': "turns_of j sched t'"
    "\<not> pkce_unknown (cb_state q) (st_pkce_store (?h t'))" "pkce_unknown (cb_state q) (st_pkce_store (?h (Suc t')))"
    unfolding assms(9) .
  have later: "pkce_unknown (cb_state q) (st_pkce_store (?h l'))"
    if "pkce_unknown (cb_state q) (st_pkce_store (?h l))" and "l \<le> l'" for l l'
    by (rule app_steps_unknown [OF moments_steps [OF that(2)] that(1) assms(11)])
  from t(1) t'(1) assms(3) have "t \<noteq> t'" by (auto simp: turns_of_def)
  with later [OF t(3), of t'] later [OF t'(3), of t] t(2) t'(2) show False by linarith
qed

end
