(* ===== verification/Races.thy ===== *)
theory Races
  imports Concurrent_Safety
begin

text \<open>
  Where requests that run at the same time get what they would not get one after the other: each
  theorem gives a schedule, for every state in which the requests succeed.
\<close>

section \<open>The stop and a request under way\<close>

lemma record_token_marked:
  assumes "record_token X E now jti grant agent scopes audience expires d = (Inr u, d')"
  shows "record_token X E now jti grant agent scopes audience expires (mark_token P d) = (Inr (),
    (mark_token P d)\<lparr> d_tokens := d_tokens (mark_token P d) @ [new_token_row X now jti grant agent scopes audience expires] \<rparr>)"
proof -
  have "tor_id ` set (update_where P (\<lambda>r. r\<lparr> tor_revoked := 1 \<rparr>) rows) = tor_id ` set rows" for rows
    by (simp flip: set_map add: map_update_where)
  with assms show ?thesis
    by (auto simp: record_token_def insert_token_def insert_row_def mark_token_def act_simps
        split: option.splits if_splits)
qed

lemma issue_in_stopped_state:
  assumes "issue_access_token X E req a p ev s = (Inr tok, s')"
  shows "issue_access_token X E req a p ev (s\<lparr> st_session_store := st, st_db := mark_token P (st_db s) \<rparr>) =
    (Inr tok, s\<lparr> st_session_store := st,
       st_db := (mark_token P (st_db s))\<lparr> d_tokens := d_tokens (mark_token P (st_db s)) @
         [new_token_row X (e_now E 9) (it_jti tok) None (ag_id a) (ev_approved_scopes ev) (rq_resource req)
           (it_expires_at tok)] \<rparr>,
       st_metrics := count_token (st_metrics s) \<rparr>)"
proof -
  note issued = issue_access_token_InrD [OF assms]
  obtain u d where rec: "record_token X E (e_now E 9) (it_jti tok) None (ag_id a) (ev_approved_scopes ev) (rq_resource req)
      (it_expires_at tok) (st_db s) = (Inr u, d)"
    using assms issued(1,3) by (auto simp: issue_access_token_def Let_def act_simps split: sum.splits prod.splits)
  have "tok = \<lparr> it_jwt = it_jwt tok, it_expires_at = it_expires_at tok, it_scopes = ev_approved_scopes ev, it_jti = it_jti tok \<rparr>"
    using issued(2) by simp
  then show ?thesis
    by (simp add: issue_access_token_def Let_def act_simps issued(1,3) record_token_marked [OF rec])
qed

text \<open>What is left of a request after the decision.\<close>

definition after_decision ::
    "ext \<Rightarrow> env \<Rightarrow> access_request \<Rightarrow> agent \<Rightarrow> principal option \<Rightarrow> delegation_hop list option \<Rightarrow> policy_evaluation \<Rightarrow>
     access_response program" where
  "after_decision X E req a p chain ev =
     prog_then (carry_out_prog X E req a p ev) (\<lambda>resp.
     prog_then (atomically (change_sessions (store_record_action (e_now E 12) (request_session_id X req a)
        (access_event E req ev)))) (\<lambda>_.
     prog_then (atomically (on_db (create_audit_entry X E (e_now E 13) (access_audit req a p chain ev resp)))) (\<lambda>_.
       finish resp)))"

lemma alone_up_to_decision:
  assumes "get_agent X E (e_now E 0) (rq_agent_id req) (st_db s) = (Inr a, st_db s)"
    and "request_principal X E req a s = (Inr (p, chain), s)"
    and acc: "access_session X E req a p s = (session, s0)"
    and alive: "\<not> ss_killed session" "\<not> is_agent_killed (ag_id a) (st_session_store s)"
    and ev: "evaluate X (st_policy_engine s0) (e_now E 5) (request_policy_context req a p
      (Some (request_session_id X req a)) (ss_trajectory session)) (st_session_store s0) = (ev, st')"
  shows "alone (request_access_prog X E (Some (rq_agent_id req)) req) s (after_decision X E req a p chain ev)
    (s0\<lparr> st_session_store := st', st_metrics := record_decision (decision_str (ev_decision ev)) (rq_action req) (st_metrics s0) \<rparr>)"
proof -
  let ?sid = "request_session_id X req a"
  let ?s1 = "s0\<lparr> st_session_store := st', st_metrics := record_decision (decision_str (ev_decision ev)) (rq_action req) (st_metrics s0) \<rparr>"
  have ses: "on_sessions (get_or_create_session (e_now E 4) ?sid (ag_id a) (map_option pr_id p)) s = (Inr session, s0)"
    using acc by (auto simp: access_session_def act_simps split: prod.splits)
  have going: "\<not> is_agent_killed (ag_id a) (st_session_store s0)"
    using alive(2) acc access_session_killed [of "ag_id a" X E req a p s] by simp
  have decision: "alone (decide_access_prog X E req a p chain ?sid (ss_trajectory session)) s0
      (after_decision X E req a p chain ev) ?s1"
    unfolding decide_access_prog_def after_decision_def access_event_def
    by (rule alone_next [where x = ev and ?s1.0 = "s0\<lparr> st_session_store := st' \<rparr>"], simp add: prog_simps act_simps ev,
        rule alone_next [where x = "()" and ?s1.0 = ?s1], simp add: prog_simps act_simps, rule alone_refl)
  have "alone (access_in_session_prog X E req a p chain) s (after_decision X E req a p chain ev) ?s1"
    unfolding access_in_session_prog_def Let_def
    by (rule alone_next [where x = session and ?s1.0 = s0], simp add: prog_simps ses, simp only: alive(1) if_False,
        rule alone_next [where x = False and ?s1.0 = s0], simp add: prog_simps act_simps going, simp only: if_False,
        rule decision)
  then have "alone (prog_then (request_principal_prog X E req a) (\<lambda>(p, chain). access_in_session_prog X E req a p chain)) s
      (after_decision X E req a p chain ev) ?s1"
    by (intro alone_next [where x = "(p, chain)" and ?s1.0 = s]) (simp_all add: prog_simps assms(2))
  then show ?thesis
    unfolding request_access_prog_def
    by (intro alone_next [where x = "()" and ?s1.0 = s] alone_next [where x = a and ?s1.0 = s])
      (simp_all add: prog_simps act_simps assms(1))
qed

lemma request_up_to_decision:
  assumes "request_access X E auth req s = (Inr resp, s')" and "rs_token resp = Some tok"
  obtains a p chain ev s1 where "alone (request_access_prog X E auth req) s (after_decision X E req a p chain ev) s1"
    and "ag_id a = rq_agent_id req \<or> \<not> uuid_rt X" and "ev_decision ev = Allow"
    and "execute (after_decision X E req a p chain ev) s1 = (Inr resp, s')"
  using assms(1)
proof (cases rule: request_access_cases)
  case (refused a p)
  with assms(2) show ?thesis by simp
next
  case (decided a p chain)
  obtain session s0 where acc: "access_session X E req a p s = (session, s0)" by fastforce
  from decided(6) acc obtain ev st' where ev: "evaluate X (st_policy_engine s0) (e_now E 5)
      (request_policy_context req a p (Some (request_session_id X req a)) (ss_trajectory session)) (st_session_store s0) = (ev, st')"
    by fastforce
  let ?s1 = "s0\<lparr> st_session_store := st', st_metrics := record_decision (decision_str (ev_decision ev)) (rq_action req) (st_metrics s0) \<rparr>"
  have rest: "execute (after_decision X E req a p chain ev) ?s1 = (Inr resp, s')"
    using decided(6) acc ev
    by (simp add: after_decision_def prog_simps decide_access_def act_simps access_event_def)
  then have "ev_decision ev = Allow"
    using assms(2) by (cases "ev_decision ev")
      (auto simp: after_decision_def prog_simps act_simps carry_out_def split: sum.splits prod.splits)
  moreover have "get_agent X E (e_now E 0) (rq_agent_id req) (st_db s) = (Inr a, st_db s)"
    using assms(1) decided(1,2) by (auto simp: request_access_def act_simps get_agent_def split: option.splits)
  ultimately show ?thesis
    using that rest get_agent_id [OF decided(2)] alone_up_to_decision [OF _ decided(3) acc _ decided(5) ev] decided(1,4) acc by simp blast
qed

lemma after_decision_in_stopped_state:
  assumes "execute (after_decision X E req a p chain ev) s = (Inr resp, s')" and "ev_decision ev = Allow"
    and "rs_token resp = Some tok"
  shows "\<exists>s2. execute (after_decision X E req a p chain ev)
      (s\<lparr> st_session_store := st, st_db := mark_token P (st_db s) \<rparr>) = (Inr resp, s2)
    \<and> killed_agents (st_session_store s2) = killed_agents st
    \<and> (\<exists>row \<in> set (d_tokens (st_db s2)). tor_id row = it_jti tok \<and> tor_revoked row = 0)"
proof -
  let ?K = "s\<lparr> st_session_store := st, st_db := mark_token P (st_db s) \<rparr>"
  from assms obtain s1 where iss: "issue_access_token X E req a p ev s = (Inr tok, s1)"
    and resp: "resp = (response_of ev)\<lparr> rs_token := Some tok \<rparr>"
    by (auto simp: after_decision_def prog_simps act_simps carry_out_def split: sum.splits prod.splits)
  note s1 = issue_access_token_InrD(5) [OF iss]
  from assms(1) have audit: "e_fault E CallCreateAudit = None" "d_audit_seq (st_db s) \<noteq> max_rowid"
    by (auto simp: after_decision_def prog_simps act_simps carry_out_def assms(2) iss s1 create_audit_entry_def
        create_audit_entry_sync_def split: option.splits if_splits)
  let ?d = "(mark_token P (st_db s))\<lparr> d_tokens := d_tokens (mark_token P (st_db s)) @
         [new_token_row X (e_now E 9) (it_jti tok) None (ag_id a) (ev_approved_scopes ev) (rq_resource req)
           (it_expires_at tok)] \<rparr>"
  have "d_audit_seq ?d \<noteq> max_rowid" using audit(2) by (simp add: mark_token_def)
  then obtain entry d' where au: "create_audit_entry X E (e_now E 13) (access_audit req a p chain ev resp) ?d = (Inr entry, d')"
    and d': "d_tokens d' = d_tokens ?d"
    using audit(1) by (auto simp: create_audit_entry_def spawn_write_apply create_audit_entry_sync_def Let_def)
  have "execute (after_decision X E req a p chain ev) ?K = (Inr resp, ?K\<lparr> st_db := d',
      st_metrics := count_token (st_metrics s),
      st_session_store := store_record_action (e_now E 12) (request_session_id X req a) (access_event E req ev) st \<rparr>)"
    using au by (simp add: after_decision_def prog_simps act_simps carry_out_def assms(2) issue_in_stopped_state [OF iss] resp)
  then show ?thesis
    using d' by (auto simp: store_record_action_def frame_simps new_token_row_def)
qed

text \<open>
  C18: the emergency stop does not reach a request that is past the check. For every access request that would
  be answered with a token there is a schedule in which the agent is stopped through its route after
  the request was decided and before its token is entered: the stop succeeds and revokes the tokens of
  the agent, the request is answered with its token all the same, and that token is left unrevoked in
  the table while the agent is stopped.
\<close>

theorem stop_misses_request_under_way:
  assumes "request_access X E auth req s = (Inr resp, s')" and "rs_token resp = Some tok" and "uuid_rt X"
    and "e_fault E0 CallRevokeAgentTokens = None"
  shows "\<exists>sched s2 answer. pool_run sched (s, [ok_prog AccessBody (request_access_prog X E auth req),
        ok_prog JsonBody (kill_agent_prog X E0 (rq_agent_id req))]) =
      (s2, [Done (Inr (200, AccessBody resp)), Done (Inr (200, JsonBody answer))])
    \<and> agent_stopped (rq_agent_id req) s2
    \<and> (\<exists>row \<in> set (d_tokens (st_db s2)). tor_id row = it_jti tok \<and> tor_revoked row = 0)"
proof -
  let ?A = "ok_prog AccessBody" and ?kill = "ok_prog JsonBody (kill_agent_prog X E0 (rq_agent_id req))"
  obtain a p chain ev s1 where up: "alone (request_access_prog X E auth req) s (after_decision X E req a p chain ev) s1"
    and allow: "ev_decision ev = Allow" and rest: "execute (after_decision X E req a p chain ev) s1 = (Inr resp, s')"
    by (rule request_up_to_decision [OF assms(1,2)])
  define P where "P = (\<lambda>r :: token_row. tor_agent_id r = x_uuid_str X (rq_agent_id req) \<and> tor_revoked r = 0)"
  define K where "K = s1\<lparr> st_session_store := kill_agent (rq_agent_id req) (st_session_store s1),
      st_db := mark_token P (st_db s1) \<rparr>"
  obtain answer where kill: "kill_agent_route X E0 (rq_agent_id req) s1 = (Inr answer, K)"
    using assms(4) by (simp add: kill_agent_route_def act_simps revoke_agent_tokens_def Let_def K_def P_def)
  from after_decision_in_stopped_state [OF rest allow assms(2)] obtain s2 where
    s2: "execute (after_decision X E req a p chain ev) K = (Inr resp, s2)"
    and stopped: "killed_agents (st_session_store s2) = killed_agents (kill_agent (rq_agent_id req) (st_session_store s1))"
    and row: "\<exists>row \<in> set (d_tokens (st_db s2)). tor_id row = it_jti tok \<and> tor_revoked row = 0"
    unfolding K_def by blast
  have up': "alone (?A (request_access_prog X E auth req)) s (?A (after_decision X E req a p chain ev)) s1"
    using up by (simp add: ok_prog_def respond_prog_def alone_with_result)
  have kill': "alone ?kill s1 (Done (Inr (200, JsonBody answer))) K"
    using alone_execute [of ?kill s1] kill by (simp add: prog_simps ok_with_def respond_def)
  have end': "alone (?A (after_decision X E req a p chain ev)) K (Done (Inr (200, AccessBody resp))) s2"
    using alone_execute [of "?A (after_decision X E req a p chain ev)" K] s2 by (simp add: prog_simps ok_with_def respond_def)
  obtain l1 where "pool_run l1 (s, [?A (request_access_prog X E auth req), ?kill]) =
      (s1, [?A (after_decision X E req a p chain ev), ?kill])"
    using alone_schedule [OF up', of 0 "[?A (request_access_prog X E auth req), ?kill]"] by auto
  moreover obtain l2 where "pool_run l2 (s1, [?A (after_decision X E req a p chain ev), ?kill]) =
      (K, [?A (after_decision X E req a p chain ev), Done (Inr (200, JsonBody answer))])"
    using alone_schedule [OF kill', of 1 "[?A (after_decision X E req a p chain ev), ?kill]"] by auto
  moreover obtain l3 where "pool_run l3 (K, [?A (after_decision X E req a p chain ev), Done (Inr (200, JsonBody answer))]) =
      (s2, [Done (Inr (200, AccessBody resp)), Done (Inr (200, JsonBody answer))])"
    using alone_schedule [OF end', of 0 "[?A (after_decision X E req a p chain ev), Done (Inr (200, JsonBody answer))]"] by auto
  ultimately have "pool_run (l1 @ l2 @ l3) (s, [?A (request_access_prog X E auth req), ?kill]) =
      (s2, [Done (Inr (200, AccessBody resp)), Done (Inr (200, JsonBody answer))])" by simp
  moreover have "agent_stopped (rq_agent_id req) s2"
    using stopped by (simp add: agent_stopped_def is_agent_killed_def kill_agent_def)
  ultimately show ?thesis using row by blast
qed

section \<open>Two policies at the same time\<close>

lemma build_engine_state: "build_engine X E cfg d = (r, d') \<Longrightarrow> d' = d"
  by (auto simp: build_engine_def act_simps load_active_policy_yaml_def split: option.splits sum.splits)

lemma create_policy_route_InrE:
  assumes "create_policy_route X E req s = (Inr answer, s')"
  obtains d eng where "create_policy X E (e_now E 0) (e_uuid E 0) (cpo_name req) (cpo_engine req) (cpo_definition req) (st_db s)
      = (Inr (), d)" and "build_engine X E (st_config s) d = (Inr eng, d)"
    and "answer = JObj [(''reloaded'', JBool True), (''status'', JStr ''created'')]"
    and "s' = s\<lparr> st_db := d, st_policy_engine := eng \<rparr>"
  using assms
  by (auto simp: create_policy_route_def act_simps as_config_error_def reload_policy_def
      split: sum.splits prod.splits fail.splits)
    (blast dest: build_engine_state)

text \<open>
  C40: two policies created at the same time can leave the older one in force: there is a schedule that
  answers both requests and writes the database as the sequential order does, the second policy active,
  but leaves the engine of the first one in force, until the next reload or restart.
\<close>

theorem concurrent_policies_leave_stale_engine:
  assumes "create_policy_route X E1 req1 s = (Inr answer1, s1)" and "create_policy_route X E2 req2 s1 = (Inr answer2, s2)"
  shows "\<exists>sched. pool_run sched (s, [create_policy_prog X E1 req1, create_policy_prog X E2 req2]) =
    (s2\<lparr> st_policy_engine := st_policy_engine s1 \<rparr>, [Done (Inr answer1), Done (Inr answer2)])"
proof -
  from assms(1) obtain d1 eng1 where one: "create_policy X E1 (e_now E1 0) (e_uuid E1 0) (cpo_name req1) (cpo_engine req1)
      (cpo_definition req1) (st_db s) = (Inr (), d1)" "build_engine X E1 (st_config s) d1 = (Inr eng1, d1)"
    "answer1 = JObj [(''reloaded'', JBool True), (''status'', JStr ''created'')]" "s1 = s\<lparr> st_db := d1, st_policy_engine := eng1 \<rparr>"
    by (rule create_policy_route_InrE)
  from assms(2) obtain d2 eng2 where two: "create_policy X E2 (e_now E2 0) (e_uuid E2 0) (cpo_name req2) (cpo_engine req2)
      (cpo_definition req2) (st_db s1) = (Inr (), d2)" "build_engine X E2 (st_config s1) d2 = (Inr eng2, d2)"
    "answer2 = JObj [(''reloaded'', JBool True), (''status'', JStr ''created'')]" "s2 = s1\<lparr> st_db := d2, st_policy_engine := eng2 \<rparr>"
    by (rule create_policy_route_InrE)
  let ?p = "create_policy_prog X E1 req1" and ?q = "create_policy_prog X E2 req2"
  let ?left = "prog_then (with_result config_error_of (atomically (modify (\<lambda>s. s\<lparr> st_policy_engine := eng1 \<rparr>))))
      (\<lambda>_. finish answer1)"
  let ?t1 = "s\<lparr> st_db := d1 \<rparr>" and ?t2 = "s\<lparr> st_db := d2, st_policy_engine := eng2 \<rparr>"
  have "alone (reload_policy_prog X E1) ?t1 (atomically (modify (\<lambda>s. s\<lparr> st_policy_engine := eng1 \<rparr>))) ?t1"
    unfolding reload_policy_prog_def
    by (intro alone_next [where x = "st_config s" and ?s1.0 = ?t1] alone_next [where x = eng1 and ?s1.0 = ?t1] alone_refl)
      (simp_all add: prog_simps act_simps one(2))
  then have "alone (prog_then (with_result config_error_of (reload_policy_prog X E1)) (\<lambda>_. finish answer1)) ?t1 ?left ?t1"
    by (intro alone_left alone_with_result)
  then have up: "alone ?p s ?left ?t1"
    unfolding create_policy_prog_def one(3) [symmetric]
    by (rule alone_next [where x = "()" and ?s1.0 = ?t1, rotated]) (simp add: prog_simps act_simps one(1))
  have "execute ?q ?t1 = (Inr answer2, ?t2)"
    using one(4) two by (simp add: prog_simps create_policy_route_def act_simps as_config_error_def reload_policy_def)
  then have mid: "alone ?q ?t1 (Done (Inr answer2)) ?t2" using alone_execute [of ?q ?t1] by simp
  have "execute ?left ?t2 = (Inr answer1, s2\<lparr> st_policy_engine := st_policy_engine s1 \<rparr>)"
    using one(4) two(4) by (simp add: prog_simps act_simps execute_with_result config_error_of_def)
  then have down: "alone ?left ?t2 (Done (Inr answer1)) (s2\<lparr> st_policy_engine := st_policy_engine s1 \<rparr>)"
    using alone_execute [of ?left ?t2] by simp
  obtain l1 where "pool_run l1 (s, [?p, ?q]) = (?t1, [?left, ?q])"
    using alone_schedule [OF up, of 0 "[?p, ?q]"] by auto
  moreover obtain l2 where "pool_run l2 (?t1, [?left, ?q]) = (?t2, [?left, Done (Inr answer2)])"
    using alone_schedule [OF mid, of 1 "[?left, ?q]"] by auto
  moreover obtain l3 where "pool_run l3 (?t2, [?left, Done (Inr answer2)]) =
      (s2\<lparr> st_policy_engine := st_policy_engine s1 \<rparr>, [Done (Inr answer1), Done (Inr answer2)])"
    using alone_schedule [OF down, of 0 "[?left, Done (Inr answer2)]"] by auto
  ultimately show ?thesis by (intro exI [of _ "l1 @ l2 @ l3"]) simp
qed

section \<open>Limits that count recorded actions\<close>

text \<open>What the evaluations leave alone: the engine and the recorded sessions.\<close>

definition unrecorded :: "app_state \<Rightarrow> app_state \<Rightarrow> bool" where
  "unrecorded s s' \<longleftrightarrow> st_policy_engine s' = st_policy_engine s \<and> sessions (st_session_store s') = sessions (st_session_store s)"

interpretation unrecorded: guarantee unrecorded
  by unfold_locales (simp_all add: unrecorded_def)

lemma evaluations_unrecorded: "guarantees unrecorded (eval_engine_prog X now ctx)"
proof -
  have look: "guarantees unrecorded (look f)" for f :: "app_state \<Rightarrow> 'b"
    unfolding look_def by (rule guarantees_atomically) (simp add: unrecorded_def reading_def)
  have limit: "guarantees unrecorded (atomically (on_sessions (rule_rate_limit now eng r ctx)))" for eng r
    by (rule guarantees_atomically)
      (simp add: unrecorded_def act_simps rule_rate_limit_frame split_beta)
  have "guarantees unrecorded (eval_rules_prog X now eng rs ctx)" for eng rs
    by (induction rs) (auto intro!: guarantees_then guarantees_Done look limit split: option.split)
  then show ?thesis unfolding eval_engine_prog_def by (intro guarantees_then look)
qed

lemma eval_rules_unlimited:
  assumes "performs w h (eval_rules_prog X now eng rs ctx) n (Inr ev) m"
    and "\<forall>j. sessions (st_session_store (h j)) = sessions st"
    and "find (\<lambda>r. rule_matches r ctx) rs = Some r" and "rule_rate_limit_per_minute r = None"
  shows "ev = fst (eval_rules X now eng rs ctx st)"
  using assms
proof (induction rs)
  case (Cons a rs)
  have same: "check_temporal_conditions X eng a ctx (st_session_store (h j)) = check_temporal_conditions X eng a ctx st" for j
    using Cons.prems(2) by (intro temporal_cong) simp
  show ?case
  proof (cases "rule_matches a ctx")
    case True
    with Cons.prems(3,4) have "rule_rate_limit t eng a ctx u = (None, u)" for t u by (simp add: rule_rate_limit_def)
    with Cons.prems(1) True same show ?thesis
      by (auto simp: performs_simps act_simps split: option.splits)
  next
    case False
    with Cons show ?thesis by simp
  qed
qed simp

text \<open>
  C39: the caps on actions and spending count what is recorded, and an action is recorded only after its
  decision: however many evaluations run at the same time, each one that no rate limit applies to
  gets the decision it would get alone, so a session whose next action is within its caps may pass
  with any number of actions at once.
\<close>

theorem concurrent_evaluations_do_not_count:
  assumes "i < length cs" and "cs ! i = (now, ctx)"
    and "result_at (pool_run sched (s, map (\<lambda>(now, ctx). eval_engine_prog X now ctx) cs)) i = Some (Inr ev)"
    and "find (\<lambda>r. rule_matches r ctx) (ye_rules (st_policy_engine s)) = Some r" and "rule_rate_limit_per_minute r = None"
  shows "ev = fst (evaluate X (st_policy_engine s) now ctx (st_session_store s))"
proof -
  let ?c = "(s, map (\<lambda>(now, ctx). eval_engine_prog X now ctx) cs)"
  let ?h = "moment ?c sched" and ?w = "turns_of i sched"
  have "\<forall>p \<in> set (snd ?c). guarantees unrecorded p"
    by (auto simp: evaluations_unrecorded split: prod.split)
  from unrecorded.moments_guarantee [OF this, of 0] have same: "unrecorded s (?h j)" for j
    by (simp add: moment_def)
  have "performs ?w ?h (eval_engine_prog X now ctx) 0 (Inr ev) (length sched)"
    using pool_performs [of i "snd ?c" sched s] assms(1-3) by simp
  then obtain t0 l where "performs ?w ?h (eval_rules_prog X now (st_policy_engine (?h t0)) (ye_rules (st_policy_engine (?h t0))) ctx)
      l (Inr ev) (length sched)"
    by (auto simp: eval_engine_prog_def performs_then_Inr performs_look)
  then have "performs ?w ?h (eval_rules_prog X now (st_policy_engine s) (ye_rules (st_policy_engine s)) ctx) l (Inr ev) (length sched)"
    using same [of t0] by (simp add: unrecorded_def)
  from eval_rules_unlimited [OF this _ assms(4,5), of "st_session_store s"] same show ?thesis
    by (simp add: evaluate_def unrecorded_def)
qed

end
