(* ===== verification/Write_Lock.thy ===== *)
theory Write_Lock
  imports Races
begin

text \<open>
  The mutex around the connection for writes (\<open>spawn_write\<close>, \<open>spawn_read\<close> of \<open>src/db/mod.rs\<close>) as data.
  Elsewhere a database closure is one step; here it is the program of its statements, each of which
  commits on its own, and the lock is a part of the state: a task takes it before the first statement
  and gives it back after the last. With one connection every schedule of statements is a schedule of
  whole closures. With the pool of read connections it is not: a reader takes no lock.
\<close>

section \<open>Tasks that take the lock\<close>

text \<open>
  A task owns the tables (\<open>'d\<close>) only under the lock. \<open>Free\<close> is a step on the rest of the state, under a
  lock of its own; \<open>Locked\<close> is a closure run under the mutex, whose result says how the task goes on
  after an error and after a success; \<open>Peek\<close> is a read through the pool, which takes no lock.
\<close>

datatype ('d, 'r, 'e, 'a) task =
    Ended "'e + 'a"
  | Free "'r \<Rightarrow> 'r" "'r \<Rightarrow> ('d, 'r, 'e, 'a) task"
  | Locked "'r \<Rightarrow> ('d, ('d, 'r, 'e, 'a) task, ('d, 'r, 'e, 'a) task) prog"
  | Peek "'d \<Rightarrow> ('d, 'r, 'e, 'a) task"

datatype ('d, 'r, 'e, 'a) status =
    Idle "('d, 'r, 'e, 'a) task"
  | Holding "('d, ('d, 'r, 'e, 'a) task, ('d, 'r, 'e, 'a) task) prog"

text \<open>The tables, the rest of the state, who holds the mutex, and the tasks.\<close>

record ('d, 'r, 'e, 'a) site =
  si_tables :: 'd
  si_rest :: 'r
  si_lock :: "nat option"
  si_tasks :: "('d, 'r, 'e, 'a) status list"

definition next_task :: "('d, 'r, 'e, 'a) task + ('d, 'r, 'e, 'a) task \<Rightarrow> ('d, 'r, 'e, 'a) task" where
  "next_task r = (case r of Inl t \<Rightarrow> t | Inr t \<Rightarrow> t)"

text \<open>One turn of task \<open>i\<close>. A task that finds the mutex taken waits: its turn does nothing.\<close>

definition locked_turn :: "nat \<Rightarrow> ('d, 'r, 'e, 'a) site \<Rightarrow> ('d, 'r, 'e, 'a) site" where
  "locked_turn i y =
     (if i < length (si_tasks y) then
        (case si_tasks y ! i of
           Idle (Ended r) \<Rightarrow> y
         | Idle (Free u k) \<Rightarrow>
             y\<lparr> si_rest := u (si_rest y), si_tasks := (si_tasks y)[i := Idle (k (si_rest y))] \<rparr>
         | Idle (Peek k) \<Rightarrow> y\<lparr> si_tasks := (si_tasks y)[i := Idle (k (si_tables y))] \<rparr>
         | Idle (Locked q) \<Rightarrow>
             (case si_lock y of
                Some _ \<Rightarrow> y
              | None \<Rightarrow> y\<lparr> si_lock := Some i, si_tasks := (si_tasks y)[i := Holding (q (si_rest y))] \<rparr>)
         | Holding (Atomic u k) \<Rightarrow>
             y\<lparr> si_tables := u (si_tables y), si_tasks := (si_tasks y)[i := Holding (k (si_tables y))] \<rparr>
         | Holding (Done r) \<Rightarrow>
             y\<lparr> si_lock := None, si_tasks := (si_tasks y)[i := Idle (next_task r)] \<rparr>)
      else y)"

definition locked_run :: "nat list \<Rightarrow> ('d, 'r, 'e, 'a) site \<Rightarrow> ('d, 'r, 'e, 'a) site" where
  "locked_run sched y = fold locked_turn sched y"

definition open_site :: "'d \<Rightarrow> 'r \<Rightarrow> ('d, 'r, 'e, 'a) task list \<Rightarrow> ('d, 'r, 'e, 'a) site" where
  "open_site d r ts = \<lparr> si_tables = d, si_rest = r, si_lock = None, si_tasks = map Idle ts \<rparr>"

definition answer_at :: "('d, 'r, 'e, 'a) site \<Rightarrow> nat \<Rightarrow> ('e + 'a) option" where
  "answer_at y i = (case si_tasks y ! i of Idle (Ended r) \<Rightarrow> Some r | _ \<Rightarrow> None)"

lemma locked_run_simps [simp]:
  "locked_run [] y = y" "locked_run (i # sched) y = locked_run sched (locked_turn i y)"
  by (simp_all add: locked_run_def)

section \<open>The program whose steps are whole closures\<close>

text \<open>
  \<open>runs_as J P t p\<close>: on tables that satisfy \<open>P\<close> the task \<open>t\<close>, with each closure as one step, is the
  program \<open>p\<close>, and its closures keep \<open>P\<close>; \<open>J\<close> puts the tables and the rest together. A task that reads
  through the pool is no such program.
\<close>

inductive runs_as :: "('d \<Rightarrow> 'r \<Rightarrow> 's) \<Rightarrow> ('d \<Rightarrow> bool) \<Rightarrow> ('d, 'r, 'e, 'a) task \<Rightarrow> ('s, 'e, 'a) prog \<Rightarrow> bool" for J P where
  runs_Ended: "runs_as J P (Ended r) (Done r)"
| runs_Free: "(\<And>d r. P d \<Longrightarrow> u' (J d r) = J d (u r)) \<Longrightarrow> (\<And>d r. P d \<Longrightarrow> runs_as J P (k r) (k' (J d r))) \<Longrightarrow>
     runs_as J P (Free u k) (Atomic u' k')"
| runs_Locked: "(\<And>d r. P d \<Longrightarrow> u' (J d r) = J (snd (execute (q r) d)) r) \<Longrightarrow>
     (\<And>d r. P d \<Longrightarrow> P (snd (execute (q r) d))) \<Longrightarrow>
     (\<And>d r. P d \<Longrightarrow> runs_as J P (next_task (fst (execute (q r) d))) (k' (J d r))) \<Longrightarrow>
     runs_as J P (Locked q) (Atomic u' k')"

inductive_cases runs_FreeE: "runs_as J P (Free u k) p"
inductive_cases runs_LockedE: "runs_as J P (Locked q) p"
inductive_cases runs_PeekE: "runs_as J P (Peek k) p"

text \<open>What a task comes to when its closure runs to its end, and the tables that are left then.\<close>

definition comes_to :: "'d \<Rightarrow> ('d, 'r, 'e, 'a) status \<Rightarrow> ('d, 'r, 'e, 'a) task" where
  "comes_to d st = (case st of Idle t \<Rightarrow> t | Holding q \<Rightarrow> next_task (fst (execute q d)))"

definition settled :: "('d, 'r, 'e, 'a) site \<Rightarrow> 'd" where
  "settled y =
     (case si_lock y of
        None \<Rightarrow> si_tables y
      | Some i \<Rightarrow> (case si_tasks y ! i of Idle _ \<Rightarrow> si_tables y | Holding q \<Rightarrow> snd (execute q (si_tables y))))"

definition is_holding :: "('d, 'r, 'e, 'a) status \<Rightarrow> bool" where
  "is_holding st = (case st of Idle _ \<Rightarrow> False | Holding _ \<Rightarrow> True)"

text \<open>Exactly the task that the lock names is inside a closure.\<close>

definition exclusive :: "('d, 'r, 'e, 'a) site \<Rightarrow> bool" where
  "exclusive y \<longleftrightarrow> (\<forall>i < length (si_tasks y). is_holding (si_tasks y ! i) \<longleftrightarrow> si_lock y = Some i)"

definition follows :: "('d \<Rightarrow> 'r \<Rightarrow> 's) \<Rightarrow> ('d \<Rightarrow> bool) \<Rightarrow> ('d, 'r, 'e, 'a) site \<Rightarrow> ('s, 'e, 'a) pool \<Rightarrow> bool" where
  "follows J P y c \<longleftrightarrow> exclusive y \<and> length (snd c) = length (si_tasks y) \<and> fst c = J (settled y) (si_rest y) \<and> P (settled y)
     \<and> (\<forall>i < length (si_tasks y). runs_as J P (comes_to (si_tables y) (si_tasks y ! i)) (snd c ! i))"

lemma status_simps [simp]:
  "comes_to d (Idle t) = t" "comes_to d (Holding q) = next_task (fst (execute q d))"
  "is_holding (Idle t) \<longleftrightarrow> False" "is_holding (Holding q) \<longleftrightarrow> True"
  "next_task (Inl t) = t" "next_task (Inr t) = t"
  by (simp_all add: comes_to_def is_holding_def next_task_def)

lemma comes_to_idle: "\<not> is_holding st \<Longrightarrow> comes_to d st = comes_to d' st"
  by (cases st) simp_all

section \<open>Whole closures\<close>

lemma length_locked_turn [simp]: "length (si_tasks (locked_turn i y)) = length (si_tasks y)"
  by (simp add: locked_turn_def split: status.split task.split option.split prog.split)

lemma length_locked_run [simp]: "length (si_tasks (locked_run sched y)) = length (si_tasks y)"
  by (induction sched arbitrary: y) simp_all

text \<open>Mutual exclusion.\<close>

lemma exclusive_turn: "exclusive y \<Longrightarrow> exclusive (locked_turn i y)"
  by (auto simp: exclusive_def locked_turn_def nth_list_update split: status.split task.split option.split prog.split)

lemma followsD:
  assumes "follows J P y (s, ps)"
  shows "exclusive y" and "length ps = length (si_tasks y)" and "s = J (settled y) (si_rest y)" and "P (settled y)"
    and "j < length (si_tasks y) \<Longrightarrow> runs_as J P (comes_to (si_tables y) (si_tasks y ! j)) (ps ! j)"
    and "j < length (si_tasks y) \<Longrightarrow> is_holding (si_tasks y ! j) \<longleftrightarrow> si_lock y = Some j"
  using assms by (simp_all add: follows_def exclusive_def)

text \<open>A turn outside the closures is a turn of the program, or the task waits.\<close>

lemma follows_free:
  assumes y: "follows J P y (s, ps)" and i: "i < length (si_tasks y)" and free: "si_tasks y ! i = Idle (Free u k)"
  shows "follows J P (locked_turn i y) (turn i (s, ps))"
proof -
  note y = followsD [OF y]
  from y(5) [OF i] free obtain u' k' where p: "ps ! i = Atomic u' k'" "\<And>d r. P d \<Longrightarrow> u' (J d r) = J d (u r)"
    "\<And>d r. P d \<Longrightarrow> runs_as J P (k r) (k' (J d r))" by (auto elim: runs_FreeE)
  from y(6) [OF i] free have other: "si_lock y \<noteq> Some i" by simp
  have "settled (locked_turn i y) = settled y"
    using i free other by (auto simp: locked_turn_def settled_def nth_list_update split: option.split status.split)
  then show ?thesis
    using i free other y p by (auto simp: follows_def exclusive_def locked_turn_def nth_list_update)
qed

lemma follows_acquire:
  assumes y: "follows J P y (s, ps)" and i: "i < length (si_tasks y)" and q: "si_tasks y ! i = Idle (Locked q)"
    and lock: "si_lock y = None"
  shows "follows J P (locked_turn i y) (turn i (s, ps))"
proof -
  note y = followsD [OF y]
  from y(5) [OF i] q obtain u' k' where p: "ps ! i = Atomic u' k'" "\<And>d r. P d \<Longrightarrow> u' (J d r) = J (snd (execute (q r) d)) r"
    "\<And>d r. P d \<Longrightarrow> P (snd (execute (q r) d))"
    "\<And>d r. P d \<Longrightarrow> runs_as J P (next_task (fst (execute (q r) d))) (k' (J d r))" by (auto elim: runs_LockedE)
  have "s = J (si_tables y) (si_rest y)" "P (si_tables y)" using y(3,4) lock by (simp_all add: settled_def)
  then show ?thesis
    using i q lock p y by (auto simp: follows_def exclusive_def locked_turn_def nth_list_update settled_def)
qed

text \<open>A statement, and the end of a closure, are no turn of the program: the closure was its one step.\<close>

lemma follows_inside:
  assumes y: "follows J P y (s, ps)" and i: "i < length (si_tasks y)" and q: "si_tasks y ! i = Holding q"
  shows "follows J P (locked_turn i y) (s, ps)"
  unfolding follows_def
proof (intro conjI allI impI)
  note y = followsD [OF y]
  from y(6) [OF i] q have lock: "si_lock y = Some i" by simp
  show "exclusive (locked_turn i y)" by (rule exclusive_turn [OF y(1)])
  show "length (snd (s, ps)) = length (si_tasks (locked_turn i y))"
    using y(2) by simp
  show "fst (s, ps) = J (settled (locked_turn i y)) (si_rest (locked_turn i y))" and "P (settled (locked_turn i y))"
    using i q y(3,4) lock by (cases q; simp add: locked_turn_def settled_def act_simps)+
  fix j
  assume "j < length (si_tasks (locked_turn i y))"
  then have j: "j < length (si_tasks y)" by simp
  show "runs_as J P (comes_to (si_tables (locked_turn i y)) (si_tasks (locked_turn i y) ! j)) (snd (s, ps) ! j)"
  proof (cases "j = i")
    case True
    with i q y(5) [OF i] show ?thesis by (cases q) (simp_all add: locked_turn_def act_simps)
  next
    case False
    with y(6) [OF j] lock have "\<not> is_holding (si_tasks y ! j)" by simp
    moreover from False have "si_tasks (locked_turn i y) ! j = si_tasks y ! j"
      using i q by (cases q) (simp_all add: locked_turn_def)
    ultimately show ?thesis
      using y(5) [OF j] comes_to_idle [of "si_tasks y ! j" "si_tables y" "si_tables (locked_turn i y)"] by simp
  qed
qed

lemma follows_turn:
  assumes "follows J P y c"
  shows "follows J P (locked_turn i y) c \<or> follows J P (locked_turn i y) (turn i c)"
proof (cases "i < length (si_tasks y)")
  case i: True
  obtain s ps where c: "c = (s, ps)" by (cases c)
  show ?thesis
  proof (cases "si_tasks y ! i")
    case (Holding q)
    with follows_inside [of J P y s ps i q] assms i c show ?thesis by simp
  next
    case (Idle t)
    show ?thesis
    proof (cases t)
      case (Ended r)
      with assms i Idle show ?thesis by (simp add: locked_turn_def)
    next
      case (Free u k)
      with follows_free [of J P y s ps i] assms i c Idle show ?thesis by simp
    next
      case (Locked q)
      with follows_acquire [of J P y s ps i] assms i c Idle show ?thesis
        by (cases "si_lock y") (simp_all add: locked_turn_def)
    next
      case (Peek k)
      with followsD(5) [of J P y s ps i] assms i c Idle show ?thesis by (auto elim: runs_PeekE)
    qed
  qed
qed (use assms in \<open>simp add: locked_turn_def\<close>)

lemma follows_run: "follows J P y c \<Longrightarrow> \<exists>sched'. follows J P (locked_run sched y) (pool_run sched' c)"
proof (induction sched arbitrary: y c)
  case Nil
  then show ?case by (intro exI [of _ "[]"]) simp
next
  case (Cons i sched)
  from follows_turn [OF Cons.prems, of i] show ?case
  proof
    assume "follows J P (locked_turn i y) c"
    from Cons.IH [OF this] show ?thesis by simp
  next
    assume "follows J P (locked_turn i y) (turn i c)"
    from Cons.IH [OF this] obtain sched' where "follows J P (locked_run sched (locked_turn i y)) (pool_run sched' (turn i c))"
      by blast
    then show ?thesis by (intro exI [of _ "i # sched'"]) simp
  qed
qed

lemma follows_open:
  "list_all2 (runs_as J P) ts ps \<Longrightarrow> P d \<Longrightarrow> follows J P (open_site d r ts) (J d r, ps)"
  by (auto simp: follows_def open_site_def exclusive_def settled_def list_all2_conv_all_nth)

text \<open>
  Whatever the order of the statements, the answers are those that some order of whole closures gives,
  and when nobody holds the lock so are the tables and the rest.
\<close>

lemma closures_run_whole:
  assumes "list_all2 (runs_as J P) ts ps" and "P d"
  shows "\<exists>sched'. (\<forall>i < length ts. \<forall>x. answer_at (locked_run sched (open_site d r ts)) i = Some x \<longrightarrow>
        result_at (pool_run sched' (J d r, ps)) i = Some x)
    \<and> (si_lock (locked_run sched (open_site d r ts)) = None \<longrightarrow>
        fst (pool_run sched' (J d r, ps)) =
          J (si_tables (locked_run sched (open_site d r ts))) (si_rest (locked_run sched (open_site d r ts))))"
proof -
  let ?y = "locked_run sched (open_site d r ts)"
  have len: "length (si_tasks ?y) = length ts" by (simp add: open_site_def)
  from follows_run [OF follows_open [OF assms]] obtain sched' s qs where
    c: "pool_run sched' (J d r, ps) = (s, qs)" and y: "follows J P ?y (s, qs)" by (metis prod.collapse)
  note y = followsD [OF y]
  have "result_at (s, qs) i = Some x" if "i < length ts" "answer_at ?y i = Some x" for i x
  proof -
    from that(2) have "si_tasks ?y ! i = Idle (Ended x)"
      by (simp add: answer_at_def split: status.splits task.splits)
    with y(5) [of i] that(1) len show ?thesis by (auto simp: result_at_Some elim: runs_as.cases)
  qed
  moreover have "s = J (si_tables ?y) (si_rest ?y)" if "si_lock ?y = None"
    using y(3) that by (simp add: settled_def)
  ultimately show ?thesis using c by (intro exI [of _ sched']) simp
qed

section \<open>The tables between two statements\<close>

text \<open>
  \<open>safe P q d\<close>: run on \<open>d\<close> without interference, as under the lock, \<open>q\<close> keeps \<open>P\<close> after every
  statement. \<open>guarded P t\<close>: so do all closures of the task, whatever its other steps find.
\<close>

primrec safe :: "('d \<Rightarrow> bool) \<Rightarrow> ('d, 'e, 'a) prog \<Rightarrow> 'd \<Rightarrow> bool" where
  "safe P (Done r) d \<longleftrightarrow> P d"
| "safe P (Atomic u k) d \<longleftrightarrow> P d \<and> safe P (k d) (u d)"

inductive guarded :: "('d \<Rightarrow> bool) \<Rightarrow> ('d, 'r, 'e, 'a) task \<Rightarrow> bool" for P where
  guarded_Ended: "guarded P (Ended r)"
| guarded_Free: "(\<And>r. guarded P (k r)) \<Longrightarrow> guarded P (Free u k)"
| guarded_Peek: "(\<And>d. guarded P (k d)) \<Longrightarrow> guarded P (Peek k)"
| guarded_Locked: "(\<And>r d. P d \<Longrightarrow> safe P (q r) d) \<Longrightarrow> (\<And>r x. may_end (q r) x \<Longrightarrow> guarded P (next_task x)) \<Longrightarrow>
     guarded P (Locked q)"

inductive_simps guarded_simps [simp]: "guarded P (Ended r)" "guarded P (Free u k)" "guarded P (Peek k)" "guarded P (Locked q)"

definition status_guarded :: "('d \<Rightarrow> bool) \<Rightarrow> 'd \<Rightarrow> ('d, 'r, 'e, 'a) status \<Rightarrow> bool" where
  "status_guarded P d st =
     (case st of Idle t \<Rightarrow> guarded P t | Holding q \<Rightarrow> safe P q d \<and> (\<forall>x. may_end q x \<longrightarrow> guarded P (next_task x)))"

definition site_safe :: "('d \<Rightarrow> bool) \<Rightarrow> ('d, 'r, 'e, 'a) site \<Rightarrow> bool" where
  "site_safe P y \<longleftrightarrow> exclusive y \<and> P (si_tables y)
     \<and> (\<forall>i < length (si_tasks y). status_guarded P (si_tables y) (si_tasks y ! i))"

lemma safe_now: "safe P q d \<Longrightarrow> P d"
  by (cases q) simp_all

lemma status_guarded_simps [simp]:
  "status_guarded P d (Idle t) \<longleftrightarrow> guarded P t"
  "status_guarded P d (Holding q) \<longleftrightarrow> safe P q d \<and> (\<forall>x. may_end q x \<longrightarrow> guarded P (next_task x))"
  by (simp_all add: status_guarded_def)

lemma status_guarded_idle: "\<not> is_holding st \<Longrightarrow> status_guarded P d st = status_guarded P d' st"
  by (cases st) simp_all

text \<open>Only the task that holds the lock changes the tables, and it keeps \<open>P\<close>.\<close>

lemma site_safe_statement:
  assumes y: "site_safe P y" and i: "i < length (si_tasks y)" and q: "si_tasks y ! i = Holding q"
  shows "site_safe P (locked_turn i y)"
  unfolding site_safe_def
proof (intro conjI allI impI)
  have y: "exclusive y" "P (si_tables y)" "\<And>j. j < length (si_tasks y) \<Longrightarrow> status_guarded P (si_tables y) (si_tasks y ! j)"
    using y by (simp_all add: site_safe_def)
  have lock: "si_lock y = Some i" using y(1) i q by (auto simp: exclusive_def)
  have here: "safe P q (si_tables y)" "\<And>x. may_end q x \<Longrightarrow> guarded P (next_task x)" using y(3) [OF i] q by simp_all
  show "exclusive (locked_turn i y)" by (rule exclusive_turn [OF y(1)])
  show "P (si_tables (locked_turn i y))"
    using i q here(1) y(2) by (cases q) (auto simp: locked_turn_def dest: safe_now)
  fix j
  assume "j < length (si_tasks (locked_turn i y))"
  then have j: "j < length (si_tasks y)" by simp
  show "status_guarded P (si_tables (locked_turn i y)) (si_tasks (locked_turn i y) ! j)"
  proof (cases "j = i")
    case True
    with i q here show ?thesis by (cases q) (auto simp: locked_turn_def)
  next
    case False
    with y(1) lock j have "\<not> is_holding (si_tasks y ! j)" by (auto simp: exclusive_def)
    moreover from False have "si_tasks (locked_turn i y) ! j = si_tasks y ! j"
      using i q by (cases q) (simp_all add: locked_turn_def)
    ultimately show ?thesis
      using y(3) [OF j] status_guarded_idle [of "si_tasks y ! j" P "si_tables y" "si_tables (locked_turn i y)"] by simp
  qed
qed

lemma site_safe_turn:
  assumes y: "site_safe P y"
  shows "site_safe P (locked_turn i y)"
proof (cases "i < length (si_tasks y) \<and> is_holding (si_tasks y ! i)")
  case True
  with site_safe_statement [OF y, of i] show ?thesis by (cases "si_tasks y ! i") simp_all
next
  case False
  have "si_tables (locked_turn i y) = si_tables y"
    using False by (auto simp: locked_turn_def split: status.split task.split option.split prog.split)
  moreover have "status_guarded P (si_tables y) (si_tasks (locked_turn i y) ! j)" if "j < length (si_tasks y)" for j
  proof (cases "i < length (si_tasks y)")
    case True
    with False y have "guarded P (comes_to (si_tables y) (si_tasks y ! i))"
      by (cases "si_tasks y ! i") (auto simp: site_safe_def)
    with True False y that show ?thesis
      by (auto simp: site_safe_def locked_turn_def nth_list_update split: status.split task.split option.split)
  qed (use y that in \<open>simp add: locked_turn_def site_safe_def\<close>)
  ultimately show ?thesis using y exclusive_turn [of y i] by (simp add: site_safe_def)
qed

lemma site_safe_run: "site_safe P y \<Longrightarrow> site_safe P (locked_run sched y)"
  by (induction sched arbitrary: y) (simp_all add: site_safe_turn)

lemma tables_safe:
  assumes "\<forall>t \<in> set ts. guarded P t" and "P d"
  shows "P (si_tables (locked_run sched (open_site d r ts)))"
proof -
  have "site_safe P (open_site d r ts)"
    using assms by (simp add: site_safe_def open_site_def exclusive_def)
  from site_safe_run [OF this] show ?thesis by (simp add: site_safe_def)
qed

lemma safe_with_result [simp]: "safe P (with_result g q) d = safe P q d"
  by (induction q arbitrary: d) (simp_all add: with_result.simps)

lemma guarantees_safe: "guarantees (\<lambda>d d'. P d \<longrightarrow> P d') q \<Longrightarrow> P d \<Longrightarrow> safe P q d"
  by (induction q arbitrary: d) auto

text \<open>Nobody waits for ever: a closure needs only turns of its own task to end and give the lock back.\<close>

lemma lock_released:
  "i < length (si_tasks y) \<Longrightarrow> si_tasks y ! i = Holding q \<Longrightarrow>
     locked_run (replicate (Suc (steps_alone q (si_tables y))) i) y =
       y\<lparr> si_tables := snd (execute q (si_tables y)), si_lock := None,
         si_tasks := (si_tasks y)[i := Idle (next_task (fst (execute q (si_tables y))))] \<rparr>"
proof (induction q arbitrary: y)
  case (Atomic u k)
  let ?y = "y\<lparr> si_tables := u (si_tables y), si_tasks := (si_tasks y)[i := Holding (k (si_tables y))] \<rparr>"
  have "locked_run (replicate (Suc (steps_alone (k (si_tables y)) (si_tables ?y))) i) ?y =
      ?y\<lparr> si_tables := snd (execute (k (si_tables y)) (si_tables ?y)), si_lock := None,
        si_tasks := (si_tasks ?y)[i := Idle (next_task (fst (execute (k (si_tables y)) (si_tables ?y))))] \<rparr>"
    by (rule Atomic.IH) (use Atomic.prems in simp_all)
  with Atomic.prems show ?case by (simp add: locked_turn_def)
qed (simp add: locked_turn_def act_simps)

end
