(* ===== verification/Restarts.thy ===== *)
theory Restarts
  imports Concurrent_Safety
begin

text \<open>
  The lives of a server over one database file (\<open>AppState::new\<close> in \<open>src/api/state.rs\<close>): requests run
  concurrently until a crash at any moment, the next process starts from the tables, and so on. The
  tables carry over; the session store, the pending logins and the in-memory revocations start anew.
\<close>

section \<open>Starting on an existing database\<close>

lemma run_startsE:
  assumes "run X E debug_build dev_var admin_var cfg (Some d0) fs = Inr s"
  obtains d eng where "create_default_policy X E (e_now E 0) (e_uuid E 0) d0 = (Inr (), d)" "st_db s = d"
    "fst (build_engine X E cfg d) = Inr eng" "st_policy_engine s = eng" "st_session_store s = new_store"
    "st_pkce_store s = []" "tv_jti_store (st_token_verifier s) = {}"
  using assms
  by (auto simp: run_def new_app_def open_database_def migrate_def verifier_from_pem_def
      split: sum.splits prod.splits option.splits)

text \<open>Starting is the one operation \<open>create_default_policy\<close> on the tables.\<close>

lemma run_tables:
  assumes "run X E debug_build dev_var admin_var cfg (Some d) fs = Inr s"
  shows "st_db s = db_step X (PolicyOp (DefaultPolicy E (e_now E 0) (e_uuid E 0))) d"
  using assms by (rule run_startsE) simp

lemma run_well_formed:
  assumes "run X E debug_build dev_var admin_var cfg (Some d) fs = Inr s" and "db_ok X d" and "uuid_rt X"
  shows "app_ok X s"
proof -
  have "db_ok X (st_db s)"
    unfolding run_tables [OF assms(1)] by (rule db_ok_step [OF assms(2) _ assms(3)]) simp
  with run_startsE [OF assms(1)] show ?thesis
    by (metis app_ok_def build_engine_sessions prod.collapse store_ok_new)
qed

section \<open>Lives\<close>

definition storable_times :: "ext \<Rightarrow> arrival list \<Rightarrow> bool" where
  "storable_times X as \<longleftrightarrow> (\<forall>a \<in> set as. \<forall>k. time_rt X (e_now (ar_env a) k))"

text \<open>Some turns of concurrent requests, after which the process may be killed; or a start of the next process.\<close>

inductive lives_on :: "web \<Rightarrow> ext \<Rightarrow> app_state \<Rightarrow> app_state \<Rightarrow> bool" for W X where
  served: "storable_times X as \<Longrightarrow> lives_on W X s (moment (server_pool W X as s) sched j)"
| restarted: "run X E debug_build dev_var admin_var cfg (Some (st_db s)) fs = Inr s' \<Longrightarrow> lives_on W X s s'"

lemma db_remembers_refl: "db_remembers d d"
  by (simp add: db_remembers_def)

lemma db_remembers_trans: "db_remembers a b \<Longrightarrow> db_remembers b c \<Longrightarrow> db_remembers a c"
  by (auto simp: db_remembers_def)

lemma remembers_tables: "remembers s t \<Longrightarrow> db_remembers (st_db s) (st_db t)"
  by (auto simp: remembers_def db_remembers_def)

lemma lives_on_well_formed:
  assumes "lives_on W X s s'" and "app_ok X s" and "uuid_rt X" and "chains_rt X"
  shows "app_ok X s'"
  using assms(1)
proof cases
  case (served as sched j)
  then show ?thesis
    using app_steps_ok [OF steps_from_start assms(2-4)] by (simp add: storable_times_def)
next
  case (restarted E debug_build dev_var admin_var cfg fs)
  from assms(2) have "db_ok X (st_db s)" by (simp add: app_ok_def)
  with run_well_formed [OF restarted _ assms(3)] show ?thesis .
qed

lemma lives_on_remembers: "lives_on W X s s' \<Longrightarrow> db_remembers (st_db s) (st_db s')"
proof (induction rule: lives_on.induct)
  case (served as s sched j)
  show ?case by (rule remembers_tables [OF app_steps_remember [OF steps_from_start]])
next
  case (restarted E debug_build dev_var admin_var cfg s fs s')
  show ?case unfolding run_tables [OF restarted] by (rule db_remembers_step)
qed


section \<open>What does not survive\<close>

lemma verify_without_revocations:
  assumes "verify X v now now' tok aud = Inr c" and "tv_decoding_key w = tv_decoding_key v"
    and "tv_issuer w = tv_issuer v" and "tv_jti_store w = {}"
  shows "verify X w now now' tok aud = Inr c"
  using assms by (auto simp: verify_def split: sum.splits if_splits)

text \<open>
  C20: a restart undoes a revocation and a stop: when a token verifies and is then revoked by its id,
  the next process, with the same keys and issuer, accepts it again although its row says revoked; and
  no agent that was stopped is stopped there.
\<close>

theorem restart_accepts_revoked_token:
  assumes "verify X (st_token_verifier s) now now' tok aud = Inr c"
    and "revoke_token_route E (cl_jti c) s = (Inr j, s1)"
    and "run X E' debug_build dev_var admin_var cfg (Some (st_db s1)) fs = Inr s'"
    and "tv_decoding_key (st_token_verifier s') = tv_decoding_key (st_token_verifier s)"
    and "tv_issuer (st_token_verifier s') = tv_issuer (st_token_verifier s)"
  shows "verify X (st_token_verifier s') now now' tok aud = Inr c
    \<and> (\<forall>t \<in> set (d_tokens (st_db s')). tor_id t = cl_jti c \<longrightarrow> tor_revoked t = 1)
    \<and> \<not> agent_stopped a s'"
proof (intro conjI)
  from assms(3) have empty: "tv_jti_store (st_token_verifier s') = {}" "st_session_store s' = new_store"
    by (auto elim: run_startsE)
  show "verify X (st_token_verifier s') now now' tok aud = Inr c"
    by (rule verify_without_revocations [OF assms(1,4,5) empty(1)])
  show "\<not> agent_stopped a s'"
    using empty(2) by (simp add: agent_stopped_def is_agent_killed_def new_store_def)
  have "d_tokens (st_db s') = d_tokens (st_db s1)"
    unfolding run_tables [OF assms(3)] by (simp only: db_step.simps, subst policy_step_frame) simp
  with assms(2) show "\<forall>t \<in> set (d_tokens (st_db s')). tor_id t = cl_jti c \<longrightarrow> tor_revoked t = 1"
    by (auto simp: revoke_token_route_def act_simps revoke_token_def mark_token_def update_where_def split: option.splits)
qed

end
