(* ===== verification/Statements.thy ===== *)
theory Statements
  imports Write_Lock Restarts
begin

text \<open>
  The two write closures of \<open>src/db/mod.rs\<close> with more than one statement that changes a table,
  \<open>create_policy\<close> and \<open>revoke_grant\<close>, statement by statement, in the tasks of the requests that run
  them (\<open>src/api/routes.rs\<close>). SQLite commits each statement on its own. What one connection promises,
  what a crash between two statements leaves, and what the pool of read connections lets through.
\<close>

section \<open>Closures and reads\<close>

definition with_tables :: "db \<Rightarrow> app_state \<Rightarrow> app_state" where
  "with_tables d s = s\<lparr> st_db := d \<rparr>"

type_synonym 'a app_task = "(db, app_state, fail, 'a) task"

text \<open>\<open>spawn_write\<close>: the closure runs under the mutex, unless its task fails first.\<close>

definition write_task :: "env \<Rightarrow> db_call \<Rightarrow> (db, fail, 'x) prog \<Rightarrow> (fail + 'x \<Rightarrow> 'a app_task) \<Rightarrow> 'a app_task" where
  "write_task E call q k =
     Locked (\<lambda>_. with_result (\<lambda>x. Inr (k x))
       (case e_fault E call of Some msg \<Rightarrow> Done (Inl (Err (DatabaseError msg))) | None \<Rightarrow> q))"

text \<open>\<open>spawn_read\<close>: on a connection of the pool if there is one, else under the mutex as well.\<close>

definition read_task :: "bool \<Rightarrow> (db \<Rightarrow> fail + 'x) \<Rightarrow> (fail + 'x \<Rightarrow> 'a app_task) \<Rightarrow> 'a app_task" where
  "read_task pooled f k =
     (if pooled then Peek (\<lambda>d. k (f d)) else Locked (\<lambda>_. with_result (\<lambda>x. Inr (k x)) (atomically (\<lambda>d. (f d, d)))))"

section \<open>The statements\<close>

definition create_policy_statements ::
    "ext \<Rightarrow> env \<Rightarrow> time \<Rightarrow> uuid \<Rightarrow> string \<Rightarrow> string \<Rightarrow> string \<Rightarrow> (db, fail, unit) prog" where
  "create_policy_statements X E now u name engine yaml =
     prog_then (atomically (modify (deprecate_active X now))) (\<lambda>_.
       atomically (spawn_write E CallInsertPolicy (insert_policy X (new_policy_row X now u name engine yaml))))"

fun revoke_statements :: "ext \<Rightarrow> (string \<Rightarrow> time) \<Rightarrow> nat \<Rightarrow> uuid \<Rightarrow> (db, fail, uuid list) prog"
and children_statements :: "ext \<Rightarrow> (string \<Rightarrow> time) \<Rightarrow> nat \<Rightarrow> string list \<Rightarrow> (db, fail, uuid list) prog" where
  "revoke_statements X clock 0 i = Done (Inl (Panic ''stack overflow''))"
| "revoke_statements X clock (Suc n) i =
     prog_then (atomically (modify (mark_revoked X clock (x_uuid_str X i)))) (\<lambda>_.
     prog_then (look (live_children (x_uuid_str X i))) (\<lambda>children.
     prog_then (children_statements X clock n children) (\<lambda>revoked.
       finish (i # revoked))))"
| "children_statements X clock n [] = finish []"
| "children_statements X clock n (s # ss) =
     (case x_uuid_parse X s of
        None \<Rightarrow> children_statements X clock n ss
      | Some child \<Rightarrow>
          prog_then (revoke_statements X clock n child) (\<lambda>revoked.
          prog_then (children_statements X clock n ss) (\<lambda>revoked'.
            finish (revoked @ revoked'))))"

text \<open>The bound on the depth is that of \<open>revoke_grant_sync\<close>; it is never reached.\<close>

definition revoke_grant_statements :: "ext \<Rightarrow> (string \<Rightarrow> time) \<Rightarrow> uuid \<Rightarrow> (db, fail, uuid list) prog" where
  "revoke_grant_statements X clock i =
     prog_then (look (\<lambda>d. length (d_grants d) + 2)) (\<lambda>n. revoke_statements X clock n i)"

section \<open>The requests\<close>

text \<open>\<open>reload_policy\<close>, whose errors the handlers report as configuration errors; then the task goes on.\<close>

definition reload_task :: "bool \<Rightarrow> ext \<Rightarrow> env \<Rightarrow> 'a app_task \<Rightarrow> 'a app_task" where
  "reload_task pooled X E t =
     Free id (\<lambda>s.
       read_task pooled (\<lambda>d. fst (build_engine X E (st_config s) d)) (\<lambda>built.
         case config_error_of built of
           Inl e \<Rightarrow> Ended (Inl e)
         | Inr engine \<Rightarrow> Free (\<lambda>s. s\<lparr> st_policy_engine := engine \<rparr>) (\<lambda>_. t)))"

definition policy_task :: "bool \<Rightarrow> ext \<Rightarrow> env \<Rightarrow> create_policy_request \<Rightarrow> json app_task" where
  "policy_task pooled X E req =
     write_task E CallCreatePolicy (create_policy_statements X E (e_now E 0) (e_uuid E 0) (cpo_name req) (cpo_engine req)
         (cpo_definition req)) (\<lambda>created.
       case created of
         Inl e \<Rightarrow> Ended (Inl e)
       | Inr _ \<Rightarrow>
           reload_task pooled X E (Ended (Inr (JObj [(''reloaded'', JBool True), (''status'', JStr ''created'')]))))"

definition revocation_json :: "ext \<Rightarrow> uuid list \<Rightarrow> json" where
  "revocation_json X revoked =
     JObj [(''count'', JInt (int (length revoked))), (''revoked_grants'', JArr (map (uuid_json X) revoked))]"

definition revocation_task :: "ext \<Rightarrow> env \<Rightarrow> uuid \<Rightarrow> json app_task" where
  "revocation_task X E i =
     write_task E CallRevokeGrant (revoke_grant_statements X (e_grant_clock E) i) (\<lambda>r.
       Ended (map_sum id (revocation_json X) r))"

datatype closure_request = NewPolicy env create_policy_request | Revocation env uuid bool

primrec request_task :: "bool \<Rightarrow> ext \<Rightarrow> closure_request \<Rightarrow> json app_task" where
  "request_task pooled X (NewPolicy E req) = policy_task pooled X E req"
| "request_task pooled X (Revocation E i cascade) = revocation_task X E i"

primrec closure_prog :: "ext \<Rightarrow> closure_request \<Rightarrow> json program" where
  "closure_prog X (NewPolicy E req) = create_policy_prog X E req"
| "closure_prog X (Revocation E i cascade) = atomically (revoke_grant_route X E i cascade)"

section \<open>Run without interference they are the closures\<close>

lemma execute_create_policy_statements:
  "e_fault E CallCreatePolicy = None \<Longrightarrow>
     execute (create_policy_statements X E now u name engine yaml) = create_policy X E now u name engine yaml"
  by (rule ext) (simp add: create_policy_statements_def create_policy_def prog_simps act_simps)

lemma execute_revoke_statements:
  "revoke_fuel X clock n i d = Some (rs, d') \<Longrightarrow> execute (revoke_statements X clock n i) d = (Inr rs, d')"
  "revoke_children X clock n ss d = Some (rs, d') \<Longrightarrow> execute (children_statements X clock n ss) d = (Inr rs, d')"
  by (induction X clock n i d and X clock n ss d arbitrary: rs d' and rs d' rule: revoke_fuel_revoke_children.induct)
    (auto simp: Let_def prog_simps act_simps split: option.splits)

lemma execute_revoke_grant_statements:
  assumes "uuid_rt X" and "grant_ids_ok X d"
  shows "execute (revoke_grant_statements X clock i) d = revoke_grant_sync X clock i d"
  using revoke_fuel_enough [OF assms, of clock i]
  by (auto simp: revoke_grant_statements_def revoke_grant_sync_def prog_simps act_simps execute_revoke_statements
      simp del: revoke_fuel.simps revoke_statements.simps)

section \<open>One connection\<close>

lemma with_tables_simps [simp]:
  "st_db (with_tables d s) = d" "with_tables d (with_tables d' s) = with_tables d s" "with_tables (st_db s) s = s"
  "st_config (with_tables d s) = st_config s" "(with_tables d s)\<lparr> st_db := d' \<rparr> = with_tables d' s"
  "(with_tables d s)\<lparr> st_policy_engine := eng \<rparr> = with_tables d (s\<lparr> st_policy_engine := eng \<rparr>)"
  by (simp_all add: with_tables_def)

lemma runs_write:
  fixes k :: "fail + 'x \<Rightarrow> 'a app_task"
  assumes "\<And>d. P d \<Longrightarrow> (case e_fault E call of Some msg \<Rightarrow> (Inl (Err (DatabaseError msg)), d) | None \<Rightarrow> execute q d) = m d"
    and "\<And>d. P d \<Longrightarrow> P (snd (m d))" and "\<And>d s. P d \<Longrightarrow> runs_as with_tables P (k (fst (m d))) (k' (with_tables d s))"
    and "\<And>d s. P d \<Longrightarrow> u' (with_tables d s) = with_tables (snd (m d)) s"
  shows "runs_as with_tables P (write_task E call q k) (Atomic u' k')"
proof -
  let ?q = "\<lambda>_. with_result (\<lambda>x. Inr (k x) :: 'a app_task + 'a app_task) (case e_fault E call of Some msg \<Rightarrow> Done (Inl (Err (DatabaseError msg))) | None \<Rightarrow> q)"
  have "execute (?q s) d = (Inr (k (fst (m d))), snd (m d))" if "P d" for d and s :: app_state
    using assms(1) [OF that] by (cases "m d") (auto simp: execute_with_result act_simps split: option.splits)
  with assms(2-4) show ?thesis unfolding write_task_def by (intro runs_Locked) simp_all
qed

lemma runs_read:
  assumes "\<And>d s. P d \<Longrightarrow> runs_as with_tables P (k (f d)) (k' (with_tables d s))"
    and "\<And>s. u' s = s"
  shows "runs_as with_tables P (read_task False f k) (Atomic u' k')"
  unfolding read_task_def if_False
  by (rule runs_Locked) (simp_all add: execute_with_result execute_atomically assms)

text \<open>The steps of the programs, spelled out.\<close>

lemma prog_steps:
  "prog_then (atomically (on_db m)) f = Atomic (\<lambda>s. with_tables (snd (m (st_db s))) s)
     (\<lambda>s. case fst (m (st_db s)) of Inl e \<Rightarrow> Done (Inl e) | Inr x \<Rightarrow> f x)"
  "prog_then (look g) f' = Atomic (\<lambda>s. s) (\<lambda>s. f' (g s))"
  by (auto simp: atomically_def look_def reading_def prog_then.simps on_db_def with_tables_def fun_eq_iff split: prod.split)

lemma reload_steps:
  "prog_then (with_result config_error_of (reload_policy_prog X E)) (\<lambda>_. p) = Atomic (\<lambda>s. s) (\<lambda>s.
     Atomic (\<lambda>t. with_tables (snd (build_engine X E (st_config s) (st_db t))) t) (\<lambda>t.
       case config_error_of (fst (build_engine X E (st_config s) (st_db t))) of
         Inl e \<Rightarrow> Done (Inl e)
       | Inr engine \<Rightarrow> Atomic (\<lambda>s. s\<lparr> st_policy_engine := engine \<rparr>) (\<lambda>_. p)))"
  unfolding reload_policy_prog_def prog_steps with_result.simps prog_then.simps
  by (auto simp: with_result.simps prog_then.simps atomically_def modify_def fun_eq_iff config_error_of_def
      split: sum.split fail.split)

lemma build_engine_tables [simp]: "snd (build_engine X E cfg d) = d"
  by (cases "build_engine X E cfg d") (auto dest: build_engine_state)

lemma runs_reload:
  "runs_as with_tables P (reload_task False X E (Ended (Inr x)))
     (prog_then (with_result config_error_of (reload_policy_prog X E)) (\<lambda>_. finish x))"
  unfolding reload_task_def reload_steps
  by (intro runs_Free runs_read) (auto simp: finish_def intro!: runs_Ended runs_Free split: sum.split)

lemma runs_policy:
  assumes "uuid_rt X"
  shows "runs_as with_tables (db_ok X) (policy_task False X E req) (create_policy_prog X E req)"
  unfolding policy_task_def create_policy_prog_def prog_steps
proof (rule runs_write [where m = "create_policy X E (e_now E 0) (e_uuid E 0) (cpo_name req) (cpo_engine req) (cpo_definition req)"])
  fix d s
  let ?m = "create_policy X E (e_now E 0) (e_uuid E 0) (cpo_name req) (cpo_engine req) (cpo_definition req)"
  show "db_ok X d \<Longrightarrow> db_ok X (snd (?m d))"
    using db_ok_step [of X d "PolicyOp (policy_op.CreatePolicy E (e_now E 0) (e_uuid E 0) (cpo_name req) (cpo_engine req)
      (cpo_definition req))"] assms by simp
  show "(case e_fault E CallCreatePolicy of None \<Rightarrow> execute (create_policy_statements X E (e_now E 0) (e_uuid E 0)
        (cpo_name req) (cpo_engine req) (cpo_definition req)) d
      | Some msg \<Rightarrow> (Inl (Err (DatabaseError msg)), d)) = ?m d"
    by (cases "e_fault E CallCreatePolicy") (simp_all add: execute_create_policy_statements, simp add: create_policy_def act_simps)
qed (auto split: sum.split intro: runs_Ended runs_reload)

lemma runs_revocation:
  assumes "uuid_rt X"
  shows "runs_as with_tables (db_ok X) (revocation_task X E i) (atomically (revoke_grant_route X E i cascade))"
  unfolding revocation_task_def atomically_def
proof (rule runs_write [where m = "revoke_grant X E (e_grant_clock E) i"])
  fix d s
  let ?m = "revoke_grant X E (e_grant_clock E) i"
  show "db_ok X d \<Longrightarrow> db_ok X (snd (?m d))"
    using db_ok_step [of X d "RevokeGrantOp E (e_grant_clock E) i"] assms by simp
  show "(case e_fault E CallRevokeGrant of None \<Rightarrow> execute (revoke_grant_statements X (e_grant_clock E) i) d
      | Some msg \<Rightarrow> (Inl (Err (DatabaseError msg)), d)) = ?m d" if "db_ok X d"
    using that assms by (cases "e_fault E CallRevokeGrant")
      (simp_all add: execute_revoke_grant_statements revoke_grant_def act_simps db_ok_def)
  have route: "revoke_grant_route X E i cascade (with_tables d s) =
      (map_sum id (revocation_json X) (fst (?m d)), with_tables (snd (?m d)) s)"
    by (cases "?m d") (auto simp: revoke_grant_route_def act_simps revocation_json_def split: sum.split)
  then show "snd (revoke_grant_route X E i cascade (with_tables d s)) = with_tables (snd (?m d)) s" by simp
  from route show "runs_as with_tables (db_ok X) (Ended (map_sum id (revocation_json X) (fst (?m d))))
      (Done (fst (revoke_grant_route X E i cascade (with_tables d s))))" by (simp add: runs_Ended)
qed

lemma runs_request: "uuid_rt X \<Longrightarrow> runs_as with_tables (db_ok X) (request_task False X req) (closure_prog X req)"
  by (cases req) (simp_all add: runs_policy runs_revocation)

text \<open>
  C12: with one connection the statements of policy creations and cascading revocations may be
  interleaved with everything else in any order: each answer is one that some order of whole closures
  gives, and whenever nobody holds the lock the whole state is the one of that order.
\<close>

theorem statements_run_whole:
  assumes "uuid_rt X" and "db_ok X (st_db s)"
  shows "\<exists>sched'. (\<forall>i < length reqs. \<forall>x.
        answer_at (locked_run sched (open_site (st_db s) s (map (request_task False X) reqs))) i = Some x \<longrightarrow>
        result_at (pool_run sched' (s, map (closure_prog X) reqs)) i = Some x)
    \<and> (si_lock (locked_run sched (open_site (st_db s) s (map (request_task False X) reqs))) = None \<longrightarrow>
        fst (pool_run sched' (s, map (closure_prog X) reqs)) =
          with_tables (si_tables (locked_run sched (open_site (st_db s) s (map (request_task False X) reqs))))
            (si_rest (locked_run sched (open_site (st_db s) s (map (request_task False X) reqs)))))"
proof -
  have "list_all2 (runs_as with_tables (db_ok X)) (map (request_task False X) reqs) (map (closure_prog X) reqs)"
    using runs_request [OF assms(1)] by (simp add: list_all2_conv_all_nth)
  from closures_run_whole [OF this assms(2), of sched s] show ?thesis by simp
qed

section \<open>A crash between two statements\<close>

lemma guarded_write:
  assumes "\<And>d. P d \<Longrightarrow> safe P q d" and "\<And>x. guarded P (k x)"
  shows "guarded P (write_task E call q k)"
  using assms by (auto simp: write_task_def may_end_with_result split: option.split)

lemma guarded_read: "(\<And>x. guarded P (k x)) \<Longrightarrow> guarded P (read_task pooled f k)"
  by (auto simp: read_task_def atomically_def with_result.simps)

lemma guarded_reload: "guarded P t \<Longrightarrow> guarded P (reload_task pooled X E t)"
  by (auto simp: reload_task_def intro!: guarded_read split: sum.split)

lemma revoke_statements_guarantee:
  "(\<And>d s. P d \<Longrightarrow> P (mark_revoked X clock s d)) \<Longrightarrow> guarantees (\<lambda>d d'. P d \<longrightarrow> P d') (revoke_statements X clock n i)"
  "(\<And>d s. P d \<Longrightarrow> P (mark_revoked X clock s d)) \<Longrightarrow> guarantees (\<lambda>d d'. P d \<longrightarrow> P d') (children_statements X clock n ss)"
  by (induction X clock n i and X clock n ss rule: revoke_statements_children_statements.induct)
    (auto intro!: guarantees_then guarantees_atomically simp: look_def reading_def act_simps split: option.split)

lemma guarded_revocation:
  assumes "\<And>clock d s. P d \<Longrightarrow> P (mark_revoked X clock s d)"
  shows "guarded P (revocation_task X E i)"
proof -
  have "guarantees (\<lambda>d d'. P d \<longrightarrow> P d') (revoke_grant_statements X clock i)" for clock
    unfolding revoke_grant_statements_def
    by (intro guarantees_then revoke_statements_guarantee assms)
      (simp_all add: look_def reading_def guarantees_atomically)
  then show ?thesis unfolding revocation_task_def by (intro guarded_write guarantees_safe) simp_all
qed

text \<open>After the first statement there is no active policy, after the second there is one.\<close>

lemma guarded_policy:
  assumes "\<And>d p. P d \<Longrightarrow> one_active (d\<lparr> d_policies := p \<rparr>) \<Longrightarrow> P (d\<lparr> d_policies := p \<rparr>)"
  shows "guarded P (policy_task pooled X E req)"
  unfolding policy_task_def
proof (rule guarded_write)
  fix d
  assume P: "P d"
  let ?row = "new_policy_row X (e_now E 0) (e_uuid E 0) (cpo_name req) (cpo_engine req) (cpo_definition req)"
  let ?d = "deprecate_active X (e_now E 0) d"
  have "P ?d"
    unfolding deprecate_active_def by (intro assms P)
      (simp add: one_active_def filter_deprecated [unfolded deprecate_active_def, simplified])
  moreover have "P (snd (spawn_write E CallInsertPolicy (insert_policy X ?row) ?d))"
  proof (cases "spawn_write E CallInsertPolicy (insert_policy X ?row) ?d")
    case (Pair r d')
    show ?thesis
    proof (cases "d' = ?d")
      case False
      with Pair have "d' = ?d\<lparr> d_policies := d_policies ?d @ [?row] \<rparr>"
        by (auto simp: act_simps insert_policy_def insert_row_def split: option.splits if_splits)
      moreover have "P (?d\<lparr> d_policies := d_policies ?d @ [?row] \<rparr>)"
        by (intro assms \<open>P ?d\<close>) (simp add: one_active_def)
      ultimately show ?thesis using Pair by simp
    qed (use Pair \<open>P ?d\<close> in simp)
  qed
  ultimately show "safe P (create_policy_statements X E (e_now E 0) (e_uuid E 0) (cpo_name req) (cpo_engine req)
      (cpo_definition req)) d"
    using P by (simp add: create_policy_statements_def atomically_def prog_then.simps modify_def)
qed (simp add: guarded_reload split: sum.split)

lemma guarded_request:
  "guarded (\<lambda>d. db_ok X d \<and> db_remembers d0 d) (request_task pooled X req)"
proof (cases req)
  case (NewPolicy E r)
  show ?thesis
    unfolding NewPolicy request_task.simps
    by (rule guarded_policy) (auto intro: db_ok_tables(2) db_remembers_trans [OF _ db_remembers_frames(1)])
next
  case (Revocation E i cascade)
  have "db_ok X (mark_revoked X clock s d)" if "db_ok X d" for clock s d
    using db_ok_revoked [OF that] by (simp add: mark_revoked_set)
  moreover have "db_remembers d0 (mark_revoked X clock s d)" if "db_remembers d0 d" for clock s d
    using that unfolding mark_revoked_def by (rule db_remembers_trans [OF _ db_remembers_frames(3)])
  ultimately show ?thesis unfolding Revocation request_task.simps by (intro guarded_revocation) simp
qed


text \<open>
  After the first statement of \<open>create_policy\<close> no policy is active, so the start that follows a crash
  there activates the policy that denies everything.
\<close>

lemma crash_loses_policy:
  assumes "run X E debug_build dev_var admin_var cfg (Some (deprecate_active X now d)) fs = Inr s"
  shows "active_policy (st_db s) = Some (new_policy_row X (e_now E 0) (e_uuid E 0) ''default'' ''yaml'' default_policy_yaml)"
proof -
  obtain d' where d': "create_default_policy X E (e_now E 0) (e_uuid E 0) (deprecate_active X now d) = (Inr (), d')"
    and s: "st_db s = d'" by (rule run_startsE [OF assms])
  from d' have "filter is_active (d_policies d') =
      [new_policy_row X (e_now E 0) (e_uuid E 0) ''default'' ''yaml'' default_policy_yaml]"
    by (auto simp: create_default_policy_def create_default_policy_sync_def act_simps changes_def insert_policy_Inr
        split: option.splits)
  then show ?thesis by (simp add: s active_policy_single)
qed

section \<open>The pool of read connections\<close>

lemma create_policy_InrD:
  assumes "create_policy X E now u name engine yaml d = (Inr (), d')"
  shows "e_fault E CallCreatePolicy = None"
    and "spawn_write E CallInsertPolicy (insert_policy X (new_policy_row X now u name engine yaml)) (deprecate_active X now d) =
      (Inr (), d')"
  using assms by (simp_all add: create_policy_def act_simps split: option.splits)

lemma no_active_policy_engine:
  assumes "build_engine X E cfg d = (Inr eng, d'')"
  shows "build_engine X E cfg (deprecate_active X now d') = (Inr (with_session_store new_engine), deprecate_active X now d')"
  using assms
  by (auto simp: build_engine_def act_simps load_active_policy_yaml_def active_policy_def order_desc_def
      create_engine_with_sessions_def split: option.splits sum.splits if_splits)

text \<open>
  C19: with the pool of read connections two policies created at the same time can both be answered as
  created, the second one active in the table, and leave an engine without any rule in force, which
  denies every request: the first request reloads the engine while the second is between its two
  statements and finds no active policy.
\<close>

theorem pooled_read_leaves_no_rules:
  assumes "create_policy_route X E1 req1 s = (Inr answer1, s1)" and "create_policy_route X E2 req2 s1 = (Inr answer2, s2)"
  shows "\<exists>sched y. locked_run sched (open_site (st_db s) s [policy_task True X E1 req1, policy_task True X E2 req2]) = y
    \<and> answer_at y 0 = Some (Inr answer1) \<and> answer_at y 1 = Some (Inr answer2) \<and> si_lock y = None \<and> si_tables y = st_db s2
    \<and> (\<forall>now ctx st. ev_decision (fst (evaluate X (st_policy_engine (si_rest y)) now ctx st)) = Deny)"
proof -
  from assms(1) obtain d1 eng1 where one: "create_policy X E1 (e_now E1 0) (e_uuid E1 0) (cpo_name req1) (cpo_engine req1)
      (cpo_definition req1) (st_db s) = (Inr (), d1)" "build_engine X E1 (st_config s) d1 = (Inr eng1, d1)"
    "answer1 = JObj [(''reloaded'', JBool True), (''status'', JStr ''created'')]" "s1 = s\<lparr> st_db := d1, st_policy_engine := eng1 \<rparr>"
    by (rule create_policy_route_InrE)
  from assms(2) obtain d2 eng2 where two: "create_policy X E2 (e_now E2 0) (e_uuid E2 0) (cpo_name req2) (cpo_engine req2)
      (cpo_definition req2) (st_db s1) = (Inr (), d2)" "build_engine X E2 (st_config s1) d2 = (Inr eng2, d2)"
    "answer2 = JObj [(''reloaded'', JBool True), (''status'', JStr ''created'')]" "s2 = s1\<lparr> st_db := d2, st_policy_engine := eng2 \<rparr>"
    by (rule create_policy_route_InrE)
  note first = create_policy_InrD [OF one(1)]
  have "st_db s1 = d1" "st_config s1 = st_config s" by (simp_all add: one(4))
  note second = create_policy_InrD [OF two(1) [unfolded \<open>st_db s1 = d1\<close>]]
  have empty: "build_engine X E1 (st_config s) (deprecate_active X (e_now E2 0) d1) =
      (Inr (with_session_store new_engine), deprecate_active X (e_now E2 0) d1)"
    by (rule no_active_policy_engine [OF one(2)])
  let ?sched = "[0, 0, 0, 0, 0, 1, 1, 0, 1, 1, 1, 1, 1, 0] :: nat list"
  have y: "locked_run ?sched (open_site (st_db s) s [policy_task True X E1 req1, policy_task True X E2 req2]) =
      \<lparr> si_tables = d2, si_rest = s\<lparr> st_policy_engine := with_session_store new_engine \<rparr>, si_lock = None,
        si_tasks = [Idle (Ended (Inr answer1)), Idle (Ended (Inr answer2))] \<rparr>"
    using one(2,3) two(2,3) first second empty \<open>st_config s1 = st_config s\<close>
    by (simp add: open_site_def locked_turn_def policy_task_def write_task_def create_policy_statements_def
        atomically_def prog_then.simps with_result.simps modify_def reload_task_def read_task_def config_error_of_def)
  have "ev_decision (fst (evaluate X (with_session_store new_engine) now ctx st)) = Deny" for now ctx st
    by (simp add: evaluate_def with_session_store_def new_engine_def)
  with two(4) show ?thesis by (intro exI conjI) (rule y, simp_all add: answer_at_def)
qed

end
