(* ===== verification/Answer_Types.thy ===== *)
theory Answer_Types
  imports Concurrent_Safety
begin

text \<open>
  What the answers of the server look like: every body has the type of the handler its route names, every
  failure is an error body under one of six status codes, and only the handlers that compute with dates,
  nonces or chains of grants can end in a panic instead of an answer.
\<close>

section \<open>Bodies\<close>

definition answers_with :: "handler_name \<Rightarrow> reply \<Rightarrow> bool" where
  "answers_with h reply \<longleftrightarrow>
     (case reply of
        Page \<Rightarrow> h = Dashboard
      | TextBody _ \<Rightarrow> h = PrometheusMetrics
      | AccessBody _ \<Rightarrow> h = RequestAccess
      | DelegateBody _ \<Rightarrow> h = Delegate
      | ApprovalBody _ \<Rightarrow> h \<in> {ApprovalStatus, ApproveRequest, DenyRequest}
      | ApprovalsBody _ \<Rightarrow> h = ListPendingApprovals
      | AgentBody _ \<Rightarrow> h \<in> {CreateAgent, GetAgent}
      | AgentsBody _ \<Rightarrow> h = ListAgents
      | PrincipalBody _ \<Rightarrow> h = CreatePrincipal
      | ResourceBody _ \<Rightarrow> h = CreateResource
      | ResourcesBody _ \<Rightarrow> h = ListResources
      | AuditBody _ \<Rightarrow> h = ListAudit
      | VendedBody _ \<Rightarrow> h = VendCredential
      | UserInfoBody _ \<Rightarrow> h = IdpUserinfo
      | JsonBody _ \<Rightarrow> h \<notin> {Dashboard, PrometheusMetrics, RequestAccess, Delegate, ApprovalStatus, ApproveRequest,
          DenyRequest, ListPendingApprovals, CreateAgent, GetAgent, ListAgents, CreatePrincipal, CreateResource,
          ListResources, ListAudit, VendCredential, IdpUserinfo}
      | ErrorBody _ \<Rightarrow> False
      | Rejected _ \<Rightarrow> False)"

definition may_panic :: "handler_name set" where
  "may_panic = {RequestAccess, Delegate, PrincipalDelegate, RevokeGrant, StoreCredential, VendCredential}"

text \<open>The result of the handler \<open>h\<close>, as its layers pass it on.\<close>

definition handler_answer :: "handler_name \<Rightarrow> string + response \<Rightarrow> bool" where
  "handler_answer h r \<longleftrightarrow>
     (case r of
        Inl _ \<Rightarrow> h \<in> may_panic
      | Inr (status, reply) \<Rightarrow>
          (\<exists>msg. reply = Rejected msg)
          \<or> (\<exists>msg. reply = ErrorBody msg) \<and> status \<in> {400, 401, 403, 404, 500, 503}
          \<or> answers_with h reply \<and> (status = 200 \<or> status = 503 \<and> h = HealthReady))"

lemma status_of_codes: "status_of e \<in> {400, 401, 403, 404, 500, 503}"
  by (cases e) simp_all

section \<open>No panic\<close>

definition panic_free :: "('s, fail, 'a) act \<Rightarrow> bool" where
  "panic_free m \<longleftrightarrow> (\<forall>s p. fst (m s) \<noteq> Inl (Panic p))"

definition calm :: "('s, fail, 'a) prog \<Rightarrow> bool" where
  "calm p \<longleftrightarrow> (\<forall>msg. \<not> may_end p (Inl (Panic msg)))"

lemma panic_free_and_then:
  assumes "panic_free m" and "\<And>x. panic_free (f x)"
  shows "panic_free (and_then m f)"
  unfolding panic_free_def
proof (intro allI)
  fix s p
  show "fst (and_then m f s) \<noteq> Inl (Panic p)"
  proof (cases "m s")
    case (Pair r s')
    with assms show ?thesis by (cases r) (auto simp: panic_free_def act_simps dest: spec [of _ s])
  qed
qed

lemma panic_free_simps:
  "panic_free (ret x)" "panic_free (throw (Err e))" "panic_free (reads g)" "panic_free (modify u)"
  "panic_free (change_sessions f)" "panic_free (change_metrics k)" "panic_free (on_sessions l)" "panic_free (on_pkce q)"
  "panic_free (ok_of m)"
  by (auto simp: panic_free_def act_simps ok_of_def split: prod.splits sum.splits)

lemma panic_free_if: "panic_free m \<Longrightarrow> panic_free m' \<Longrightarrow> panic_free (if b then m else m')"
  by simp

lemma panic_free_on_db: "panic_free f \<Longrightarrow> panic_free (on_db f)"
  by (auto simp: panic_free_def act_simps split_beta)

lemma panic_free_read: "(\<And>d p. f d \<noteq> Inl (Panic p)) \<Longrightarrow> panic_free (spawn_read E call f)"
  by (auto simp: panic_free_def act_simps split: option.splits)

lemma panic_free_write: "panic_free f \<Longrightarrow> panic_free (spawn_write E call f)"
  by (auto simp: panic_free_def act_simps split: option.splits)

lemma insert_row_no_panic: "insert_row X c key r rows \<noteq> Inl (Panic p)"
  by (auto simp: insert_row_def sql_error_def)

lemma get_sync_no_panic:
  "get_agent_sync X now i d \<noteq> Inl (Panic p)" "get_principal_sync X now i d \<noteq> Inl (Panic p)"
  "get_resource_sync X now i d \<noteq> Inl (Panic p)" "get_approval_request_sync X now i d \<noteq> Inl (Panic p)"
  by (auto simp: get_agent_sync_def get_principal_sync_def get_resource_sync_def get_approval_request_sync_def
      sql_error_def split: option.splits)

lemmas db_reads = get_agent_def get_principal_def get_approval_request_def list_agents_def list_resources_def
  list_pending_approvals_def list_all_grants_def list_policies_def list_audit_entries_def find_resource_by_uri_def
  load_active_policy_yaml_def health_check_def

lemma db_reads_panic_free:
  "panic_free (get_agent X E now i)" "panic_free (get_principal X E now i)" "panic_free (get_approval_request X E now i)"
  "panic_free (list_agents X E now)" "panic_free (list_resources X E now)" "panic_free (list_pending_approvals X E now)"
  "panic_free (list_all_grants X E now)" "panic_free (list_policies X E)" "panic_free (list_audit_entries X E now limit)"
  "panic_free (find_resource_by_uri X E uri)" "panic_free (load_active_policy_yaml E)" "panic_free (health_check E)"
  unfolding db_reads
  by (rule panic_free_read; simp add: get_sync_no_panic list_agents_sync_def list_resources_sync_def
      list_pending_approvals_sync_def list_all_grants_sync_def list_audit_entries_sync_def)+

lemma db_writes_panic_free:
  "panic_free (create_agent X E now u car)" "panic_free (set_agent_client_key_hash X E now i h)"
  "panic_free (create_principal X E now u cpr)" "panic_free (create_resource X E now u crr)"
  "panic_free (create_audit_entry X E now entry)" "panic_free (revoke_token E jti)" "panic_free (revoke_agent_tokens X E i)"
  "panic_free (resolve_approval_request X E now u i approver approved reason)"
  "panic_free (create_policy X E now u name engine yaml)"
proof -
  have sync: "panic_free (create_agent_sync X now u car)" "panic_free (set_agent_client_key_hash_sync X now i h)"
    "panic_free (create_principal_sync X now u cpr)" "panic_free (create_resource_sync X now u crr)"
    "panic_free (create_audit_entry_sync X now entry)" "panic_free (insert_policy X r)"
    for car cpr crr r
    by (auto simp: panic_free_def create_agent_sync_def set_agent_client_key_hash_sync_def create_principal_sync_def
        create_resource_sync_def create_audit_entry_sync_def insert_policy_def Let_def insert_row_no_panic
        get_sync_no_panic sql_error_def split: sum.splits)
  show "panic_free (create_agent X E now u car)" "panic_free (set_agent_client_key_hash X E now i h)"
    "panic_free (create_principal X E now u cpr)" "panic_free (create_resource X E now u crr)"
    "panic_free (create_audit_entry X E now entry)"
    by (simp_all add: create_agent_def set_agent_client_key_hash_def create_principal_def create_resource_def
        create_audit_entry_def panic_free_write sync)
  show "panic_free (revoke_token E jti)"
    by (simp add: revoke_token_def panic_free_write panic_free_simps)
  show "panic_free (revoke_agent_tokens X E i)"
    unfolding revoke_agent_tokens_def by (rule panic_free_write) (simp add: panic_free_def Let_def)
  show "panic_free (resolve_approval_request X E now u i approver approved reason)"
    unfolding resolve_approval_request_def
    by (rule panic_free_write) (simp add: panic_free_def Let_def get_sync_no_panic)
  show "panic_free (create_policy X E now u name engine yaml)"
    unfolding create_policy_def
    by (intro panic_free_write panic_free_and_then panic_free_simps sync)
qed

lemma panic_free_check_own_agent: "panic_free (check_own_agent auth i)"
  by (auto simp: panic_free_def check_own_agent_apply split: option.splits)

lemma panic_free_owner_of: "panic_free (owner_of X E now a)"
  using owner_of_no_error by (fastforce simp: panic_free_def)

lemma build_engine_panic_free: "panic_free (build_engine X E cfg)"
  unfolding build_engine_def
  by (intro panic_free_and_then db_reads_panic_free)
    (auto simp: panic_free_def act_simps create_engine_with_sessions_def from_yaml_def load_from_str_def split: sum.splits)

lemma catching_on_db: "panic_free m \<Longrightarrow> panic_free (catching m)"
  by (auto simp: panic_free_def catching_def split: prod.splits sum.splits fail.splits) (metis fst_conv)+

lemma generate_vault_key_panic_free: "panic_free (on_files (generate_vault_key E path key))"
  by (auto simp: panic_free_def on_files_apply generate_vault_key_def split: prod.splits sum.splits)

section \<open>Calm programs\<close>

lemma calm_then: "calm p \<Longrightarrow> (\<And>x. calm (f x)) \<Longrightarrow> calm (prog_then p f)"
  by (auto simp: calm_def may_end_then)

lemma calm_atomically: "panic_free m \<Longrightarrow> calm (atomically m)"
  by (auto simp: calm_def may_end_atomically panic_free_def) (metis fst_conv)

lemma calm_leaves: "calm (look f)" "calm (finish x)" "calm (Done (Inl (Err e)))" "calm (Done (ok_or y (Err e)))"
  by (simp_all add: calm_def look_def may_end_atomically reading_def may_end_finish ok_or_def split: option.split)

lemma calm_Done: "calm (Done r) \<longleftrightarrow> (\<forall>p. r \<noteq> Inl (Panic p))"
  by (auto simp: calm_def)

lemma ok_or_no_panic: "ok_or y (Err e) \<noteq> Inl (Panic p)"
  by (cases y) simp_all

lemma calm_if: "(b \<Longrightarrow> calm p) \<Longrightarrow> (\<not> b \<Longrightarrow> calm q) \<Longrightarrow> calm (if b then p else q)"
  by simp

lemma calm_option: "calm p \<Longrightarrow> (\<And>a. calm (f a)) \<Longrightarrow> calm (case x of None \<Rightarrow> p | Some a \<Rightarrow> f a)"
  by (simp split: option.split)

lemma calm_config_error: "calm p \<Longrightarrow> calm (with_result config_error_of p)"
  by (auto simp: calm_def may_end_with_result config_error_of_def split: sum.splits fail.splits)

lemmas calm_rules = calm_then calm_leaves calm_if calm_option calm_config_error

lemmas calm_atoms = db_reads_panic_free [THEN panic_free_on_db, THEN calm_atomically]
  db_writes_panic_free [THEN panic_free_on_db, THEN calm_atomically] panic_free_simps [THEN calm_atomically]
  calm_atomically [OF panic_free_check_own_agent] calm_atomically [OF panic_free_owner_of]
  calm_atomically [OF panic_free_on_db [OF build_engine_panic_free]]

lemma calm_eval_engine: "calm (eval_engine_prog X now ctx)"
proof -
  have "calm (eval_rules_prog X now eng rs ctx)" for eng rs
  proof (induction rs)
    case (Cons a rs)
    then show ?case unfolding eval_rules_prog.simps by (intro calm_rules calm_atoms)
  qed (simp add: calm_leaves)
  then show ?thesis unfolding eval_engine_prog_def by (intro calm_rules)
qed

lemma calm_reload: "calm (reload_policy_prog X E)"
  unfolding reload_policy_prog_def by (intro calm_rules calm_atoms)

lemma call_json_no_panic: "call_json E a b c wrap call \<noteq> Inl (Panic p)"
  by (auto simp: call_json_def split: sum.splits if_splits)

lemma calm_login_leaves: "calm (Done (provider_named cfg name missing))" "calm (Done (exchange_oidc_token E pr code uri v))"
  "calm (Done (fetch_userinfo E pr access_token))"
  by (auto simp: calm_Done ok_or_no_panic call_json_no_panic provider_named_def exchange_oidc_token_def fetch_userinfo_def
      split: sum.splits)

lemma calm_idp_callback: "calm (idp_callback_prog X E q)"
  unfolding idp_callback_prog_def complete_login_prog_def ensure_principal_prog_def apply_group_policy_prog_def Let_def
  by (intro calm_rules calm_atoms calm_reload calm_login_leaves)

lemma calm_operators:
  "calm (check_access_prog X E auth req)" "calm (provision_client_key_prog X E i)" "calm (create_policy_prog X E cpo)"
  "calm (revoke_token_prog E jti)" "calm (kill_agent_prog X E i)" "calm (restore_agent_prog X i)"
  "calm (record_spend_prog X i sq)" "calm (prometheus_prog X E render)"
  unfolding check_access_prog_def provision_client_key_prog_def create_policy_prog_def revoke_token_prog_def
    kill_agent_prog_def restore_agent_prog_def record_spend_prog_def prometheus_prog_def Let_def case_prod_unfold
  by (intro calm_rules calm_atoms calm_eval_engine calm_reload)+

section \<open>Every answer has its type\<close>

lemma handler_answer_respond:
  assumes "panic_free m \<or> h \<in> may_panic" and "\<And>x. handler_answer h (Inr (f x))"
  shows "handler_answer h (fst (respond f m s))"
proof (cases "m s")
  case (Pair r s')
  show ?thesis
  proof (cases r)
    case (Inr x)
    with Pair assms(2) show ?thesis by (simp add: respond_def)
  next
    case (Inl e)
    with Pair assms(1) status_of_codes show ?thesis
      by (cases e) (auto simp: respond_def into_response_def handler_answer_def panic_free_def dest: spec [of _ s])
  qed
qed

lemma handler_answer_ok: "panic_free m \<or> h \<in> may_panic \<Longrightarrow> (\<And>x. answers_with h (f x)) \<Longrightarrow> handler_answer h (fst (ok_with f m s))"
  unfolding ok_with_def by (rule handler_answer_respond) (auto simp: handler_answer_def)

lemma handler_answer_rejected: "handler_answer h (Inr (status, Rejected msg))"
  by (simp add: handler_answer_def)

lemma handler_answer_extracting:
  "(\<And>x. handler_answer h (fst (k x s))) \<Longrightarrow> handler_answer h (fst (extracting r k s))"
  by (cases r) (auto simp: extracting_def handler_answer_rejected act_simps)

lemma handler_answer_ok_prog:
  assumes "may_end (ok_prog f p) r" and "calm p \<or> h \<in> may_panic" and "\<And>x. answers_with h (f x)"
  shows "handler_answer h r"
proof -
  from assms(1) obtain r' where r': "may_end p r'" "r = answer_of (\<lambda>x. (200, f x)) r'"
    by (auto simp: ok_prog_def respond_prog_def may_end_with_result)
  show ?thesis
  proof (cases r')
    case (Inr x)
    with r' assms(3) show ?thesis by (simp add: answer_of_def handler_answer_def)
  next
    case (Inl e)
    with r' assms(2) status_of_codes show ?thesis
      by (cases e) (auto simp: answer_of_def into_response_def handler_answer_def calm_def)
  qed
qed

lemma handler_answer_extracting_prog:
  "may_end (extracting_prog x k) r \<Longrightarrow> (\<And>y. may_end (k y) r \<Longrightarrow> handler_answer h r) \<Longrightarrow> handler_answer h r"
  by (cases x) (auto simp: extracting_prog_def may_end_finish handler_answer_rejected)

lemma panic_free_rest:
  "panic_free (approval_status_route X E auth i)" "panic_free (jwks X)" "panic_free (list_principal_grants X E)"
  "panic_free (list_policies_route X E)" "panic_free list_vault_credentials" "panic_free (generate_vault_key_route E)"
  "panic_free (list_sessions_route X)" "panic_free (kill_session_route sid)" "panic_free (idp_authorize X E name)"
  "panic_free (idp_userinfo E uq)" "panic_free list_idp_providers" "panic_free health" "panic_free (health_ready E)"
proof -
  have results: "panic_free (of_result (authenticated_agent auth))" "panic_free (of_result (provider_named cfg name missing))"
    "panic_free (of_result (fetch_userinfo E pr access_token))" "panic_free (vault_of missing)" for cfg missing pr access_token name
    by (auto simp: panic_free_def act_simps authenticated_agent_def provider_named_def fetch_userinfo_def vault_of_def
        ok_or_no_panic call_json_no_panic split: sum.splits)
  note rules = panic_free_and_then panic_free_simps panic_free_on_db db_reads_panic_free results catching_on_db
    generate_vault_key_panic_free
  show "panic_free (approval_status_route X E auth i)" "panic_free (jwks X)" "panic_free (list_principal_grants X E)"
    "panic_free (list_policies_route X E)" "panic_free list_vault_credentials" "panic_free (generate_vault_key_route E)"
    "panic_free (list_sessions_route X)" "panic_free (kill_session_route sid)" "panic_free (idp_authorize X E name)"
    "panic_free (idp_userinfo E uq)" "panic_free list_idp_providers" "panic_free health" "panic_free (health_ready E)"
    unfolding approval_status_route_def jwks_def list_principal_grants_def list_policies_route_def
      list_vault_credentials_def generate_vault_key_route_def list_sessions_route_def kill_session_route_def
      idp_authorize_def idp_userinfo_def list_idp_providers_def health_def health_ready_def Let_def
    by (intro rules panic_free_if)+
qed

lemmas plain_routes_panic_free = panic_free_rest db_reads_panic_free [THEN panic_free_on_db]
  db_writes_panic_free [THEN panic_free_on_db]

lemmas plain_route_defs = list_pending_approvals_route_def approve_request_def deny_request_def create_agent_route_def
  list_agents_route_def get_agent_route_def create_principal_route_def create_resource_route_def
  list_resources_route_def list_audit_def

lemma health_answers:
  "handler_answer Health (fst (respond (\<lambda>(status, j). (status, JsonBody j)) health s))"
  "handler_answer HealthReady (fst (respond (\<lambda>(status, j). (status, JsonBody j)) (health_ready E) s))"
  by (auto simp: handler_answer_def respond_def health_def health_ready_def health_check_def answers_with_def act_simps
      split: option.splits)

lemma dashboard_answer: "handler_answer Dashboard (Inr (200, Page))"
  by (simp add: handler_answer_def answers_with_def)

lemmas handler_rules = handler_answer_extracting handler_answer_ok health_answers dashboard_answer

lemma dispatch_answer:
  assumes "h \<notin> {PrometheusMetrics, RequestAccess, CheckAccess, Delegate, PrincipalDelegate, CreatePolicy, RevokeTokenById,
      KillAgentById, RestoreAgentById, RecordSpendOf, ProvisionClientKey, IdpCallback}"
  shows "handler_answer h (fst (dispatch W X E who req ps h s))"
  using assms
  by (cases h) (auto intro!: handler_rules simp: plain_route_defs plain_routes_panic_free answers_with_def may_panic_def
      act_simps)

lemma dispatch_prog_answer:
  assumes "may_end (dispatch_prog W X E who req ps h) r"
  shows "handler_answer h r"
proof (cases "h \<in> {PrometheusMetrics, RequestAccess, CheckAccess, Delegate, PrincipalDelegate, CreatePolicy, RevokeTokenById,
      KillAgentById, RestoreAgentById, RecordSpendOf, ProvisionClientKey, IdpCallback}")
  case True
  with assms show ?thesis
    by (auto simp: dispatch_prog_def elim!: handler_answer_extracting_prog handler_answer_ok_prog
        simp: calm_operators calm_idp_callback answers_with_def may_panic_def)
next
  case False
  then have "may_end (atomically (dispatch W X E who req ps h)) r"
    using assms by (cases h) (simp_all add: dispatch_prog_def)
  then obtain s s' where "dispatch W X E who req ps h s = (r, s')" by (auto simp: may_end_atomically)
  with dispatch_answer [OF False, of W X E who req ps s] show ?thesis by simp
qed

text \<open>The answer to a request, or the panic that leaves it without one.\<close>

definition well_typed_answer :: "web \<Rightarrow> web_request \<Rightarrow> string + response \<Rightarrow> bool" where
  "well_typed_answer W req r \<longleftrightarrow>
     (case r of
        Inr (status, Rejected _) \<Rightarrow> True
      | Inr (status, ErrorBody _) \<Rightarrow> status \<in> {400, 401, 403, 404, 500, 503}
      | _ \<Rightarrow> (case route W req of Routed _ h _ \<Rightarrow> handler_answer h r | _ \<Rightarrow> False))"

lemma well_typed_handler: "route W req = Routed t h ps \<Longrightarrow> handler_answer h r \<Longrightarrow> well_typed_answer W req r"
  by (auto simp: well_typed_answer_def handler_answer_def answers_with_def split: sum.splits prod.splits reply.splits)

lemma run_route_answer: "may_end (run_route_prog W X E who req) r \<Longrightarrow> well_typed_answer W req r"
  by (auto simp: run_route_prog_def may_end_finish split: routed.splits
      intro: well_typed_handler dispatch_prog_answer) (simp_all add: well_typed_answer_def)

lemma serve_prog_answer:
  assumes "may_end (serve_prog W X E now elapsed req) r" and "preflight_only W"
  shows "well_typed_answer W req r"
proof -
  from assms(1) obtain s :: app_state where body: "may_end (case w_cors W (cors_origins W (st_config s)) req of
         Some answer \<Rightarrow> finish answer
       | None \<Rightarrow>
           prog_then (with_auth_prog W X E now req) (\<lambda>r.
           prog_then (atomically (modify (\<lambda>s. s\<lparr> st_metrics :=
               observe_duration (wr_method req) (path_label W req) elapsed (st_metrics s) \<rparr>))) (\<lambda>_.
             finish r))) r"
    by (auto simp: serve_prog_def may_end_then look_def may_end_atomically reading_def)
  show ?thesis
  proof (cases "w_cors W (cors_origins W (st_config s)) req")
    case (Some answer)
    with assms(2) obtain status msg where "answer = (status, Rejected msg)" unfolding preflight_only_def by blast
    with Some body show ?thesis by (simp add: may_end_finish well_typed_answer_def)
  next
    case None
    with body have "may_end (with_auth_prog W X E now req) r"
      by (auto simp: may_end_then may_end_atomically may_end_finish act_simps)
    then obtain s' :: app_state where "may_end (case auth_middleware X E now (st_auth s') (wr_head req) (st_db s') of
         Inl msg \<Rightarrow> finish (401, ErrorBody msg)
       | Inr who \<Rightarrow> run_route_prog W X E who req) r"
      by (auto simp: with_auth_prog_def may_end_then look_def may_end_atomically reading_def)
    then show ?thesis
      by (auto simp: may_end_finish well_typed_answer_def split: sum.splits dest: run_route_answer)
  qed
qed

text \<open>
  C14: every answer has its type, however requests interleave: a body is the one of the handler that the
  route table names for the request, with status 200 (503 for a failed readiness probe); every other
  body is an error text under one of the statuses 400, 401, 403, 404, 500 and 503, or the framework's
  own rejection; and a request can end in a panic, without an answer, only in one of the six
  handlers that add to dates, use nonces or descend chains of grants.
\<close>

theorem answers_are_typed:
  assumes "i < length as" and "preflight_only W"
    and "result_at (pool_run sched (server_pool W X as s)) i = Some r"
  shows "well_typed_answer W (ar_request (as ! i)) r"
  by (rule serve_prog_answer [OF performs_may_end [OF performs_request [OF assms(1,3)]] assms(2)])

end
