(* ===== verification/Turn_Bounds.thy ===== *)
theory Turn_Bounds
  imports Concurrent_Server
begin

text \<open>
  How many turns a request needs. No handler loops over its steps and none waits for another, so a number
  of own turns is enough whatever happens between them: the rules of a policy are tried in one step
  each way, and the longest way through a handler is the one of an access request with a token.
\<close>

section \<open>Bounded programs\<close>

text \<open>\<open>ends_in n p\<close>: the program ends after at most \<open>n\<close> steps, whatever states it finds.\<close>

primrec ends_in :: "nat \<Rightarrow> ('s, 'e, 'a) prog \<Rightarrow> bool" where
  "ends_in n (Done r) \<longleftrightarrow> True"
| "ends_in n (Atomic u k) \<longleftrightarrow> 0 < n \<and> (\<forall>s. ends_in (n - 1) (k s))"

lemma ends_in_more: "ends_in m p \<Longrightarrow> m \<le> n \<Longrightarrow> ends_in n p"
proof (induction p arbitrary: m n)
  case (Atomic u k)
  have "ends_in (n - 1) (k s)" for s
    by (rule Atomic.IH [of "k s" "m - 1"]) (use Atomic.prems in auto)
  with Atomic.prems show ?case by simp
qed simp

lemma ends_in_then:
  "ends_in m p \<Longrightarrow> (\<And>x. ends_in n (f x)) \<Longrightarrow> ends_in (m + n) (prog_then p f)"
proof (induction p arbitrary: m)
  case (Done r)
  then show ?case by (auto simp: prog_then.simps intro: ends_in_more [of n] split: sum.split)
next
  case (Atomic u k)
  have "ends_in (m - 1 + n) (prog_then (k s) f)" for s
    using Atomic.prems by (intro Atomic.IH) auto
  with Atomic.prems(1) show ?case by (simp add: prog_then.simps)
qed

lemma ends_in_with_result: "ends_in n p \<Longrightarrow> ends_in n (with_result g p)"
  by (induction p arbitrary: n) (auto simp: with_result.simps)

lemma ends_in_part:
  assumes "ends_in m p" and "\<And>x. ends_in (n - m) (f x)" and "m \<le> n"
  shows "ends_in n (prog_then p f)"
  using ends_in_then [OF assms(1,2)] assms(3) by simp

lemma ends_in_leaves: "ends_in n (Done r)" "ends_in n (finish x)"
  by (simp_all add: finish_def)

lemma ends_in_once: "0 < n \<Longrightarrow> ends_in n (atomically m)" "0 < n \<Longrightarrow> ends_in n (look f)"
  by (simp_all add: atomically_def look_def)

text \<open>One step off the bound for each atomic step; the positive bounds that remain are arithmetic.\<close>

lemma ends_in_atomically: "(\<And>x. ends_in (n - 1) (f x)) \<Longrightarrow> 0 < n \<Longrightarrow> ends_in n (prog_then (atomically m) f)"
  by (rule ends_in_part [OF ends_in_once(1) [of 1]]; simp)

lemma ends_in_look: "(\<And>x. ends_in (n - 1) (f x)) \<Longrightarrow> 0 < n \<Longrightarrow> ends_in n (prog_then (look g) f)"
  by (rule ends_in_part [OF ends_in_once(2) [of 1]]; simp)

lemma ends_in_result: "(\<And>x. ends_in n (f x)) \<Longrightarrow> ends_in n (prog_then (Done r) f)"
  by (rule ends_in_part [OF ends_in_leaves(1) [of 0]]; simp)

lemma ends_in_if: "ends_in n p \<Longrightarrow> ends_in n q \<Longrightarrow> ends_in n (if b then p else q)"
  by simp

lemma ends_in_cases:
  "ends_in n p \<Longrightarrow> (\<And>a. ends_in n (f a)) \<Longrightarrow> ends_in n (case x of None \<Rightarrow> p | Some a \<Rightarrow> f a)"
  "(\<And>a. ends_in n (g a)) \<Longrightarrow> (\<And>b. ends_in n (h b)) \<Longrightarrow> ends_in n (case y of Inl a \<Rightarrow> g a | Inr b \<Rightarrow> h b)"
  "(\<And>a b. ends_in n (i a b)) \<Longrightarrow> ends_in n (case z of (a, b) \<Rightarrow> i a b)"
  "ends_in n p \<Longrightarrow> ends_in n q \<Longrightarrow> (\<And>a b. ends_in n (j a b)) \<Longrightarrow>
     ends_in n (case d of Allow \<Rightarrow> p | Deny \<Rightarrow> q | RequireApproval a b \<Rightarrow> j a b)"
  by (simp_all split: option.split sum.split prod.split decision.split)

lemmas ends_in_rules = ends_in_atomically ends_in_look ends_in_result ends_in_leaves ends_in_once ends_in_if ends_in_cases ends_in_with_result

text \<open>Turns of others do not count.\<close>

lemma ends_in_turns:
  "i < length ps \<Longrightarrow> ends_in n (ps ! i) \<Longrightarrow> n \<le> count_list sched i \<Longrightarrow>
     \<exists>r. result_at (pool_run sched (s, ps)) i = Some r"
proof (induction sched arbitrary: s ps n)
  case Nil
  then show ?case by (cases "ps ! i") (simp_all add: result_at_def)
next
  case (Cons j sched)
  obtain s' ps' where turn: "turn j (s, ps) = (s', ps')" by fastforce
  have len: "length ps' = length ps" using length_turn [of j "(s, ps)"] turn by simp
  show ?case
  proof (cases "j = i")
    case True
    have "ends_in (n - 1) (ps' ! i)"
      using turn True Cons.prems(1,2) ends_in_more [OF Cons.prems(2)]
      by (auto split: prog.splits) 
    with Cons.IH [of ps' "n - 1" s'] Cons.prems(1,3) True len turn show ?thesis by simp
  next
    case False
    then have "ps' ! i = ps ! i" using turn by (auto split: prog.splits if_splits)
    with Cons.IH [of ps' n s'] Cons.prems False len turn show ?thesis by simp
  qed
qed

section \<open>The handlers\<close>

lemma ends_in_eval: "ends_in 3 (eval_engine_prog X now ctx)"
proof -
  have "ends_in 2 (eval_rules_prog X now eng rs ctx)" for eng rs
    by (induction rs) (auto intro!: ends_in_rules)
  then show ?thesis
    unfolding eval_engine_prog_def by (intro ends_in_rules) simp_all
qed

lemma ends_in_reload: "ends_in 3 (reload_policy_prog X E)"
  unfolding reload_policy_prog_def by (intro ends_in_rules) simp_all

lemma ends_in_principal: "ends_in 2 (request_principal_prog X E req a)"
  unfolding request_principal_prog_def present_token_prog_def by (intro ends_in_rules) simp_all

lemma ends_in_carry_out: "ends_in 4 (carry_out_prog X E req a p ev)"
proof -
  have "ends_in 4 (issue_access_token_prog X E req a p ev)" "ends_in 4 (open_approval_prog X E req a p)"
    unfolding issue_access_token_prog_def open_approval_prog_def Let_def by (intro ends_in_rules; simp)+
  note parts = ends_in_part [OF this(1)] ends_in_part [OF this(2)]
  show ?thesis
    unfolding carry_out_prog_def by (intro ends_in_rules parts) simp_all
qed

lemmas ends_in_parts = ends_in_part [OF ends_in_eval] ends_in_part [OF ends_in_reload] ends_in_part [OF ends_in_principal]
  ends_in_part [OF ends_in_carry_out] ends_in_part [OF ends_in_with_result [OF ends_in_reload]]

lemma ends_in_request_access: "ends_in 16 (request_access_prog X E auth req)"
  unfolding request_access_prog_def access_in_session_prog_def decide_access_prog_def Let_def
  by (intro ends_in_rules ends_in_parts) simp_all

lemma ends_in_agents: "ends_in 16 (check_access_prog X E auth req)" "ends_in 16 (delegate_prog X E auth dq)"
  unfolding check_access_prog_def delegate_prog_def issue_delegated_prog_def Let_def
  by (intro ends_in_rules ends_in_parts; simp)+

lemma ends_in_callback: "ends_in 16 (idp_callback_prog X E q)"
proof -
  have "ends_in 2 (ensure_principal_prog X E pr user)" "ends_in 4 (apply_group_policy_prog X E i yaml)" for pr user i yaml
    unfolding ensure_principal_prog_def apply_group_policy_prog_def
    by (intro ends_in_rules ends_in_parts ends_in_more [OF ends_in_reload]; simp)+
  note parts = ends_in_part [OF this(1)] ends_in_part [OF this(2)]
  show ?thesis
    unfolding idp_callback_prog_def complete_login_prog_def Let_def
    by (intro ends_in_rules parts) simp_all
qed

lemma ends_in_operators:
  "ends_in 16 (principal_delegate_prog X E pq)" "ends_in 16 (provision_client_key_prog X E i)"
  "ends_in 16 (create_policy_prog X E cpo)" "ends_in 16 (revoke_token_prog E jti)" "ends_in 16 (kill_agent_prog X E i)"
  "ends_in 16 (restore_agent_prog X i)" "ends_in 16 (record_spend_prog X i sq)" "ends_in 16 (prometheus_prog X E render)"
  unfolding principal_delegate_prog_def grant_and_issue_prog_def provision_client_key_prog_def create_policy_prog_def
    revoke_token_prog_def kill_agent_prog_def restore_agent_prog_def record_spend_prog_def prometheus_prog_def Let_def
  by (intro ends_in_rules ends_in_parts; simp)+

lemma ends_in_extracting: "(\<And>x. ends_in n (k x)) \<Longrightarrow> ends_in n (extracting_prog r k)"
  by (auto simp: extracting_prog_def ends_in_leaves split: sum.split)

lemma ends_in_ok: "ends_in n p \<Longrightarrow> ends_in n (ok_prog f p)"
  by (simp add: ok_prog_def respond_prog_def ends_in_with_result)

lemma ends_in_dispatch: "ends_in 16 (dispatch_prog W X E who req ps h)"
  unfolding dispatch_prog_def
  by (cases h) (auto intro!: ends_in_extracting ends_in_ok ends_in_once ends_in_request_access ends_in_agents
      ends_in_callback ends_in_operators)

section \<open>The server\<close>

lemma ends_in_serve: "ends_in 19 (serve_prog W X E now elapsed req)"
proof -
  have "ends_in 16 (run_route_prog W X E who req)" for who
    by (simp add: run_route_prog_def ends_in_leaves ends_in_dispatch split: routed.split)
  then have "ends_in 17 (with_auth_prog W X E now req)"
    unfolding with_auth_prog_def by (intro ends_in_rules) simp_all
  note part = ends_in_part [OF this]
  show ?thesis
    unfolding serve_prog_def by (intro ends_in_rules part) simp_all
qed


end
