(* ===== verification/Concurrent_Examples.thy ===== *)
theory Concurrent_Examples
  imports Races Answer_Types Restarts Turn_Bounds
begin

text \<open>
  Closed instances of what the previous theories prove of concurrent requests and of restarts: a server
  with one agent and one rule, an identity provider that answers, and two requests at a time.
\<close>

section \<open>A request that is answered with a token\<close>

definition access_web :: web where
  "access_web = demo_web\<lparr> w_access := (\<lambda>_. Inr demo_access) \<rparr>"

definition access_arrival :: arrival where
  "access_arrival =
     \<lparr> ar_env = demo_env, ar_now = 0, ar_elapsed = Fin 0,
       ar_request = \<lparr> wr_method = ''POST'', wr_head = demo_request ''/v1/agent/request-access'',
         wr_query = '''', wr_content_type = None, wr_body = '''' \<rparr> \<rparr>"

lemma access_arrival_simps [simp]:
  "ar_env access_arrival = demo_env" "ar_now access_arrival = 0" "ar_elapsed access_arrival = Fin 0"
  "wr_method (ar_request access_arrival) = ''POST''"
  "wr_head (ar_request access_arrival) = demo_request ''/v1/agent/request-access''"
  by (simp_all add: access_arrival_def)

lemma access_web_simps [simp]: "w_access access_web req = Inr demo_access" "w_cors access_web os req = None"
  by (simp_all add: access_web_def) (simp add: demo_web_def)

lemma access_preflight: "preflight_only access_web" "preflight_only demo_web"
  by (simp_all add: preflight_only_def access_web_def demo_web_def)

lemma access_route: "route access_web (ar_request access_arrival) = Routed ''/v1/agent/request-access'' RequestAccess []"
  by (simp add: route_def access_web_def demo_web_def demo_route_def all_routes_def demo_request_def)

lemma access_restored: "restored access_web (ar_request access_arrival) = None"
  by (simp add: restored_def access_route)

lemma access_middleware:
  "auth_middleware demo_ext demo_env 0 cfg (demo_request ''/v1/agent/request-access'') demo_db = Inr (Some 7)"
proof -
  have "is_agent_path ''/v1/agent/request-access''"
    by (simp add: is_agent_path_def paths_start_with_def starts_with_def)
  with agent_path_not_admin [OF this] demo_lookup [of 0] show ?thesis
    by (simp add: auth_middleware_def demo_key hash_client_key_def get_agent_by_client_key_hash_def act_simps
        demo_keyed_fields) (simp add: demo_request_def)
qed

text \<open>The first of several requests, run to its end.\<close>

lemma first_served:
  assumes "serve W X (ar_env a) (ar_now a) (ar_elapsed a) (ar_request a) s = (r, s')"
  shows "\<exists>sched. set sched \<subseteq> {0} \<and> pool_run sched (server_pool W X (a # as) s) = (s', Done r # map (request_prog W X) as)"
proof -
  have "alone (request_prog W X a) s (Done r) s'"
    using alone_execute [of "request_prog W X a" s] assms by (simp add: request_prog_def execute_serve_prog)
  from alone_schedule [OF this, of 0 "map (request_prog W X) (a # as)"] show ?thesis
    by (simp add: server_pool_def)
qed

lemma result_first: "pool_run sched c = (s, Done r # ps) \<Longrightarrow> result_at (pool_run sched c) 0 = Some r"
  by (simp add: result_at_def)

lemma access_served:
  assumes "request_access demo_ext demo_env (Some 7) demo_access s = (Inr resp, s')" and "st_db s = demo_db"
  shows "\<exists>sched. result_at (pool_run sched (server_pool access_web demo_ext [access_arrival, access_arrival] s)) 0 =
    Some (Inr (200, AccessBody resp))"
proof -
  obtain s2 where "serve access_web demo_ext (ar_env access_arrival) (ar_now access_arrival) (ar_elapsed access_arrival)
      (ar_request access_arrival) s = (Inr (200, AccessBody resp), s2)"
    using assms
    by (simp add: serve_def metrics_latency_middleware_def with_auth_def access_middleware run_route_def access_route
        extracting_def ok_with_def respond_def act_simps)
  from first_served [OF this, of "[access_arrival]"] show ?thesis by (blast intro: result_first)
qed

lemma access_answered:
  obtains sched resp tok where
    "result_at (pool_run sched (server_pool access_web demo_ext [access_arrival, access_arrival] demo_app)) 0 =
       Some (Inr (200, AccessBody resp))" and "rs_token resp = Some tok"
proof -
  obtain resp s' t where r: "request_access demo_ext demo_env (Some 7) demo_access demo_app = (Inr resp, s')"
    and t: "rs_token resp = Some t" by (rule demo_request_access)
  from access_served [OF r] show ?thesis using that t by auto
qed


lemma demo_app_ok: "app_ok demo_ext demo_app"
proof -
  have "db_ok demo_ext demo_db"
    using demo_log_ok demo_ids_ok by (simp add: db_ok_def) (simp add: demo_db_def empty_db_def one_active_def grant_ids_ok_def)
  then show ?thesis by (simp add: app_ok_def store_ok_new demo_engine_def)
qed


section \<open>A stopped agent\<close>

text \<open>The administrator stops the agent, whose request begins afterwards.\<close>

definition stop_web :: web where
  "stop_web = access_web\<lparr> w_path_uuid := (\<lambda>_. Inr 7),
     w_route := (\<lambda>table verb path. if path = ''/v1/admin/agents/7/kill''
       then Routed ''/v1/admin/agents/{id}/kill'' KillAgentById [''7''] else demo_route table verb path) \<rparr>"

definition stop_arrival :: arrival where
  "stop_arrival = demo_arrival ''POST'' ''/v1/admin/agents/7/kill'' (Some ''Bearer admin'')"

lemma stop_web_simps [simp]: "w_access stop_web req = Inr demo_access" "w_cors stop_web os req = None" "w_path_uuid stop_web ps = Inr 7"
  by (simp_all add: stop_web_def)

lemma stop_preflight: "preflight_only stop_web"
  by (simp add: preflight_only_def)

lemma stop_routes:
  "route stop_web (ar_request stop_arrival) = Routed ''/v1/admin/agents/{id}/kill'' KillAgentById [''7'']"
  "route stop_web (ar_request access_arrival) = Routed ''/v1/agent/request-access'' RequestAccess []"
  by (simp_all add: route_def stop_web_def stop_arrival_def demo_route_def all_routes_def demo_request_def)

lemma stop_arrival_fields [simp]: "ar_env stop_arrival = demo_env" "ar_now stop_arrival = 0" "ar_elapsed stop_arrival = Fin 0"
  "wr_method (ar_request stop_arrival) = ''POST''" "hr_path (wr_head (ar_request stop_arrival)) = ''/v1/admin/agents/7/kill''"
  by (simp_all add: stop_arrival_def demo_arrival_def)

lemma stop_served:
  obtains answer where "serve stop_web demo_ext (ar_env stop_arrival) (ar_now stop_arrival) (ar_elapsed stop_arrival)
      (ar_request stop_arrival) demo_app = (Inr (200, JsonBody answer), demo_app\<lparr> st_session_store := kill_agent 7 new_store,
        st_metrics := observe_duration ''POST'' ''/v1/admin/agents/{id}/kill'' (Fin 0) new_metrics \<rparr>)"
proof -
  obtain answer where kill: "kill_agent_route demo_ext demo_env 7 demo_app = (Inr answer, demo_app\<lparr> st_session_store := kill_agent 7 new_store \<rparr>)"
    using demo_kill by (cases "kill_agent_route demo_ext demo_env 7 demo_app")
      (auto simp: kill_agent_route_def act_simps revoke_agent_tokens_def Let_def)
  have "presented_token (wr_head (ar_request stop_arrival)) = ''admin''" "is_admin_path ''/v1/admin/agents/7/kill''"
    by (simp_all add: presented_token_def header_to_str_def strip_prefix_def starts_with_def stop_arrival_def is_admin_path_def
        paths_start_with_def)
  then have "auth_middleware demo_ext demo_env 0 (st_auth demo_app) (wr_head (ar_request stop_arrival)) d = Inr None" for d
    by (simp add: auth_middleware_def constant_time_eq_is_eq) (simp add: stop_arrival_def demo_app_def constant_time_eq_is_eq)
  then show ?thesis
    using that kill by (simp add: serve_def metrics_latency_middleware_def with_auth_def run_route_def stop_routes extracting_def
        ok_with_def respond_def act_simps path_label_def)
qed

theorem concurrent_stop_denies_witness:
  "\<exists>before after answer resp.
     result_at (pool_run before (server_pool stop_web demo_ext [stop_arrival, access_arrival] demo_app)) 0 = Some (Inr (200, JsonBody answer))
     \<and> result_at (pool_run (before @ after) (server_pool stop_web demo_ext [stop_arrival, access_arrival] demo_app)) 1 =
         Some (Inr (200, AccessBody resp))
     \<and> rs_decision resp = ''deny'' \<and> rs_token resp = None"
proof -
  let ?as = "[stop_arrival, access_arrival]" and ?s = "demo_app\<lparr> st_session_store := kill_agent 7 new_store,
        st_metrics := observe_duration ''POST'' ''/v1/admin/agents/{id}/kill'' (Fin 0) new_metrics \<rparr>"
  obtain answer where "serve stop_web demo_ext (ar_env stop_arrival) (ar_now stop_arrival) (ar_elapsed stop_arrival)
      (ar_request stop_arrival) demo_app = (Inr (200, JsonBody answer), ?s)" by (rule stop_served)
  from first_served [OF this, of "[access_arrival]"] obtain before where "1 \<notin> set before"
    and before: "pool_run before (server_pool stop_web demo_ext ?as demo_app) = (?s, [Done (Inr (200, JsonBody answer)),
      request_prog stop_web demo_ext access_arrival])" by auto
  have "ag_owner_id demo_keyed = None" "\<not> ss_killed (new_session n sid a p)" for n sid a p
    by (simp_all add: demo_keyed_def demo_agent_def new_session_def)
  then obtain resp s' where r: "request_access demo_ext demo_env (Some 7) demo_access ?s = (Inr resp, s')"
    by (simp add: request_access_def act_simps get_agent_def demo_get_agent request_principal_def owner_of_def
        demo_keyed_fields Let_def is_agent_killed_def kill_agent_def new_store_def get_or_create_session_def
        map_values_def request_session_id_def)
  then obtain s2 where "serve stop_web demo_ext demo_env 0 (Fin 0) (ar_request access_arrival) ?s = (Inr (200, AccessBody resp), s2)"
    by (simp add: serve_def metrics_latency_middleware_def with_auth_def access_middleware run_route_def stop_routes
        extracting_def ok_with_def respond_def act_simps)
  then have "alone (request_prog stop_web demo_ext access_arrival) ?s (Done (Inr (200, AccessBody resp))) s2"
    using alone_execute [of "request_prog stop_web demo_ext access_arrival" ?s] by (simp add: request_prog_def execute_serve_prog)
  from alone_schedule [OF this, of 1 "[Done (Inr (200, JsonBody answer)), request_prog stop_web demo_ext access_arrival]"]
  obtain after where after: "pool_run (before @ after) (server_pool stop_web demo_ext ?as demo_app) =
      (s2, [Done (Inr (200, JsonBody answer)), Done (Inr (200, AccessBody resp))])" using before by auto
  have stopped: "result_at (pool_run before (server_pool stop_web demo_ext ?as demo_app)) 0 = Some (Inr (200, JsonBody answer))"
    and answered: "result_at (pool_run (before @ after) (server_pool stop_web demo_ext ?as demo_app)) 1 = Some (Inr (200, AccessBody resp))"
    unfolding before after by (simp_all add: result_at_def)
  have "restored stop_web (ar_request x) = None" if "x \<in> set ?as" for x
    using that by (auto simp: restored_def stop_routes)
  then have "rs_decision resp = ''deny'' \<and> rs_token resp = None \<and> rs_approval resp = None"
    using \<open>1 \<notin> set before\<close>
    by (intro concurrent_stop_denies [where k = 0 and i = 1, OF _ _ stop_preflight demo_uuid_rt _ _ stopped _ _ _ answered])
      (simp_all add: stop_routes)
  with stopped answered show ?thesis by blast
qed

theorem stop_misses_request_under_way_witness:
  "\<exists>resp sched s2 answer. pool_run sched (demo_app, [ok_prog AccessBody (request_access_prog demo_ext demo_env (Some 7) demo_access),
        ok_prog JsonBody (kill_agent_prog demo_ext demo_env 7)]) =
      (s2, [Done (Inr (200, AccessBody resp)), Done (Inr (200, JsonBody answer))])
    \<and> rs_token resp \<noteq> None \<and> agent_stopped 7 s2"
proof -
  obtain resp s' t where r: "request_access demo_ext demo_env (Some 7) demo_access demo_app = (Inr resp, s')"
    and t: "rs_token resp = Some t" by (rule demo_request_access)
  from stop_misses_request_under_way [OF r t demo_uuid_rt, of demo_env] t show ?thesis by fastforce
qed

section \<open>A start, requests, and a restart\<close>


lemma fair_schedule_answers_witness:
  "\<exists>n r. result_at (pool_after (\<lambda>n. n mod 2) (server_pool access_web demo_ext [access_arrival, access_arrival] demo_app) n) 1 = Some r"
proof (rule fair_schedule_answers)
  show "\<forall>n. \<exists>m \<ge> n. m mod 2 = (1 :: nat)"
  proof
    fix n :: nat
    show "\<exists>m \<ge> n. m mod 2 = 1" by (rule exI [of _ "2 * n + 1"]) simp
  qed
qed simp



section \<open>A revoked token after a restart\<close>

theorem restart_accepts_revoked_token_witness:
  "\<exists>s j s1 s'. let X = demo_ext\<lparr> x_jwt_decode := (\<lambda>_ _ _ _. Inr deleg_claims) \<rparr> in
     run X demo_env True (Some ''1'') (Some ''admin'') default_config None (\<lambda>_. None) = Inr s
     \<and> revoke_token_route demo_env (cl_jti deleg_claims) s = (Inr j, s1)
     \<and> run X demo_env True (Some ''1'') (Some ''admin'') default_config (Some (st_db s1)) (\<lambda>_. None) = Inr s'
     \<and> verify X (st_token_verifier s') 0 1 ''parent'' None = Inr deleg_claims \<and> \<not> agent_stopped 7 s'"
proof -
  let ?X = "demo_ext\<lparr> x_jwt_decode := (\<lambda>_ _ _ _. Inr deleg_claims) \<rparr>"
  obtain d where pol: "create_default_policy demo_ext demo_env 0 0 empty_db = (Inr (), d)"
    and again: "create_default_policy demo_ext demo_env 0 0 d = (Inr (), d)" and "d_tokens d = []"
    by (rule demo_policy_once)
  obtain s where s: "run ?X demo_env True (Some ''1'') (Some ''admin'') default_config None (\<lambda>_. None) = Inr s"
    and d: "st_db s = d" and v: "st_token_verifier s = \<lparr> tv_decoding_key = ''key'', tv_issuer = ''http://localhost:8484'', tv_jti_store = {} \<rparr>"
    using demo_start [of None d "\<lambda>_ _ _ _. Inr deleg_claims"] pol by (auto simp: migrate_def)
  obtain j s1 where rev: "revoke_token_route demo_env (cl_jti deleg_claims) s = (Inr j, s1)" and s1: "st_db s1 = d"
    using d \<open>d_tokens d = []\<close> by (simp add: revoke_token_route_def act_simps revoke_token_def mark_token_def update_where_def)
  obtain s' where s': "run ?X demo_env True (Some ''1'') (Some ''admin'') default_config (Some (st_db s1)) (\<lambda>_. None) = Inr s'"
    and v': "st_token_verifier s' = \<lparr> tv_decoding_key = ''key'', tv_issuer = ''http://localhost:8484'', tv_jti_store = {} \<rparr>"
    using demo_start [of "Some d" d "\<lambda>_ _ _ _. Inr deleg_claims"] again s1 by (auto simp: migrate_def)
  have "verify ?X (st_token_verifier s) 0 1 ''parent'' None = Inr deleg_claims"
    by (simp add: verify_def v deleg_claims_def timestamp_def second_ns_def)
  from restart_accepts_revoked_token [OF this rev s', of 7] v v' s rev s' show ?thesis
    unfolding Let_def by auto
qed

section \<open>Two callbacks with one login state\<close>

definition login_provider :: idp_provider where
  "login_provider = \<lparr> id_name = ''okta'', id_issuer = ''https://idp'', id_client_id = ''id'', id_client_secret = ''secret'',
     id_scopes = [], id_group_claim = ''groups'', id_group_policy_mappings = [] \<rparr>"

definition login_reply :: http_reply where
  "login_reply = \<lparr> hp_status = 200, hp_status_line = ''200 OK'', hp_text = None,
     hp_json = Inr (JObj [(''access_token'', JStr ''at''), (''sub'', JStr ''u1''), (''email'', JStr ''u1@org'')]) \<rparr>"

definition login_env :: env where
  "login_env = demo_env\<lparr> e_http := (\<lambda>_. Inr login_reply) \<rparr>"

definition login_query :: idp_callback_query where
  "login_query = \<lparr> cb_code = ''c'', cb_state = ''st'' \<rparr>"

definition login_web :: web where
  "login_web = demo_web\<lparr> w_callback_query := (\<lambda>_. Inr login_query) \<rparr>"

definition login_arrival :: arrival where
  "login_arrival = (demo_arrival ''GET'' ''/v1/idp/callback'' None)\<lparr> ar_env := login_env \<rparr>"

definition login_app :: app_state where
  "login_app = demo_app\<lparr> st_config := default_config\<lparr> cf_idp := \<lparr> ci_enabled = True, ci_providers = [login_provider] \<rparr> \<rparr>,
     st_pkce_store := [(''st'', \<lparr> px_provider_name = ''okta'', px_code_verifier = ''v'', px_created_at = 0 \<rparr>)] \<rparr>"

lemma login_preflight: "preflight_only login_web"
  by (simp add: preflight_only_def login_web_def demo_web_def)

lemma login_route: "route login_web (ar_request login_arrival) = Routed ''/v1/idp/callback'' IdpCallback []"
  by (simp add: route_def login_web_def demo_web_def demo_route_def all_routes_def login_arrival_def demo_arrival_def)

lemma login_principal: "st_db s = demo_db \<Longrightarrow> \<exists>p s'. ensure_principal demo_ext login_env pr user s = (Inr p, s')"
  by (simp add: ensure_principal_def act_simps get_principal_by_email_def get_principal_by_email_sync_def create_principal_def
      create_principal_sync_def insert_row_def get_principal_sync_def new_principal_row_def demo_db_def empty_db_def login_env_def)

lemma login_completed:
  assumes "st_db s = demo_db" and "st_config login_app = cfg"
  shows "\<exists>answer s'. complete_login demo_ext login_env cfg \<lparr> px_provider_name = ''okta'', px_code_verifier = ''v'', px_created_at = 0 \<rparr>
    code s = (Inr answer, s')"
proof -
  have http: "call_json login_env a b c wrap call =
      Inr (JObj [(''access_token'', JStr ''at''), (''sub'', JStr ''u1''), (''email'', JStr ''u1@org'')])" for a b c wrap call
    by (simp add: call_json_def login_env_def login_reply_def is_success_def)
  have "provider_named cfg ''okta'' missing = Inr login_provider" for missing
    using assms(2) by (auto simp: provider_named_def find_provider_def login_app_def login_provider_def)
  moreover have "build_policy_from_groups user (id_group_policy_mappings login_provider) = None" for user
    by (simp add: build_policy_from_groups_def login_provider_def)
  moreover have "exchange_oidc_token login_env p c u v = Inr ''at''" "\<exists>user. fetch_userinfo login_env p tok = Inr user" for p c u v tok
    by (simp_all add: exchange_oidc_token_def fetch_userinfo_def http json_get_str_def json_get_def)
  then obtain user where "exchange_oidc_token login_env p c u v = Inr ''at''" "fetch_userinfo login_env login_provider ''at'' = Inr user" for p c u v
    by blast
  moreover obtain p s' where "ensure_principal demo_ext login_env login_provider user s = (Inr p, s')"
    using login_principal [OF assms(1)] by blast
  ultimately show ?thesis
    by (simp add: complete_login_def act_simps apply_group_policy_def Let_def)
qed

lemma login_callback: "\<exists>answer s'. idp_callback demo_ext login_env login_query login_app = (Inr answer, s')"
proof -
  let ?cfg = "st_config login_app" and ?txn = "\<lparr> px_provider_name = ''okta'', px_code_verifier = ''v'', px_created_at = 0 \<rparr>"
  have "ci_enabled (cf_idp ?cfg)" "ci_providers (cf_idp ?cfg) \<noteq> []" "st_pkce_store login_app = [(''st'', ?txn)]"
    "st_db login_app = demo_db"
    by (simp_all add: login_app_def)
  moreover have "pkce_consume (e_now login_env 0) (cb_state login_query) [(''st'', ?txn)] = (Some ?txn, [])"
    by (simp add: pkce_consume_def pkce_fresh_def pkce_state_ttl_seconds_def second_ns_def login_query_def)
      (simp add: login_env_def demo_env_def)
  ultimately show ?thesis
    using login_completed [of "login_app\<lparr> st_pkce_store := [] \<rparr>" ?cfg "cb_code login_query"]
    by (simp add: idp_callback_def act_simps)
qed

theorem concurrent_login_once_witness:
  "\<exists>sched answer. result_at (pool_run sched (server_pool login_web demo_ext [login_arrival, login_arrival] login_app)) 0 =
      Some (Inr (200, JsonBody answer))
    \<and> result_at (pool_run sched (server_pool login_web demo_ext [login_arrival, login_arrival] login_app)) 1 \<noteq>
      Some (Inr (200, JsonBody answer))"
proof -
  let ?as = "[login_arrival, login_arrival]"
  obtain answer s' where call: "idp_callback demo_ext login_env login_query login_app = (Inr answer, s')"
    using login_callback by blast
  have "auth_middleware demo_ext E now cfg (wr_head (ar_request login_arrival)) d = Inr None" for E now cfg d
    by (simp add: auth_middleware_def login_arrival_def is_admin_path_def is_agent_path_def paths_start_with_def starts_with_def)
  moreover have "w_cors login_web os req = None" "w_callback_query login_web req = Inr login_query" for os req
    by (simp_all add: login_web_def) (simp add: demo_web_def)
  moreover have "ar_env login_arrival = login_env" by (simp add: login_arrival_def)
  ultimately obtain s2 where "serve login_web demo_ext (ar_env login_arrival) (ar_now login_arrival) (ar_elapsed login_arrival)
      (ar_request login_arrival) login_app = (Inr (200, JsonBody answer), s2)"
    using call by (simp add: serve_def metrics_latency_middleware_def with_auth_def run_route_def login_route
        extracting_def ok_with_def respond_def act_simps)
  from first_served [OF this, of "[login_arrival]"] obtain sched where
    run: "result_at (pool_run sched (server_pool login_web demo_ext [login_arrival, login_arrival] login_app)) 0 =
      Some (Inr (200, JsonBody answer))" by (blast intro: result_first)
  have "generate_state demo_ext (e_random login_env 0) \<noteq> cb_state login_query"
    by (simp add: generate_state_def login_query_def login_env_def) (simp add: demo_env_def demo_ext_def)
  then have fresh: "\<forall>x \<in> set ?as. generate_state demo_ext (e_random (ar_env x) 0) \<noteq> cb_state login_query"
    by (simp add: login_arrival_def)
  have callbacks: "route login_web (ar_request (?as ! i)) = Routed ''/v1/idp/callback'' IdpCallback []"
    "w_callback_query login_web (ar_request (?as ! i)) = Inr login_query" if "i < 2" for i
    using that login_route by (auto simp: less_2_cases_iff) (simp_all add: login_web_def)
  have "result_at (pool_run sched (server_pool login_web demo_ext ?as login_app)) 1 \<noteq> Some (Inr (200, JsonBody answer))"
    by (rule concurrent_login_once [OF _ _ _ login_preflight callbacks(1,1) callbacks(2,2) refl run fresh]) simp_all
  with run show ?thesis by blast
qed

section \<open>Two policies at the same time\<close>

definition policy_ext :: ext where
  "policy_ext = demo_ext\<lparr> x_yaml_rules := (\<lambda>yaml. Inr (if yaml = ''a'' then [demo_rule] else [])) \<rparr>"

definition policy_env :: "uuid \<Rightarrow> env" where
  "policy_env u = demo_env\<lparr> e_uuid := (\<lambda>_. u) \<rparr>"

definition policy_request :: "string \<Rightarrow> create_policy_request" where
  "policy_request yaml = \<lparr> cpo_name = ''p'', cpo_engine = ''yaml'', cpo_definition = yaml \<rparr>"

lemma policy_created:
  assumes "x_uuid_str demo_ext u \<notin> por_id ` set (d_policies (st_db s))" and "st_config s = default_config" and "yaml \<noteq> []"
  shows "\<exists>answer s'. create_policy_route policy_ext (policy_env u) (policy_request yaml) s = (Inr answer, s')
    \<and> st_config s' = default_config \<and> ye_rules (st_policy_engine s') = (if yaml = ''a'' then [demo_rule] else [])
    \<and> por_id ` set (d_policies (st_db s')) = insert (x_uuid_str demo_ext u) (por_id ` set (d_policies (st_db s)))"
proof -
  let ?E = "policy_env u" and ?row = "new_policy_row policy_ext (e_now (policy_env u) 0) u ''p'' ''yaml'' yaml"
  let ?rows = "d_policies (deprecate_active policy_ext (e_now (policy_env u) 0) (st_db s))"
  let ?d = "(st_db s)\<lparr> d_policies := ?rows @ [?row] \<rparr>"
  have fault: "e_fault ?E call = None" "e_uuid ?E k = u" for call k by (simp_all add: policy_env_def)
  have ids: "por_id ` set ?rows = por_id ` set (d_policies (st_db s))"
    by (simp flip: set_map add: deprecate_active_def map_update_where)
  have key: "por_id ?row = x_uuid_str demo_ext u" "por_definition ?row = yaml"
    by (simp_all add: new_policy_row_def policy_ext_def)
  have made: "create_policy policy_ext ?E (e_now ?E 0) u ''p'' ''yaml'' yaml (st_db s) = (Inr (), ?d)"
    using assms(1) ids key(1) fault by (simp add: create_policy_def act_simps insert_policy_def insert_row_def deprecate_active_def)
  have "filter is_active (d_policies ?d) = [?row]"
    by (cases rule: create_policy_cases [OF made]) auto
  then have "load_active_policy_yaml ?E ?d = (Inr yaml, ?d)"
    using fault key(2) by (simp add: load_active_policy_yaml_def act_simps active_policy_single)
  moreover have "x_yaml_rules policy_ext yaml = Inr (if yaml = ''a'' then [demo_rule] else [])" by (simp add: policy_ext_def)
  ultimately have "build_engine policy_ext ?E default_config ?d =
      (Inr (with_session_store (new_engine\<lparr> ye_rules := (if yaml = ''a'' then [demo_rule] else []) \<rparr>)), ?d)"
    using assms(3) by (simp add: build_engine_def act_simps create_engine_with_sessions_def from_yaml_def load_from_str_def)
      (simp add: default_config_def)
  with made assms(2) ids key(1) show ?thesis
    by (simp add: create_policy_route_def act_simps policy_request_def fault as_config_error_def reload_policy_def with_session_store_def)
qed

theorem concurrent_policies_leave_stale_engine_witness:
  "\<exists>sched answer1 answer2 s. pool_run sched (demo_app, [create_policy_prog policy_ext (policy_env 1) (policy_request ''a''),
      create_policy_prog policy_ext (policy_env 2) (policy_request ''b'')]) = (s, [Done (Inr answer1), Done (Inr answer2)])
    \<and> ye_rules (st_policy_engine s) = [demo_rule]"
proof -
  have "d_policies demo_db = []" by (simp add: demo_db_def empty_db_def)
  then obtain answer1 s1 where one: "create_policy_route policy_ext (policy_env 1) (policy_request ''a'') demo_app = (Inr answer1, s1)"
    "st_config s1 = default_config" "ye_rules (st_policy_engine s1) = [demo_rule]"
    "por_id ` set (d_policies (st_db s1)) = {x_uuid_str demo_ext 1}"
    using policy_created [of 1 demo_app "''a''"] by auto
  have "x_uuid_str demo_ext 2 \<noteq> x_uuid_str demo_ext 1" by (simp add: uuid_str_inj [OF demo_uuid_rt])
  with one(2,4) obtain answer2 s2 where two: "create_policy_route policy_ext (policy_env 2) (policy_request ''b'') s1 = (Inr answer2, s2)"
    using policy_created [of 2 s1 "''b''"] by auto
  have "ye_rules (st_policy_engine (s2\<lparr> st_policy_engine := st_policy_engine s1 \<rparr>)) = [demo_rule]" using one(3) by simp
  with concurrent_policies_leave_stale_engine [OF one(1) two] show ?thesis by blast
qed

section \<open>Types\<close>

theorem answers_are_typed_witness:
  "\<exists>sched resp. result_at (pool_run sched (server_pool access_web demo_ext [access_arrival, access_arrival] demo_app)) 0 =
      Some (Inr (200, AccessBody resp))
    \<and> well_typed_answer access_web (ar_request access_arrival) (Inr (200, AccessBody resp))"
proof -
  obtain sched resp where run: "result_at (pool_run sched (server_pool access_web demo_ext
      [access_arrival, access_arrival] demo_app)) 0 = Some (Inr (200, AccessBody resp))"
    by (rule access_answered)
  from answers_are_typed [OF _ access_preflight(1) run] run show ?thesis by auto
qed

section \<open>Two evaluations at the same time\<close>

theorem concurrent_evaluations_do_not_count_witness:
  "\<exists>sched ev. let s = demo_app\<lparr> st_policy_engine := \<lparr> ye_rules = [demo_rule\<lparr> rule_rate_limit_per_minute := None \<rparr>], ye_session_store = True \<rparr> \<rparr>;
       evals = [(0, demo_context), (1, demo_context)] in
     result_at (pool_run sched (s, map (\<lambda>(now, ctx). eval_engine_prog demo_ext now ctx) evals)) 0 = Some (Inr ev)
     \<and> ev = fst (evaluate demo_ext (st_policy_engine s) 0 demo_context (st_session_store s))"
proof -
  let ?r = "demo_rule\<lparr> rule_rate_limit_per_minute := None \<rparr>"
  let ?s = "demo_app\<lparr> st_policy_engine := \<lparr> ye_rules = [?r], ye_session_store = True \<rparr> \<rparr>"
  let ?cs = "[(0, demo_context), (1, demo_context)] :: (time \<times> policy_context) list"
  let ?ps = "map (\<lambda>(now, ctx). eval_engine_prog demo_ext now ctx) ?cs"
  obtain ev st where "evaluate demo_ext (st_policy_engine ?s) 0 demo_context (st_session_store ?s) = (ev, st)" by fastforce
  then obtain s' where "execute (eval_engine_prog demo_ext 0 demo_context) ?s = (Inr ev, s')"
    by (simp add: prog_simps act_simps)
  then have "alone (eval_engine_prog demo_ext 0 demo_context) ?s (Done (Inr ev)) s'"
    using alone_execute [of "eval_engine_prog demo_ext 0 demo_context" ?s] by simp
  from alone_schedule [OF this, of 0 ?ps] obtain sched where
    "pool_run sched (?s, ?ps) = (s', Done (Inr ev) # [eval_engine_prog demo_ext 1 demo_context])"
    by auto
  then have run: "result_at (pool_run sched (?s, ?ps)) 0 = Some (Inr ev)" by (rule result_first)
  have "rule_matches ?r demo_context" using demo_matches by (simp add: rule_matches_def)
  then have "find (\<lambda>r. rule_matches r demo_context) (ye_rules (st_policy_engine ?s)) = Some ?r" by simp
  from concurrent_evaluations_do_not_count [OF _ _ run this] run show ?thesis
    unfolding Let_def by (intro exI [of _ sched] exI [of _ ev]) simp
qed

end
