(* ===== verification/Statement_Examples.thy ===== *)
theory Statement_Examples
  imports Statements Concurrent_Examples
begin

text \<open>Closed instances of what holds, and of what does not, between two statements of a closure.\<close>

lemma demo_db_ok: "db_ok demo_ext demo_db"
  using demo_app_ok by (simp add: app_ok_def)

text \<open>
  Two revocations: the second task waits while the first is inside its closure, and runs its own
  closure afterwards.
\<close>

definition waiting_turns :: "nat list" where
  "waiting_turns = [0, 1, 0, 0, 1, 0, 0, 1, 1, 1, 1, 1]"

theorem statements_run_whole_witness:
  "\<exists>sched' answer1 answer2. let c = pool_run sched' (demo_app, map (closure_prog demo_ext)
       [Revocation demo_env 2 False, Revocation demo_env 3 True]) in
     result_at c 0 = Some (Inr answer1) \<and> result_at c 1 = Some (Inr answer2) \<and> fst c = demo_app"
proof -
  let ?reqs = "[Revocation demo_env 2 False, Revocation demo_env 3 True]"
  let ?y = "locked_run waiting_turns (open_site (st_db demo_app) demo_app (map (request_task False demo_ext) ?reqs))"
  have none: "d_grants demo_db = []" by (simp add: demo_db_def empty_db_def)
  then have same: "mark_revoked demo_ext clock s demo_db = demo_db" for clock s
    by (simp add: mark_revoked_def update_where_def)
  have fault: "e_fault demo_env CallRevokeGrant = None" by (simp add: demo_env_def)
  have y: "?y = \<lparr> si_tables = demo_db, si_rest = demo_app, si_lock = None,
      si_tasks = [Idle (Ended (Inr (revocation_json demo_ext [2]))), Idle (Ended (Inr (revocation_json demo_ext [3])))] \<rparr>"
    using none same fault
    by (simp add: waiting_turns_def open_site_def locked_turn_def revocation_task_def write_task_def
        revoke_grant_statements_def look_def reading_def atomically_def prog_then.simps with_result.simps modify_def
        live_children_def finish_def eval_nat_numeral)
  from statements_run_whole [OF demo_uuid_rt, of demo_app ?reqs waiting_turns] demo_db_ok obtain sched' where
    answers: "\<forall>i < length ?reqs. \<forall>x. answer_at ?y i = Some x \<longrightarrow>
        result_at (pool_run sched' (demo_app, map (closure_prog demo_ext) ?reqs)) i = Some x"
    and state: "si_lock ?y = None \<longrightarrow> fst (pool_run sched' (demo_app, map (closure_prog demo_ext) ?reqs)) =
        with_tables (si_tables ?y) (si_rest ?y)"
    by auto
  have "answer_at ?y 0 = Some (Inr (revocation_json demo_ext [2]))" "answer_at ?y 1 = Some (Inr (revocation_json demo_ext [3]))"
    unfolding y by (simp_all add: answer_at_def)
  with answers have "result_at (pool_run sched' (demo_app, map (closure_prog demo_ext) ?reqs)) 0 = Some (Inr (revocation_json demo_ext [2]))"
    "result_at (pool_run sched' (demo_app, map (closure_prog demo_ext) ?reqs)) 1 = Some (Inr (revocation_json demo_ext [3]))"
    by simp_all
  moreover have "fst (pool_run sched' (demo_app, map (closure_prog demo_ext) ?reqs)) = demo_app"
    using state unfolding y by (simp add: with_tables_def demo_app_def)
  ultimately show ?thesis unfolding Let_def by blast
qed


theorem pooled_read_leaves_no_rules_witness:
  "\<exists>sched y answer1 answer2. locked_run sched (open_site demo_db demo_app
        [policy_task True policy_ext (policy_env 1) (policy_request ''a''), policy_task True policy_ext (policy_env 2) (policy_request ''b'')]) = y
    \<and> answer_at y 0 = Some (Inr answer1) \<and> answer_at y 1 = Some (Inr answer2)
    \<and> ev_decision (fst (evaluate policy_ext (st_policy_engine (si_rest y)) 0 demo_context new_store)) = Deny"
proof -
  have "d_policies demo_db = []" by (simp add: demo_db_def empty_db_def)
  then obtain answer1 s1 where one: "create_policy_route policy_ext (policy_env 1) (policy_request ''a'') demo_app = (Inr answer1, s1)"
    "st_config s1 = default_config" "por_id ` set (d_policies (st_db s1)) = {x_uuid_str demo_ext 1}"
    using policy_created [of 1 demo_app "''a''"] by auto
  have "x_uuid_str demo_ext 2 \<noteq> x_uuid_str demo_ext 1" by (simp add: uuid_str_inj [OF demo_uuid_rt])
  with one(2,3) obtain answer2 s2 where two: "create_policy_route policy_ext (policy_env 2) (policy_request ''b'') s1 = (Inr answer2, s2)"
    using policy_created [of 2 s1 "''b''"] by auto
  from pooled_read_leaves_no_rules [OF one(1) two] show ?thesis by (simp only: demo_app_simps) blast
qed

end
