(* ===== verification/Spec2Isabelle.thy ===== *)
theory Spec2Isabelle
  imports Command_Line Agent_Liveness Statement_Examples
begin

text \<open>
  Patroclus: an authorization server for AI agents. This library models the Rust program under
  \<open>src/src\<close> and proves what its parts promise to each other and to their users.

  \<^bold>\<open>The program.\<close> An agent authenticates with a client key and asks for access to a resource
  (\<open>request_access\<close>). The policy engine evaluates an ordered list of rules, with limits that depend on
  the agent's session (actions, spend, trust, earlier actions, calls per minute). An allowed request is
  handed a short-lived signed token with the approved scopes; some requests open an approval that a
  human resolves; every decision is appended to a hash-chained audit log. An agent may pass a narrowed
  token on to another agent (\<open>delegate\<close>). Operators manage agents, principals, resources, policies,
  grants, approvals, stored credentials and the emergency stop; users log in through an external
  identity provider, whose groups select the policy. A command line starts the server, writes keys and
  a configuration, and verifies the audit log offline.

  \<^bold>\<open>The theories\<close>, in the order in which they build on each other, with the files they model:

  \<^item> \<open>Prelude\<close>: failing state transformers (\<open>('s, 'e, 'a) act\<close>: a function from a state to a result and
    the new state; \<open>and_then\<close> is the question mark operator, which keeps the effects before an error),
    SQL-like operations on lists of rows, association lists, the generic locale for invariants of a
    step function, the rule collections \<open>act_simps\<close>, \<open>enum_simps\<close> and \<open>frame_simps\<close>.
  \<^item> \<open>Rust_Text\<close>, \<open>Rust_F64\<close>: the standard library's strings (bytes, UTF-8, white space) and IEEE binary64.
  \<^item> \<open>Errors\<close> (\<open>errors/mod.rs\<close>), \<open>Domain\<close> (\<open>identity\<close>, \<open>resource\<close>, \<open>gateway\<close>, \<open>approval\<close>, \<open>policy/mod.rs\<close>),
    \<open>Externals\<close>: the crates and the outside world as two records of parameters (see below).
  \<^item> \<open>Sessions\<close> (\<open>session/mod.rs\<close>), \<open>Policy\<close> (\<open>policy/yaml_engine.rs\<close>), \<open>Tokens\<close> (\<open>token\<close>, \<open>crypto\<close>),
    \<open>Audit_Trail\<close> (\<open>audit\<close>).
  \<^item> \<open>Tables\<close>, \<open>Accounts\<close>, \<open>Audit_Log\<close>, \<open>Catalog\<close>, \<open>Grants\<close>, \<open>Token_Table\<close>, \<open>Approvals\<close>: the database
    (\<open>db/migrations.rs\<close>, \<open>db/mod.rs\<close>). A table is the list of its rows in insertion order, a row a record
    of its columns as stored (identifiers, dates and JSON as text), an operation the statements of the
    function of that name; foreign keys and unique keys are checked as SQLite checks them.
  \<^item> \<open>Auth\<close> (\<open>api/auth.rs\<close>), \<open>Vault\<close> (\<open>vault\<close>), \<open>Configuration\<close> and \<open>Config_Layers\<close> (\<open>config/mod.rs\<close>),
    \<open>Federation\<close> (\<open>idp/mod.rs\<close>), \<open>Metrics\<close> (\<open>metrics/mod.rs\<close>), \<open>App_State\<close> (\<open>api/state.rs\<close>).
  \<^item> \<open>Agent_Routes\<close> and \<open>Operator_Routes\<close>: every handler of \<open>api/routes.rs\<close> as a state transformer of
    \<open>app_state\<close>, step by step in the order of its body.
  \<^item> \<open>Agent_Access\<close>, \<open>Agent_Delegation\<close>, \<open>Agent_Liveness\<close>: what the agent-facing handlers guarantee.
  \<^item> \<open>Server\<close> (\<open>api/server.rs\<close> and the route table): \<open>serve\<close> is the router with its layers.
  \<^item> \<open>App_Steps\<close>, \<open>Server_Safety\<close>: the server as a whole. \<open>app_op\<close> is the abstract machine of the
    component operations; every handler, and so every sequence of requests, runs as a sequence of these
    that its request permits. Invariants are proved once per operation and lifted.
  \<^item> \<open>Programs\<close>: concurrent programs. A \<open>prog\<close> ends with a result or takes one atomic step and goes on; a
    pool is a state and a list of programs, a schedule a list of turns. \<open>execute\<close> runs a program alone;
    \<open>performs\<close> follows one program through a run; the locale \<open>guarantee\<close> lifts what every step does to runs.
  \<^item> \<open>Handler_Programs\<close>: the handlers of \<open>api/routes.rs\<close>, \<open>api/state.rs\<close> and the layers of \<open>api/server.rs\<close> once
    more, as programs of atomic steps. Executed alone they are the handlers of the sequential model.
  \<^item> \<open>Concurrency\<close>, \<open>Concurrent_Server\<close>, \<open>Concurrent_Safety\<close>, \<open>Answer_Types\<close>, \<open>Turn_Bounds\<close>:
    what holds of overlapping requests.
  \<^item> \<open>Races\<close>: what does not, each with a schedule. \<open>Restarts\<close>: crashes and starts on the tables that are left.
    \<open>Concurrent_Examples\<close>: closed instances.
  \<^item> \<open>Write_Lock\<close>: the mutex around the connection as data, in general: tasks that run closures of
    several statements under it, wait for it, or read without it through the pool. \<open>Statements\<close>: the two
    closures of \<open>db/mod.rs\<close> with several writes (\<open>create_policy\<close>, \<open>revoke_grant\<close>), statement by statement,
    and the requests that run them. \<open>Statement_Examples\<close>: closed instances.
  \<^item> \<open>Command_Line\<close> (\<open>bin/patroclus.rs\<close>, \<open>generate_keypair\<close> of \<open>token/issuer.rs\<close>).
\<close>

text \<open>
  \<^bold>\<open>Conventions.\<close>

  \<^item> Code outside the repository is a parameter. \<open>ext\<close> holds the libraries (UUIDs, dates, JSON, YAML,
    SHA-256, JWT, RSA, AES-GCM, SQLite's messages), \<open>web\<close> the framework (path matching, extractors, CORS,
    rendering), \<open>toml_ext\<close> and \<open>cli\<close> the TOML parser and the printers of the command line. What a proof
    needs of them is a named hypothesis stating documented behaviour: \<open>uuid_rt\<close>, \<open>time_rt\<close>, \<open>json_rt\<close>,
    \<open>chains_rt\<close> (printing and parsing give the value back), \<open>jwt_rt\<close>, \<open>jwt_sound\<close>, \<open>aes_rt\<close>, \<open>aes_sound\<close>,
    \<open>router_ok\<close> (a path is routed to a template it fits). \<open>demo_ext\<close> and its relatives are instances at
    which the closed examples evaluate.
  \<^item> \<open>env\<close> is what one request observes of the world: clock readings, fresh identifiers and random bytes,
    numbered by their place in the handler; the fault, if any, of each database call and each file; the
    replies of other services. Theorems hold for every \<open>env\<close> unless they restrict it.
  \<^item> Machine integers keep their width: \<open>u64\<close> and \<open>u16\<close> are words and wrap (\<open>Duration::seconds(n as i64)\<close>
    reads the word as two's complement); differences of \<open>i64\<close> wrap as in a release build. Dates are
    nanoseconds; adding beyond what the date library represents is a panic.
  \<^item> A panic is a value of the failure type (\<open>Panic\<close>), distinct from every \<open>PatroclusError\<close>.
  \<^item> \<open>unwrap_or(Utc::now())\<close> while reading a row takes the reading passed to the reader.
  \<^item> Atomic steps. Every method of the session store, of the token verifier and of the pending logins locks
    from its first access to its last, and every database call runs its closure under the one connection
    for writes, so each is one step of the shared state; so is an assignment to the engine under its
    write lock. Between two steps a handler holds no lock, with two exceptions: \<open>kill_agent\<close> of the
    session store holds two locks together and is one step, and an evaluation holds the read lock of the
    engine throughout, which the program shows by going on with the engine it read at its start
    (another request may replace the engine in the model in between, which only adds behaviours).
    \<open>restore_agent\<close> takes its two locks one after the other and is two steps. No step waits for another
    request, so a schedule may be any list of turns (that closures of several statements may be taken as
    one step when there is one connection is \<open>statements_run_whole\<close>, where tasks do wait); one that
    stops short is a run whose remaining tasks were dropped. Reading the wall clock, fresh identifiers and calls to other services are part
    of \<open>env\<close> and shared by nobody.
  \<^item> Recursive revocation of grants runs with fuel, two more than the number of grant rows;
    \<open>revoke_grant_cascades\<close> proves it enough on every table, also with cyclic parent links. All other
    loops are structural or have a termination proof.

  \<^bold>\<open>What is proved.\<close> Per component: well-formedness and its preservation, the behaviour of each operation
  on its branches, round trips through storage, exact bounds of the rate limiter, detection and
  localisation of tampering, one-time use of login states. Across components: tokens are issued only on
  an allow and only with covered scopes; delegation only narrows; a stopped agent gets nothing until it
  is restored; a revoked token stays refused; protected routes do nothing without a credential; every
  decision is audited; an allowed request is answered with a token when nothing outside fails; the
  server stays well formed and remembers what it recorded under every interleaving of requests, through
  crashes and restarts; the audit log that is left is accepted by the command line, and its rows cannot
  be edited unnoticed. For requests that overlap, the statements about tokens, stops, audit entries and
  logins are proved of any schedule; the sequential server is one of the schedules; a request is
  answered within 19 turns of its own; every answer has the type of its route. What overlapping requests can still do is stated as
  it is: a stop can miss a request that has passed its check, two policies created at once can leave
  the older engine in force, or with the pool of readers an engine without rules, evaluations do not
  count each other, and a restart forgets revocations by id and stops. A crash between two statements
  leaves well-formed tables, though possibly without the policy that was in force.
  The locales are the interfaces between parts: \<open>stored\<close> (a row type and its reader), \<open>stepper\<close> (an
  invariant of operations), \<open>emergency_stop\<close> (stopped until restored, for the session store, the token
  verifier and the server), \<open>latch\<close>, \<open>guarantee\<close>, \<open>hash_chain\<close>, \<open>config_section\<close> and others, each interpreted where its
  provider is defined.

  \<^bold>\<open>Not modelled.\<close> The pool of read connections outside \<open>Statements\<close>: in the theories of overlapping
  requests a read sees the tables between two closures, as it does with the default configuration; a
  closure with several SELECTs is one step. The executor, and, as data, locks other than the mutex of the
  connection. The dashboard (\<open>dashboard/mod.rs\<close>) is a constant page. Logging, tracing and the parsing of command-line arguments have
  no effect on what is proved. The Python SDK, examples, scripts, tests and deployment files are not part
  of the program.
\<close>

end
